(* ===== verification/P2P_Prelude.thy ===== *)
theory P2P_Prelude
  imports Main "HOL-Library.Word" "HOL-Library.Monad_Syntax"
begin

unbundle bit_operations_syntax

text \<open>
  The vocabulary shared by the theories of the development.

  \<^item> The C scalar types of \<^verbatim>\<open>FTCTypedef.h\<close> as machine words, and the little-endian byte
    representation the x86 hosts of the server and of the client use for them.
  \<^item> Regions of byte lists: reading a member of a struct at its offset, and overwriting
    the front of a buffer.
  \<^item> The interface \<open>struct_layout\<close> of a C struct with a fixed size: how the bytes of the
    struct are written and read back. Every message struct of \<^verbatim>\<open>FTCMessage.h\<close> is an
    interpretation of it.
  \<^item> Lemmas on bounded search over lists, used by the peer lists of the server and of the
    clients.

  Undefined behaviour of the C abstract machine (an access past the end of the array it
  names, falling off the end of a non-void function, a read of an object that does not
  exist) is the value \<open>None\<close> of an \<open>option\<close> result everywhere in the development, so a
  definition reads as the C code does, in the option monad, and a theorem that some
  operation has a result \<open>Some\<close> says that the operation is free of it.
\<close>

section \<open>Scalar types\<close>

type_synonym byte = "8 word"
type_synonym u16 = "16 word"
type_synonym u32 = "32 word"

named_theorems layout_defs \<open>definitions that unfold the byte layout of a struct\<close>
named_theorems layout_simps \<open>rules that compute with the byte layout of a struct\<close>
named_theorems c_defs \<open>definitions of the C library functions\<close>

definition put_u16 :: "u16 \<Rightarrow> byte list" where
  "put_u16 w = [ucast w, ucast (drop_bit 8 w)]"

fun get_u16 :: "byte list \<Rightarrow> u16" where
  "get_u16 (a # b # _) = ucast a OR push_bit 8 (ucast b)"
| "get_u16 _ = 0"

definition put_u32 :: "u32 \<Rightarrow> byte list" where
  "put_u32 w = [ucast w, ucast (drop_bit 8 w), ucast (drop_bit 16 w), ucast (drop_bit 24 w)]"

fun get_u32 :: "byte list \<Rightarrow> u32" where
  "get_u32 (a # b # c # d # _) =
     ucast a OR push_bit 8 (ucast b) OR push_bit 16 (ucast c) OR push_bit 24 (ucast d)"
| "get_u32 _ = 0"

definition bytes :: "string \<Rightarrow> byte list" where
  "bytes s = map of_char s"

definition region :: "nat \<Rightarrow> nat \<Rightarrow> 'a list \<Rightarrow> 'a list" where
  "region off n xs = take n (drop off xs)"

definition overwrite :: "'a list \<Rightarrow> 'a list \<Rightarrow> 'a list" where
  "overwrite buf xs = xs @ drop (length xs) buf"

lemma length_put_u16 [simp]: "length (put_u16 w) = 2"
  by (simp add: put_u16_def)

lemma length_put_u32 [simp]: "length (put_u32 w) = 4"
  by (simp add: put_u32_def)

lemma get_put_u16 [simp]: "get_u16 (put_u16 w @ rest) = w"
  by (rule bit_word_eqI) (auto simp: put_u16_def bit_simps)

lemma get_put_u32 [simp]: "get_u32 (put_u32 w @ rest) = w"
proof (rule bit_word_eqI)
  fix n :: nat
  assume n: "n < LENGTH(32)"
  consider "n < 8" | "8 \<le> n \<and> n < 16" | "16 \<le> n \<and> n < 24" | "24 \<le> n \<and> n < 32"
    using n by fastforce
  then show "bit (get_u32 (put_u32 w @ rest)) n = bit w n"
    by cases (auto simp: put_u32_def bit_simps)
qed

lemma get_put_u16_exact [simp]: "get_u16 (put_u16 w) = w"
  using get_put_u16 [of w "[]"] by simp

lemma get_put_u32_exact [simp]: "get_u32 (put_u32 w) = w"
  using get_put_u32 [of w "[]"] by simp

section \<open>Regions and buffers\<close>

lemma length_region [simp]: "off + n \<le> length xs \<Longrightarrow> length (region off n xs) = n"
  by (simp add: region_def)

lemma region_append_skip [layout_simps]:
  "length xs \<le> off \<Longrightarrow> region off n (xs @ ys) = region (off - length xs) n ys"
  by (simp add: region_def)

lemma region_append_take [layout_simps]:
  "length xs = n \<Longrightarrow> region 0 n (xs @ ys) = xs"
  by (simp add: region_def)

lemma region_all [layout_simps]: "length xs = n \<Longrightarrow> region 0 n xs = xs"
  by (simp add: region_def)

lemma region_Cons [layout_simps]: "0 < off \<Longrightarrow> region off n (x # xs) = region (off - 1) n xs"
  by (cases off) (simp_all add: region_def)

lemma region_append_inside [layout_simps]:
  "off + n \<le> length xs \<Longrightarrow> region off n (xs @ ys) = region off n xs"
  by (simp add: region_def)

lemma length_overwrite [simp]:
  "length xs \<le> length buf \<Longrightarrow> length (overwrite buf xs) = length buf"
  by (simp add: overwrite_def)

lemma region_overwrite_rest:
  "length xs \<le> off \<Longrightarrow> region off n (overwrite buf xs) = region off n buf"
  by (simp add: overwrite_def region_def)

section \<open>The interface of a struct layout\<close>

text \<open>
  \<open>put\<close> lists the bytes of a struct value, padding included, \<open>get\<close> reads a struct through
  a pointer into a longer buffer (the casts of \<^verbatim>\<open>aucParam\<close>), and \<open>ok\<close> says that the array
  members have their declared lengths.
\<close>

locale struct_layout =
  fixes size_of :: nat
    and put :: "'a \<Rightarrow> byte list"
    and get :: "byte list \<Rightarrow> 'a"
    and ok :: "'a \<Rightarrow> bool"
  assumes put_length: "ok x \<Longrightarrow> length (put x) = size_of"
    and get_put: "ok x \<Longrightarrow> get (put x @ rest) = x"
    and get_ok: "size_of \<le> length bs \<Longrightarrow> ok (get bs)"
begin

lemma put_injective: "ok x \<Longrightarrow> ok y \<Longrightarrow> put x = put y \<Longrightarrow> x = y"
  using get_put [of x "[]"] get_put [of y "[]"] by simp

text \<open>Copying a struct into the front of a buffer and casting the buffer back.\<close>

lemma get_overwrite: "ok x \<Longrightarrow> get (overwrite buf (put x)) = x"
  by (simp add: overwrite_def get_put)

lemma put_fits: "ok x \<Longrightarrow> size_of \<le> length buf \<Longrightarrow> length (overwrite buf (put x)) = length buf"
  by (simp add: put_length)

end

section \<open>Bounded search\<close>

fun find_first :: "('a \<Rightarrow> bool) \<Rightarrow> 'a list \<Rightarrow> 'a option" where
  "find_first p [] = None"
| "find_first p (x # xs) = (if p x then Some x else find_first p xs)"

lemma find_first_None_iff: "find_first p xs = None \<longleftrightarrow> (\<forall>x \<in> set xs. \<not> p x)"
  by (induction xs) auto

lemma find_first_SomeD: "find_first p xs = Some x \<Longrightarrow> x \<in> set xs \<and> p x"
  by (induction xs) (auto split: if_splits)

lemma find_first_append:
  "find_first p (xs @ ys) = (case find_first p xs of None \<Rightarrow> find_first p ys | Some x \<Rightarrow> Some x)"
  by (induction xs) auto

end
