(* ===== verification/C_Library.thy ===== *)
theory C_Library
  imports P2P_Prelude
begin

unbundle bit_operations_syntax

text \<open>
  The part of the C library and of the socket library that the sources call: strings in
  char arrays, block operations, byte order, and the textual form of IPv4 addresses.

  A char array is the list of its bytes. \<open>c_str\<close> is the string it holds: the bytes before
  the first NUL, and \<open>None\<close> if the array holds no NUL, where every string function of C
  runs past its end. \<open>strcpy\<close> returns the new contents of the destination array, and
  \<open>None\<close> if the source is not terminated or does not fit.
\<close>

section \<open>Strings in char arrays\<close>

fun c_str :: "byte list \<Rightarrow> byte list option" where
  "c_str [] = None"
| "c_str (b # bs) = (if b = 0 then Some [] else map_option ((#) b) (c_str bs))"

definition strlen :: "byte list \<Rightarrow> nat option" where
  "strlen a = map_option length (c_str a)"

definition strcpy :: "byte list \<Rightarrow> byte list \<Rightarrow> byte list option" where
  "strcpy dst src = do {
     s \<leftarrow> c_str src;
     if length s < length dst then Some (overwrite dst (s @ [0])) else None }"

fun strcmp :: "byte list \<Rightarrow> byte list \<Rightarrow> int option" where
  "strcmp (a # as) (b # bs) =
     (if a \<noteq> b then Some (uint a - uint b) else if a = 0 then Some 0 else strcmp as bs)"
| "strcmp _ _ = None"

fun strncmp :: "byte list \<Rightarrow> byte list \<Rightarrow> nat \<Rightarrow> int option" where
  "strncmp as bs 0 = Some 0"
| "strncmp (a # as) (b # bs) (Suc n) =
     (if a \<noteq> b then Some (uint a - uint b) else if a = 0 then Some 0 else strncmp as bs n)"
| "strncmp _ _ (Suc n) = None"

definition memcpy :: "byte list \<Rightarrow> byte list \<Rightarrow> nat \<Rightarrow> byte list option" where
  "memcpy dst src n =
     (if n \<le> length dst \<and> n \<le> length src then Some (overwrite dst (take n src)) else None)"

definition memset :: "byte list \<Rightarrow> byte \<Rightarrow> nat \<Rightarrow> byte list option" where
  "memset dst c n = (if n \<le> length dst then Some (overwrite dst (replicate n c)) else None)"

text \<open>A string literal as the array the compiler lays down, with its terminating NUL.\<close>

definition literal :: "string \<Rightarrow> byte list" where
  "literal s = bytes s @ [0]"

lemma c_str_append_NUL [simp]: "0 \<notin> set s \<Longrightarrow> c_str (s @ 0 # rest) = Some s"
  by (induction s) auto

lemma c_str_SomeE:
  assumes "c_str a = Some s"
  obtains rest where "a = s @ 0 # rest" and "0 \<notin> set s"
  using assms
proof (induction a arbitrary: s thesis)
  case Nil
  then show ?case by simp
next
  case (Cons b bs)
  show ?case
  proof (cases "b = 0")
    case True
    with Cons.prems show ?thesis by fastforce
  next
    case False
    with Cons.prems(2) obtain t where t: "c_str bs = Some t" and s: "s = b # t"
      by auto
    obtain rest where "bs = t @ 0 # rest" and "0 \<notin> set t"
      using Cons.IH [OF _ t] by blast
    with s False Cons.prems(1) show ?thesis by fastforce
  qed
qed

lemma c_str_Some_iff: "c_str a = Some s \<longleftrightarrow> (\<exists>rest. a = s @ 0 # rest) \<and> 0 \<notin> set s"
  by (auto elim: c_str_SomeE)

lemma c_str_None_iff: "c_str a = None \<longleftrightarrow> 0 \<notin> set a"
  by (induction a) auto

lemma c_str_length: "c_str a = Some s \<Longrightarrow> length s < length a"
  by (auto elim: c_str_SomeE)

lemma c_str_no_NUL: "c_str a = Some s \<Longrightarrow> 0 \<notin> set s"
  by (auto elim: c_str_SomeE)

text \<open>What \<^verbatim>\<open>strcpy\<close> does: it is defined exactly when the source is a string that fits, and
  then the destination holds that string and keeps its length.\<close>

lemma strcpy_Some_iff:
  "strcpy dst src = Some d \<longleftrightarrow>
     (\<exists>s. c_str src = Some s \<and> length s < length dst \<and> d = overwrite dst (s @ [0]))"
  by (auto simp: strcpy_def Option.bind_eq_Some_conv split: if_splits)

lemma strcpy_fits:
  "c_str src = Some s \<Longrightarrow> length s < length dst \<Longrightarrow> strcpy dst src = Some (overwrite dst (s @ [0]))"
  by (simp add: strcpy_def)

lemma strcpy_length: "strcpy dst src = Some d \<Longrightarrow> length d = length dst"
  by (auto simp: strcpy_Some_iff)

lemma c_str_overwrite [simp]: "0 \<notin> set s \<Longrightarrow> c_str (overwrite dst (s @ [0])) = Some s"
  by (simp add: overwrite_def)

lemma strcpy_c_str: "strcpy dst src = Some d \<Longrightarrow> c_str d = c_str src"
  by (auto simp: strcpy_Some_iff c_str_no_NUL)

lemma strcpy_same_size: "length src = length dst \<Longrightarrow> 0 \<in> set src \<Longrightarrow> \<exists>d. strcpy dst src = Some d"
  using c_str_None_iff [of src] c_str_length [of src]
  by (cases "c_str src") (auto simp: strcpy_Some_iff)

text \<open>\<^verbatim>\<open>strcmp\<close> answers 0 exactly for equal strings.\<close>

lemma strcmp_0_iff: "strcmp a b = Some 0 \<longleftrightarrow> (\<exists>s. c_str a = Some s \<and> c_str b = Some s)"
  by (induction a b rule: strcmp.induct) (auto simp: word_uint_eq_iff)

lemma strcmp_defined:
  "c_str a = Some s \<Longrightarrow> c_str b = Some t \<Longrightarrow> \<exists>r. strcmp a b = Some r"
  by (induction a b arbitrary: s t rule: strcmp.induct) (auto split: if_splits)

lemma strcmp_eq_0_conv:
  "c_str a = Some s \<Longrightarrow> c_str b = Some t \<Longrightarrow> strcmp a b = Some 0 \<longleftrightarrow> s = t"
  by (auto simp: strcmp_0_iff)

lemma length_bytes [simp]: "length (bytes s) = length s"
  by (simp add: bytes_def)

section \<open>Byte order\<close>

definition htons :: "u16 \<Rightarrow> u16" where
  "htons w = get_u16 (rev (put_u16 w))"

definition htonl :: "u32 \<Rightarrow> u32" where
  "htonl w = get_u32 (rev (put_u32 w))"

lemma put_get_u16: "put_u16 (get_u16 [a, b]) = [a, b]"
  by (auto simp: put_u16_def bit_simps intro!: bit_word_eqI) (auto dest: bit_imp_le_length)

lemma put_get_u32: "put_u32 (get_u32 [a, b, c, d]) = [a, b, c, d]"
  by (auto simp: put_u32_def bit_simps intro!: bit_word_eqI) (auto dest: bit_imp_le_length)

lemma htons_htons [simp]: "htons (htons w) = w"
proof -
  have "put_u16 w = [ucast w, ucast (drop_bit 8 w)]" by (rule put_u16_def)
  then have "put_u16 (htons w) = rev (put_u16 w)"
    by (simp add: htons_def put_get_u16 del: get_u16.simps)
  then show ?thesis by (simp add: htons_def del: get_u16.simps)
qed

lemma put_u32_cases:
  obtains a b c d where "put_u32 w = [a, b, c, d]"
  by (simp add: put_u32_def)

lemma put_htonl: "put_u32 (htonl w) = rev (put_u32 w)"
proof -
  obtain a b c d where w: "put_u32 w = [a, b, c, d]" by (rule put_u32_cases)
  then have "put_u32 (htonl w) = put_u32 (get_u32 [d, c, b, a])"
    by (simp add: htonl_def)
  then show ?thesis using w by (simp only: put_get_u32) simp
qed

lemma htonl_htonl [simp]: "htonl (htonl w) = w"
proof -
  have "htonl (htonl w) = get_u32 (rev (put_u32 (htonl w)))" by (rule htonl_def)
  then show ?thesis by (simp add: put_htonl)
qed

section \<open>Decimal numbers and dotted addresses\<close>

function decimal :: "int \<Rightarrow> byte list" where
  "decimal n =
     (if n < 10 then [48 + of_int n] else decimal (n div 10) @ [48 + of_int (n mod 10)])"
  by pat_completeness auto
termination
  by (relation "measure nat") auto

declare decimal.simps [simp del]

text \<open>\<open>inet_ntoa\<close> prints the four bytes of an address in memory order and returns the
  static array that holds the text.\<close>

fun dotted :: "byte list \<Rightarrow> byte list" where
  "dotted [] = []"
| "dotted [b] = decimal (uint b)"
| "dotted (b # bs) = decimal (uint b) @ 46 # dotted bs"

definition inet_ntoa :: "u32 \<Rightarrow> byte list" where
  "inet_ntoa s_addr = dotted (put_u32 s_addr) @ [0]"

text \<open>\<open>inet_addr\<close> accepts one to four parts, each decimal, octal (leading 0) or hexadecimal
  (leading 0x), where the last part fills the remaining bytes; the text may be followed by
  white space. A text it refuses gives \<^verbatim>\<open>INADDR_NONE\<close>.\<close>

definition isdigit :: "byte \<Rightarrow> bool" where
  "isdigit c \<longleftrightarrow> 48 \<le> c \<and> c \<le> 57"

definition isspace :: "byte \<Rightarrow> bool" where
  "isspace c \<longleftrightarrow> c = 32 \<or> (9 \<le> c \<and> c \<le> 13)"

definition digit_val :: "byte \<Rightarrow> int option" where
  "digit_val c =
     (if isdigit c then Some (uint c - 48)
      else if 97 \<le> c \<and> c \<le> 122 then Some (uint c - 87)
      else if 65 \<le> c \<and> c \<le> 90 then Some (uint c - 55)
      else None)"

fun strtoul_digits :: "int \<Rightarrow> byte list \<Rightarrow> int \<Rightarrow> int \<times> byte list" where
  "strtoul_digits base [] acc = (acc, [])"
| "strtoul_digits base (c # cs) acc =
     (case digit_val c of
        None \<Rightarrow> (acc, c # cs)
      | Some d \<Rightarrow> if d < base then strtoul_digits base cs (acc * base + d) else (acc, c # cs))"

definition hex_prefix :: "byte list \<Rightarrow> bool" where
  "hex_prefix s =
     (case s of
        z # x # h # _ \<Rightarrow> z = 48 \<and> (x = 120 \<or> x = 88) \<and>
          (case digit_val h of None \<Rightarrow> False | Some d \<Rightarrow> d < 16)
      | _ \<Rightarrow> False)"

definition strtoul_base0 :: "byte list \<Rightarrow> int \<times> byte list" where
  "strtoul_base0 s =
     (if hex_prefix s then strtoul_digits 16 (drop 2 s) 0
      else if s \<noteq> [] \<and> hd s = 48 then strtoul_digits 8 s 0
      else strtoul_digits 10 s 0)"

definition last_part_max :: "nat \<Rightarrow> int" where
  "last_part_max k = (if k = 0 then 0xffffffff else if k = 1 then 0xffffff
                      else if k = 2 then 0xffff else 0xff)"

function inet_aton :: "byte list \<Rightarrow> byte list \<Rightarrow> u32 option" where
  "inet_aton s pp =
     (case s of [] \<Rightarrow> None
      | c # _ \<Rightarrow>
        if \<not> isdigit c then None
        else let (val, rest) = strtoul_base0 s in
          if val > 0xffffffff then None
          else if rest \<noteq> [] \<and> hd rest = 46 then
             if length pp > 2 \<or> val > 0xff then None
             else inet_aton (tl rest) (pp @ [of_int val])
          else
             if rest \<noteq> [] \<and> \<not> isspace (hd rest) then None
             else if val > last_part_max (length pp) then None
             else Some (get_u32 (pp @ replicate (4 - length pp) 0) OR htonl (of_int val)))"
  by pat_completeness auto
termination
  by (relation "measure (\<lambda>(s, pp). 4 - length pp)") auto

declare inet_aton.simps [simp del]

definition inet_addr :: "byte list \<Rightarrow> u32 option" where
  "inet_addr a = do {
     s \<leftarrow> c_str a;
     Some (case inet_aton s [] of Some w \<Rightarrow> w | None \<Rightarrow> 0xffffffff) }"

subsection \<open>Reading back a printed address\<close>

lemma digit_val_48:
  assumes "0 \<le> d" "d < 10"
  shows "digit_val (48 + of_int d) = Some d" and "isdigit (48 + of_int d)"
proof -
  have "d = 0 \<or> d = 1 \<or> d = 2 \<or> d = 3 \<or> d = 4 \<or> d = 5 \<or> d = 6 \<or> d = 7 \<or> d = 8 \<or> d = 9"
    using assms by arith
  then show "digit_val (48 + of_int d) = Some d" and "isdigit (48 + of_int d)"
    by (elim disjE; simp add: digit_val_def isdigit_def)+
qed

lemma decimal_nonempty [simp]: "decimal n \<noteq> []"
  by (subst decimal.simps) simp

lemma decimal_digits: "0 \<le> n \<Longrightarrow> c \<in> set (decimal n) \<Longrightarrow> isdigit c"
proof (induction n rule: decimal.induct)
  case (1 n)
  then show ?case
    by (cases "n < 10") (auto simp: decimal.simps [of n] digit_val_48)
qed

lemma decimal_length: "0 \<le> n \<Longrightarrow> n < 1000 \<Longrightarrow> length (decimal n) \<le> 3"
  by (simp add: decimal.simps [of n] decimal.simps [of "n div 10"]
      decimal.simps [of "n div 10 div 10"])

lemma decimal_leading: "0 < n \<Longrightarrow> hd (decimal n) \<noteq> 48"
proof (induction n rule: decimal.induct)
  case (1 n)
  show ?case
  proof (cases "n < 10")
    case True
    with "1.prems" have "digit_val (48 + of_int n) = Some n" by (simp add: digit_val_48)
    with True "1.prems" show ?thesis
      by (auto simp: decimal.simps [of n] digit_val_def isdigit_def)
  next
    case False
    then have "0 < n div 10" by (simp add: pos_imp_zdiv_pos_iff)
    with False "1.IH" show ?thesis by (simp add: decimal.simps [of n])
  qed
qed

lemma strtoul_digits_decimal:
  "0 \<le> n \<Longrightarrow> strtoul_digits 10 (decimal n @ rest) 0 = strtoul_digits 10 rest n"
proof (induction n arbitrary: rest rule: decimal.induct)
  case (1 n)
  show ?case
  proof (cases "n < 10")
    case True
    with "1.prems" show ?thesis by (simp add: decimal.simps [of n] digit_val_48)
  next
    case False
    have "0 \<le> n mod 10" and "n mod 10 < 10" by simp_all
    with False "1.prems" "1.IH" show ?thesis
      by (simp add: decimal.simps [of n] digit_val_48)
  qed
qed

definition part_ends :: "byte list \<Rightarrow> bool" where
  "part_ends rest \<longleftrightarrow> rest = [] \<or> hd rest = 46"

lemma strtoul_digits_stop: "part_ends rest \<Longrightarrow> strtoul_digits base rest n = (n, rest)"
  by (cases rest) (auto simp: part_ends_def digit_val_def isdigit_def)

lemma hex_prefix_hd: "hex_prefix s \<Longrightarrow> hd s = 48"
  by (auto simp: hex_prefix_def split: list.splits)

lemma strtoul_base0_decimal:
  assumes "0 \<le> n" and "part_ends rest"
  shows "strtoul_base0 (decimal n @ rest) = (n, rest)"
proof (cases "n = 0")
  case True
  have "strtoul_digits 8 (48 # rest) 0 = (0, rest)"
    using assms(2) by (simp add: digit_val_def isdigit_def strtoul_digits_stop)
  moreover have "\<not> hex_prefix (48 # rest)"
    using assms(2) by (auto simp: hex_prefix_def part_ends_def split: list.splits)
  ultimately show ?thesis
    using True by (simp add: strtoul_base0_def decimal.simps [of 0])
next
  case False
  then have "hd (decimal n @ rest) \<noteq> 48"
    using assms(1) decimal_leading [of n] by simp
  moreover from this have "\<not> hex_prefix (decimal n @ rest)"
    using hex_prefix_hd by blast
  ultimately show ?thesis
    using assms by (simp add: strtoul_base0_def strtoul_digits_decimal strtoul_digits_stop)
qed

lemma isdigit_hd_decimal: "0 \<le> n \<Longrightarrow> isdigit (hd (decimal n))"
  using decimal_digits [of n "hd (decimal n)"] by simp

lemma inet_aton_part:
  fixes b :: byte
  assumes "length pp \<le> 2"
  shows "inet_aton (decimal (uint b) @ 46 # rest) pp = inet_aton rest (pp @ [b])"
proof -
  obtain c cs where c: "decimal (uint b) = c # cs"
    using decimal_nonempty [of "uint b"] by (cases "decimal (uint b)") auto
  have "isdigit c"
    using isdigit_hd_decimal [of "uint b"] c by simp
  moreover have "strtoul_base0 (c # cs @ 46 # rest) = (uint b, 46 # rest)"
    using strtoul_base0_decimal [of "uint b" "46 # rest"] c by (simp add: part_ends_def)
  moreover have "uint b < 256"
    using uint_lt2p [of b] by simp
  ultimately show ?thesis
    using assms by (simp add: c inet_aton.simps [of "c # cs @ 46 # rest" pp])
qed

lemma inet_aton_last:
  fixes b :: byte
  shows "inet_aton (decimal (uint b)) [x, y, z] = Some (get_u32 [x, y, z, 0] OR htonl (of_int (uint b)))"
proof -
  obtain c cs where c: "decimal (uint b) = c # cs"
    using decimal_nonempty [of "uint b"] by (cases "decimal (uint b)") auto
  have "isdigit c"
    using isdigit_hd_decimal [of "uint b"] c by simp
  moreover have "strtoul_base0 (c # cs) = (uint b, [])"
    using strtoul_base0_decimal [of "uint b" "[]"] c by (simp add: part_ends_def)
  moreover have "uint b < 256"
    using uint_lt2p [of b] by simp
  ultimately show ?thesis
    by (simp add: c inet_aton.simps [of "c # cs" "[x, y, z]"] last_part_max_def
        del: get_u32.simps)
qed

lemma put_u32_byte: "put_u32 (ucast (b :: byte)) = [b, 0, 0, 0]"
  by (auto simp: put_u32_def bit_simps intro!: bit_word_eqI) (auto dest: bit_imp_le_length)

lemma get_u32_or_last: "get_u32 [x, y, z, 0] OR htonl (ucast b) = get_u32 [x, y, z, b]"
  by (simp add: htonl_def put_u32_byte or.assoc or.left_commute or.commute)

lemma inet_aton_dotted: "inet_aton (dotted [x, y, z, b]) [] = Some (get_u32 [x, y, z, b])"
  by (simp add: inet_aton_part inet_aton_last get_u32_or_last del: get_u32.simps)

lemma isdigit_not_NUL: "isdigit c \<Longrightarrow> c \<noteq> 0"
  by (auto simp: isdigit_def)

lemma decimal_byte_no_NUL: "0 \<notin> set (decimal (uint b))"
  using decimal_digits [of "uint b" 0] isdigit_not_NUL by auto

lemma dotted_no_NUL: "0 \<notin> set (dotted bs)"
  by (induction bs rule: dotted.induct) (auto simp: decimal_byte_no_NUL)

lemma length_decimal_byte: "length (decimal (uint (b :: byte))) \<le> 3"
  using uint_lt2p [of b] by (intro decimal_length) auto

lemma length_dotted: "length (dotted [x, y, z, b]) \<le> 15"
  using length_decimal_byte [of x] length_decimal_byte [of y] length_decimal_byte [of z]
    length_decimal_byte [of b] by simp

lemma c_str_inet_ntoa: "c_str (inet_ntoa a) = Some (dotted (put_u32 a))"
  by (simp add: inet_ntoa_def dotted_no_NUL)

text \<open>The text of an address, with its NUL, fits the 16 bytes the sources give it.\<close>

lemma inet_ntoa_fits: "length (dotted (put_u32 a)) \<le> 15"
  by (rule put_u32_cases [of a]) (simp add: length_dotted del: dotted.simps)

lemma inet_addr_inet_ntoa: "inet_addr (inet_ntoa a) = Some a"
proof -
  obtain x y z b where a: "put_u32 a = [x, y, z, b]" by (rule put_u32_cases)
  have "get_u32 [x, y, z, b] = a"
    using get_put_u32_exact [of a] a by (simp del: get_u32.simps)
  then show ?thesis
    by (simp add: inet_addr_def c_str_inet_ntoa a inet_aton_dotted del: dotted.simps get_u32.simps)
qed

text \<open>The address depends on the string in the array alone.\<close>

lemma inet_addr_c_str: "c_str a = c_str b \<Longrightarrow> inet_addr a = inet_addr b"
  by (simp add: inet_addr_def)

section \<open>The interface of a lookup by name\<close>

text \<open>Both programs search lists of records for a name with \<^verbatim>\<open>strcmp\<close>. On a list that is well formed (the
  records exist and their names are terminated) such a search delivers the first record whose name is the
  wanted string.\<close>

locale name_lookup =
  fixes lookup :: "'l \<Rightarrow> byte list \<Rightarrow> 'r option"
    and items :: "'l \<Rightarrow> 'r list"
    and label :: "'r \<Rightarrow> byte list"
    and wf :: "'l \<Rightarrow> bool"
  assumes lookup_first: "wf l \<Longrightarrow> c_str n = Some s \<Longrightarrow> lookup l n = find_first (\<lambda>r. c_str (label r) = Some s) (items l)"
begin

lemma lookup_defined_iff:
  "wf l \<Longrightarrow> c_str n = Some s \<Longrightarrow> lookup l n \<noteq> None \<longleftrightarrow> (\<exists>r \<in> set (items l). c_str (label r) = Some s)"
  by (simp add: lookup_first find_first_None_iff)

lemma lookup_result:
  "wf l \<Longrightarrow> c_str n = Some s \<Longrightarrow> lookup l n = Some r \<Longrightarrow> r \<in> set (items l) \<and> c_str (label r) = Some s"
  using find_first_SomeD by (simp add: lookup_first) fastforce

lemma lookup_same_string: "wf l \<Longrightarrow> c_str n = Some s \<Longrightarrow> c_str n' = Some s \<Longrightarrow> lookup l n = lookup l n'"
  by (simp add: lookup_first)

end

end
