(* ===== verification/FTC_Message.thy ===== *)
theory FTC_Message
  imports C_Library
begin

text \<open>
  The wire protocol of \<^verbatim>\<open>P2P_Server_src/FTCMessage.h\<close> with the constants and state codes of
  \<^verbatim>\<open>FTCTypedef.h\<close> and the peer record of \<^verbatim>\<open>FTCPeer.h\<close>.

  Every datagram of the Linux server and client is one \<^verbatim>\<open>T_Msg\<close>: a 16 byte head and a
  1424 byte parameter area, into which the sender copies a parameter struct and which the
  receiver casts to one. Each struct is a record whose char arrays are byte lists; \<open>put_\<close>
  and \<open>get_\<close> give its memory layout on x86 (natural alignment, padding bytes written as
  zero because the senders clear the structs first). Field names carry a short prefix of
  their struct since several structs share member names. Each layout is an interpretation
  of \<open>struct_layout\<close>, which yields the round trips the handlers rely on.
\<close>

section \<open>Constants and enumerations\<close>

definition MAX_NAME_SIZE :: nat where "MAX_NAME_SIZE = 12"
definition MSG_HEAD_LEN :: nat where "MSG_HEAD_LEN = 16"
definition MSG_PARAM_LEN :: nat where "MSG_PARAM_LEN = 1424"
definition MAX_PACKET_SIZE :: nat where "MAX_PACKET_SIZE = 1024"

lemmas size_consts [simp] = MAX_NAME_SIZE_def MSG_HEAD_LEN_def MSG_PARAM_LEN_def MAX_PACKET_SIZE_def

datatype E_StateCode =
    STATE_CODE_NO_ERROR | STATE_CODE_INIT_FAILURE | STATE_CODE_INVALID_HANDLE
  | STATE_CODE_UNABLE_TO_OPEN_FILE | STATE_CODE_CONFIG_ERROR | STATE_CODE_ALLOCATION_FAILURE
  | STATE_CODE_FREE_MEMORY_FAILURE | STATE_CODE_SOCKET_CREATE_FAILURE
  | STATE_CODE_SOCKET_CLOSE_FAILURE | STATE_CODE_SOCKET_BIND_FAILURE
  | STATE_CODE_FAILED_TO_PROCEED_COMMAND | STATE_CODE_INVALID_COMMAND
  | STATE_CODE_INVALID_PARAM | STATE_CODE_TIME_OUT | STATE_CODE_OBJECT_EXISTED
  | STATE_CODE_OBJECT_NOT_EXIST | STATE_CODE_OBJECT_BEYOND | STATE_CODE_OBJECT_BUSY
  | STATE_CODE_CONNECT_AUTH | STATE_CODE_USER_NOT_EXIST | STATE_CODE_PASSWD_ERROR
  | STATE_CODE_TF_NOT_EXIST | STATE_CODE_IO_ERROR | STATE_CODE_ENCPYPTION_ERR
  | STATE_CODE_UNDEFINED_ERROR | STATE_CODE_XMSDK_TIMEOUT

fun state_code :: "E_StateCode \<Rightarrow> int" where
  "state_code STATE_CODE_NO_ERROR = 0"
| "state_code STATE_CODE_INIT_FAILURE = 1"
| "state_code STATE_CODE_INVALID_HANDLE = 2"
| "state_code STATE_CODE_UNABLE_TO_OPEN_FILE = 3"
| "state_code STATE_CODE_CONFIG_ERROR = 4"
| "state_code STATE_CODE_ALLOCATION_FAILURE = 5"
| "state_code STATE_CODE_FREE_MEMORY_FAILURE = 6"
| "state_code STATE_CODE_SOCKET_CREATE_FAILURE = 7"
| "state_code STATE_CODE_SOCKET_CLOSE_FAILURE = 8"
| "state_code STATE_CODE_SOCKET_BIND_FAILURE = 9"
| "state_code STATE_CODE_FAILED_TO_PROCEED_COMMAND = 10"
| "state_code STATE_CODE_INVALID_COMMAND = 11"
| "state_code STATE_CODE_INVALID_PARAM = 12"
| "state_code STATE_CODE_TIME_OUT = 13"
| "state_code STATE_CODE_OBJECT_EXISTED = 14"
| "state_code STATE_CODE_OBJECT_NOT_EXIST = 15"
| "state_code STATE_CODE_OBJECT_BEYOND = 16"
| "state_code STATE_CODE_OBJECT_BUSY = 17"
| "state_code STATE_CODE_CONNECT_AUTH = 18"
| "state_code STATE_CODE_USER_NOT_EXIST = 19"
| "state_code STATE_CODE_PASSWD_ERROR = 20"
| "state_code STATE_CODE_TF_NOT_EXIST = 21"
| "state_code STATE_CODE_IO_ERROR = 22"
| "state_code STATE_CODE_ENCPYPTION_ERR = 23"
| "state_code STATE_CODE_UNDEFINED_ERROR = - 1"
| "state_code STATE_CODE_XMSDK_TIMEOUT = - 10005"

datatype msg_id =
    MSG_C_LOGIN | MSG_R_LOGIN | MSG_C_HEART_BEAT | MSG_R_HEART_BEAT
  | MSG_C_GET_PEERS | MSG_R_GET_PEERS | MSG_C_HOLE | MSG_R_HOLE
  | MSG_C_HOLE_REQ | MSG_R_HOLE_RESP | MSG_C_P2P_CONN_REQ | MSG_R_P2P_CONN_RESP
  | MSG_C_HAVE_SEND_P2P_REQ | MSG_R_HAVE_SEND_P2P_RESP
  | MSG_C_P2P_CAN_START_REQ | MSG_R_P2P_CAN_START_RESP
  | MSG_C_P2P_START_REQ | MSG_R_P2P_START_RESP | MSG_C_LOGOUT | MSG_R_LOGOUT

text \<open>The value of an enumerator of the unnamed message enum, counted from 0.\<close>

fun msg_code :: "msg_id \<Rightarrow> u32" where
  "msg_code MSG_C_LOGIN = 0"
| "msg_code MSG_R_LOGIN = 1"
| "msg_code MSG_C_HEART_BEAT = 2"
| "msg_code MSG_R_HEART_BEAT = 3"
| "msg_code MSG_C_GET_PEERS = 4"
| "msg_code MSG_R_GET_PEERS = 5"
| "msg_code MSG_C_HOLE = 6"
| "msg_code MSG_R_HOLE = 7"
| "msg_code MSG_C_HOLE_REQ = 8"
| "msg_code MSG_R_HOLE_RESP = 9"
| "msg_code MSG_C_P2P_CONN_REQ = 10"
| "msg_code MSG_R_P2P_CONN_RESP = 11"
| "msg_code MSG_C_HAVE_SEND_P2P_REQ = 12"
| "msg_code MSG_R_HAVE_SEND_P2P_RESP = 13"
| "msg_code MSG_C_P2P_CAN_START_REQ = 14"
| "msg_code MSG_R_P2P_CAN_START_RESP = 15"
| "msg_code MSG_C_P2P_START_REQ = 16"
| "msg_code MSG_R_P2P_START_RESP = 17"
| "msg_code MSG_C_LOGOUT = 18"
| "msg_code MSG_R_LOGOUT = 19"

text \<open>The peer-to-peer codes that \<^verbatim>\<open>FTCMessage.h\<close> and \<^verbatim>\<open>p2ptype.h\<close> define as macros.\<close>

datatype p2p_id =
    P2PMESSAGE | P2PMESSAGEACK | P2PSOMEONEWANTTOCALLYOU | P2PPUNCH | P2PHAVECONNECT1
  | P2PCANSTART | P2PPUNCH2 | P2PPUNCHOK | RELAYMESSAGE | RELAYMESSAGE2

fun p2p_code :: "p2p_id \<Rightarrow> u32" where
  "p2p_code P2PMESSAGE = 100"
| "p2p_code P2PMESSAGEACK = 101"
| "p2p_code P2PSOMEONEWANTTOCALLYOU = 102"
| "p2p_code P2PPUNCH = 103"
| "p2p_code P2PHAVECONNECT1 = 104"
| "p2p_code P2PCANSTART = 105"
| "p2p_code P2PPUNCH2 = 106"
| "p2p_code P2PPUNCHOK = 107"
| "p2p_code RELAYMESSAGE = 108"
| "p2p_code RELAYMESSAGE2 = 109"

datatype E_MsgType =
  MSG_TYPE_REQUEST | MSG_TYPE_INDICATE | MSG_TYPE_QUERY | MSG_TYPE_RESPONSE | MSG_TYPE_ALL

fun msg_type_code :: "E_MsgType \<Rightarrow> u32" where
  "msg_type_code MSG_TYPE_REQUEST = 0"
| "msg_type_code MSG_TYPE_INDICATE = 1"
| "msg_type_code MSG_TYPE_QUERY = 2"
| "msg_type_code MSG_TYPE_RESPONSE = 3"
| "msg_type_code MSG_TYPE_ALL = 4"

datatype E_OrderType = ORDER_TYPE_NET | ORDER_TYPE_HOST

definition zeros :: "nat \<Rightarrow> byte list" where
  "zeros n = replicate n 0"

lemma length_zeros [simp]: "length (zeros n) = n"
  by (simp add: zeros_def)

lemma zeros_eq_Nil [simp]: "zeros n = [] \<longleftrightarrow> n = 0"
  by (simp add: zeros_def)

lemma region_zeros [simp]: "off + n \<le> k \<Longrightarrow> region off n (zeros k) = zeros n"
  by (simp add: region_def zeros_def)

lemma c_str_zeros [simp]: "0 < n \<Longrightarrow> c_str (zeros n) = Some []"
  by (cases n) (simp_all add: zeros_def)

lemma zero_in_zeros [simp]: "0 \<in> set (zeros n) \<longleftrightarrow> 0 < n"
  by (auto simp: zeros_def)

section \<open>The message and its head\<close>

record T_MessageHead =
  uiMsgType :: u32
  uiMsgId :: u32
  uiAppPrivate :: u32
  ucOrginator :: byte
  ucParamOrder :: byte
  usParaLength :: u16

definition put_head :: "T_MessageHead \<Rightarrow> byte list" where
  "put_head h = put_u32 (uiMsgType h) @ put_u32 (uiMsgId h) @ put_u32 (uiAppPrivate h)
     @ [ucOrginator h, ucParamOrder h] @ put_u16 (usParaLength h)"

definition get_head :: "byte list \<Rightarrow> T_MessageHead" where
  "get_head bs = \<lparr>uiMsgType = get_u32 (region 0 4 bs), uiMsgId = get_u32 (region 4 4 bs),
     uiAppPrivate = get_u32 (region 8 4 bs), ucOrginator = bs ! 12, ucParamOrder = bs ! 13,
     usParaLength = get_u16 (region 14 2 bs)\<rparr>"

record T_Msg =
  tMsgHead :: T_MessageHead
  aucParam :: "byte list"

definition Msg_ok :: "T_Msg \<Rightarrow> bool" where
  "Msg_ok m \<longleftrightarrow> length (aucParam m) = MSG_PARAM_LEN"

definition put_Msg :: "T_Msg \<Rightarrow> byte list" where
  "put_Msg m = put_head (tMsgHead m) @ aucParam m"

definition get_Msg :: "byte list \<Rightarrow> T_Msg" where
  "get_Msg bs = \<lparr>tMsgHead = get_head bs, aucParam = region 16 1424 bs\<rparr>"

lemma length_put_head [simp]: "length (put_head h) = 16"
  by (simp add: put_head_def)

interpretation head_layout: struct_layout 16 put_head get_head "\<lambda>_. True"
  by unfold_locales
    (simp_all add: put_head_def get_head_def layout_simps nth_append)

interpretation Msg_layout: struct_layout 1440 put_Msg get_Msg Msg_ok
  by unfold_locales
    (simp_all add: put_Msg_def get_Msg_def Msg_ok_def layout_simps head_layout.get_put)

section \<open>Parameter structs\<close>

record T_MsgLoginReq =
  lr_name :: "byte list"
  lr_MyLanIP :: "byte list"
  lr_MyLanPort :: u16
  lr_ID :: "byte list"
  lr_bCorD :: byte

definition LoginReq_ok :: "T_MsgLoginReq \<Rightarrow> bool" where
  "LoginReq_ok r \<longleftrightarrow> length (lr_name r) = 12 \<and> length (lr_MyLanIP r) = 16 \<and> length (lr_ID r) = 8"

definition put_LoginReq :: "T_MsgLoginReq \<Rightarrow> byte list" where
  "put_LoginReq r = lr_name r @ lr_MyLanIP r @ put_u16 (lr_MyLanPort r) @ lr_ID r @ [lr_bCorD r, 0]"

definition get_LoginReq :: "byte list \<Rightarrow> T_MsgLoginReq" where
  "get_LoginReq bs = \<lparr>lr_name = region 0 12 bs, lr_MyLanIP = region 12 16 bs,
     lr_MyLanPort = get_u16 (region 28 2 bs), lr_ID = region 30 8 bs, lr_bCorD = bs ! 38\<rparr>"

interpretation LoginReq_layout: struct_layout 40 put_LoginReq get_LoginReq LoginReq_ok
  by unfold_locales
    (simp_all add: put_LoginReq_def get_LoginReq_def LoginReq_ok_def layout_simps nth_append)

text \<open>\<^verbatim>\<open>T_MsgLoginResp\<close>, \<^verbatim>\<open>T_MsgHoleResp\<close>, \<^verbatim>\<open>T_MsgP2PConnResp\<close> and \<^verbatim>\<open>T_MsgLogoutResp\<close> are the same
  struct: a result byte and seven reserved ones.\<close>

record T_MsgResultResp =
  rr_result :: byte
  rr_reserve :: "byte list"

type_synonym T_MsgLoginResp = T_MsgResultResp
type_synonym T_MsgHoleResp = T_MsgResultResp
type_synonym T_MsgP2PConnResp = T_MsgResultResp
type_synonym T_MsgLogoutResp = T_MsgResultResp

definition ResultResp_ok :: "T_MsgResultResp \<Rightarrow> bool" where
  "ResultResp_ok r \<longleftrightarrow> length (rr_reserve r) = 7"

definition put_ResultResp :: "T_MsgResultResp \<Rightarrow> byte list" where
  "put_ResultResp r = rr_result r # rr_reserve r"

definition get_ResultResp :: "byte list \<Rightarrow> T_MsgResultResp" where
  "get_ResultResp bs = \<lparr>rr_result = bs ! 0, rr_reserve = region 1 7 bs\<rparr>"

interpretation ResultResp_layout: struct_layout 8 put_ResultResp get_ResultResp ResultResp_ok
  by unfold_locales
    (simp_all add: put_ResultResp_def get_ResultResp_def ResultResp_ok_def layout_simps)

record T_MsgGetPeerListReq =
  gp_name :: "byte list"
  gp_reserve :: "byte list"

definition GetPeerListReq_ok :: "T_MsgGetPeerListReq \<Rightarrow> bool" where
  "GetPeerListReq_ok r \<longleftrightarrow> length (gp_name r) = 12 \<and> length (gp_reserve r) = 8"

definition put_GetPeerListReq :: "T_MsgGetPeerListReq \<Rightarrow> byte list" where
  "put_GetPeerListReq r = gp_name r @ gp_reserve r"

definition get_GetPeerListReq :: "byte list \<Rightarrow> T_MsgGetPeerListReq" where
  "get_GetPeerListReq bs = \<lparr>gp_name = region 0 12 bs, gp_reserve = region 12 8 bs\<rparr>"

interpretation GetPeerListReq_layout:
  struct_layout 20 put_GetPeerListReq get_GetPeerListReq GetPeerListReq_ok
  by unfold_locales
    (simp_all add: put_GetPeerListReq_def get_GetPeerListReq_def GetPeerListReq_ok_def layout_simps)

record T_MsgHoleReq =
  hr_myName :: "byte list"
  hr_toName :: "byte list"
  hr_reserve :: "byte list"

definition HoleReq_ok :: "T_MsgHoleReq \<Rightarrow> bool" where
  "HoleReq_ok r \<longleftrightarrow>
     length (hr_myName r) = 12 \<and> length (hr_toName r) = 12 \<and> length (hr_reserve r) = 8"

definition put_HoleReq :: "T_MsgHoleReq \<Rightarrow> byte list" where
  "put_HoleReq r = hr_myName r @ hr_toName r @ hr_reserve r"

definition get_HoleReq :: "byte list \<Rightarrow> T_MsgHoleReq" where
  "get_HoleReq bs =
     \<lparr>hr_myName = region 0 12 bs, hr_toName = region 12 12 bs, hr_reserve = region 24 8 bs\<rparr>"

interpretation HoleReq_layout: struct_layout 32 put_HoleReq get_HoleReq HoleReq_ok
  by unfold_locales
    (simp_all add: put_HoleReq_def get_HoleReq_def HoleReq_ok_def layout_simps)

record T_MsgHoleFromSrvReq =
  hs_srcName :: "byte list"
  hs_srcPubIP :: "byte list"
  hs_srcPubPort :: u16

definition HoleFromSrvReq_ok :: "T_MsgHoleFromSrvReq \<Rightarrow> bool" where
  "HoleFromSrvReq_ok r \<longleftrightarrow> length (hs_srcName r) = 12 \<and> length (hs_srcPubIP r) = 16"

definition put_HoleFromSrvReq :: "T_MsgHoleFromSrvReq \<Rightarrow> byte list" where
  "put_HoleFromSrvReq r = hs_srcName r @ hs_srcPubIP r @ put_u16 (hs_srcPubPort r)"

definition get_HoleFromSrvReq :: "byte list \<Rightarrow> T_MsgHoleFromSrvReq" where
  "get_HoleFromSrvReq bs = \<lparr>hs_srcName = region 0 12 bs, hs_srcPubIP = region 12 16 bs,
     hs_srcPubPort = get_u16 (region 28 2 bs)\<rparr>"

interpretation HoleFromSrvReq_layout:
  struct_layout 30 put_HoleFromSrvReq get_HoleFromSrvReq HoleFromSrvReq_ok
  by unfold_locales
    (simp_all add: put_HoleFromSrvReq_def get_HoleFromSrvReq_def HoleFromSrvReq_ok_def layout_simps)

text \<open>\<^verbatim>\<open>T_MsgP2PConnReq\<close>, \<^verbatim>\<open>T_MsgP2PStartReq\<close>, \<^verbatim>\<open>T_MsgP2PCanStartReq\<close> and \<^verbatim>\<open>T_MsgLogoutReq\<close> hold the
  name of their sender and nothing else.\<close>

record T_MsgNameReq =
  nr_myName :: "byte list"

type_synonym T_MsgP2PConnReq = T_MsgNameReq
type_synonym T_MsgP2PStartReq = T_MsgNameReq
type_synonym T_MsgP2PCanStartReq = T_MsgNameReq
type_synonym T_MsgLogoutReq = T_MsgNameReq

definition NameReq_ok :: "T_MsgNameReq \<Rightarrow> bool" where
  "NameReq_ok r \<longleftrightarrow> length (nr_myName r) = 12"

definition put_NameReq :: "T_MsgNameReq \<Rightarrow> byte list" where
  "put_NameReq r = nr_myName r"

definition get_NameReq :: "byte list \<Rightarrow> T_MsgNameReq" where
  "get_NameReq bs = \<lparr>nr_myName = region 0 12 bs\<rparr>"

interpretation NameReq_layout: struct_layout 12 put_NameReq get_NameReq NameReq_ok
  by unfold_locales
    (simp_all add: put_NameReq_def get_NameReq_def NameReq_ok_def layout_simps)

record T_MsgHaveSendP2PReq =
  sp_myName :: "byte list"
  sp_toName :: "byte list"

definition HaveSendP2PReq_ok :: "T_MsgHaveSendP2PReq \<Rightarrow> bool" where
  "HaveSendP2PReq_ok r \<longleftrightarrow> length (sp_myName r) = 12 \<and> length (sp_toName r) = 12"

definition put_HaveSendP2PReq :: "T_MsgHaveSendP2PReq \<Rightarrow> byte list" where
  "put_HaveSendP2PReq r = sp_myName r @ sp_toName r"

definition get_HaveSendP2PReq :: "byte list \<Rightarrow> T_MsgHaveSendP2PReq" where
  "get_HaveSendP2PReq bs = \<lparr>sp_myName = region 0 12 bs, sp_toName = region 12 12 bs\<rparr>"

interpretation HaveSendP2PReq_layout:
  struct_layout 24 put_HaveSendP2PReq get_HaveSendP2PReq HaveSendP2PReq_ok
  by unfold_locales
    (simp_all add: put_HaveSendP2PReq_def get_HaveSendP2PReq_def HaveSendP2PReq_ok_def layout_simps)

section \<open>The peer record and the peer list response\<close>

record T_PeerInfo =
  bCorD :: byte
  name :: "byte list"
  ID :: "byte list"
  sPubIp :: "byte list"
  usPubPort :: u16
  sLanIp :: "byte list"
  usLanPort :: u16

definition PeerInfo_ok :: "T_PeerInfo \<Rightarrow> bool" where
  "PeerInfo_ok p \<longleftrightarrow> length (name p) = 12 \<and> length (ID p) = 8 \<and> length (sPubIp p) = 16 \<and>
     length (sLanIp p) = 16"

definition put_PeerInfo :: "T_PeerInfo \<Rightarrow> byte list" where
  "put_PeerInfo p = [bCorD p] @ name p @ ID p @ sPubIp p @ [0] @ put_u16 (usPubPort p)
     @ sLanIp p @ put_u16 (usLanPort p)"

definition get_PeerInfo :: "byte list \<Rightarrow> T_PeerInfo" where
  "get_PeerInfo bs = \<lparr>bCorD = bs ! 0, name = region 1 12 bs, ID = region 13 8 bs,
     sPubIp = region 21 16 bs, usPubPort = get_u16 (region 38 2 bs), sLanIp = region 40 16 bs,
     usLanPort = get_u16 (region 56 2 bs)\<rparr>"

interpretation PeerInfo_layout: struct_layout 58 put_PeerInfo get_PeerInfo PeerInfo_ok
  by unfold_locales
    (simp_all add: put_PeerInfo_def get_PeerInfo_def PeerInfo_ok_def layout_simps)

text \<open>\<^verbatim>\<open>T_MsgGetPeerListResp\<close> is a count, eight reserved bytes and a flexible array of peers
  at offset 12, 58 bytes each. \<open>peerList_at\<close> reads element \<open>i\<close> of that array in the parameter
  area, which is an access past the area's end for \<open>i > 23\<close>.\<close>

definition resp_uiPeerNums :: "byte list \<Rightarrow> u32" where
  "resp_uiPeerNums param = get_u32 (region 0 4 param)"

definition peerList_at :: "byte list \<Rightarrow> nat \<Rightarrow> T_PeerInfo option" where
  "peerList_at param i =
     (if 12 + 58 * (i + 1) \<le> length param then Some (get_PeerInfo (drop (12 + 58 * i) param))
      else None)"

text \<open>Exactly 24 peers fit the parameter area.\<close>

lemma peerList_at_bound:
  "length param = MSG_PARAM_LEN \<Longrightarrow> (\<exists>p. peerList_at param i = Some p) \<longleftrightarrow> i < 24"
  by (auto simp: peerList_at_def)

section \<open>Assembling a message\<close>

text \<open>What every sender does with a cleared \<^verbatim>\<open>T_Msg\<close>: set type, id and parameter length in the
  head and copy the parameter struct to the front of the cleared parameter area.\<close>

definition make_msg :: "E_MsgType \<Rightarrow> msg_id \<Rightarrow> u16 \<Rightarrow> byte list \<Rightarrow> T_Msg option" where
  "make_msg ty mid plen sub = do {
     param \<leftarrow> memcpy (zeros MSG_PARAM_LEN) sub (length sub);
     Some \<lparr>tMsgHead = \<lparr>uiMsgType = msg_type_code ty, uiMsgId = msg_code mid, uiAppPrivate = 0,
                        ucOrginator = 0, ucParamOrder = 0, usParaLength = plen\<rparr>,
           aucParam = param\<rparr> }"

lemma make_msg_eq:
  "length sub \<le> MSG_PARAM_LEN \<Longrightarrow>
   make_msg ty mid plen sub =
     Some \<lparr>tMsgHead = \<lparr>uiMsgType = msg_type_code ty, uiMsgId = msg_code mid, uiAppPrivate = 0,
                        ucOrginator = 0, ucParamOrder = 0, usParaLength = plen\<rparr>,
           aucParam = overwrite (zeros MSG_PARAM_LEN) sub\<rparr>"
  by (simp add: make_msg_def memcpy_def)

lemma make_msg_ok: "make_msg ty mid plen sub = Some m \<Longrightarrow> Msg_ok m"
  by (auto simp: make_msg_def memcpy_def Msg_ok_def split: if_splits)

lemma make_msg_fields:
  assumes "make_msg ty mid plen sub = Some m"
  shows "uiMsgType (tMsgHead m) = msg_type_code ty" and "uiMsgId (tMsgHead m) = msg_code mid"
    and "usParaLength (tMsgHead m) = plen" and "aucParam m = overwrite (zeros MSG_PARAM_LEN) sub"
  using assms by (auto simp: make_msg_def memcpy_def split: if_splits)

lemma msg_code_inject [simp]: "msg_code a = msg_code b \<longleftrightarrow> a = b"
  by (cases a; cases b) simp_all

lemma msg_code_neq_p2p_code [simp]: "msg_code a \<noteq> p2p_code b" "p2p_code b \<noteq> msg_code a"
  by (cases a; cases b; simp)+

lemma state_code_inject: "state_code a = state_code b \<longleftrightarrow> a = b"
  by (cases a; cases b) simp_all

text \<open>A message with a given id and no parameters, for the examples.\<close>

definition plain_msg :: "msg_id \<Rightarrow> T_Msg" where
  "plain_msg mid = \<lparr>tMsgHead = \<lparr>uiMsgType = 0, uiMsgId = msg_code mid, uiAppPrivate = 0,
     ucOrginator = 0, ucParamOrder = 0, usParaLength = 0\<rparr>, aucParam = zeros MSG_PARAM_LEN\<rparr>"

lemma plain_msg_ok [simp]: "Msg_ok (plain_msg mid)" "uiMsgId (tMsgHead (plain_msg mid)) = msg_code mid"
  by (simp_all add: plain_msg_def Msg_ok_def)

lemma get_put_plain_msg [simp]: "get_Msg (put_Msg (plain_msg mid)) = plain_msg mid"
  using Msg_layout.get_put [OF plain_msg_ok(1), of mid "[]"] by simp

lemma length_put_plain_msg [simp]: "length (put_Msg (plain_msg mid)) = 1440"
  by (rule Msg_layout.put_length [OF plain_msg_ok(1)])

lemma get_ResultResp_zeros [simp]: "8 \<le> n \<Longrightarrow> get_ResultResp (zeros n) = \<lparr>rr_result = 0, rr_reserve = zeros 7\<rparr>"
  by (simp add: get_ResultResp_def) (simp add: zeros_def)

end
