(* ===== verification/Comm_Message.thy ===== *)
theory Comm_Message
  imports FTC_Message
begin

text \<open>
  The message \<^verbatim>\<open>stCommMsg\<close> of the relay path and of the Windows client.

  \<^verbatim>\<open>P2P_Server_src/FTCMessage.h\<close> and \<^verbatim>\<open>P2P_Client_src/client/p2ptype.h\<close> declare the same structs
  with different values of \<^verbatim>\<open>MAX_NAME_SIZE\<close>, 12 and 32, so the layouts are functions of the name
  size \<open>n\<close>, and each is a family of interpretations of \<open>struct_layout\<close>. The constructors clear
  every member.
\<close>

section \<open>Members\<close>

definition WIN_NAME_SIZE :: nat where "WIN_NAME_SIZE = 32"

record stTransMsg =
  tm_userName :: "byte list"
  tm_uiIP :: u32
  tm_usPORT :: u16

text \<open>The list node of the Windows client has the members of \<^verbatim>\<open>stTransMsg\<close>.\<close>

type_synonym stUserListNode = stTransMsg

record stP2PMsg =
  pm_uiSendLen :: u32
  pm_cP2PCommUserName :: "byte list"

record stRelayMsg =
  rm_uiSendLen :: u32
  rm_sUserName :: "byte list"

record stCommMsg =
  cm_uiMsgType :: u32
  cm_result :: u32
  cMyName :: "byte list"
  cToName :: "byte list"
  transMsg :: stTransMsg
  p2pMsg :: stP2PMsg
  rlyMsg :: stRelayMsg
  userNums :: u32

definition new_stTransMsg :: "nat \<Rightarrow> stTransMsg" where
  "new_stTransMsg n = \<lparr>tm_userName = zeros n, tm_uiIP = 0, tm_usPORT = 0\<rparr>"

definition new_stUserListNode :: "nat \<Rightarrow> stUserListNode" where
  "new_stUserListNode n = \<lparr>tm_userName = zeros n, tm_uiIP = 0, tm_usPORT = 0\<rparr>"

definition new_stP2PMsg :: "nat \<Rightarrow> stP2PMsg" where
  "new_stP2PMsg n = \<lparr>pm_uiSendLen = 0, pm_cP2PCommUserName = zeros n\<rparr>"

definition new_stRelayMsg :: "nat \<Rightarrow> stRelayMsg" where
  "new_stRelayMsg n = \<lparr>rm_uiSendLen = 0, rm_sUserName = zeros n\<rparr>"

definition new_stCommMsg :: "nat \<Rightarrow> stCommMsg" where
  "new_stCommMsg n = \<lparr>cm_uiMsgType = 0, cm_result = 0, cMyName = zeros n, cToName = zeros n,
     transMsg = new_stTransMsg n, p2pMsg = new_stP2PMsg n, rlyMsg = new_stRelayMsg n, userNums = 0\<rparr>"

section \<open>Layout\<close>

definition trans_ok :: "nat \<Rightarrow> stTransMsg \<Rightarrow> bool" where
  "trans_ok n m \<longleftrightarrow> length (tm_userName m) = n"

definition put_trans :: "stTransMsg \<Rightarrow> byte list" where
  "put_trans m = tm_userName m @ put_u32 (tm_uiIP m) @ put_u16 (tm_usPORT m) @ [0, 0]"

definition get_trans :: "nat \<Rightarrow> byte list \<Rightarrow> stTransMsg" where
  "get_trans n bs = \<lparr>tm_userName = region 0 n bs, tm_uiIP = get_u32 (region n 4 bs),
     tm_usPORT = get_u16 (region (n + 4) 2 bs)\<rparr>"

definition p2p_ok :: "nat \<Rightarrow> stP2PMsg \<Rightarrow> bool" where
  "p2p_ok n m \<longleftrightarrow> length (pm_cP2PCommUserName m) = n"

definition put_p2p :: "stP2PMsg \<Rightarrow> byte list" where
  "put_p2p m = put_u32 (pm_uiSendLen m) @ pm_cP2PCommUserName m"

definition get_p2p :: "nat \<Rightarrow> byte list \<Rightarrow> stP2PMsg" where
  "get_p2p n bs = \<lparr>pm_uiSendLen = get_u32 (region 0 4 bs), pm_cP2PCommUserName = region 4 n bs\<rparr>"

definition relay_ok :: "nat \<Rightarrow> stRelayMsg \<Rightarrow> bool" where
  "relay_ok n m \<longleftrightarrow> length (rm_sUserName m) = n"

definition put_relay :: "stRelayMsg \<Rightarrow> byte list" where
  "put_relay m = put_u32 (rm_uiSendLen m) @ rm_sUserName m"

definition get_relay :: "nat \<Rightarrow> byte list \<Rightarrow> stRelayMsg" where
  "get_relay n bs = \<lparr>rm_uiSendLen = get_u32 (region 0 4 bs), rm_sUserName = region 4 n bs\<rparr>"

definition CommMsg_ok :: "nat \<Rightarrow> stCommMsg \<Rightarrow> bool" where
  "CommMsg_ok n m \<longleftrightarrow> length (cMyName m) = n \<and> length (cToName m) = n \<and> trans_ok n (transMsg m) \<and>
     p2p_ok n (p2pMsg m) \<and> relay_ok n (rlyMsg m)"

definition put_CommMsg :: "stCommMsg \<Rightarrow> byte list" where
  "put_CommMsg m = put_u32 (cm_uiMsgType m) @ put_u32 (cm_result m) @ cMyName m @ cToName m
     @ put_trans (transMsg m) @ put_p2p (p2pMsg m) @ put_relay (rlyMsg m) @ put_u32 (userNums m)"

definition get_CommMsg :: "nat \<Rightarrow> byte list \<Rightarrow> stCommMsg" where
  "get_CommMsg n bs = \<lparr>cm_uiMsgType = get_u32 (region 0 4 bs), cm_result = get_u32 (region 4 4 bs),
     cMyName = region 8 n bs, cToName = region (8 + n) n bs,
     transMsg = get_trans n (drop (8 + 2 * n) bs), p2pMsg = get_p2p n (drop (16 + 3 * n) bs),
     rlyMsg = get_relay n (drop (20 + 4 * n) bs), userNums = get_u32 (region (24 + 5 * n) 4 bs)\<rparr>"

definition sizeof_CommMsg :: "nat \<Rightarrow> nat" where
  "sizeof_CommMsg n = 28 + 5 * n"

definition sizeof_UserListNode :: "nat \<Rightarrow> nat" where
  "sizeof_UserListNode n = n + 8"

text \<open>\<^verbatim>\<open>getSize\<close> computes in \<^verbatim>\<open>unsigned int\<close>, so it wraps for a large \<^verbatim>\<open>userNums\<close>.\<close>

definition getSize :: "nat \<Rightarrow> nat \<Rightarrow> stCommMsg \<Rightarrow> u32" where
  "getSize n node_size m = of_nat (sizeof_CommMsg n) + userNums m * of_nat node_size"

text \<open>Element \<open>i\<close> of the flexible array \<^verbatim>\<open>userList\<close> behind the message, in a buffer.\<close>

definition userList_at :: "nat \<Rightarrow> byte list \<Rightarrow> nat \<Rightarrow> stUserListNode option" where
  "userList_at n buf i =
     (if sizeof_CommMsg n + sizeof_UserListNode n * (i + 1) \<le> length buf
      then Some (get_trans n (drop (sizeof_CommMsg n + sizeof_UserListNode n * i) buf)) else None)"

interpretation trans_layout: struct_layout "n + 8" put_trans "get_trans n" "trans_ok n" for n
  by unfold_locales
    (simp_all add: put_trans_def get_trans_def trans_ok_def layout_simps)

interpretation p2p_layout: struct_layout "n + 4" put_p2p "get_p2p n" "p2p_ok n" for n
  by unfold_locales (simp_all add: put_p2p_def get_p2p_def p2p_ok_def layout_simps)

interpretation relay_layout: struct_layout "n + 4" put_relay "get_relay n" "relay_ok n" for n
  by unfold_locales (simp_all add: put_relay_def get_relay_def relay_ok_def layout_simps)

interpretation CommMsg_layout: struct_layout "sizeof_CommMsg n" put_CommMsg "get_CommMsg n" "CommMsg_ok n" for n
proof unfold_locales
  fix x :: stCommMsg and rest :: "byte list"
  assume ok: "CommMsg_ok n x"
  then have t: "trans_ok n (transMsg x)" and p: "p2p_ok n (p2pMsg x)" and r: "relay_ok n (rlyMsg x)"
    by (simp_all add: CommMsg_ok_def)
  note len = trans_layout.put_length [OF t] p2p_layout.put_length [OF p] relay_layout.put_length [OF r]
  show "length (put_CommMsg x) = sizeof_CommMsg n"
    using ok by (simp add: put_CommMsg_def CommMsg_ok_def sizeof_CommMsg_def len)
  show "get_CommMsg n (put_CommMsg x @ rest) = x"
    using ok
    by (simp add: put_CommMsg_def get_CommMsg_def CommMsg_ok_def layout_simps len
        trans_layout.get_put p2p_layout.get_put relay_layout.get_put)
next
  fix bs :: "byte list"
  assume "sizeof_CommMsg n \<le> length bs"
  then show "CommMsg_ok n (get_CommMsg n bs)"
    by (simp add: sizeof_CommMsg_def CommMsg_ok_def get_CommMsg_def trans_layout.get_ok
        p2p_layout.get_ok relay_layout.get_ok)
qed

lemma new_stCommMsg_ok [simp]: "CommMsg_ok n (new_stCommMsg n)"
  by (simp add: CommMsg_ok_def new_stCommMsg_def trans_ok_def new_stTransMsg_def p2p_ok_def
      new_stP2PMsg_def relay_ok_def new_stRelayMsg_def)

text \<open>How many nodes a receive buffer of \<^verbatim>\<open>MAX_PACKET_SIZE\<close> bytes holds behind the message.\<close>

lemma userList_at_bound:
  "length buf = MAX_PACKET_SIZE \<Longrightarrow> (\<exists>u. userList_at WIN_NAME_SIZE buf i = Some u) \<longleftrightarrow> i < 20"
  by (auto simp: userList_at_def sizeof_CommMsg_def sizeof_UserListNode_def WIN_NAME_SIZE_def)

text \<open>A freshly constructed message is all zero, and an all zero buffer reads as one.\<close>

lemma put_u32_0 [simp]: "put_u32 0 = [0, 0, 0, 0]"
  by (simp add: put_u32_def)

lemma put_u16_0 [simp]: "put_u16 0 = [0, 0]"
  by (simp add: put_u16_def)

lemma put_new_stCommMsg: "put_CommMsg (new_stCommMsg n) = zeros (sizeof_CommMsg n)"
proof -
  have "b = 0" if "b \<in> set (put_CommMsg (new_stCommMsg n))" for b
    using that by (auto simp: put_CommMsg_def new_stCommMsg_def put_trans_def new_stTransMsg_def
        put_p2p_def new_stP2PMsg_def put_relay_def new_stRelayMsg_def zeros_def)
  then have "put_CommMsg (new_stCommMsg n) = replicate (length (put_CommMsg (new_stCommMsg n))) 0"
    by (metis replicate_length_same)
  then show ?thesis
    by (simp add: CommMsg_layout.put_length [OF new_stCommMsg_ok] zeros_def)
qed

lemma get_CommMsg_zeros: "get_CommMsg n (zeros (sizeof_CommMsg n + k)) = new_stCommMsg n"
  using CommMsg_layout.get_put [OF new_stCommMsg_ok, of n "zeros k"]
  by (simp add: put_new_stCommMsg zeros_def replicate_add)

end
