(* ===== verification/FTC_Sock.thy ===== *)
theory FTC_Sock
  imports FTC_Message "HOL-Library.Signed_Division"
begin

unbundle bit_operations_syntax

text \<open>
  The socket layer \<^verbatim>\<open>P2P_Server_src/FTCSock.c\<close>.

  The kernel is the environment: the results of its calls are arguments of the model, and
  the calls a function makes are part of its result where they matter. A receive or send
  attempt that fails is retried in a loop without bound, so the four transfer functions
  take the list of results the kernel is going to give, and answer \<open>None\<close> while every
  result in the list is a failure: the loop is still running. The loops share one
  contract, the locale \<open>retry_loop\<close>.
\<close>

section \<open>Addresses and byte order\<close>

record sockaddr_in =
  sin_family :: u16
  sin_port :: u16
  sin_addr :: u32

definition AF_INET :: u16 where "AF_INET = 2"

definition FTC_InetAddr :: "byte list \<Rightarrow> u32 option" where
  "FTC_InetAddr pStrIp = inet_addr pStrIp"

definition FTC_Htons :: "u16 \<Rightarrow> u16" where
  "FTC_Htons nsVal = htons nsVal"

definition FTC_Htonl :: "u32 \<Rightarrow> u32" where
  "FTC_Htonl niVal = htonl niVal"

text \<open>\<^verbatim>\<open>ntohs\<close> and \<^verbatim>\<open>ntohl\<close> are the same byte swaps as \<^verbatim>\<open>htons\<close> and \<^verbatim>\<open>htonl\<close>.\<close>

definition FTC_Ntohs :: "u16 \<Rightarrow> u16" where
  "FTC_Ntohs nsVal = htons nsVal"

definition FTC_Ntohl :: "u32 \<Rightarrow> u32" where
  "FTC_Ntohl niVal = htonl niVal"

locale byte_order =
  fixes to_net :: "'w \<Rightarrow> 'w" and to_host :: "'w \<Rightarrow> 'w"
  assumes host_net: "to_host (to_net w) = w"
    and net_host: "to_net (to_host w) = w"
begin

lemma to_net_inject: "to_net v = to_net w \<longleftrightarrow> v = w"
  using host_net by metis

lemma to_net_surj: "\<exists>h. to_net h = w"
  using net_host by blast

end

interpretation order16: byte_order FTC_Htons FTC_Ntohs
  by unfold_locales (simp_all add: FTC_Htons_def FTC_Ntohs_def)

interpretation order32: byte_order FTC_Htonl FTC_Ntohl
  by unfold_locales (simp_all add: FTC_Htonl_def FTC_Ntohl_def)

section \<open>Creating a UDP socket\<close>

text \<open>The results of the four kernel calls, in the order they are made.\<close>

record sock_env =
  env_socket :: int
  env_bind :: int
  env_getfl :: int
  env_setfl :: int

datatype sock_call =
    Call_socket
  | Call_bind int sockaddr_in
  | Call_getfl int
  | Call_setfl int int
  | Call_close int

definition O_NONBLOCK :: int where "O_NONBLOCK = 0x800"

definition CreateUdpSockUnix :: "sock_env \<Rightarrow> u32 \<Rightarrow> u16 \<Rightarrow> int \<times> sock_call list" where
  "CreateUdpSockUnix env uiLocalIp usLocalPort =
     (if uiLocalIp = 0xffffffff then (- 1, [])
      else let sockfd = env_socket env in
        if 0 > sockfd then (sockfd, [Call_socket])
        else
          let tLocalAddr = \<lparr>sin_family = AF_INET, sin_port = usLocalPort, sin_addr = uiLocalIp\<rparr>;
              opened = [Call_socket, Call_bind sockfd tLocalAddr]
          in if env_bind env \<noteq> 0 then (- 1, opened @ [Call_close sockfd])
             else
               let flag = env_getfl env;
                   ret = (if - 1 \<noteq> flag then env_setfl env else - 1);
                   calls = opened @ [Call_getfl sockfd]
                     @ (if - 1 \<noteq> flag then [Call_setfl sockfd (flag OR O_NONBLOCK)] else [])
               in if ret \<noteq> 0 then (- 1, calls @ [Call_close sockfd]) else (sockfd, calls))"

definition FTC_CreateUdpSock :: "sock_env \<Rightarrow> u32 \<Rightarrow> u16 \<Rightarrow> int \<times> sock_call list" where
  "FTC_CreateUdpSock env uiLocalIp usLocalPort = CreateUdpSockUnix env uiLocalIp usLocalPort"

definition FTC_CloseSock :: "int \<Rightarrow> sock_call list" where
  "FTC_CloseSock niSockfd = (if 0 \<le> niSockfd then [Call_close niSockfd] else [])"

section \<open>Waiting for input\<close>

record timeval =
  tv_sec :: int
  tv_usec :: int

definition FD_SETSIZE :: int where "FD_SETSIZE = 1024"

text \<open>\<^verbatim>\<open>select\<close> is an argument: from the highest descriptor and the timeout it gives its
  result and whether the descriptor is in the set it returns. \<^verbatim>\<open>FD_SET\<close> of a descriptor
  beyond the set is undefined. C's division truncates towards zero.\<close>

definition FTC_SelectRead ::
  "(int \<Rightarrow> timeval \<Rightarrow> int \<times> bool) \<Rightarrow> int \<Rightarrow> int \<Rightarrow> int option" where
  "FTC_SelectRead select niFd niTimeout =
     (if 0 > niFd then Some (- 1)
      else if niFd \<ge> FD_SETSIZE then None
      else
        let tv = \<lparr>tv_sec = niTimeout sdiv 1000000, tv_usec = niTimeout smod 1000000\<rparr>;
            (ret, isset) = select (niFd + 1) tv
        in if ret > 0 then Some (if isset then 0 else ret) else Some (- 1))"

section \<open>Transfers with retry\<close>

datatype recv_result = Recv_Err | Recv_Dgram "byte list" sockaddr_in

text \<open>A datagram longer than the buffer is cut to the size passed to \<^verbatim>\<open>recvfrom\<close>; the write is
  undefined if the buffer is smaller than what is written.\<close>

definition recv_write :: "byte list \<Rightarrow> nat \<Rightarrow> byte list \<Rightarrow> (int \<times> byte list) option" where
  "recv_write buf niSize d =
     (let got = take niSize d in
      if length got \<le> length buf then Some (int (length got), overwrite buf got) else None)"

fun recvfrom_loop :: "recv_result list \<Rightarrow> ((byte list \<times> sockaddr_in) \<times> recv_result list) option" where
  "recvfrom_loop [] = None"
| "recvfrom_loop (Recv_Err # rs) = recvfrom_loop rs"
| "recvfrom_loop (Recv_Dgram d a # rs) = Some ((d, a), rs)"

record recv_out =
  ro_ret :: int
  ro_buf :: "byte list"
  ro_addr :: sockaddr_in
  ro_rest :: "recv_result list"

text \<open>Result: \<open>None\<close> while the retry loop runs; \<open>Some None\<close> for undefined behaviour.\<close>

definition FTC_Recvfrom2 ::
  "recv_result list \<Rightarrow> int \<Rightarrow> byte list option \<Rightarrow> int \<Rightarrow> sockaddr_in \<Rightarrow> recv_out option option" where
  "FTC_Recvfrom2 rs sockfd pBuf niSize readAddr =
     (case pBuf of
        None \<Rightarrow> Some (Some \<lparr>ro_ret = 0, ro_buf = [], ro_addr = readAddr, ro_rest = rs\<rparr>)
      | Some buf \<Rightarrow>
        if 0 > sockfd \<or> 0 \<ge> niSize
        then Some (Some \<lparr>ro_ret = 0, ro_buf = buf, ro_addr = readAddr, ro_rest = rs\<rparr>)
        else (case recvfrom_loop rs of
                None \<Rightarrow> None
              | Some ((d, a), rest) \<Rightarrow> Some (do {
                  (ret, buf') \<leftarrow> recv_write buf (nat niSize) d;
                  Some \<lparr>ro_ret = ret, ro_buf = buf', ro_addr = a, ro_rest = rest\<rparr> })))"

text \<open>\<^verbatim>\<open>FTC_Recvfrom\<close> hands out the sender's address and port through pointers that may be
  NULL, and only after a datagram that is not empty.\<close>

definition FTC_Recvfrom ::
  "recv_result list \<Rightarrow> int \<Rightarrow> byte list option \<Rightarrow> int \<Rightarrow> u32 option \<Rightarrow> u16 option \<Rightarrow>
   (int \<times> byte list \<times> u32 option \<times> u16 option) option option" where
  "FTC_Recvfrom rs sockfd pBuf niSize pRemoteIp pRemotePort =
     (case pBuf of
        None \<Rightarrow> Some (Some (0, [], pRemoteIp, pRemotePort))
      | Some buf \<Rightarrow>
        if 0 > sockfd \<or> 0 \<ge> niSize then Some (Some (0, buf, pRemoteIp, pRemotePort))
        else (case recvfrom_loop rs of
                None \<Rightarrow> None
              | Some ((d, a), rest) \<Rightarrow> Some (do {
                  (ret, buf') \<leftarrow> recv_write buf (nat niSize) d;
                  if 0 < ret
                  then Some (ret, buf', map_option (\<lambda>_. sin_addr a) pRemoteIp,
                             map_option (\<lambda>_. sin_port a) pRemotePort)
                  else Some (ret, buf', pRemoteIp, pRemotePort) })))"

datatype send_result = Send_Err | Send_Done int

fun sendto_loop :: "send_result list \<Rightarrow> (int \<times> send_result list) option" where
  "sendto_loop [] = None"
| "sendto_loop (Send_Err # rs) = sendto_loop rs"
| "sendto_loop (Send_Done n # rs) = Some (n, rs)"

text \<open>A datagram as handed to the kernel: destination and payload.\<close>

type_synonym datagram = "sockaddr_in \<times> byte list"

text \<open>The payload that \<^verbatim>\<open>sendto\<close> reads: it is undefined to pass a size beyond the end of the object.\<close>

definition send_read :: "byte list \<Rightarrow> nat \<Rightarrow> byte list option" where
  "send_read buf niSize = (if niSize \<le> length buf then Some (take niSize buf) else None)"

text \<open>The result of a send is the return value and the datagrams the kernel accepted; as above,
  \<open>None\<close> while the loop runs and \<open>Some None\<close> for undefined behaviour.\<close>

definition FTC_Sendto2 ::
  "send_result list \<Rightarrow> int \<Rightarrow> byte list option \<Rightarrow> int \<Rightarrow> sockaddr_in \<Rightarrow>
   (int \<times> datagram list) option option" where
  "FTC_Sendto2 rs sockfd pBuf niSize remoteAddr =
     (case pBuf of
        None \<Rightarrow> Some (Some (- 1, []))
      | Some buf \<Rightarrow>
        if 0 > sockfd \<or> 0 \<ge> niSize then Some (Some (- 1, []))
        else (case send_read buf (nat niSize) of
                None \<Rightarrow> Some None
              | Some d \<Rightarrow> map_option (\<lambda>(ret, _). Some (ret, [(remoteAddr, d)])) (sendto_loop rs)))"

definition FTC_Sendto ::
  "send_result list \<Rightarrow> int \<Rightarrow> byte list option \<Rightarrow> int \<Rightarrow> u32 \<Rightarrow> u16 \<Rightarrow>
   (int \<times> datagram list) option option" where
  "FTC_Sendto rs sockfd pBuf niSize niRemoteIp usRemotePort =
     (case pBuf of
        None \<Rightarrow> Some (Some (- 1, []))
      | Some buf \<Rightarrow>
        if 0 > sockfd \<or> 0 \<ge> niSize then Some (Some (- 1, []))
        else
          let tRem = \<lparr>sin_family = AF_INET, sin_port = usRemotePort, sin_addr = niRemoteIp\<rparr>
          in (case send_read buf (nat niSize) of
                None \<Rightarrow> Some None
              | Some d \<Rightarrow> map_option (\<lambda>(ret, _). Some (ret, [(tRem, d)])) (sendto_loop rs)))"

text \<open>What a handler's call of \<^verbatim>\<open>FTC_Sendto2\<close> with a whole object puts on the network once the
  kernel takes it.\<close>

definition sent :: "int \<Rightarrow> byte list \<Rightarrow> sockaddr_in \<Rightarrow> datagram list" where
  "sent sockfd buf remoteAddr = (if 0 > sockfd \<or> buf = [] then [] else [(remoteAddr, buf)])"

section \<open>The contract of a retry loop\<close>

locale retry_loop =
  fixes run :: "'r list \<Rightarrow> ('v \<times> 'r list) option"
    and result_of :: "'r \<Rightarrow> 'v option"
  assumes run_empty: "run [] = None"
    and run_retry: "result_of r = None \<Longrightarrow> run (r # rs) = run rs"
    and run_stop: "result_of r = Some v \<Longrightarrow> run (r # rs) = Some (v, rs)"
begin

text \<open>The loop returns exactly when some attempt succeeds, with the first success.\<close>

lemma run_Some_iff:
  "run rs = Some (v, rest) \<longleftrightarrow>
     (\<exists>fails r. rs = fails @ r # rest \<and> result_of r = Some v \<and> (\<forall>f \<in> set fails. result_of f = None))"
proof (induction rs)
  case Nil
  then show ?case by (simp add: run_empty)
next
  case (Cons a rs)
  show ?case
  proof (cases "result_of a")
    case None
    then have "run (a # rs) = run rs" by (rule run_retry)
    moreover have "(\<exists>fails r. a # rs = fails @ r # rest \<and> result_of r = Some v \<and>
        (\<forall>f \<in> set fails. result_of f = None)) \<longleftrightarrow>
      (\<exists>fails r. rs = fails @ r # rest \<and> result_of r = Some v \<and>
        (\<forall>f \<in> set fails. result_of f = None))" (is "?L \<longleftrightarrow> ?R")
    proof
      assume ?L
      then show ?R using None by (auto simp: Cons_eq_append_conv)
    next
      assume ?R
      then obtain fails r where "rs = fails @ r # rest" "result_of r = Some v"
        "\<forall>f \<in> set fails. result_of f = None" by blast
      then show ?L using None by (intro exI [of _ "a # fails"]) auto
    qed
    ultimately show ?thesis using Cons.IH by simp
  next
    case (Some w)
    then show ?thesis by (auto simp: run_stop Cons_eq_append_conv)
  qed
qed

lemma run_None_iff: "run rs = None \<longleftrightarrow> (\<forall>r \<in> set rs. result_of r = None)"
proof (induction rs)
  case (Cons a rs)
  then show ?case by (cases "result_of a") (auto simp: run_retry run_stop)
qed (simp add: run_empty)

lemma run_append: "run rs = Some (v, rest) \<Longrightarrow> run (rs @ later) = Some (v, rest @ later)"
  unfolding run_Some_iff by fastforce

end

fun recv_value :: "recv_result \<Rightarrow> (byte list \<times> sockaddr_in) option" where
  "recv_value Recv_Err = None"
| "recv_value (Recv_Dgram d a) = Some (d, a)"

fun send_value :: "send_result \<Rightarrow> int option" where
  "send_value Send_Err = None"
| "send_value (Send_Done n) = Some n"

lemma recvfrom_loop_retry: "recv_value r = None \<Longrightarrow> recvfrom_loop (r # rs) = recvfrom_loop rs"
  by (cases r) simp_all

lemma recvfrom_loop_stop: "recv_value r = Some v \<Longrightarrow> recvfrom_loop (r # rs) = Some (v, rs)"
  by (cases r) auto

lemma sendto_loop_retry: "send_value r = None \<Longrightarrow> sendto_loop (r # rs) = sendto_loop rs"
  by (cases r) simp_all

lemma sendto_loop_stop: "send_value r = Some v \<Longrightarrow> sendto_loop (r # rs) = Some (v, rs)"
  by (cases r) auto

interpretation recv_retry: retry_loop recvfrom_loop recv_value
  by unfold_locales (simp_all add: recvfrom_loop_retry recvfrom_loop_stop)

interpretation send_retry: retry_loop sendto_loop send_value
  by unfold_locales (simp_all add: sendto_loop_retry sendto_loop_stop)

section \<open>What the socket layer guarantees\<close>

text \<open>C34. \<^verbatim>\<open>FTC_CreateUdpSock\<close> never leaks a descriptor: a result that is not negative is the
  descriptor of a socket that was bound to the requested address and switched to
  non-blocking mode and has not been closed, and when a descriptor was created but the
  result is negative, the last kernel call closed that descriptor.\<close>

theorem FTC_CreateUdpSock_no_leak:
  assumes "FTC_CreateUdpSock env ip port = (fd, calls)"
  shows "(0 \<le> fd \<longrightarrow> fd = env_socket env \<and> env_bind env = 0 \<and> env_setfl env = 0 \<and>
           calls = [Call_socket, Call_bind fd \<lparr>sin_family = AF_INET, sin_port = port, sin_addr = ip\<rparr>,
                    Call_getfl fd, Call_setfl fd (env_getfl env OR O_NONBLOCK)]) \<and>
         (fd < 0 \<and> Call_socket \<in> set calls \<and> 0 \<le> env_socket env \<longrightarrow>
           last calls = Call_close (env_socket env))"
  using assms
  by (auto simp: FTC_CreateUdpSock_def CreateUdpSockUnix_def Let_def split: if_splits)

theorem FTC_CreateUdpSock_no_leak_witness:
  "last (snd (FTC_CreateUdpSock
      \<lparr>env_socket = 3, env_bind = 0, env_getfl = 2, env_setfl = - 1\<rparr> 0 0)) = Call_close 3"
proof -
  let ?env = "\<lparr>env_socket = 3, env_bind = 0, env_getfl = 2, env_setfl = - 1\<rparr>"
  have "FTC_CreateUdpSock ?env 0 0 = (- 1, [Call_socket,
      Call_bind 3 \<lparr>sin_family = AF_INET, sin_port = 0, sin_addr = 0\<rparr>,
      Call_getfl 3, Call_setfl 3 2050, Call_close 3])"
    by (simp add: FTC_CreateUdpSock_def CreateUdpSockUnix_def Let_def O_NONBLOCK_def)
  from FTC_CreateUdpSock_no_leak [OF this] show ?thesis
    by (simp add: FTC_CreateUdpSock_def CreateUdpSockUnix_def Let_def)
qed

text \<open>C35. For a buffer that holds the size it is called with: a call with a negative descriptor or a size that is not
  positive returns 0 at once and touches nothing. Any other call of \<^verbatim>\<open>FTC_Recvfrom2\<close> returns exactly when one of the
  receive attempts yields a datagram, and it returns the first one, cut to the size, with its sender. No result
  is negative, though the comment above the function documents -1 for a failure: the error branches of the callers are
  dead code, and a socket that only fails keeps the caller in the loop.\<close>

theorem FTC_Recvfrom2_first_datagram:
  assumes "nat n \<le> length buf"
  shows "if fd < 0 \<or> n \<le> 0
    then FTC_Recvfrom2 rs fd (Some buf) n a0 = Some (Some \<lparr>ro_ret = 0, ro_buf = buf, ro_addr = a0, ro_rest = rs\<rparr>)
    else (FTC_Recvfrom2 rs fd (Some buf) n a0 = None \<longleftrightarrow> (\<forall>r \<in> set rs. r = Recv_Err)) \<and>
      (\<forall>r. FTC_Recvfrom2 rs fd (Some buf) n a0 = Some r \<longrightarrow>
         (\<exists>fails d a rest. rs = fails @ Recv_Dgram d a # rest \<and> (\<forall>f \<in> set fails. f = Recv_Err) \<and>
            r = Some \<lparr>ro_ret = min n (int (length d)), ro_buf = overwrite buf (take (nat n) d), ro_addr = a, ro_rest = rest\<rparr> \<and>
            0 \<le> min n (int (length d))))"
proof -
  have err: "recv_value r = None \<longleftrightarrow> r = Recv_Err" for r by (cases r) simp_all
  have w: "recv_write buf (nat n) d = Some (min n (int (length d)), overwrite buf (take (nat n) d))" if "0 < n" for d
    using assms that by (cases "n \<le> int (length d)") (auto simp: recv_write_def Let_def min_def)
  have some: "\<exists>fails. rs = fails @ Recv_Dgram d a # rest \<and> (\<forall>f \<in> set fails. f = Recv_Err)"
    if "recvfrom_loop rs = Some ((d, a), rest)" for d a rest
  proof -
    from that obtain fails r where "rs = fails @ r # rest" "recv_value r = Some (d, a)" "\<forall>f \<in> set fails. recv_value f = None"
      unfolding recv_retry.run_Some_iff by blast
    then show ?thesis by (cases r) (auto simp: err)
  qed
  have none: "recvfrom_loop rs = None \<longleftrightarrow> (\<forall>r \<in> set rs. r = Recv_Err)"
    using recv_retry.run_None_iff [of rs] by (simp add: err)
  show ?thesis
  proof (cases "fd < 0 \<or> n \<le> 0")
    case True
    then show ?thesis by (auto simp: FTC_Recvfrom2_def)
  next
    case False
    show ?thesis
    proof (cases "recvfrom_loop rs")
      case None
      then show ?thesis using False none by (simp add: FTC_Recvfrom2_def)
    next
      case (Some x)
      obtain d a rest where x: "x = ((d, a), rest)" by (cases x) auto
      have "FTC_Recvfrom2 rs fd (Some buf) n a0 = Some (Some \<lparr>ro_ret = min n (int (length d)),
          ro_buf = overwrite buf (take (nat n) d), ro_addr = a, ro_rest = rest\<rparr>)"
        using False Some x w by (simp add: FTC_Recvfrom2_def)
      then show ?thesis using False Some x none some [of d a rest] by auto
    qed
  qed
qed

theorem FTC_Recvfrom2_first_datagram_witness:
  "FTC_Recvfrom2 [Recv_Dgram [1] \<lparr>sin_family = 2, sin_port = 7, sin_addr = 9\<rparr>] (- 1) (Some [5, 5]) 2
     \<lparr>sin_family = 0, sin_port = 0, sin_addr = 0\<rparr> =
     Some (Some \<lparr>ro_ret = 0, ro_buf = [5, 5], ro_addr = \<lparr>sin_family = 0, sin_port = 0, sin_addr = 0\<rparr>,
       ro_rest = [Recv_Dgram [1] \<lparr>sin_family = 2, sin_port = 7, sin_addr = 9\<rparr>]\<rparr>) \<and>
   FTC_Recvfrom2 [Recv_Err, Recv_Err] 3 (Some [0, 0]) 2 \<lparr>sin_family = 0, sin_port = 0, sin_addr = 0\<rparr> = None \<and>
   FTC_Recvfrom2 [Recv_Err, Recv_Dgram [1, 2, 3] \<lparr>sin_family = 2, sin_port = 7, sin_addr = 9\<rparr>] 3 (Some [0, 0]) 2
     \<lparr>sin_family = 0, sin_port = 0, sin_addr = 0\<rparr> \<noteq> None"
proof -
  let ?a0 = "\<lparr>sin_family = 0, sin_port = 0, sin_addr = 0\<rparr>"
  note r = FTC_Recvfrom2_first_datagram [where ?a0.0 = ?a0]
  show ?thesis
    using r [of 2 "[5, 5]" "- 1" "[Recv_Dgram [1] \<lparr>sin_family = 2, sin_port = 7, sin_addr = 9\<rparr>]"] r [of 2 "[0, 0]" 3 "[Recv_Err, Recv_Err]"]
      r [of 2 "[0, 0]" 3 "[Recv_Err, Recv_Dgram [1, 2, 3] \<lparr>sin_family = 2, sin_port = 7, sin_addr = 9\<rparr>]"]
    by simp
qed

text \<open>\<^verbatim>\<open>FTC_SelectRead\<close> waits for the time it is given: the microseconds are split into seconds and
  a remainder below one second without loss, and the result is 0 exactly when \<^verbatim>\<open>select\<close> reports
  the descriptor readable.\<close>

lemma FTC_SelectRead_timeout:
  assumes "0 \<le> fd" and "fd < FD_SETSIZE" and "0 \<le> t"
  shows "\<exists>tv :: timeval. tv_sec tv * 1000000 + tv_usec tv = t \<and> 0 \<le> tv_usec tv \<and> tv_usec tv < 1000000 \<and>
    (FTC_SelectRead select fd t = Some 0 \<longleftrightarrow> fst (select (fd + 1) tv) > 0 \<and> snd (select (fd + 1) tv))"
proof -
  let ?tv = "\<lparr>tv_sec = t sdiv 1000000, tv_usec = t smod 1000000\<rparr>"
  have "tv_sec ?tv * 1000000 + tv_usec ?tv = t" "0 \<le> tv_usec ?tv" "tv_usec ?tv < 1000000"
    using assms(3) by (simp_all add: signed_divide_int_def signed_modulo_int_def sgn_if)
  moreover have "FTC_SelectRead select fd t = Some 0 \<longleftrightarrow> fst (select (fd + 1) ?tv) > 0 \<and> snd (select (fd + 1) ?tv)"
    using assms by (auto simp: FTC_SelectRead_def Let_def split: prod.splits if_splits)
  ultimately show ?thesis by blast
qed

lemma FTC_SelectRead_timeout_example:
  "\<exists>tv :: timeval. tv_sec tv * 1000000 + tv_usec tv = 2500000 \<and> 0 \<le> tv_usec tv \<and> tv_usec tv < 1000000 \<and>
    FTC_SelectRead (\<lambda>n tv. (1, tv_sec tv = 2)) 4 2500000 = Some 0"
proof -
  have "\<exists>tv :: timeval. tv_sec tv * 1000000 + tv_usec tv = 2500000 \<and> 0 \<le> tv_usec tv \<and> tv_usec tv < 1000000 \<and>
    (FTC_SelectRead (\<lambda>n tv. (1, tv_sec tv = 2)) 4 2500000 = Some 0 \<longleftrightarrow> tv_sec tv = 2)"
    using FTC_SelectRead_timeout [of 4 2500000 "\<lambda>n tv. (1, tv_sec tv = 2)"] by (simp add: FD_SETSIZE_def)
  then show ?thesis by auto
qed

text \<open>What the server and the clients put on the network with a whole object of their own is what
  \<^verbatim>\<open>FTC_Sendto2\<close> sends once the kernel takes it.\<close>

lemma FTC_Sendto2_sent:
  "FTC_Sendto2 rs fd (Some buf) (int (length buf)) a = Some r \<Longrightarrow> \<exists>ret. r = Some (ret, sent fd buf a)"
  by (auto simp: FTC_Sendto2_def sent_def send_read_def split: if_splits)

text \<open>The two send functions return exactly when an attempt succeeds, and they are the same function up
  to the way the address is passed.\<close>

lemma FTC_Sendto2_returns_iff:
  assumes "0 \<le> fd" and "0 < n" and "nat n \<le> length buf"
  shows "FTC_Sendto2 rs fd (Some buf) n a \<noteq> None \<longleftrightarrow> (\<exists>m. Send_Done m \<in> set rs)"
proof -
  have "sendto_loop rs \<noteq> None \<longleftrightarrow> (\<exists>r \<in> set rs. send_value r \<noteq> None)"
    unfolding send_retry.run_None_iff by simp
  moreover have "send_value r \<noteq> None \<longleftrightarrow> (\<exists>m. r = Send_Done m)" for r by (cases r) simp_all
  ultimately show ?thesis using assms by (auto simp: FTC_Sendto2_def send_read_def)
qed

lemma FTC_Sendto_Sendto2:
  "FTC_Sendto rs fd buf n ip port =
   FTC_Sendto2 rs fd buf n \<lparr>sin_family = AF_INET, sin_port = port, sin_addr = ip\<rparr>"
  unfolding FTC_Sendto_def FTC_Sendto2_def Let_def ..

end
