(* ===== verification/FTC_Peer.thy ===== *)
theory FTC_Peer
  imports FTC_Message
begin

text \<open>
  The peer lists of \<^verbatim>\<open>P2P_Server_src/FTCPeer.cpp\<close>.

  A \<^verbatim>\<open>PeerList\<close> is a list of pointers to \<^verbatim>\<open>T_PeerInfo\<close> objects, and both programs keep
  pushing the same pointer, so the model keeps the pointers and the objects apart: a list
  of addresses and a store that maps an address to the object that lives there.
\<close>

section \<open>The store and the list operations\<close>

type_synonym peer_ptr = nat
type_synonym peer_store = "peer_ptr \<rightharpoonup> T_PeerInfo"
type_synonym PeerList = "peer_ptr list"

text \<open>Without a match control reaches the end of a non-void function: no result.\<close>

fun GetPeerByName :: "peer_store \<Rightarrow> PeerList \<Rightarrow> byte list \<Rightarrow> T_PeerInfo option" where
  "GetPeerByName h [] userName = None"
| "GetPeerByName h (p # ps) userName = do {
     peer \<leftarrow> h p;
     c \<leftarrow> strcmp (name peer) userName;
     if c = 0 then Some peer else GetPeerByName h ps userName }"

fun check_loop :: "peer_store \<Rightarrow> PeerList \<Rightarrow> byte list \<Rightarrow> bool option" where
  "check_loop h [] userName = Some False"
| "check_loop h (p # ps) userName = do {
     peer \<leftarrow> h p;
     c \<leftarrow> strcmp (name peer) userName;
     if c = 0 then Some True else check_loop h ps userName }"

definition CheckPeerListByName :: "peer_store \<Rightarrow> PeerList option \<Rightarrow> byte list option \<Rightarrow> bool option" where
  "CheckPeerListByName h ptPeerList strUserName =
     (case (ptPeerList, strUserName) of
        (Some l, Some n) \<Rightarrow> check_loop h l n
      | _ \<Rightarrow> Some False)"

text \<open>The removal loop assigns the iterator the successor of the erased element and then
  increments it once more, so the element after a match is kept unseen, and a match at the
  end of the list increments the end iterator, which is undefined.\<close>

fun remove_loop :: "peer_store \<Rightarrow> PeerList \<Rightarrow> byte list \<Rightarrow> PeerList option" where
  "remove_loop h [] userName = Some []"
| "remove_loop h (p # ps) userName = do {
     peer \<leftarrow> h p;
     c \<leftarrow> strcmp (name peer) userName;
     if c = 0
     then (case ps of [] \<Rightarrow> None | q # qs \<Rightarrow> map_option ((#) q) (remove_loop h qs userName))
     else map_option ((#) p) (remove_loop h ps userName) }"

definition RemovePeerByName :: "peer_store \<Rightarrow> PeerList option \<Rightarrow> byte list option \<Rightarrow> PeerList option option" where
  "RemovePeerByName h ptPeerList strUserName =
     (case (ptPeerList, strUserName) of
        (Some l, Some n) \<Rightarrow> map_option Some (remove_loop h l n)
      | _ \<Rightarrow> Some ptPeerList)"

section \<open>The abstract directory\<close>

text \<open>A list is well formed when every pointer is live and every name is terminated. Its
  contents are the objects in list order, and the name of an object is the string in its
  name array.\<close>

definition named :: "T_PeerInfo \<Rightarrow> byte list \<Rightarrow> bool" where
  "named peer s \<longleftrightarrow> c_str (name peer) = Some s"

definition peers_wf :: "peer_store \<times> PeerList \<Rightarrow> bool" where
  "peers_wf = (\<lambda>(h, l). \<forall>p \<in> set l. \<exists>peer. h p = Some peer \<and> (\<exists>s. named peer s))"

definition contents :: "peer_store \<Rightarrow> PeerList \<Rightarrow> T_PeerInfo list" where
  "contents h l = map (\<lambda>p. the (h p)) l"

lemma peers_wf_Nil [simp]: "peers_wf (h, [])"
  by (simp add: peers_wf_def)

lemma peers_wf_Cons [simp]:
  "peers_wf (h, p # l) \<longleftrightarrow> (\<exists>peer s. h p = Some peer \<and> named peer s) \<and> peers_wf (h, l)"
  by (auto simp: peers_wf_def)

lemma strcmp_named:
  assumes "named peer t" and "c_str n = Some s"
  obtains c where "strcmp (name peer) n = Some c" and "c = 0 \<longleftrightarrow> s = t"
proof -
  obtain c where "strcmp (name peer) n = Some c"
    using assms strcmp_defined unfolding named_def by blast
  moreover from this have "c = 0 \<longleftrightarrow> s = t"
    using assms strcmp_eq_0_conv [of "name peer" t n s] by (auto simp: named_def)
  ultimately show ?thesis by (rule that)
qed

text \<open>The two lookups implement the search of the abstract directory.\<close>

lemma GetPeerByName_refines:
  "peers_wf (h, l) \<Longrightarrow> c_str n = Some s \<Longrightarrow>
   GetPeerByName h l n = find_first (\<lambda>peer. named peer s) (contents h l)"
proof (induction l)
  case (Cons p l)
  then obtain peer t where peer: "h p = Some peer" "named peer t" by auto
  obtain c where "strcmp (name peer) n = Some c" "c = 0 \<longleftrightarrow> s = t"
    using strcmp_named peer(2) Cons.prems(2) by blast
  moreover have "named peer s \<longleftrightarrow> s = t"
    using peer(2) by (auto simp: named_def)
  ultimately show ?case using Cons peer by (simp add: contents_def)
qed (simp add: contents_def)

interpretation peer_lookup: name_lookup "\<lambda>(h, l) n. GetPeerByName h l n" "\<lambda>(h, l). contents h l" name peers_wf
proof
  fix d :: "peer_store \<times> PeerList" and n s :: "byte list"
  assume "peers_wf d" and "c_str n = Some s"
  then show "(case d of (h, l) \<Rightarrow> \<lambda>n. GetPeerByName h l n) n =
      find_first (\<lambda>r. c_str (name r) = Some s) (case d of (h, l) \<Rightarrow> contents h l)"
    by (cases d) (simp add: GetPeerByName_refines named_def)
qed

lemma check_loop_refines:
  "peers_wf (h, l) \<Longrightarrow> c_str n = Some s \<Longrightarrow>
   check_loop h l n = Some (find_first (\<lambda>peer. named peer s) (contents h l) \<noteq> None)"
proof (induction l)
  case (Cons p l)
  then obtain peer t where peer: "h p = Some peer" "named peer t" by auto
  obtain c where "strcmp (name peer) n = Some c" "c = 0 \<longleftrightarrow> s = t"
    using strcmp_named peer(2) Cons.prems(2) by blast
  moreover have "named peer s \<longleftrightarrow> s = t"
    using peer(2) by (auto simp: named_def)
  ultimately show ?case using Cons peer by (simp add: contents_def)
qed (simp add: contents_def)

section \<open>The interface the message handlers use\<close>

text \<open>A handler asks for a name and then fetches the peer. \<open>has\<close> answers for every well formed
  directory and terminated name, and \<open>fetch\<close> is safe exactly after a positive answer.\<close>

locale peer_directory =
  fixes wf :: "'d \<Rightarrow> bool"
    and has :: "'d \<Rightarrow> byte list \<Rightarrow> bool option"
    and fetch :: "'d \<Rightarrow> byte list \<Rightarrow> 'p option"
    and label :: "'p \<Rightarrow> byte list option"
  assumes has_answers: "wf d \<Longrightarrow> c_str n = Some s \<Longrightarrow> \<exists>b. has d n = Some b"
    and fetch_iff_has: "wf d \<Longrightarrow> c_str n = Some s \<Longrightarrow> has d n = Some True \<longleftrightarrow> fetch d n \<noteq> None"
    and fetch_label: "wf d \<Longrightarrow> c_str n = Some s \<Longrightarrow> fetch d n = Some p \<Longrightarrow> label p = Some s"
begin

lemma fetch_undefined: "wf d \<Longrightarrow> c_str n = Some s \<Longrightarrow> has d n = Some False \<longleftrightarrow> fetch d n = None"
  using has_answers [of d n s] fetch_iff_has [of d n s] by auto

lemma guarded_fetch:
  "wf d \<Longrightarrow> c_str n = Some s \<Longrightarrow> has d n = Some True \<Longrightarrow> \<exists>p. fetch d n = Some p \<and> label p = Some s"
  using fetch_iff_has fetch_label by fastforce

end

interpretation peer_list: peer_directory peers_wf
  "\<lambda>(h, l) n. CheckPeerListByName h (Some l) (Some n)" "\<lambda>(h, l) n. GetPeerByName h l n"
  "\<lambda>p. c_str (name p)"
proof unfold_locales
  fix d :: "peer_store \<times> PeerList" and n s p
  assume wf: "peers_wf d" and n: "c_str n = Some s"
  obtain h l where d: "d = (h, l)" by (cases d)
  note refines = check_loop_refines [OF wf [unfolded d] n] GetPeerByName_refines [OF wf [unfolded d] n]
  show "\<exists>b. (case d of (h, l) \<Rightarrow> \<lambda>n. CheckPeerListByName h (Some l) (Some n)) n = Some b"
    by (simp add: d CheckPeerListByName_def refines)
  show "(case d of (h, l) \<Rightarrow> \<lambda>n. CheckPeerListByName h (Some l) (Some n)) n = Some True \<longleftrightarrow>
      (case d of (h, l) \<Rightarrow> \<lambda>n. GetPeerByName h l n) n \<noteq> None"
    by (simp add: d CheckPeerListByName_def refines)
  show "c_str (name p) = Some s"
    if "(case d of (h, l) \<Rightarrow> \<lambda>n. GetPeerByName h l n) n = Some p"
    using that by (auto simp: d refines named_def dest: find_first_SomeD)
qed

section \<open>Removal\<close>

lemma remove_loop_miss:
  "peers_wf (h, pre @ l) \<Longrightarrow> c_str n = Some s \<Longrightarrow> \<forall>q \<in> set pre. \<not> named (the (h q)) s \<Longrightarrow>
   remove_loop h (pre @ l) n = map_option ((@) pre) (remove_loop h l n)"
proof (induction pre)
  case Nil
  then show ?case by (simp add: option.map_ident)
next
  case (Cons p pre)
  then obtain peer t where peer: "h p = Some peer" "named peer t" by auto
  obtain c where "strcmp (name peer) n = Some c" "c = 0 \<longleftrightarrow> s = t"
    using strcmp_named peer(2) Cons.prems(2) by blast
  moreover have "s \<noteq> t" using Cons.prems(3) peer by auto
  ultimately show ?case using Cons peer by (simp add: option.map_comp comp_def)
qed

lemma remove_loop_hit:
  assumes "peers_wf (h, p # l)" "c_str n = Some s" "named (the (h p)) s"
  shows "remove_loop h (p # l) n =
    (case l of [] \<Rightarrow> None | q # qs \<Rightarrow> map_option ((#) q) (remove_loop h qs n))"
proof -
  obtain peer where peer: "h p = Some peer" "named peer s" using assms by auto
  obtain c where "strcmp (name peer) n = Some c" "c = 0 \<longleftrightarrow> s = s"
    using strcmp_named peer(2) assms(2) by blast
  with peer show ?thesis by simp
qed

lemma remove_loop_none:
  "peers_wf (h, l) \<Longrightarrow> c_str n = Some s \<Longrightarrow> \<forall>q \<in> set l. \<not> named (the (h q)) s \<Longrightarrow>
   remove_loop h l n = Some l"
  using remove_loop_miss [of h l "[]" n s] by simp

lemma peers_wf_append [simp]: "peers_wf (h, xs @ ys) \<longleftrightarrow> peers_wf (h, xs) \<and> peers_wf (h, ys)"
  by (auto simp: peers_wf_def)

text \<open>\<^verbatim>\<open>RemovePeerByName\<close> on a list that holds the name exactly once deletes that entry and
  keeps all others in order, unless the entry is the last of the list, where the loop
  increments the end iterator and the call is undefined.\<close>

lemma RemovePeerByName_unique:
  assumes "peers_wf (h, pre @ p # post)" and "c_str n = Some s"
    and "named (the (h p)) s" and "\<forall>q \<in> set pre \<union> set post. \<not> named (the (h q)) s"
  shows "RemovePeerByName h (Some (pre @ p # post)) (Some n) =
    (if post = [] then None else Some (Some (pre @ post)))"
proof -
  have "remove_loop h (pre @ p # post) n = map_option ((@) pre) (remove_loop h (p # post) n)"
    using assms by (intro remove_loop_miss) auto
  also have "remove_loop h (p # post) n = (if post = [] then None else Some post)"
  proof (cases post)
    case Nil
    with assms show ?thesis by (subst remove_loop_hit) auto
  next
    case (Cons q qs)
    with assms have "remove_loop h qs n = Some qs" by (intro remove_loop_none) auto
    with Cons assms show ?thesis by (subst remove_loop_hit) auto
  qed
  finally show ?thesis by (simp add: RemovePeerByName_def)
qed

definition example_peer :: "string \<Rightarrow> T_PeerInfo" where
  "example_peer n = \<lparr>bCorD = 0, name = bytes n @ zeros (12 - length n), ID = zeros 8, sPubIp = zeros 16,
     usPubPort = 0, sLanIp = zeros 16, usLanPort = 0\<rparr>"

lemma RemovePeerByName_unique_example:
  "RemovePeerByName [1 \<mapsto> example_peer ''a'', 2 \<mapsto> example_peer ''b''] (Some [1, 2]) (Some (literal ''a'')) = Some (Some [2]) \<and>
   RemovePeerByName [1 \<mapsto> example_peer ''a'', 2 \<mapsto> example_peer ''b''] (Some [1, 2]) (Some (literal ''b'')) = None"
proof -
  let ?h = "[1 \<mapsto> example_peer ''a'', 2 \<mapsto> example_peer ''b''] :: peer_store"
  have n: "named (example_peer ''a'') (bytes ''a'')" "named (example_peer ''b'') (bytes ''b'')"
    by (simp_all add: named_def example_peer_def bytes_def)
  have c: "c_str (literal ''a'') = Some (bytes ''a'')" "c_str (literal ''b'') = Some (bytes ''b'')"
    by (simp_all add: literal_def bytes_def)
  have d: "\<not> named (example_peer ''a'') (bytes ''b'')" "\<not> named (example_peer ''b'') (bytes ''a'')"
    using n by (auto simp: named_def bytes_def)
  have "RemovePeerByName ?h (Some ([] @ 1 # [2])) (Some (literal ''a'')) = (if [2] = ([] :: nat list) then None else Some (Some ([] @ [2])))"
    using n d by (intro RemovePeerByName_unique [OF _ c(1)]) auto
  moreover have "RemovePeerByName ?h (Some ([1] @ 2 # [])) (Some (literal ''b'')) = (if [] = ([] :: nat list) then None else Some (Some ([1] @ [])))"
    using n d by (intro RemovePeerByName_unique [OF _ c(2)]) auto
  ultimately show ?thesis by simp
qed

end
