(* ===== verification/Db_Sqlite.thy ===== *)
theory Db_Sqlite
  imports C_Library "HOL-Library.Signed_Division"
begin

text \<open>
  The database layer \<^verbatim>\<open>P2P_Server_src/db_sqlite.cpp\<close>.

  The SQLite library is not part of the repository: it is the record \<open>sqlite\<close> of functions
  that the definitions take as their first argument, over an engine state \<open>'e\<close> and
  statements \<open>'s\<close>. The file's static variables are the record \<open>db_globals\<close>, extended by
  what the file acquires and must give back: whether \<^verbatim>\<open>addseqlock\<close> cannot be locked (it is held, or
  \<^verbatim>\<open>sqllite_close\<close> has destroyed it), how many
  statements are not finalized, and the calls made to the registered callbacks.
  SQL texts are C strings, given by their contents without the NUL.
\<close>

section \<open>Values and the SQLite interface\<close>

type_synonym sql_text = "byte list"

datatype db_val =
    DB_NULL
  | DB_INT int
  | DB_BIGINT int
  | DB_DOUBLE "64 word"
  | DB_STRING "byte list"
  | DB_DATETIME "byte list"

record ('e, 's) sqlite =
  sqlite3_open :: "'e \<Rightarrow> sql_text \<Rightarrow> int \<times> 'e"
  sqlite3_close :: "'e \<Rightarrow> 'e"
  sqlite3_prepare_v2 :: "'e \<Rightarrow> bool \<Rightarrow> sql_text \<Rightarrow> int \<times> 's"
  sqlite3_bind :: "'s \<Rightarrow> nat \<Rightarrow> db_val \<Rightarrow> 's"
  sqlite3_step :: "'e \<Rightarrow> 's \<Rightarrow> int \<times> 'e \<times> 's"
  sqlite3_column_type :: "'s \<Rightarrow> nat \<Rightarrow> int"
  sqlite3_column_int :: "'s \<Rightarrow> nat \<Rightarrow> int"
  sqlite3_column_double :: "'s \<Rightarrow> nat \<Rightarrow> 64 word"
  sqlite3_column_text :: "'s \<Rightarrow> nat \<Rightarrow> byte list"
  sqlite3_exec :: "'e \<Rightarrow> bool \<Rightarrow> sql_text \<Rightarrow> int \<times> 'e"

definition SQLITE_OK :: int where "SQLITE_OK = 0"
definition SQLITE_BUSY :: int where "SQLITE_BUSY = 5"
definition SQLITE_ROW :: int where "SQLITE_ROW = 100"
definition SQLITE_DONE :: int where "SQLITE_DONE = 101"
definition SQLITE_NULL :: int where "SQLITE_NULL = 5"

lemmas sqlite_codes = SQLITE_OK_def SQLITE_BUSY_def SQLITE_ROW_def SQLITE_DONE_def SQLITE_NULL_def

section \<open>State\<close>

definition MAX_DB_OBSERVER_NUM :: nat where "MAX_DB_OBSERVER_NUM = 50"

type_synonym observers = "sql_text option list"

text \<open>A registered callback is known by its address only; a call is recorded with its
  arguments.\<close>

type_synonym callback = nat

datatype cb_kind = CB_INSERT | CB_DELETE | CB_UPDATE

record cb_call =
  cb_kind :: cb_kind
  cb_fun :: callback
  cb_sqlstr :: sql_text
  cb_params :: "db_val list"
  cb_updatelocal :: int

record 'e db_globals =
  engine :: 'e
  db_handle :: bool
  insertobserver :: observers
  deleteobserver :: observers
  updateobserver :: observers
  insertcallback :: "callback option"
  deletecallback :: "callback option"
  updatecallback :: "callback option"
  dbwillclose :: bool
  isinsert :: bool
  isupdate :: bool
  isdelete :: bool
  isquery :: bool
  addseqlock :: bool
  live_stmts :: int
  cb_log :: "cb_call list"

definition no_observers :: observers where
  "no_observers = replicate MAX_DB_OBSERVER_NUM None"

text \<open>The static variables at program start: \<^verbatim>\<open>db\<close> is NULL and every table is empty.\<close>

definition db_static_init :: "'e \<Rightarrow> 'e db_globals" where
  "db_static_init e = \<lparr>engine = e, db_handle = False, insertobserver = no_observers,
     deleteobserver = no_observers, updateobserver = no_observers, insertcallback = None,
     deletecallback = None, updatecallback = None, dbwillclose = False, isinsert = False,
     isupdate = False, isdelete = False, isquery = False, addseqlock = False, live_stmts = 0,
     cb_log = []\<rparr>"

section \<open>Opening and closing\<close>

text \<open>\<open>rb\<close> and \<open>wb\<close> say whether the two calls of \<^verbatim>\<open>fopen\<close> succeed. \<^verbatim>\<open>fclose\<close> of the NULL that a
  failed creation returns is undefined.\<close>

definition sqllite_init ::
  "('e, 's) sqlite \<Rightarrow> bool \<Rightarrow> bool \<Rightarrow> sql_text \<Rightarrow> 'e db_globals \<Rightarrow> (int \<times> 'e db_globals) option" where
  "sqllite_init api rb wb dburl g = do {
     res \<leftarrow> (if \<not> rb then (if wb then Some 1 else None) else Some 0);
     let (rc, e) = sqlite3_open api (engine g) dburl;
     let (res, g) =
       (if rc \<noteq> SQLITE_OK
        then (- 1, g\<lparr>engine := sqlite3_close api e, db_handle := False\<rparr>)
        else (res, g\<lparr>engine := e, db_handle := True\<rparr>));
     Some (res, g\<lparr>addseqlock := False, dbwillclose := False\<rparr>) }"

definition lock_seq :: "'e db_globals \<Rightarrow> 'e db_globals option" where
  "lock_seq g = (if addseqlock g then None else Some (g\<lparr>addseqlock := True\<rparr>))"

definition unlock_seq :: "'e db_globals \<Rightarrow> 'e db_globals" where
  "unlock_seq g = g\<lparr>addseqlock := False\<rparr>"

text \<open>The mutex is destroyed at the end: until the next \<^verbatim>\<open>sqllite_init\<close> locking it is undefined.\<close>

definition sqllite_close :: "('e, 's) sqlite \<Rightarrow> 'e db_globals \<Rightarrow> 'e db_globals option" where
  "sqllite_close api g = do {
     g \<leftarrow> lock_seq (g\<lparr>dbwillclose := True\<rparr>);
     let g = unlock_seq (g\<lparr>engine := sqlite3_close api (engine g), db_handle := False\<rparr>);
     Some (g\<lparr>addseqlock := True\<rparr>) }"

section \<open>Binding and stepping\<close>

definition bind_value :: "('e, 's) sqlite \<Rightarrow> 's \<Rightarrow> nat \<Rightarrow> db_val \<Rightarrow> 's" where
  "bind_value api stmt i v =
     (case v of
        DB_NULL \<Rightarrow> sqlite3_bind api stmt i DB_NULL
      | DB_INT n \<Rightarrow> sqlite3_bind api stmt i (DB_INT n)
      | DB_BIGINT n \<Rightarrow> sqlite3_bind api stmt i (DB_BIGINT n)
      | DB_DOUBLE d \<Rightarrow> sqlite3_bind api stmt i (DB_DOUBLE d)
      | DB_STRING s \<Rightarrow> sqlite3_bind api stmt i (DB_STRING s)
      | DB_DATETIME s \<Rightarrow> sqlite3_bind api stmt i (DB_STRING s))"

fun bind_params :: "('e, 's) sqlite \<Rightarrow> 's \<Rightarrow> nat \<Rightarrow> db_val list \<Rightarrow> 's" where
  "bind_params api stmt i [] = stmt"
| "bind_params api stmt i (v # vs) = bind_params api (bind_value api stmt (i + 1) v) (i + 1) vs"

definition prepare :: "('e, 's) sqlite \<Rightarrow> 'e db_globals \<Rightarrow> sql_text \<Rightarrow> (int \<times> 's) \<times> 'e db_globals" where
  "prepare api g sqlcmd =
     (let (rc, stmt) = sqlite3_prepare_v2 api (engine g) (db_handle g) sqlcmd
      in ((rc, stmt), if rc = SQLITE_OK then g\<lparr>live_stmts := live_stmts g + 1\<rparr> else g))"

definition step_stmt :: "('e, 's) sqlite \<Rightarrow> 'e db_globals \<Rightarrow> 's \<Rightarrow> (int \<times> 's) \<times> 'e db_globals" where
  "step_stmt api g stmt =
     (let (res, e, stmt') = sqlite3_step api (engine g) stmt in ((res, stmt'), g\<lparr>engine := e\<rparr>))"

definition finalize :: "'e db_globals \<Rightarrow> 'e db_globals" where
  "finalize g = g\<lparr>live_stmts := live_stmts g - 1\<rparr>"

definition sqllite_query ::
  "('e, 's) sqlite \<Rightarrow> 'e db_globals \<Rightarrow> sql_text \<Rightarrow> db_val list \<Rightarrow> bool \<Rightarrow> int \<times> 's option \<times> 'e db_globals" where
  "sqllite_query api g sqlcmd params stmtout =
     (let g = g\<lparr>isquery := True\<rparr>;
          ((rc, stmt), g) = prepare api g sqlcmd
      in if rc \<noteq> SQLITE_OK then (- 1, None, g\<lparr>isquery := False\<rparr>)
         else
           let stmt = bind_params api stmt 0 params;
               ((res, stmt), g) = step_stmt api g stmt
           in if res \<noteq> SQLITE_ROW
              then (if res = SQLITE_DONE then - 2 else - 1, None, (finalize g)\<lparr>isquery := False\<rparr>)
              else if stmtout then (0, Some stmt, g\<lparr>isquery := False\<rparr>)
              else (0, None, (finalize g)\<lparr>isquery := False\<rparr>))"

section \<open>Callbacks and observers\<close>

definition sqlite_reg_insertcallback :: "'e db_globals \<Rightarrow> callback \<Rightarrow> int \<times> 'e db_globals" where
  "sqlite_reg_insertcallback g f =
     (if insertcallback g \<noteq> None then (- 1, g) else (0, g\<lparr>insertcallback := Some f\<rparr>))"

definition sqlite_reg_deletecallback :: "'e db_globals \<Rightarrow> callback \<Rightarrow> int \<times> 'e db_globals" where
  "sqlite_reg_deletecallback g f =
     (if deletecallback g \<noteq> None then (- 1, g) else (0, g\<lparr>deletecallback := Some f\<rparr>))"

definition sqlite_reg_updatecallback :: "'e db_globals \<Rightarrow> callback \<Rightarrow> int \<times> 'e db_globals" where
  "sqlite_reg_updatecallback g f =
     (if updatecallback g \<noteq> None then (- 1, g) else (0, g\<lparr>updatecallback := Some f\<rparr>))"

text \<open>The three registration functions run the same loop over their table: the first free
  slot takes a copy of the name.\<close>

fun reg_slot :: "observers \<Rightarrow> sql_text \<Rightarrow> observers option" where
  "reg_slot [] tablename = None"
| "reg_slot (None # slots) tablename = Some (Some tablename # slots)"
| "reg_slot (Some t # slots) tablename = map_option ((#) (Some t)) (reg_slot slots tablename)"

definition sqlite_reg_insertobserver :: "'e db_globals \<Rightarrow> sql_text \<Rightarrow> int \<times> 'e db_globals" where
  "sqlite_reg_insertobserver g tablename =
     (case reg_slot (insertobserver g) tablename of
        None \<Rightarrow> (- 1, g) | Some slots \<Rightarrow> (0, g\<lparr>insertobserver := slots\<rparr>))"

definition sqlite_reg_deleteobserver :: "'e db_globals \<Rightarrow> sql_text \<Rightarrow> int \<times> 'e db_globals" where
  "sqlite_reg_deleteobserver g tablename =
     (case reg_slot (deleteobserver g) tablename of
        None \<Rightarrow> (- 1, g) | Some slots \<Rightarrow> (0, g\<lparr>deleteobserver := slots\<rparr>))"

definition sqlite_reg_updateobserver :: "'e db_globals \<Rightarrow> sql_text \<Rightarrow> int \<times> 'e db_globals" where
  "sqlite_reg_updateobserver g tablename =
     (case reg_slot (updateobserver g) tablename of
        None \<Rightarrow> (- 1, g) | Some slots \<Rightarrow> (0, g\<lparr>updateobserver := slots\<rparr>))"

definition sqlite_unreg_allcallback :: "'e db_globals \<Rightarrow> int \<times> 'e db_globals" where
  "sqlite_unreg_allcallback g =
     (0, g\<lparr>insertcallback := None, deletecallback := None, updatecallback := None\<rparr>)"

definition sqlite_unreg_allobserver :: "'e db_globals \<Rightarrow> int \<times> 'e db_globals" where
  "sqlite_unreg_allobserver g =
     (0, g\<lparr>insertobserver := map (\<lambda>_. None) (insertobserver g),
           deleteobserver := map (\<lambda>_. None) (deleteobserver g),
           updateobserver := map (\<lambda>_. None) (updateobserver g)\<rparr>)"

section \<open>Transactions\<close>

definition sqllite_exec :: "('e, 's) sqlite \<Rightarrow> 'e db_globals \<Rightarrow> sql_text \<Rightarrow> int \<times> 'e db_globals" where
  "sqllite_exec api g sql =
     (let (rc, e) = sqlite3_exec api (engine g) (db_handle g) sql in (rc, g\<lparr>engine := e\<rparr>))"

definition sqllite_beginTransaction :: "('e, 's) sqlite \<Rightarrow> 'e db_globals \<Rightarrow> int \<times> 'e db_globals" where
  "sqllite_beginTransaction api g = sqllite_exec api g (bytes ''begin;'')"

definition sqllite_rollbackTransaction :: "('e, 's) sqlite \<Rightarrow> 'e db_globals \<Rightarrow> int \<times> 'e db_globals" where
  "sqllite_rollbackTransaction api g = sqllite_exec api g (bytes ''rollback;'')"

definition sqllite_commitTransaction :: "('e, 's) sqlite \<Rightarrow> 'e db_globals \<Rightarrow> int \<times> 'e db_globals" where
  "sqllite_commitTransaction api g = sqllite_exec api g (bytes ''commit;'')"

section \<open>Inserting\<close>

fun strstr :: "byte list \<Rightarrow> byte list \<Rightarrow> nat option" where
  "strstr [] pat = (if pat = [] then Some 0 else None)"
| "strstr (x # xs) pat =
     (if take (length pat) (x # xs) = pat then Some 0 else map_option Suc (strstr xs pat))"

definition SERVER_NUM_CYC :: int where "SERVER_NUM_CYC = 50"

text \<open>An observed insert gets an explicit id: the column name goes behind the first opening
  parenthesis and its placeholder behind the second one. \<^verbatim>\<open>sqlstr\<close> has 1000 bytes; a text
  without the parentheses is not rewritten.\<close>

definition rewrite_insert :: "sql_text \<Rightarrow> sql_text option option" where
  "rewrite_insert sqlcmd =
     (case strstr sqlcmd (bytes ''('') of
        None \<Rightarrow> Some None
      | Some i \<Rightarrow>
        let before = take (i + 1) sqlcmd; line = drop (i + 1) sqlcmd
        in if length before + 3 \<ge> 1000 then None
           else (case strstr line (bytes ''('') of
                   None \<Rightarrow> Some None
                 | Some j \<Rightarrow>
                   let sqlstr = before @ bytes ''id,'' @ take (j + 1) line @ bytes ''?,'' @ drop (j + 1) line
                   in if length sqlstr \<ge> 1000 then None else Some (Some sqlstr)))"

text \<open>The next id skips the multiples of 50; \<^verbatim>\<open>id+1\<close> overflows at the largest int.\<close>

definition next_id :: "int \<Rightarrow> int option" where
  "next_id seq =
     (if seq = 2147483647 then None
      else if (seq + 1) smod SERVER_NUM_CYC = 0 then Some (seq + 2) else Some (seq + 1))"

text \<open>The test of one observer. The third text the code builds (name, two spaces,
  parenthesis) is never compared: the condition tests the second one twice.\<close>

definition observer_matches :: "sql_text \<Rightarrow> sql_text \<Rightarrow> bool" where
  "observer_matches t sqlcmd \<longleftrightarrow>
     strstr sqlcmd (t @ bytes ''('') \<noteq> None \<or> strstr sqlcmd (t @ bytes '' ('') \<noteq> None \<or>
     strstr sqlcmd (t @ bytes '' ('') \<noteq> None"

text \<open>The body for the first observer that matches: the state, the rewritten text if there is
  one, and \<^verbatim>\<open>id\<close>. A sequence query that fails leaves the loop with \<^verbatim>\<open>id\<close> 0.\<close>

definition seq_query :: "sql_text \<Rightarrow> sql_text" where
  "seq_query t = bytes ''select seq from sqlite_sequence where name='' @ [39] @ t @ [39]"

definition observed_insert ::
  "('e, 's) sqlite \<Rightarrow> 'e db_globals \<Rightarrow> sql_text \<Rightarrow> sql_text \<Rightarrow>
   ('e db_globals \<times> sql_text option \<times> int) option" where
  "observed_insert api g t sqlcmd =
     (let tempstr = seq_query t;
          (restemp, stmt2, g) = sqllite_query api g tempstr [] True
      in case stmt2 of
           Some stmt \<Rightarrow> do {
             newid \<leftarrow> next_id (sqlite3_column_int api stmt 0);
             sqlstr \<leftarrow> rewrite_insert sqlcmd;
             Some (finalize g, sqlstr, newid) }
         | None \<Rightarrow>
           if restemp = - 2 then do {
             sqlstr \<leftarrow> rewrite_insert sqlcmd;
             Some (g, sqlstr, 1) }
           else Some (g, None, 0))"

text \<open>The loop over the table; the scratch arrays for name, blanks and parenthesis have 50
  bytes, so a registered name of more than 46 bytes overflows them.\<close>

fun observer_scan ::
  "('e, 's) sqlite \<Rightarrow> 'e db_globals \<Rightarrow> observers \<Rightarrow> sql_text \<Rightarrow>
   ('e db_globals \<times> sql_text option \<times> int) option" where
  "observer_scan api g [] sqlcmd = Some (g, None, 0)"
| "observer_scan api g (None # slots) sqlcmd = observer_scan api g slots sqlcmd"
| "observer_scan api g (Some t # slots) sqlcmd =
     (if length t + 3 \<ge> 50 then None
      else if observer_matches t sqlcmd then observed_insert api g t sqlcmd
      else observer_scan api g slots sqlcmd)"

definition call_back ::
  "cb_kind \<Rightarrow> callback option \<Rightarrow> sql_text \<Rightarrow> db_val list \<Rightarrow> int \<Rightarrow> 'e db_globals \<Rightarrow> 'e db_globals" where
  "call_back k f sqlcmd params updatelocal g =
     (case f of
        None \<Rightarrow> g
      | Some cb \<Rightarrow> g\<lparr>cb_log := cb_log g @ [\<lparr>cb_kind = k, cb_fun = cb, cb_sqlstr = sqlcmd,
                       cb_params = params, cb_updatelocal = updatelocal\<rparr>]\<rparr>)"

text \<open>The code from label \<^verbatim>\<open>END\<close> on. \<open>rewritten\<close> is the text and the parameters of an insert with
  an explicit id (the code's \<^verbatim>\<open>dbvalue\<close> is not NULL).\<close>

definition insert_end ::
  "'e db_globals \<Rightarrow> bool \<Rightarrow> bool \<Rightarrow> (sql_text \<times> db_val list) \<Rightarrow> int \<Rightarrow> int \<Rightarrow>
   int \<times> int \<times> 'e db_globals" where
  "insert_end g observer haslock shown updatelocal newid =
     (let g = (if observer
               then call_back CB_INSERT (insertcallback g) (fst shown) (snd shown) updatelocal g else g);
          g = (if haslock then unlock_seq g else g)
      in (0, newid, g\<lparr>isinsert := False\<rparr>))"

definition insert_fail :: "'e db_globals \<Rightarrow> bool \<Rightarrow> int \<times> int \<times> 'e db_globals" where
  "insert_fail g haslock =
     (- 1, 0, (if haslock then unlock_seq g else g)\<lparr>isinsert := False\<rparr>)"

text \<open>From the choice of statement and parameters to the end: \<open>rewritten\<close> is the text with an
  explicit id (the code's \<^verbatim>\<open>dbvalue\<close> is not NULL).\<close>

definition insert_stmt ::
  "('e, 's) sqlite \<Rightarrow> 'e db_globals \<Rightarrow> sql_text \<Rightarrow> db_val list \<Rightarrow> bool \<Rightarrow> bool \<Rightarrow> sql_text option \<Rightarrow> int \<Rightarrow>
   int \<times> int \<times> 'e db_globals" where
  "insert_stmt api g sqlcmd params observer haslock rewritten newid =
     (let (sqllocal, paramlocal) =
            (case rewritten of None \<Rightarrow> (sqlcmd, params) | Some sqlstr \<Rightarrow> (sqlstr, DB_INT newid # params));
          id_unless_rewritten = (if rewritten = None then newid else 0);
          ((rc, stmt), g) = prepare api g sqllocal
      in if rc \<noteq> SQLITE_OK then
           (if \<not> db_handle g
            then insert_end g observer haslock (sqlcmd, params) 2 id_unless_rewritten
            else insert_fail g haslock)
         else
           let stmt = bind_params api stmt 0 paramlocal;
               ((res, _), g) = step_stmt api g stmt;
               g = finalize g
           in if res \<noteq> SQLITE_DONE then
                (if res = SQLITE_BUSY
                 then insert_end g observer haslock (sqlcmd, params) 2 id_unless_rewritten
                 else insert_fail g haslock)
              else insert_end g observer haslock (sqllocal, paramlocal) 0 newid)"

text \<open>The result is the return value, what \<^verbatim>\<open>*newid\<close> is set to when the call returns 0 and a
  pointer was passed, and the state.\<close>

definition sqllite_insert ::
  "('e, 's) sqlite \<Rightarrow> 'e db_globals \<Rightarrow> sql_text \<Rightarrow> db_val list \<Rightarrow> bool \<Rightarrow> bool \<Rightarrow>
   (int \<times> int \<times> 'e db_globals) option" where
  "sqllite_insert api g sqlcmd params observer newid_ptr = do {
     let g = g\<lparr>isinsert := True\<rparr>;
     let haslock = ((observer \<and> insertcallback g \<noteq> None) \<or> newid_ptr);
     g \<leftarrow> (if haslock then lock_seq g else Some g);
     (g, rewritten, newid) \<leftarrow>
       (if haslock then observer_scan api g (insertobserver g) sqlcmd else Some (g, None, 0));
     Some (insert_stmt api g sqlcmd params observer haslock rewritten newid) }"

section \<open>Deleting and updating\<close>

text \<open>The common part of the two functions: \<open>None\<close> for the early return of \<open>-1\<close>, otherwise the
  final value of \<^verbatim>\<open>res\<close>. A prepare that fails on a closed database counts as busy.\<close>

definition run_modify ::
  "('e, 's) sqlite \<Rightarrow> 'e db_globals \<Rightarrow> sql_text \<Rightarrow> db_val list \<Rightarrow> int option \<times> 'e db_globals" where
  "run_modify api g sqlcmd params =
     (let ((rc, stmt), g) = prepare api g sqlcmd
      in if rc \<noteq> SQLITE_OK then (if \<not> db_handle g then (Some SQLITE_BUSY, g) else (None, g))
         else
           let stmt = bind_params api stmt 0 params;
               ((res, _), g) = step_stmt api g stmt;
               g = finalize g
           in if res \<noteq> SQLITE_DONE \<and> res \<noteq> SQLITE_BUSY then (None, g) else (Some res, g))"

definition sqllite_delete ::
  "('e, 's) sqlite \<Rightarrow> 'e db_globals \<Rightarrow> sql_text \<Rightarrow> db_val list \<Rightarrow> bool \<Rightarrow> int \<times> 'e db_globals" where
  "sqllite_delete api g sqlcmd params observer =
     (case run_modify api (g\<lparr>isdelete := True\<rparr>) sqlcmd params of
        (None, g) \<Rightarrow> (- 1, g\<lparr>isdelete := False\<rparr>)
      | (Some res, g) \<Rightarrow>
        (0, (if observer
             then call_back CB_DELETE (deletecallback g) sqlcmd params
                    (if res = SQLITE_BUSY then 1 else 0) g
             else g)\<lparr>isdelete := False\<rparr>))"

definition sqllite_update ::
  "('e, 's) sqlite \<Rightarrow> 'e db_globals \<Rightarrow> sql_text \<Rightarrow> db_val list \<Rightarrow> bool \<Rightarrow> int \<times> 'e db_globals" where
  "sqllite_update api g sqlcmd params observer =
     (case run_modify api (g\<lparr>isupdate := True\<rparr>) sqlcmd params of
        (None, g) \<Rightarrow> (- 1, g\<lparr>isupdate := False\<rparr>)
      | (Some res, g) \<Rightarrow>
        (0, (if observer
             then call_back CB_UPDATE (updatecallback g) sqlcmd params
                    (if res = SQLITE_BUSY then 1 else 0) g
             else g)\<lparr>isupdate := False\<rparr>))"

section \<open>Reading a column\<close>

definition PSS_DB_CPY_INT :: "('e, 's) sqlite \<Rightarrow> 's \<Rightarrow> nat \<Rightarrow> int" where
  "PSS_DB_CPY_INT api stmt index =
     (if sqlite3_column_type api stmt index = SQLITE_NULL then - 1
      else sqlite3_column_int api stmt index)"

definition PSS_DB_CPY_INT2 :: "('e, 's) sqlite \<Rightarrow> 's \<Rightarrow> nat \<Rightarrow> int" where
  "PSS_DB_CPY_INT2 api stmt index =
     (if sqlite3_column_type api stmt index = SQLITE_NULL then 0
      else sqlite3_column_int api stmt index)"

text \<open>A double is its 64 bits, as in \<^const>\<open>DB_DOUBLE\<close>; the number 0 has no bit set.\<close>

definition PSS_DB_CPY_DOUBLE :: "('e, 's) sqlite \<Rightarrow> 's \<Rightarrow> nat \<Rightarrow> 64 word" where
  "PSS_DB_CPY_DOUBLE api stmt index =
     (if sqlite3_column_type api stmt index = SQLITE_NULL then 0
      else sqlite3_column_double api stmt index)"

definition PSS_DB_CPY_STR :: "('e, 's) sqlite \<Rightarrow> byte list \<Rightarrow> 's \<Rightarrow> nat \<Rightarrow> byte list option" where
  "PSS_DB_CPY_STR api outstr stmt index =
     (if sqlite3_column_type api stmt index = SQLITE_NULL then strcpy outstr (literal [])
      else strcpy outstr (sqlite3_column_text api stmt index))"

definition PSS_DB_CPY_STR_2 :: "('e, 's) sqlite \<Rightarrow> byte list \<Rightarrow> 's \<Rightarrow> nat \<Rightarrow> byte list option" where
  "PSS_DB_CPY_STR_2 api outstr stmt index =
     (if sqlite3_column_type api stmt index = SQLITE_NULL then strcpy outstr (literal ''-1'')
      else strcpy outstr (sqlite3_column_text api stmt index))"

section \<open>What the layer gives back\<close>

text \<open>The part of the state that only initialisation and the registration functions change.\<close>

definition setup_of :: "'e db_globals \<Rightarrow>
    bool \<times> observers \<times> observers \<times> observers \<times> callback option \<times> callback option \<times> callback option" where
  "setup_of g = (db_handle g, insertobserver g, deleteobserver g, updateobserver g,
     insertcallback g, deletecallback g, updatecallback g)"

lemma setup_of_update [simp]:
  "setup_of (g\<lparr>engine := e\<rparr>) = setup_of g" "setup_of (g\<lparr>live_stmts := n\<rparr>) = setup_of g"
  "setup_of (g\<lparr>addseqlock := b\<rparr>) = setup_of g" "setup_of (g\<lparr>cb_log := l\<rparr>) = setup_of g"
  "setup_of (g\<lparr>isinsert := b\<rparr>) = setup_of g" "setup_of (g\<lparr>isupdate := b\<rparr>) = setup_of g"
  "setup_of (g\<lparr>isdelete := b\<rparr>) = setup_of g" "setup_of (g\<lparr>isquery := b\<rparr>) = setup_of g"
  by (simp_all add: setup_of_def)

lemma setup_of_D:
  "setup_of g' = setup_of g \<Longrightarrow> db_handle g' = db_handle g" 
  "setup_of g' = setup_of g \<Longrightarrow> insertcallback g' = insertcallback g"
  by (simp_all add: setup_of_def)

text \<open>What the operations hold: the lock, the statements, the busy flag of an insert.\<close>

definition held :: "'e db_globals \<Rightarrow> bool \<times> int" where
  "held g = (addseqlock g, live_stmts g)"

lemma held_update [simp]:
  "held (g\<lparr>engine := e\<rparr>) = held g" "held (g\<lparr>cb_log := l\<rparr>) = held g"
  "held (g\<lparr>isinsert := b\<rparr>) = held g" "held (g\<lparr>isupdate := b\<rparr>) = held g"
  "held (g\<lparr>isdelete := b\<rparr>) = held g" "held (g\<lparr>isquery := b\<rparr>) = held g"
  "held (g\<lparr>live_stmts := n\<rparr>) = (addseqlock g, n)"
  "held (g\<lparr>addseqlock := b\<rparr>) = (b, live_stmts g)"
  by (simp_all add: held_def)

lemma prepare_frame:
  "prepare api g sql = ((rc, stmt), g') \<Longrightarrow>
   setup_of g' = setup_of g \<and> engine g' = engine g \<and>
   held g' = (addseqlock g, live_stmts g + (if rc = SQLITE_OK then 1 else 0))"
  by (auto simp: prepare_def held_def split: prod.splits if_splits)

lemma step_stmt_frame:
  "step_stmt api g stmt = ((res, stmt'), g') \<Longrightarrow> setup_of g' = setup_of g \<and> held g' = held g"
  by (auto simp: step_stmt_def split: prod.splits)

lemma finalize_frame [simp]:
  "setup_of (finalize g) = setup_of g" "engine (finalize g) = engine g"
  "held (finalize g) = (addseqlock g, live_stmts g - 1)"
  "addseqlock (finalize g) = addseqlock g" "live_stmts (finalize g) = live_stmts g - 1"
  by (simp_all add: finalize_def)

lemma heldD: "held g = (b, n) \<Longrightarrow> addseqlock g = b" "held g = (b, n) \<Longrightarrow> live_stmts g = n"
  by (simp_all add: held_def)

lemma sqllite_query_frame:
  assumes "sqllite_query api g sql params out = (ret, stmt, g')"
  shows "setup_of g' = setup_of g"
    and "held g' = (addseqlock g, live_stmts g + (if stmt = None then 0 else 1))"
    and "stmt \<noteq> None \<longleftrightarrow> ret = 0 \<and> out"
proof -
  obtain rc st g1 where p: "prepare api (g\<lparr>isquery := True\<rparr>) sql = ((rc, st), g1)"
    by (metis prod.exhaust)
  obtain res st2 g2 where q: "step_stmt api g1 (bind_params api st 0 params) = ((res, st2), g2)"
    by (metis prod.exhaust)
  note frames = prepare_frame [OF p] step_stmt_frame [OF q]
  have g': "g' = (if rc \<noteq> SQLITE_OK then g1 else if res \<noteq> SQLITE_ROW \<or> \<not> out then finalize g2 else g2)
      \<lparr>isquery := False\<rparr>"
    and r: "stmt = (if rc = SQLITE_OK \<and> res = SQLITE_ROW \<and> out then Some st2 else None)"
    and ret: "ret = (if rc \<noteq> SQLITE_OK then - 1 else if res = SQLITE_ROW then 0
        else if res = SQLITE_DONE then - 2 else - 1)"
    using assms by (simp_all add: sqllite_query_def Let_def p q split: if_splits)
  show "setup_of g' = setup_of g" using frames by (simp add: g')
  show "held g' = (addseqlock g, live_stmts g + (if stmt = None then 0 else 1))"
    using frames by (auto simp: g' r dest: heldD split: if_splits)
  show "stmt \<noteq> None \<longleftrightarrow> ret = 0 \<and> out" by (simp add: r ret)
qed

lemma observed_insert_frame:
  assumes "observed_insert api g t sql = Some (g', rewritten, newid)"
  shows "setup_of g' = setup_of g \<and> held g' = held g"
proof -
  obtain ret stmt g1 where q: "sqllite_query api g (seq_query t) [] True = (ret, stmt, g1)"
    by (metis prod.exhaust)
  note frames = sqllite_query_frame [OF q]
  have "g' = (if stmt = None then g1 else finalize g1)"
    using assms by (auto simp: observed_insert_def q Option.bind_eq_Some_conv
        split: option.splits if_splits)
  then show ?thesis
    using frames by (auto simp: held_def split: if_splits)
qed

lemma observer_scan_frame:
  "observer_scan api g slots sql = Some (g', rewritten, newid) \<Longrightarrow>
   setup_of g' = setup_of g \<and> held g' = held g"
  by (induction api g slots sql rule: observer_scan.induct)
    (auto dest: observed_insert_frame split: if_splits)

lemma call_back_frame [simp]:
  "setup_of (call_back k f sql ps u g) = setup_of g" "held (call_back k f sql ps u g) = held g"
  "engine (call_back k f sql ps u g) = engine g"
  by (auto simp: call_back_def split: option.splits)

lemma insert_end_frame:
  "insert_end g observer haslock shown u newid = (r, i, g') \<Longrightarrow>
   r = 0 \<and> i = newid \<and> \<not> isinsert g' \<and> engine g' = engine g \<and>
   held g' = (addseqlock g \<and> \<not> haslock, live_stmts g)"
  by (auto simp: insert_end_def unlock_seq_def held_def Let_def call_back_def
      split: if_splits option.splits)

lemma insert_fail_frame:
  "insert_fail g haslock = (r, i, g') \<Longrightarrow>
   r = - 1 \<and> \<not> isinsert g' \<and> engine g' = engine g \<and>
   held g' = (addseqlock g \<and> \<not> haslock, live_stmts g)"
  by (auto simp: insert_fail_def unlock_seq_def held_def split: if_splits)

lemma run_modify_frame:
  assumes "run_modify api g sql params = (res, g')"
  shows "setup_of g' = setup_of g \<and> held g' = held g"
proof -
  obtain rc st g1 where p: "prepare api g sql = ((rc, st), g1)"
    by (metis prod.exhaust)
  obtain r st2 g2 where q: "step_stmt api g1 (bind_params api st 0 params) = ((r, st2), g2)"
    by (metis prod.exhaust)
  note frames = prepare_frame [OF p] step_stmt_frame [OF q]
  have "g' = (if rc \<noteq> SQLITE_OK then g1 else finalize g2)"
    using assms by (simp add: run_modify_def p q Let_def split: if_splits)
  then show ?thesis
    using frames by (auto simp: held_def split: if_splits)
qed

lemma insert_stmt_frame:
  assumes "insert_stmt api g sql params observer haslock rewritten newid = (r, i, g')"
  shows "(r = 0 \<and> (i = newid \<or> i = 0) \<or> r = - 1) \<and> \<not> isinsert g' \<and>
    held g' = (addseqlock g \<and> \<not> haslock, live_stmts g)"
proof -
  define sl where "sl = (case rewritten of None \<Rightarrow> sql | Some sqlstr \<Rightarrow> sqlstr)"
  define pl where "pl = (case rewritten of None \<Rightarrow> params | Some _ \<Rightarrow> DB_INT newid # params)"
  have local: "(case rewritten of None \<Rightarrow> (sql, params) | Some sqlstr \<Rightarrow> (sqlstr, DB_INT newid # params)) = (sl, pl)"
    by (simp add: sl_def pl_def split: option.splits)
  obtain rc st g1 where p: "prepare api g sl = ((rc, st), g1)"
    by (metis prod.exhaust)
  obtain res st2 g2 where q: "step_stmt api g1 (bind_params api st 0 pl) = ((res, st2), g2)"
    by (metis prod.exhaust)
  define g3 where "g3 = (if rc \<noteq> SQLITE_OK then g1 else finalize g2)"
  have "held g3 = held g"
    using prepare_frame [OF p] step_stmt_frame [OF q] by (auto simp: g3_def held_def)
  moreover have "(\<exists>shown u n. insert_end g3 observer haslock shown u n = (r, i, g') \<and> (n = newid \<or> n = 0)) \<or>
      insert_fail g3 haslock = (r, i, g')"
    using assms by (auto simp: insert_stmt_def local p q Let_def g3_def split: if_splits)
  ultimately show ?thesis
    by (auto simp: held_def dest!: insert_end_frame insert_fail_frame)
qed

lemma next_id_skips: "next_id seq = Some n \<Longrightarrow> n mod 50 \<noteq> 0 \<and> seq < n \<and> n \<le> seq + 2"
proof -
  assume "next_id seq = Some n"
  moreover have "x smod (50::int) = 0 \<longleftrightarrow> x mod 50 = 0" for x
    by (auto simp: signed_modulo_int_def mod_eq_0_iff_dvd sgn_0_0)
  ultimately show ?thesis
    by (auto simp: next_id_def SERVER_NUM_CYC_def split: if_splits) presburger+
qed

lemma observed_insert_id:
  assumes "observed_insert api g t sql = Some (g', Some sqlstr, newid)"
  shows "newid mod 50 \<noteq> 0 \<and> rewrite_insert sql = Some (Some sqlstr)"
proof -
  obtain ret stmt g1 where q: "sqllite_query api g (seq_query t) [] True = (ret, stmt, g1)"
    by (metis prod.exhaust)
  show ?thesis
    using assms
    by (auto simp: observed_insert_def q Option.bind_eq_Some_conv dest: next_id_skips
        split: option.splits if_splits)
qed

lemma observer_scan_id:
  "observer_scan api g slots sql = Some (g', Some sqlstr, newid) \<Longrightarrow>
   newid mod 50 \<noteq> 0 \<and> rewrite_insert sql = Some (Some sqlstr)"
  by (induction api g slots sql rule: observer_scan.induct)
    (auto dest: observed_insert_id split: if_splits)

subsection \<open>The observer tables\<close>

text \<open>The three tables are used alike: \<open>reg\<close> enters a name, \<open>tab\<close> is the table.\<close>

fun register_all :: "('g \<Rightarrow> 't \<Rightarrow> int \<times> 'g) \<Rightarrow> 'g \<Rightarrow> 't list \<Rightarrow> int list \<times> 'g" where
  "register_all reg g [] = ([], g)"
| "register_all reg g (t # ts) =
     (let (r, g1) = reg g t; (rs, g2) = register_all reg g1 ts in (r # rs, g2))"

locale observer_table =
  fixes reg :: "'e db_globals \<Rightarrow> sql_text \<Rightarrow> int \<times> 'e db_globals"
    and tab :: "'e db_globals \<Rightarrow> observers"
  assumes reg_full: "None \<notin> set (tab g) \<Longrightarrow> reg g t = (- 1, g)"
    and reg_free: "None \<in> set (tab g) \<Longrightarrow>
      \<exists>pre post. tab g = pre @ None # post \<and> None \<notin> set pre \<and> fst (reg g t) = 0 \<and>
        tab (snd (reg g t)) = pre @ Some t # post"
begin

lemma reg_result: "fst (reg g t) = (if None \<in> set (tab g) then 0 else - 1)"
  using reg_full [of g t] reg_free [of g t] by auto

lemma reg_length: "length (tab (snd (reg g t))) = length (tab g)"
  using reg_full [of g t] reg_free [of g t] by (cases "None \<in> set (tab g)") auto

lemma reg_set: "fst (reg g t) = 0 \<Longrightarrow>
  {x. Some x \<in> set (tab (snd (reg g t)))} = insert t {x. Some x \<in> set (tab g)}"
  using reg_result [of g t] reg_free [of g t] by (auto split: if_splits)

lemma reg_free_slots:
  "fst (reg g t) = 0 \<Longrightarrow> count_list (tab (snd (reg g t))) None + 1 = count_list (tab g) None"
  using reg_result [of g t] reg_free [of g t] by (auto split: if_splits)

text \<open>A table of n free slots takes n names and refuses every later one.\<close>

lemma register_all_results:
  "fst (register_all reg g ts) =
     map (\<lambda>i. if i < count_list (tab g) None then 0 else - 1) [0..<length ts]"
proof (induction ts arbitrary: g)
  case (Cons t ts)
  obtain r g1 where r: "reg g t = (r, g1)" by (cases "reg g t")
  have free: "None \<in> set (tab g) \<longleftrightarrow> 0 < count_list (tab g) None"
    by (metis count_list_0_iff gr0I less_numeral_extra(3))
  have n: "count_list (tab g1) None = count_list (tab g) None - 1"
    using reg_free_slots [of g t] reg_result [of g t] reg_full [of g t] r free by (auto split: if_splits)
  have "fst (register_all reg g (t # ts)) = r # fst (register_all reg g1 ts)"
    by (simp add: r split: prod.splits)
  also have "fst (register_all reg g1 ts) =
      map (\<lambda>i. if Suc i < count_list (tab g) None then 0 else - 1) [0..<length ts]"
    using Cons.IH [of g1] n by (auto intro!: map_cong)
  also have "r = (if 0 < count_list (tab g) None then 0 else - 1)"
    using reg_result [of g t] r free by simp
  finally show ?case
    by (simp add: map_upt_Suc del: upt_Suc)
qed simp

end

lemma reg_slot_None_iff: "reg_slot slots t = None \<longleftrightarrow> None \<notin> set slots"
  by (induction slots t rule: reg_slot.induct) auto

lemma reg_slot_SomeD:
  "reg_slot slots t = Some slots' \<Longrightarrow>
   \<exists>pre post. slots = pre @ None # post \<and> None \<notin> set pre \<and> slots' = pre @ Some t # post"
proof (induction slots t arbitrary: slots' rule: reg_slot.induct)
  case (2 slots tablename)
  then show ?case by (intro exI [of _ "[]"] exI [of _ slots]) auto
next
  case (3 t slots tablename)
  then obtain s where s: "reg_slot slots tablename = Some s" and "slots' = Some t # s" by auto
  moreover obtain pre post where "slots = pre @ None # post" "None \<notin> set pre"
    "s = pre @ Some tablename # post" using "3.IH" [OF s] by blast
  ultimately show ?case by (intro exI [of _ "Some t # pre"] exI [of _ post]) auto
qed simp

lemmas reg_slot_facts = reg_slot_None_iff reg_slot_SomeD

lemma reg_slot_obtain:
  assumes "None \<in> set slots"
  obtains pre post where "slots = pre @ None # post" "None \<notin> set pre"
    "reg_slot slots t = Some (pre @ Some t # post)"
  using assms reg_slot_None_iff [of slots t] reg_slot_SomeD [of slots t]
  by (cases "reg_slot slots t") auto

interpretation insert_table: observer_table sqlite_reg_insertobserver insertobserver
proof unfold_locales
  fix g :: "'e db_globals" and t
  show "None \<notin> set (insertobserver g) \<Longrightarrow> sqlite_reg_insertobserver g t = (- 1, g)"
    by (simp add: sqlite_reg_insertobserver_def reg_slot_None_iff [THEN iffD2])
  show "\<exists>pre post. insertobserver g = pre @ None # post \<and> None \<notin> set pre \<and>
      fst (sqlite_reg_insertobserver g t) = 0 \<and>
      insertobserver (snd (sqlite_reg_insertobserver g t)) = pre @ Some t # post"
    if "None \<in> set (insertobserver g)"
    using that by (rule reg_slot_obtain [of _ t]) (auto simp: sqlite_reg_insertobserver_def)
qed

interpretation delete_table: observer_table sqlite_reg_deleteobserver deleteobserver
proof unfold_locales
  fix g :: "'e db_globals" and t
  show "None \<notin> set (deleteobserver g) \<Longrightarrow> sqlite_reg_deleteobserver g t = (- 1, g)"
    by (simp add: sqlite_reg_deleteobserver_def reg_slot_None_iff [THEN iffD2])
  show "\<exists>pre post. deleteobserver g = pre @ None # post \<and> None \<notin> set pre \<and>
      fst (sqlite_reg_deleteobserver g t) = 0 \<and>
      deleteobserver (snd (sqlite_reg_deleteobserver g t)) = pre @ Some t # post"
    if "None \<in> set (deleteobserver g)"
    using that by (rule reg_slot_obtain [of _ t]) (auto simp: sqlite_reg_deleteobserver_def)
qed

interpretation update_table: observer_table sqlite_reg_updateobserver updateobserver
proof unfold_locales
  fix g :: "'e db_globals" and t
  show "None \<notin> set (updateobserver g) \<Longrightarrow> sqlite_reg_updateobserver g t = (- 1, g)"
    by (simp add: sqlite_reg_updateobserver_def reg_slot_None_iff [THEN iffD2])
  show "\<exists>pre post. updateobserver g = pre @ None # post \<and> None \<notin> set pre \<and>
      fst (sqlite_reg_updateobserver g t) = 0 \<and>
      updateobserver (snd (sqlite_reg_updateobserver g t)) = pre @ Some t # post"
    if "None \<in> set (updateobserver g)"
    using that by (rule reg_slot_obtain [of _ t]) (auto simp: sqlite_reg_updateobserver_def)
qed

lemma insert_end_setup: "insert_end g obs haslock shown u n = (r, i, g') \<Longrightarrow> setup_of g' = setup_of g"
  by (auto simp: insert_end_def unlock_seq_def Let_def)

lemma insert_fail_setup: "insert_fail g haslock = (r, i, g') \<Longrightarrow> setup_of g' = setup_of g"
  by (auto simp: insert_fail_def unlock_seq_def)

lemma insert_stmt_setup:
  assumes "insert_stmt api g sql params observer haslock rewritten newid = (r, i, g')"
  shows "setup_of g' = setup_of g"
proof -
  obtain sl pl where local: "(case rewritten of None \<Rightarrow> (sql, params) | Some sqlstr \<Rightarrow> (sqlstr, DB_INT newid # params)) = (sl, pl)"
    by (metis prod.exhaust)
  obtain rc st g1 where p: "prepare api g sl = ((rc, st), g1)"
    by (metis prod.exhaust)
  obtain res st2 g2 where q: "step_stmt api g1 (bind_params api st 0 pl) = ((res, st2), g2)"
    by (metis prod.exhaust)
  have "setup_of g1 = setup_of g" "setup_of (finalize g2) = setup_of g"
    using prepare_frame [OF p] step_stmt_frame [OF q] by simp_all
  then show ?thesis
    using assms by (auto simp: insert_stmt_def local p q Let_def split: if_splits
        dest!: insert_end_setup insert_fail_setup)
qed

lemma sqllite_insert_setup:
  assumes "sqllite_insert api g sql params observer ptr = Some (r, i, g')"
  shows "setup_of g' = setup_of g"
  using assms
  by (auto simp: sqllite_insert_def lock_seq_def Let_def Option.bind_eq_Some_conv
      dest!: insert_stmt_setup observer_scan_frame split: if_splits)

section \<open>Runs in which SQLite answers as expected\<close>

lemma sqllite_query_row:
  assumes "sqlite3_prepare_v2 api (engine g) (db_handle g) sql = (SQLITE_OK, st)"
    and "sqlite3_step api (engine g) (bind_params api st 0 params) = (SQLITE_ROW, e', st')"
  shows "\<exists>g'. sqllite_query api g sql params True = (0, Some st', g') \<and> engine g' = e' \<and> setup_of g' = setup_of g"
  using assms by (simp add: sqllite_query_def prepare_def step_stmt_def Let_def)

lemma sqllite_query_done:
  assumes "sqlite3_prepare_v2 api (engine g) (db_handle g) sql = (SQLITE_OK, st)"
    and "sqlite3_step api (engine g) (bind_params api st 0 params) = (SQLITE_DONE, e', st')"
  shows "\<exists>g'. sqllite_query api g sql params out = (- 2, None, g') \<and> engine g' = e' \<and> setup_of g' = setup_of g"
  using assms by (simp add: sqllite_query_def prepare_def step_stmt_def Let_def sqlite_codes)

lemma sqllite_query_error:
  assumes "sqlite3_prepare_v2 api (engine g) (db_handle g) sql = (rc, st)" and "rc \<noteq> SQLITE_OK"
  shows "\<exists>g'. sqllite_query api g sql params out = (- 1, None, g') \<and> engine g' = engine g \<and> setup_of g' = setup_of g"
  using assms by (simp add: sqllite_query_def prepare_def Let_def)

lemma sqllite_update_done:
  assumes "sqlite3_prepare_v2 api (engine g) (db_handle g) sql = (SQLITE_OK, st)"
    and "sqlite3_step api (engine g) (bind_params api st 0 params) = (SQLITE_DONE, e', st')"
  shows "\<exists>g'. sqllite_update api g sql params obs = (0, g') \<and> engine g' = e' \<and> setup_of g' = setup_of g"
  using assms by (simp add: sqllite_update_def run_modify_def prepare_def step_stmt_def Let_def sqlite_codes)

lemma sqllite_insert_done:
  assumes "sqlite3_prepare_v2 api (engine g) (db_handle g) sql = (SQLITE_OK, st)"
    and "sqlite3_step api (engine g) (bind_params api st 0 params) = (SQLITE_DONE, e', st')"
    and "insertcallback g = None"
  shows "\<exists>i g'. sqllite_insert api g sql params obs False = Some (0, i, g') \<and> engine g' = e' \<and> setup_of g' = setup_of g"
  using assms by (simp add: sqllite_insert_def insert_stmt_def insert_end_def prepare_def step_stmt_def
      Let_def sqlite_codes)

section \<open>Properties of the database layer\<close>

lemma sqllite_insert_split:
  assumes "sqllite_insert api g sql params observer ptr = Some (r, i, g')" and "\<not> addseqlock g"
  obtains g1 rewritten newid haslock where
    "insert_stmt api g1 sql params observer haslock rewritten newid = (r, i, g')"
    "held g1 = (haslock, live_stmts g)"
    "(rewritten = None \<and> newid = 0) \<or>
     observer_scan api (g\<lparr>isinsert := True, addseqlock := True\<rparr>) (insertobserver g) sql =
       Some (g1, rewritten, newid)"
proof (cases "(observer \<and> insertcallback g \<noteq> None) \<or> ptr")
  case True
  with assms obtain g1 rewritten newid where
    scan: "observer_scan api (g\<lparr>isinsert := True, addseqlock := True\<rparr>) (insertobserver g) sql =
       Some (g1, rewritten, newid)"
    and stmt: "insert_stmt api g1 sql params observer True rewritten newid = (r, i, g')"
    by (auto simp: sqllite_insert_def lock_seq_def Let_def Option.bind_eq_Some_conv split: if_splits)
  from observer_scan_frame [OF scan] have "held g1 = (True, live_stmts g)"
    by (simp add: held_def)
  with scan stmt show ?thesis using that by blast
next
  case False
  with assms have "insert_stmt api (g\<lparr>isinsert := True\<rparr>) sql params observer False None 0 = (r, i, g')"
    by (auto simp: sqllite_insert_def Let_def)
  moreover have "held (g\<lparr>isinsert := True\<rparr>) = (False, live_stmts g)"
    using assms(2) by (simp add: held_def)
  ultimately show ?thesis using that by blast
qed

lemma observer_scan_newid:
  "observer_scan api g slots sql = Some (g', rewritten, newid) \<Longrightarrow> newid = 0 \<or> newid mod 50 \<noteq> 0"
proof (induction api g slots sql rule: observer_scan.induct)
  case (3 api g t slots sqlcmd)
  obtain ret stmt g1 where q: "sqllite_query api g (seq_query t) [] True = (ret, stmt, g1)"
    by (metis prod.exhaust)
  have "newid = 0 \<or> newid mod 50 \<noteq> 0" if "observed_insert api g t sqlcmd = Some (g', rewritten, newid)"
    using that
    by (auto simp: observed_insert_def q Option.bind_eq_Some_conv dest: next_id_skips
        split: option.splits if_splits)
  with 3 show ?case by (auto split: if_splits)
qed auto

text \<open>C19. Whatever SQLite answers, a call of \<^verbatim>\<open>sqllite_insert\<close> that returns has released the lock
  it took, has finalized every statement it prepared, and has cleared its busy flag.\<close>

theorem sqllite_insert_releases:
  assumes "sqllite_insert api g sql params observer ptr = Some (r, i, g')" and "\<not> addseqlock g"
  shows "\<not> addseqlock g' \<and> live_stmts g' = live_stmts g \<and> \<not> isinsert g' \<and> (r = 0 \<or> r = - 1)"
proof -
  obtain g1 rewritten newid haslock where
    stmt: "insert_stmt api g1 sql params observer haslock rewritten newid = (r, i, g')"
    and "held g1 = (haslock, live_stmts g)"
    using sqllite_insert_split [OF assms] by metis
  with insert_stmt_frame [OF stmt] show ?thesis by (auto simp: held_def)
qed

text \<open>An engine whose answers are fixed, to run the layer on.\<close>

definition fixed_engine :: "int \<Rightarrow> int \<Rightarrow> int \<Rightarrow> (nat, unit) sqlite" where
  "fixed_engine rc res seq = \<lparr>sqlite3_open = (\<lambda>e _. (0, e)), sqlite3_close = (\<lambda>e. e),
     sqlite3_prepare_v2 = (\<lambda>_ h _. (if h then rc else 21, ())), sqlite3_bind = (\<lambda>s _ _. s),
     sqlite3_step = (\<lambda>e s. (res, e + 1, s)), sqlite3_column_type = (\<lambda>_ _. 1),
     sqlite3_column_int = (\<lambda>_ _. seq), sqlite3_column_double = (\<lambda>_ _. 0), sqlite3_column_text = (\<lambda>_ _. [0]),
     sqlite3_exec = (\<lambda>e _ _. (0, e))\<rparr>"

theorem sqllite_insert_releases_witness:
  "\<exists>g'. sqllite_insert (fixed_engine 0 101 0) (db_static_init 0) (bytes ''insert'') [] True True =
     Some (0, 0, g') \<and> \<not> addseqlock g' \<and> live_stmts g' = 0"
proof -
  have free: "observer_scan api g (replicate n None) sql = Some (g, None, 0)" for api g n sql
    by (induction n) simp_all
  obtain g' where g': "sqllite_insert (fixed_engine 0 101 0) (db_static_init (0 :: nat))
      (bytes ''insert'') [] True True = Some (0, 0, g')"
    by (simp add: sqllite_insert_def lock_seq_def db_static_init_def no_observers_def free
        insert_stmt_def fixed_engine_def prepare_def step_stmt_def finalize_def insert_end_def
        sqlite_codes)
  from sqllite_insert_releases [OF this] g' show ?thesis
    by (simp add: db_static_init_def)
qed

text \<open>C20. An id that \<^verbatim>\<open>sqllite_insert\<close> assigns itself is never a multiple of 50.\<close>

theorem sqllite_insert_newid:
  assumes "sqllite_insert api g sql params observer ptr = Some (r, i, g')" and "\<not> addseqlock g"
    and "r = 0"
  shows "i = 0 \<or> i mod SERVER_NUM_CYC \<noteq> 0"
proof -
  obtain g1 rewritten newid haslock where
    stmt: "insert_stmt api g1 sql params observer haslock rewritten newid = (r, i, g')"
    and scan: "(rewritten = None \<and> newid = 0) \<or>
     observer_scan api (g\<lparr>isinsert := True, addseqlock := True\<rparr>) (insertobserver g) sql =
       Some (g1, rewritten, newid)"
    using sqllite_insert_split [OF assms(1,2)] by metis
  from scan have "newid = 0 \<or> newid mod 50 \<noteq> 0" using observer_scan_newid by metis
  with insert_stmt_frame [OF stmt] assms(3) show ?thesis by (auto simp: SERVER_NUM_CYC_def)
qed

theorem sqllite_insert_newid_witness:
  "\<exists>i g'. sqllite_insert (fixed_engine 0 101 0)
       ((snd (sqlite_reg_insertobserver (db_static_init 0) (bytes ''t'')))\<lparr>db_handle := True\<rparr>)
       (bytes ''insert into t(a) values(?)'') [DB_INT 7] False True = Some (0, i, g') \<and>
     i = 1 \<and> i mod SERVER_NUM_CYC \<noteq> 0"
proof -
  let ?g = "(snd (sqlite_reg_insertobserver (db_static_init (0 :: nat)) (bytes ''t'')))\<lparr>db_handle := True\<rparr>"
  let ?run = "sqllite_insert (fixed_engine 0 101 0) ?g (bytes ''insert into t(a) values(?)'')
      [DB_INT 7] False True"
  have "case ?run of Some (r, i, g') \<Rightarrow> r = 0 \<and> i = 1 | None \<Rightarrow> False"
    by code_simp
  then obtain i g' where run: "?run = Some (0, i, g')" and i: "i = 1"
    by (auto split: option.splits)
  moreover have "\<not> addseqlock ?g" by code_simp
  ultimately show ?thesis using sqllite_insert_newid [OF run] by auto
qed

text \<open>A fresh table of observers accepts exactly \<^verbatim>\<open>MAX_DB_OBSERVER_NUM\<close> registrations: of any
  sequence of names the first 50 calls return 0 and all later ones -1, for each of the three
  tables.\<close>

lemma observer_capacity:
  "fst (register_all sqlite_reg_insertobserver (db_static_init e) ts) =
     map (\<lambda>i. if i < MAX_DB_OBSERVER_NUM then 0 else - 1) [0..<length ts] \<and>
   fst (register_all sqlite_reg_deleteobserver (db_static_init e) ts) =
     map (\<lambda>i. if i < MAX_DB_OBSERVER_NUM then 0 else - 1) [0..<length ts] \<and>
   fst (register_all sqlite_reg_updateobserver (db_static_init e) ts) =
     map (\<lambda>i. if i < MAX_DB_OBSERVER_NUM then 0 else - 1) [0..<length ts]"
proof -
  have "count_list (replicate n x) x = n" for n and x :: "sql_text option"
    by (induction n) auto
  then show ?thesis
    by (simp add: insert_table.register_all_results delete_table.register_all_results
        update_table.register_all_results db_static_init_def no_observers_def)
qed

lemma strstr_singleton: "c \<notin> set a \<Longrightarrow> strstr (a @ c # b) [c] = Some (length a)"
  by (induction a) auto

text \<open>C21. The rewriting of an observed insert puts the column id in front of the column list and
  its placeholder in front of the value list, and nothing else changes, whenever the result
  fits the 1000 byte buffer; a longer one overflows the buffer.\<close>

theorem rewrite_insert_spec:
  assumes "40 \<notin> set a" and "40 \<notin> set b"
  shows "rewrite_insert (a @ bytes ''('' @ b @ bytes ''('' @ c) =
    (if length a + length b + length c + 7 < 1000
     then Some (Some (a @ bytes ''(id,'' @ b @ bytes ''(?,'' @ c)) else None)"
proof -
  have p: "bytes ''('' = [40]" "bytes ''id,'' = [105, 100, 44]" "bytes ''?,'' = [63, 44]"
    "bytes ''(id,'' = [40, 105, 100, 44]" "bytes ''(?,'' = [40, 63, 44]"
    by (simp_all add: bytes_def)
  show ?thesis
    using assms by (simp add: rewrite_insert_def p strstr_singleton Let_def)
qed

theorem rewrite_insert_spec_witness:
  "rewrite_insert (bytes ''insert into t(a) values(?)'') =
     Some (Some (bytes ''insert into t(id,a) values(?,?)''))"
proof -
  have a: "40 \<notin> set (bytes ''insert into t'')" and b: "40 \<notin> set (bytes ''a) values'')"
    by (simp_all add: bytes_def)
  show ?thesis
    using rewrite_insert_spec [OF a b, of "bytes ''?)''"] by (simp add: bytes_def)
qed

text \<open>\<^verbatim>\<open>sqllite_update\<close> keeps the lock and the statement count balanced and reports 0 exactly in
  three cases: the statement ran, the database was busy, or the database is closed; in the
  last case the engine is not touched, so a caller cannot tell from the result that nothing
  was written.\<close>

lemma sqllite_update_result:
  assumes "sqllite_update api g sql params observer = (r, g')"
    and "sqlite3_prepare_v2 api (engine g) (db_handle g) sql = (rc, stmt)"
  shows "held g' = held g \<and>
    (r = 0 \<longleftrightarrow>
      (if rc = SQLITE_OK
       then fst (sqlite3_step api (engine g) (bind_params api stmt 0 params)) \<in> {SQLITE_DONE, SQLITE_BUSY}
       else \<not> db_handle g)) \<and>
    (rc \<noteq> SQLITE_OK \<longrightarrow> engine g' = engine g)"
proof -
  obtain res g1 where m: "run_modify api (g\<lparr>isupdate := True\<rparr>) sql params = (res, g1)"
    by (metis prod.exhaust)
  have frame: "held g1 = held g"
    using run_modify_frame [OF m] by simp
  have g': "(r = 0 \<longleftrightarrow> res \<noteq> None) \<and> engine g' = engine g1 \<and> held g' = held g1"
    using assms(1) by (auto simp: sqllite_update_def m call_back_def held_def
        split: option.splits if_splits)
  have "(res \<noteq> None \<longleftrightarrow>
      (if rc = SQLITE_OK
       then fst (sqlite3_step api (engine g) (bind_params api stmt 0 params)) \<in> {SQLITE_DONE, SQLITE_BUSY}
       else \<not> db_handle g)) \<and> (rc \<noteq> SQLITE_OK \<longrightarrow> engine g1 = engine g)"
    using m assms(2)
    by (auto simp: run_modify_def prepare_def step_stmt_def Let_def split: if_splits prod.splits)
  with g' frame show ?thesis by metis
qed

lemma sqllite_update_result_example:
  "fst (sqllite_update (fixed_engine 0 101 0) (db_static_init 0) (bytes ''update'') [] True) = 0 \<and>
   engine (snd (sqllite_update (fixed_engine 0 101 0) (db_static_init 0) (bytes ''update'') [] True)) = 0"
proof -
  obtain r g' where run: "sqllite_update (fixed_engine 0 101 0) (db_static_init (0 :: nat))
      (bytes ''update'') [] True = (r, g')" by (metis prod.exhaust)
  have p: "sqlite3_prepare_v2 (fixed_engine 0 101 0) (engine (db_static_init (0 :: nat)))
      (db_handle (db_static_init (0 :: nat))) (bytes ''update'') = (21, ())"
    by (simp add: fixed_engine_def db_static_init_def)
  from sqllite_update_result [OF run p] run show ?thesis
    by (simp add: sqlite_codes db_static_init_def)
qed

text \<open>After \<^verbatim>\<open>sqllite_close\<close> the layer can be opened again, but until then a second close and every insert
  that has to lock are undefined, while an update still reports success.\<close>

lemma closed_database:
  assumes "sqllite_close api g = Some g'"
  shows "sqllite_close api g' = None"
    and "sqllite_insert api g' sql params observer True = None"
    and "sqlite3_prepare_v2 api (engine g') False sql = (rc, stmt) \<Longrightarrow> rc \<noteq> SQLITE_OK \<Longrightarrow>
      fst (sqllite_update api g' sql params observer) = 0"
    and "sqlite3_open api (engine g') url = (SQLITE_OK, e) \<Longrightarrow>
      \<exists>g2. sqllite_init api True wb url g' = Some (0, g2) \<and> db_handle g2 \<and> lock_seq g2 \<noteq> None"
proof -
  have g': "addseqlock g'" "\<not> db_handle g'"
    using assms by (auto simp: sqllite_close_def Let_def Option.bind_eq_Some_conv unlock_seq_def)
  then show "sqllite_close api g' = None" "sqllite_insert api g' sql params observer True = None"
    by (simp_all add: sqllite_close_def sqllite_insert_def lock_seq_def Let_def)
  show "fst (sqllite_update api g' sql params observer) = 0"
    if "sqlite3_prepare_v2 api (engine g') False sql = (rc, stmt)" "rc \<noteq> SQLITE_OK"
    using that g' by (simp add: sqllite_update_def run_modify_def prepare_def)
  show "\<exists>g2. sqllite_init api True wb url g' = Some (0, g2) \<and> db_handle g2 \<and> lock_seq g2 \<noteq> None"
    if "sqlite3_open api (engine g') url = (SQLITE_OK, e)"
    using that by (simp add: sqllite_init_def lock_seq_def Let_def)
qed

end
