(* ===== verification/P2P_Server.thy ===== *)
theory P2P_Server
  imports Comm_Message FTC_Sock FTC_Peer Db_Sqlite
begin

text \<open>
  The rendezvous server \<^verbatim>\<open>P2P_Server_src/server.cpp\<close>.

  The record \<open>server\<close> is the state of the thread \<^verbatim>\<open>P2PSrvProc\<close> and of the globals it uses: its
  local variables keep their values from one datagram to the next, and the handlers
  depend on that. There is one definition per message of the dispatch switch; a handler
  returns how control goes on, the new state and the datagrams it hands to the kernel, and
  \<open>None\<close> where it has no result (undefined behaviour, or a loop that does not end). The code
  under \<^verbatim>\<open>#if 0\<close> is not compiled and not modelled.
\<close>

section \<open>State\<close>

definition SERVER_PORT :: u16 where "SERVER_PORT = 8888"

definition P2P_DB_NAME :: sql_text where "P2P_DB_NAME = bytes ''p2pinfo.db''"

text \<open>\<open>rx\<close> holds the results the kernel gives to the next receive attempts.\<close>

record 'e server =
  sdb :: "'e db_globals"
  gRunning :: bool
  sockSrv :: int
  peer_heap :: peer_store
  ClientList :: PeerList
  stMsg :: "byte list"
  fromAddr :: sockaddr_in
  buf :: "byte list"
  test_sql :: "byte list"
  ptPeer :: T_PeerInfo
  rx :: "recv_result list"

text \<open>How control leaves a handler: the next round of the loop, \<^verbatim>\<open>pthread_exit\<close> after the loop, or
  the \<^verbatim>\<open>return -1\<close> that ends the thread.\<close>

datatype flow = Next | Thread_Exit | Thread_Return

type_synonym 'e outcome = "(flow \<times> 'e server \<times> datagram list) option"

text \<open>Values of objects that the code reads before it writes them.\<close>

record indeterminate =
  indet_port :: u16
  indet_addr :: u32
  indet_chars :: "nat \<Rightarrow> byte list"
  indet_ptr :: "byte list"

definition msg_of :: "'e server \<Rightarrow> T_Msg" where
  "msg_of s = get_Msg (stMsg s)"

definition param_of :: "'e server \<Rightarrow> byte list" where
  "param_of s = aucParam (msg_of s)"

text \<open>\<^verbatim>\<open>strcpy\<close> or \<^verbatim>\<open>sprintf\<close> of a text into the 256 bytes of \<^verbatim>\<open>test_sql\<close>.\<close>

definition set_sql :: "'e server \<Rightarrow> sql_text \<Rightarrow> 'e server option" where
  "set_sql s t =
     (if length t < length (test_sql s) then Some (s\<lparr>test_sql := overwrite (test_sql s) (t @ [0])\<rparr>)
      else None)"

text \<open>A parameter of type \<^verbatim>\<open>DB_STRING\<close> points to a char array, which SQLite reads up to its NUL.
  The text is taken when the call is made, so an array without a NUL counts as undefined even where
  the statement fails to compile and the parameter is not looked at.\<close>

definition db_string :: "byte list \<Rightarrow> db_val option" where
  "db_string a = map_option DB_STRING (c_str a)"

section \<open>SQL texts\<close>

definition table_create_sql :: "sql_text list" where
  "table_create_sql =
     [bytes ''create table p2p_peerinfo(id integer primary key autoincrement,username varchar(48),''
        @ bytes ''pubipaddr varchar(16),pubport integer,lanipaddr varchar(16),lanport integer,''
        @ bytes ''devicetype integer,loginstatus integer)'',
      bytes ''create table p2p_dbversion(version integer)'']"

definition sql_select_user :: "byte list \<Rightarrow> sql_text" where
  "sql_select_user n =
     bytes ''select id,loginstatus from p2p_peerinfo where username='' @ [34] @ n @ [34, 59]"

definition sql_update_login :: sql_text where
  "sql_update_login =
     bytes ''update p2p_peerinfo set pubipaddr=?,pubport=?,lanipaddr=?,lanport=?,devicetype=?,''
       @ bytes ''loginstatus=1 where username=? ;''"

definition sql_insert_login :: sql_text where
  "sql_insert_login =
     bytes ''insert into p2p_peerinfo (pubipaddr,pubport,lanipaddr,lanport,devicetype,''
       @ bytes ''loginstatus,username) values(?,?,?,?,?,1,?) ;''"

definition sql_update_logout :: sql_text where
  "sql_update_logout = bytes ''update p2p_peerinfo set loginstatus=0 where username=? ;''"

definition sql_get_peers :: sql_text where
  "sql_get_peers =
     bytes ''select id,pubipaddr,pubport,lanipaddr,lanport,username from p2p_peerinfo ''
       @ bytes ''where devicetype=1,loginstatus=1;''"

definition sql_insert_version :: sql_text where
  "sql_insert_version = bytes ''insert into p2p_dbversion(version) values(1);''"

section \<open>Set-up of the database\<close>

fun create_tables ::
  "('e, 's) sqlite \<Rightarrow> 'e db_globals \<Rightarrow> sql_text list \<Rightarrow> (int \<times> 'e db_globals) option" where
  "create_tables api g [] = Some (0, g)"
| "create_tables api g (sql # sqls) = do {
     (ret, _, g) \<leftarrow> sqllite_insert api g sql [] True False;
     if ret < 0 then Some (- 1, g) else create_tables api g sqls }"

definition initbasicdata ::
  "('e, 's) sqlite \<Rightarrow> 'e db_globals \<Rightarrow> (int \<times> 'e db_globals) option" where
  "initbasicdata api g = create_tables api g table_create_sql"

section \<open>Responses\<close>

definition send_msg :: "int \<Rightarrow> T_Msg \<Rightarrow> sockaddr_in \<Rightarrow> datagram list" where
  "send_msg sock m remote = sent sock (put_Msg m) remote"

definition ResponseLoginmsg :: "int \<Rightarrow> sockaddr_in \<Rightarrow> int \<Rightarrow> datagram list option" where
  "ResponseLoginmsg sock remoteAddr v = do {
     let stLoginMsg = \<lparr>rr_result = of_int v, rr_reserve = zeros 7\<rparr>;
     stMsgSend \<leftarrow> make_msg MSG_TYPE_RESPONSE MSG_R_LOGIN 8 (put_ResultResp stLoginMsg);
     Some (send_msg sock stMsgSend remoteAddr) }"

definition reply_login :: "'e server \<Rightarrow> int \<Rightarrow> 'e outcome" where
  "reply_login s v = do {
     out \<leftarrow> ResponseLoginmsg (sockSrv s) (fromAddr s) v;
     Some (Next, s, out) }"

section \<open>Handlers\<close>

definition fill_peer :: "'e server \<Rightarrow> T_MsgLoginReq \<Rightarrow> T_PeerInfo option" where
  "fill_peer s req = do {
     let p = ptPeer s;
     n \<leftarrow> strcpy (name p) (lr_name req);
     i \<leftarrow> strcpy (ID p) (lr_ID req);
     lan \<leftarrow> strcpy (sLanIp p) (lr_MyLanIP req);
     pub \<leftarrow> strcpy (sPubIp p) (inet_ntoa (sin_addr (fromAddr s)));
     Some (p\<lparr>name := n, ID := i, sLanIp := lan, usLanPort := lr_MyLanPort req, sPubIp := pub,
             usPubPort := htons (sin_port (fromAddr s)), bCorD := lr_bCorD req\<rparr>) }"

definition login_params :: "T_PeerInfo \<Rightarrow> db_val list option" where
  "login_params p = do {
     pub \<leftarrow> db_string (sPubIp p);
     lan \<leftarrow> db_string (sLanIp p);
     n \<leftarrow> db_string (name p);
     Some [pub, DB_INT (uint (usPubPort p)), lan, DB_INT (uint (usLanPort p)),
           DB_INT (uint (bCorD p)), n] }"

definition on_login :: "('e, 's) sqlite \<Rightarrow> 'e server \<Rightarrow> 'e outcome" where
  "on_login api s = do {
     let ptLoginMsg = get_LoginReq (param_of s);
     n \<leftarrow> c_str (lr_name ptLoginMsg);
     peer \<leftarrow> fill_peer s ptLoginMsg;
     s \<leftarrow> set_sql (s\<lparr>ptPeer := peer\<rparr>) (sql_select_user n);
     let (ret, stmt, g) = sqllite_query api (sdb s) (sql_select_user n) [] True;
     case stmt of
       Some stmt \<Rightarrow> do {
         let t_id = PSS_DB_CPY_INT api stmt 0;
         let t_status = PSS_DB_CPY_INT api stmt 1;
         let s = s\<lparr>sdb := finalize g\<rparr>;
         if t_status = 1 then reply_login s 1
         else do {
           s \<leftarrow> set_sql s sql_update_login;
           params \<leftarrow> login_params (ptPeer s);
           let (ret, g) = sqllite_update api (sdb s) sql_update_login params True;
           reply_login (s\<lparr>sdb := g\<rparr>) (if ret \<noteq> 0 then 1 else 0) } }
     | None \<Rightarrow> do {
         s \<leftarrow> set_sql (s\<lparr>sdb := g\<rparr>) sql_insert_login;
         params \<leftarrow> login_params (ptPeer s);
         (ret, _, g) \<leftarrow> sqllite_insert api (sdb s) sql_insert_login params True False;
         reply_login (s\<lparr>sdb := g\<rparr>) (if ret \<noteq> 0 then 1 else 0) } }"

definition on_logout :: "('e, 's) sqlite \<Rightarrow> 'e server \<Rightarrow> 'e outcome" where
  "on_logout api s = do {
     let ptSubMsg = get_NameReq (param_of s);
     s \<leftarrow> set_sql s sql_update_logout;
     n \<leftarrow> db_string (nr_myName ptSubMsg);
     let (ret, g) = sqllite_update api (sdb s) sql_update_logout [n] True;
     let s = s\<lparr>sdb := g\<rparr>;
     if ret = 0
     then do {
       let stLogoutMsg = \<lparr>rr_result = 0, rr_reserve = zeros 7\<rparr>;
       stMsgSend \<leftarrow> make_msg MSG_TYPE_RESPONSE MSG_R_LOGOUT 8 (put_ResultResp stLogoutMsg);
       Some (Next, s, send_msg (sockSrv s) stMsgSend (fromAddr s)) }
     else Some (Next, s, []) }"

text \<open>The loop over the rows of the answer only prints them; the response is not compiled.\<close>

partial_function (option) get_peers_rows ::
  "('e, 's) sqlite \<Rightarrow> 'e db_globals \<Rightarrow> byte list \<Rightarrow> 's \<Rightarrow> 'e db_globals option" where
  "get_peers_rows api g tmp_str stmt =
     Option.bind (PSS_DB_CPY_STR api tmp_str stmt 1) (\<lambda>tmp_str.
       let ((res, stmt), g) = step_stmt api g stmt
       in if res = SQLITE_ROW then get_peers_rows api g tmp_str stmt else Some (finalize g))"

definition on_get_peers :: "('e, 's) sqlite \<Rightarrow> 'e server \<Rightarrow> 'e outcome" where
  "on_get_peers api s = do {
     s \<leftarrow> set_sql s sql_get_peers;
     let (ret, stmt, g) = sqllite_query api (sdb s) sql_get_peers [] True;
     case stmt of
       None \<Rightarrow> Some (Thread_Return, s\<lparr>sdb := g\<rparr>, [])
     | Some stmt \<Rightarrow> do {
         g \<leftarrow> get_peers_rows api g (zeros 256) stmt;
         Some (Next, s\<lparr>sdb := g\<rparr>, []) } }"

definition on_heart_beat :: "'e server \<Rightarrow> 'e outcome" where
  "on_heart_beat s = do {
     _ \<leftarrow> c_str (param_of s);
     Some (Next, s, []) }"

text \<open>The address of a peer as the handlers compute it from its record.\<close>

definition peer_addr :: "T_PeerInfo \<Rightarrow> sockaddr_in option" where
  "peer_addr p = do {
     a \<leftarrow> FTC_InetAddr (sPubIp p);
     Some \<lparr>sin_family = AF_INET, sin_port = FTC_Htons (usPubPort p), sin_addr = a\<rparr> }"

definition on_hole :: "'e server \<Rightarrow> 'e outcome" where
  "on_hole s = do {
     let pHoleReq = get_HoleReq (param_of s);
     isExist \<leftarrow> CheckPeerListByName (peer_heap s) (Some (ClientList s)) (Some (hr_toName pHoleReq));
     if \<not> isExist
     then do {
       let stHoleResp = \<lparr>rr_result = 1, rr_reserve = zeros 7\<rparr>;
       stMsgSend \<leftarrow> make_msg MSG_TYPE_RESPONSE MSG_R_HOLE 8 (put_ResultResp stHoleResp);
       Some (Next, s, send_msg (sockSrv s) stMsgSend (fromAddr s)) }
     else do {
       toPeer \<leftarrow> GetPeerByName (peer_heap s) (ClientList s) (hr_toName pHoleReq);
       remote \<leftarrow> peer_addr toPeer;
       _ \<leftarrow> c_str (name toPeer);
       srcName \<leftarrow> strcpy (zeros 12) (hr_myName pHoleReq);
       srcPubIP \<leftarrow> strcpy (zeros 16) (inet_ntoa (sin_addr (fromAddr s)));
       let stMsgSub = \<lparr>hs_srcName = srcName, hs_srcPubIP = srcPubIP,
                       hs_srcPubPort = htons (sin_port (fromAddr s))\<rparr>;
       stMsgSend \<leftarrow> make_msg MSG_TYPE_INDICATE MSG_C_HOLE_REQ 30 (put_HoleFromSrvReq stMsgSub);
       Some (Next, s, send_msg (sockSrv s) stMsgSend remote) } }"

definition on_have_send_p2p :: "'e server \<Rightarrow> 'e outcome" where
  "on_have_send_p2p s = do {
     let ptSubMsg = get_HaveSendP2PReq (param_of s);
     toPeer \<leftarrow> GetPeerByName (peer_heap s) (ClientList s) (sp_toName ptSubMsg);
     remote \<leftarrow> peer_addr toPeer;
     myName \<leftarrow> strcpy (zeros 12) (sp_myName ptSubMsg);
     stMsgSend \<leftarrow> make_msg MSG_TYPE_INDICATE MSG_C_P2P_CAN_START_REQ 12
       (put_NameReq \<lparr>nr_myName = myName\<rparr>);
     Some (Next, s, send_msg (sockSrv s) stMsgSend remote) }"

text \<open>The relay handler reads its request from \<^verbatim>\<open>buf\<close>, not from the received message, sends to an
  address of which only the family is set, and sends the bytes of the pointer to the message
  in place of the message.\<close>

definition recv_now :: "recv_out option option \<Rightarrow> recv_out option" where
  "recv_now r = (case r of None \<Rightarrow> None | Some x \<Rightarrow> x)"

definition on_relay :: "indeterminate \<Rightarrow> 'e server \<Rightarrow> 'e outcome" where
  "on_relay ind s = do {
     let mRecvMsg = get_CommMsg MAX_NAME_SIZE (buf s);
     toPeer \<leftarrow> GetPeerByName (peer_heap s) (ClientList s) (cToName mRecvMsg);
     let remote = \<lparr>sin_family = AF_INET, sin_port = indet_port ind, sin_addr = indet_addr ind\<rparr>;
     my \<leftarrow> strcpy (zeros 12) (cMyName mRecvMsg);
     to \<leftarrow> strcpy (zeros 12) (cToName mRecvMsg);
     let len = rm_uiSendLen (rlyMsg mRecvMsg);
     let recvmessage = indet_chars ind (unat len);
     r \<leftarrow> recv_now (FTC_Recvfrom2 (rx s) (sockSrv s) (Some recvmessage) 1024 (fromAddr s));
     let s = s\<lparr>rx := ro_rest r, fromAddr := ro_addr r\<rparr>;
     (if ro_ret r < 1 \<or> nat (ro_ret r) > length (ro_buf r) then None
      else do {
        let recvmessage = (ro_buf r)[nat (ro_ret r) - 1 := 0];
        if len = of_int (ro_ret r)
        then do {
          k \<leftarrow> strlen recvmessage;
          user \<leftarrow> strcpy (zeros 12) (cMyName mRecvMsg);
          let head = (new_stCommMsg MAX_NAME_SIZE)\<lparr>cm_uiMsgType := p2p_code RELAYMESSAGE2, cMyName := my,
              cToName := to, rlyMsg := \<lparr>rm_uiSendLen = of_nat (k + 1), rm_sUserName = user\<rparr>\<rparr>;
          if k + 1 > length (indet_ptr ind) then None
          else Some (Next, s, sent (sockSrv s) (put_CommMsg head) remote
                 @ sent (sockSrv s) (take (k + 1) (indet_ptr ind)) remote) }
        else Some (Next, s, []) }) }"

section \<open>The dispatch loop\<close>

definition srv_dispatch :: "('e, 's) sqlite \<Rightarrow> indeterminate \<Rightarrow> 'e server \<Rightarrow> 'e outcome" where
  "srv_dispatch api ind s =
     (let mMsgID = uiMsgId (tMsgHead (msg_of s)) in
      if mMsgID = msg_code MSG_C_LOGIN then on_login api s
      else if mMsgID = msg_code MSG_C_LOGOUT then on_logout api s
      else if mMsgID = msg_code MSG_C_GET_PEERS then on_get_peers api s
      else if mMsgID = msg_code MSG_C_HEART_BEAT then on_heart_beat s
      else if mMsgID = msg_code MSG_C_HOLE then on_hole s
      else if mMsgID = msg_code MSG_C_HAVE_SEND_P2P_REQ then on_have_send_p2p s
      else if mMsgID = p2p_code RELAYMESSAGE then on_relay ind s
      else Some (Next, s, []))"

text \<open>One round of the loop.\<close>

definition srv_round ::
  "('e, 's) sqlite \<Rightarrow> (int \<Rightarrow> timeval \<Rightarrow> int \<times> bool) \<Rightarrow> indeterminate \<Rightarrow> 'e server \<Rightarrow> 'e outcome" where
  "srv_round api select ind s =
     (if \<not> gRunning s then Some (Thread_Exit, s, [])
      else do {
        ready \<leftarrow> FTC_SelectRead select (sockSrv s) 0;
        if ready = 0
        then do {
          r \<leftarrow> recv_now (FTC_Recvfrom2 (rx s) (sockSrv s) (Some (stMsg s)) 1440 (fromAddr s));
          let s = s\<lparr>stMsg := ro_buf r, fromAddr := ro_addr r, rx := ro_rest r\<rparr>;
          if ro_ret r < 0 then Some (Next, s, []) else srv_dispatch api ind s }
        else Some (Next, s, []) })"

text \<open>The state in which the thread enters its loop; \<open>msg0\<close> and \<open>peer0\<close> are the contents of the
  objects it does not initialise.\<close>

definition P2PSrvProc_start :: "'e db_globals \<Rightarrow> int \<Rightarrow> byte list \<Rightarrow> T_PeerInfo \<Rightarrow> 'e server" where
  "P2PSrvProc_start g sock msg0 peer0 = \<lparr>sdb = g, gRunning = True, sockSrv = sock,
     peer_heap = Map.empty, ClientList = [], stMsg = msg0,
     fromAddr = \<lparr>sin_family = 0, sin_port = 0, sin_addr = 0\<rparr>, buf = zeros MAX_PACKET_SIZE,
     test_sql = zeros 256, ptPeer = peer0, rx = []\<rparr>"

section \<open>Start of the program\<close>

datatype 'e start = Main_Exit int "'e db_globals" "sock_call list" | Main_Runs "'e server" "sock_call list"

definition main_server ::
  "('e, 's) sqlite \<Rightarrow> bool \<Rightarrow> bool \<Rightarrow> sock_env \<Rightarrow> bool \<Rightarrow> 'e db_globals \<Rightarrow> byte list \<Rightarrow> T_PeerInfo \<Rightarrow>
   'e start option" where
  "main_server api rb wb env thread_ok g msg0 peer0 = do {
     (ret, g) \<leftarrow> sqllite_init api rb wb P2P_DB_NAME g;
     if ret < 0 then Some (Main_Exit (- 1) g [])
     else do {
       (failed, g) \<leftarrow>
         (if ret = 1
          then do {
            (r, g) \<leftarrow> initbasicdata api g;
            if r < 0 then Some (True, g)
            else do {
              (r, _, g) \<leftarrow> sqllite_insert api g sql_insert_version [] True False;
              Some (r < 0, g) } }
          else Some (False, g));
       if failed then Some (Main_Exit (- 1) g [])
       else do {
         ip \<leftarrow> FTC_InetAddr (literal ''0.0.0.0'');
         let (sock, calls) = FTC_CreateUdpSock env ip (FTC_Htons SERVER_PORT);
         if 0 > sock then Some (Main_Exit (- 1) g calls)
         else if \<not> thread_ok then Some (Main_Exit (- 1) g calls)
         else Some (Main_Runs (P2PSrvProc_start g sock msg0 peer0) calls) } } }"

section \<open>The state the loop keeps\<close>

text \<open>No live statement adds to \<^verbatim>\<open>ClientList\<close> or writes \<^verbatim>\<open>buf\<close>, and every buffer keeps its size.\<close>

definition srv_ok :: "'e server \<Rightarrow> bool" where
  "srv_ok s \<longleftrightarrow> ClientList s = [] \<and> gRunning s \<and> buf s = zeros MAX_PACKET_SIZE \<and>
     length (stMsg s) = 1440 \<and> length (test_sql s) = 256 \<and> PeerInfo_ok (ptPeer s)"

definition answers :: "sockaddr_in \<Rightarrow> datagram list \<Rightarrow> bool" where
  "answers a out \<longleftrightarrow>
     (\<forall>(to, d) \<in> set out. to = a \<and> uiMsgType (tMsgHead (get_Msg d)) = msg_type_code MSG_TYPE_RESPONSE \<and>
        uiMsgId (tMsgHead (get_Msg d)) \<in> msg_code ` {MSG_R_LOGIN, MSG_R_LOGOUT, MSG_R_HOLE})"

definition handled :: "'e server \<Rightarrow> 'e server \<Rightarrow> datagram list \<Rightarrow> bool" where
  "handled s s' out \<longleftrightarrow> srv_ok s' \<and> sockSrv s' = sockSrv s \<and> stMsg s' = stMsg s \<and>
     fromAddr s' = fromAddr s \<and> answers (fromAddr s) out"

lemma answers_Nil [simp]: "answers a []"
  by (simp add: answers_def)

lemma answers_send_msg:
  assumes "make_msg MSG_TYPE_RESPONSE mid n sub = Some m"
    and "mid \<in> {MSG_R_LOGIN, MSG_R_LOGOUT, MSG_R_HOLE}"
  shows "answers a (send_msg sock m a)"
proof -
  have "get_Msg (put_Msg m) = m"
    using Msg_layout.get_put [OF make_msg_ok [OF assms(1)], of "[]"] by simp
  moreover have "uiMsgType (tMsgHead m) = msg_type_code MSG_TYPE_RESPONSE \<and>
      uiMsgId (tMsgHead m) = msg_code mid"
    using assms(1) by (auto simp: make_msg_def memcpy_def split: if_splits)
  ultimately show ?thesis
    using assms(2) by (auto simp: answers_def send_msg_def sent_def)
qed

lemma handled_refl [simp]: "srv_ok s \<Longrightarrow> handled s s []"
  by (simp add: handled_def)

lemma set_sql_ok:
  "set_sql s t = Some s' \<Longrightarrow> srv_ok s \<Longrightarrow>
   srv_ok s' \<and> sockSrv s' = sockSrv s \<and> fromAddr s' = fromAddr s \<and> stMsg s' = stMsg s \<and> sdb s' = sdb s"
  by (auto simp: set_sql_def srv_ok_def split: if_splits)

lemma srv_ok_update [simp]:
  "srv_ok (s\<lparr>sdb := g\<rparr>) = srv_ok s" "srv_ok (s\<lparr>fromAddr := a\<rparr>) = srv_ok s" "srv_ok (s\<lparr>rx := r\<rparr>) = srv_ok s"
  by (simp_all add: srv_ok_def)

lemma reply_login_handled:
  "reply_login s v = Some (f, s', out) \<Longrightarrow> srv_ok s \<Longrightarrow> handled s s' out \<and> f = Next"
  by (auto simp: reply_login_def ResponseLoginmsg_def handled_def Option.bind_eq_Some_conv Let_def
      intro: answers_send_msg)

lemma fill_peer_ok: "fill_peer s req = Some p \<Longrightarrow> PeerInfo_ok (ptPeer s) \<Longrightarrow> PeerInfo_ok p"
  by (auto simp: fill_peer_def PeerInfo_ok_def Option.bind_eq_Some_conv Let_def strcpy_length)

lemma handled_trans:
  "handled s1 s2 out \<Longrightarrow> sockSrv s1 = sockSrv s \<Longrightarrow> fromAddr s1 = fromAddr s \<Longrightarrow> stMsg s1 = stMsg s \<Longrightarrow>
   handled s s2 out"
  by (simp add: handled_def)

lemma on_login_handled:
  assumes "on_login api s = Some (f, s', out)" and ok: "srv_ok s"
  shows "handled s s' out \<and> f = Next"
proof -
  define req where "req = get_LoginReq (param_of s)"
  obtain n peer s1 where peer: "fill_peer s req = Some peer"
    and s1: "set_sql (s\<lparr>ptPeer := peer\<rparr>) (sql_select_user n) = Some s1" and n: "c_str (lr_name req) = Some n"
    using assms(1) by (auto simp: on_login_def req_def Let_def Option.bind_eq_Some_conv)
  obtain ret stmt g where q: "sqllite_query api (sdb s1) (sql_select_user n) [] True = (ret, stmt, g)"
    by (metis prod.exhaust)
  have "srv_ok (s\<lparr>ptPeer := peer\<rparr>)"
    using ok fill_peer_ok [OF peer] by (simp add: srv_ok_def)
  with set_sql_ok [OF s1] have ok1: "srv_ok s1" "sockSrv s1 = sockSrv s" "fromAddr s1 = fromAddr s"
    "stMsg s1 = stMsg s" by simp_all
  have "\<exists>s2 v. reply_login s2 v = Some (f, s', out) \<and> srv_ok s2 \<and> sockSrv s2 = sockSrv s \<and>
      fromAddr s2 = fromAddr s \<and> stMsg s2 = stMsg s"
  proof (cases stmt)
    case None
    with assms(1) obtain s2 g2 v where "set_sql (s1\<lparr>sdb := g\<rparr>) sql_insert_login = Some s2"
      "reply_login (s2\<lparr>sdb := g2\<rparr>) v = Some (f, s', out)"
      by (auto simp: on_login_def Let_def peer s1 n q Option.bind_eq_Some_conv
          simp flip: req_def)
    then show ?thesis
      using ok1 set_sql_ok by (intro exI [of _ "s2\<lparr>sdb := g2\<rparr>"]) fastforce
  next
    case (Some st)
    show ?thesis
    proof (cases "PSS_DB_CPY_INT api st 1 = 1")
      case True
      with Some assms(1) have "reply_login (s1\<lparr>sdb := finalize g\<rparr>) 1 = Some (f, s', out)"
        by (auto simp: on_login_def Let_def peer s1 n q simp flip: req_def)
      then show ?thesis using ok1 by (intro exI [of _ "s1\<lparr>sdb := finalize g\<rparr>"]) auto
    next
      case False
      with Some assms(1) obtain s2 g2 v where "set_sql (s1\<lparr>sdb := finalize g\<rparr>) sql_update_login = Some s2"
        "reply_login (s2\<lparr>sdb := g2\<rparr>) v = Some (f, s', out)"
        by (auto simp: on_login_def Let_def peer s1 n q Option.bind_eq_Some_conv
            case_prod_beta simp flip: req_def)
      then show ?thesis
        using ok1 set_sql_ok by (intro exI [of _ "s2\<lparr>sdb := g2\<rparr>"]) fastforce
    qed
  qed
  then show ?thesis using reply_login_handled handled_trans by metis
qed

lemma on_logout_handled:
  assumes "on_logout api s = Some (f, s', out)" and "srv_ok s"
  shows "handled s s' out \<and> f = Next"
proof -
  obtain s1 n where s1: "set_sql s sql_update_logout = Some s1"
    and n: "db_string (nr_myName (get_NameReq (param_of s))) = Some n"
    using assms(1) by (auto simp: on_logout_def Let_def Option.bind_eq_Some_conv)
  obtain ret g where u: "sqllite_update api (sdb s1) sql_update_logout [n] True = (ret, g)"
    by (metis prod.exhaust)
  have "s' = s1\<lparr>sdb := g\<rparr> \<and> f = Next \<and> answers (fromAddr s1) out"
    using assms(1) by (auto simp: on_logout_def Let_def s1 n u Option.bind_eq_Some_conv
        intro: answers_send_msg split: if_splits)
  with set_sql_ok [OF s1 assms(2)] show ?thesis by (simp add: handled_def)
qed

lemma on_get_peers_handled:
  assumes "on_get_peers api s = Some (f, s', out)" and "srv_ok s"
  shows "handled s s' out"
proof -
  obtain s1 where s1: "set_sql s sql_get_peers = Some s1"
    using assms(1) by (auto simp: on_get_peers_def Let_def Option.bind_eq_Some_conv)
  obtain ret stmt g where q: "sqllite_query api (sdb s1) sql_get_peers [] True = (ret, stmt, g)"
    by (metis prod.exhaust)
  have "\<exists>g. s' = s1\<lparr>sdb := g\<rparr> \<and> out = []"
    using assms(1) by (cases stmt)
      (auto simp: on_get_peers_def Let_def s1 q Option.bind_eq_Some_conv)
  with set_sql_ok [OF s1 assms(2)] show ?thesis by (auto simp: handled_def)
qed

lemma on_heart_beat_handled:
  "on_heart_beat s = Some (f, s', out) \<Longrightarrow> srv_ok s \<Longrightarrow> handled s s' out \<and> f = Next"
  by (auto simp: on_heart_beat_def Option.bind_eq_Some_conv)

text \<open>With an empty list a hole request is refused, and the handlers that fetch a peer without
  asking first have no result.\<close>

lemma on_hole_empty:
  assumes "srv_ok s"
  shows "\<exists>m. make_msg MSG_TYPE_RESPONSE MSG_R_HOLE 8 (put_ResultResp \<lparr>rr_result = 1, rr_reserve = zeros 7\<rparr>) = Some m \<and>
    on_hole s = Some (Next, s, send_msg (sockSrv s) m (fromAddr s))"
  using assms by (simp add: on_hole_def srv_ok_def CheckPeerListByName_def make_msg_eq
      put_ResultResp_def)

lemma fetch_empty:
  "srv_ok s \<Longrightarrow> on_have_send_p2p s = None" "srv_ok s \<Longrightarrow> on_relay ind s = None"
  by (simp_all add: on_have_send_p2p_def on_relay_def srv_ok_def)

lemma on_hole_handled:
  assumes "on_hole s = Some (f, s', out)" and "srv_ok s"
  shows "handled s s' out \<and> f = Next"
  using on_hole_empty [OF assms(2)] assms by (auto simp: handled_def intro: answers_send_msg)

lemma srv_dispatch_handled:
  assumes "srv_dispatch api ind s = Some (f, s', out)" and "srv_ok s"
  shows "handled s s' out"
  using assms fetch_empty [OF assms(2)]
  by (auto simp: srv_dispatch_def Let_def split: if_splits dest: on_login_handled on_logout_handled
      on_get_peers_handled on_heart_beat_handled on_hole_handled)

section \<open>Reachable states\<close>

text \<open>The rounds of the loop from the start of the thread, with any results of the kernel and of
  SQLite and any indeterminate values in every round.\<close>

inductive srv_reach :: "('e, 's) sqlite \<Rightarrow> 'e server \<Rightarrow> 'e server \<Rightarrow> bool" for api s0 where
  start: "srv_reach api s0 s0"
| round: "srv_reach api s0 s \<Longrightarrow> srv_round api select ind (s\<lparr>rx := rs\<rparr>) = Some (Next, s', out) \<Longrightarrow>
     srv_reach api s0 s'"

inductive_cases srv_reachE: "srv_reach api s0 s"

lemma recv_now_length:
  assumes "recv_now (FTC_Recvfrom2 rs sock (Some b) n a) = Some r"
  shows "length (ro_buf r) = length b \<and> 0 \<le> ro_ret r"
  using assms
  by (auto simp: recv_now_def FTC_Recvfrom2_def recv_write_def Let_def Option.bind_eq_Some_conv
      split: option.splits if_splits)

lemma srv_round_handled:
  assumes "srv_round api select ind s = Some (f, s', out)" and ok: "srv_ok s"
  shows "srv_ok s' \<and> sockSrv s' = sockSrv s \<and> answers (fromAddr s') out"
proof -
  have run: "gRunning s" using ok by (simp add: srv_ok_def)
  obtain ready where ready: "FTC_SelectRead select (sockSrv s) 0 = Some ready"
    using assms(1) run by (auto simp: srv_round_def Option.bind_eq_Some_conv)
  show ?thesis
  proof (cases "ready = 0")
    case False
    with assms(1) run ready ok show ?thesis by (auto simp: srv_round_def)
  next
    case True
    with assms(1) run ready obtain r
      where r: "recv_now (FTC_Recvfrom2 (rx s) (sockSrv s) (Some (stMsg s)) 1440 (fromAddr s)) = Some r"
      by (auto simp: srv_round_def Option.bind_eq_Some_conv)
    define s1 where "s1 = s\<lparr>stMsg := ro_buf r, fromAddr := ro_addr r, rx := ro_rest r\<rparr>"
    have "srv_ok s1" "sockSrv s1 = sockSrv s" using ok recv_now_length [OF r]
      by (simp_all add: s1_def srv_ok_def)
    moreover have "srv_dispatch api ind s1 = Some (f, s', out)"
      using assms(1) run ready True r recv_now_length [OF r] by (simp add: srv_round_def Let_def s1_def)
    ultimately show ?thesis
      using srv_dispatch_handled [of api ind s1 f s' out] by (simp add: handled_def)
  qed
qed

lemma srv_reach_ok: "srv_reach api s0 s \<Longrightarrow> srv_ok s0 \<Longrightarrow> srv_ok s \<and> sockSrv s = sockSrv s0"
proof (induction rule: srv_reach.induct)
  case (round s select ind rs s' out)
  then show ?case using srv_round_handled [OF round.hyps(2)] by simp
qed simp

lemma srv_start_ok:
  "length msg0 = 1440 \<Longrightarrow> PeerInfo_ok peer0 \<Longrightarrow> srv_ok (P2PSrvProc_start g sock msg0 peer0)"
  by (simp add: srv_ok_def P2PSrvProc_start_def)

section \<open>A round that receives a datagram\<close>

definition arrival :: "byte list \<Rightarrow> sockaddr_in \<Rightarrow> 'e server \<Rightarrow> 'e server" where
  "arrival d a s = s\<lparr>stMsg := overwrite (stMsg s) (take 1440 d), fromAddr := a, rx := []\<rparr>"

definition readable :: "int \<Rightarrow> timeval \<Rightarrow> int \<times> bool" where
  "readable nfds tv = (1, True)"

lemma srv_round_arrival:
  assumes "srv_ok s" and "0 \<le> sockSrv s" and "sockSrv s < FD_SETSIZE"
  shows "srv_round api readable ind (s\<lparr>rx := [Recv_Dgram d a]\<rparr>) = srv_dispatch api ind (arrival d a s)"
proof -
  have "recv_write (stMsg s) 1440 d = Some (int (length (take 1440 d)), overwrite (stMsg s) (take 1440 d))"
    using assms(1) by (simp add: recv_write_def srv_ok_def Let_def)
  then show ?thesis
    using assms by (simp add: srv_round_def srv_ok_def FTC_SelectRead_def readable_def
        FTC_Recvfrom2_def recv_now_def arrival_def)
qed

lemma arrival_ok [simp]: "srv_ok s \<Longrightarrow> srv_ok (arrival d a s)"
  by (simp add: arrival_def srv_ok_def)

text \<open>A datagram that is a whole message replaces the stored one.\<close>

lemma msg_of_arrival:
  assumes "srv_ok s" and "Msg_ok m"
  shows "msg_of (arrival (put_Msg m) a s) = m"
proof -
  have len: "length (put_Msg m) = 1440" using Msg_layout.put_length [OF assms(2)] .
  show ?thesis
    using assms len Msg_layout.get_put [OF assms(2), of "[]"]
    by (simp add: msg_of_def arrival_def srv_ok_def overwrite_def)
qed

lemma arrival_simps [simp]:
  "fromAddr (arrival d a s) = a" "sockSrv (arrival d a s) = sockSrv s" "sdb (arrival d a s) = sdb s"
  "ptPeer (arrival d a s) = ptPeer s" "test_sql (arrival d a s) = test_sql s"
  by (simp_all add: arrival_def)

text \<open>A stored message is its own byte image, since the head has no padding.\<close>

lemma get_u32_region:
  assumes "off + 4 \<le> length xs"
  shows "put_u32 (get_u32 (region off 4 xs)) = region off 4 xs"
proof -
  have "length (region off 4 xs) = Suc (Suc (Suc (Suc 0)))" using assms by simp
  then obtain a b c d where "region off 4 xs = [a, b, c, d]" by (auto simp only: length_Suc_conv length_0_conv)
  then show ?thesis using put_get_u32 [of a b c d] by simp
qed

lemma get_u16_region:
  assumes "off + 2 \<le> length xs"
  shows "put_u16 (get_u16 (region off 2 xs)) = region off 2 xs"
proof -
  have "length (region off 2 xs) = Suc (Suc 0)" using assms by simp
  then obtain a b where "region off 2 xs = [a, b]" by (auto simp only: length_Suc_conv length_0_conv)
  then show ?thesis using put_get_u16 [of a b] by simp
qed

lemma region_split: "region off m xs @ region (off + m) n xs = region off (m + n) xs"
  by (simp add: region_def take_add add.commute)

lemma put_get_Msg:
  assumes "length b = 1440"
  shows "put_Msg (get_Msg b) = b"
proof -
  have "[b ! 12, b ! 13] = region 12 2 b"
    using assms by (intro nth_equalityI) (auto simp: region_def less_Suc_eq nth_Cons')
  then have "put_Msg (get_Msg b) =
      region 0 4 b @ region 4 4 b @ region 8 4 b @ region 12 2 b @ region 14 2 b @ region 16 1424 b"
    using assms by (simp add: put_Msg_def get_Msg_def put_head_def get_head_def get_u32_region get_u16_region)
  also have "\<dots> = region 0 1440 b"
    using region_split [of 14 2 b 1424] region_split [of 12 2 b 1426] region_split [of 8 4 b 1428]
      region_split [of 4 4 b 1432] region_split [of 0 4 b 1436] by simp
  also have "\<dots> = b" using assms by (simp add: region_def)
  finally show ?thesis .
qed

section \<open>Safety of the server\<close>

text \<open>A running server for the examples: an open database, descriptor 5, cleared objects.\<close>

definition blank_peer :: T_PeerInfo where
  "blank_peer = \<lparr>bCorD = 0, name = zeros 12, ID = zeros 8, sPubIp = zeros 16, usPubPort = 0,
     sLanIp = zeros 16, usLanPort = 0\<rparr>"

definition fresh_server :: "'e \<Rightarrow> 'e server" where
  "fresh_server e = P2PSrvProc_start ((db_static_init e)\<lparr>db_handle := True\<rparr>) 5 (zeros 1440) blank_peer"

lemma fresh_server_ok [simp]:
  "srv_ok (fresh_server e)" "sockSrv (fresh_server e) = 5"
  by (simp_all add: fresh_server_def srv_start_ok PeerInfo_ok_def blank_peer_def)
    (simp add: P2PSrvProc_start_def)

lemma blank_ok: "PeerInfo_ok blank_peer" "length (zeros 1440) = 1440"
  by (simp_all add: PeerInfo_ok_def blank_peer_def)

definition example_addr :: sockaddr_in where
  "example_addr = \<lparr>sin_family = AF_INET, sin_port = 47138, sin_addr = 16777343\<rparr>"

definition no_junk :: indeterminate where
  "no_junk = \<lparr>indet_port = 0, indet_addr = 0, indet_chars = zeros, indet_ptr = zeros 8\<rparr>"

text \<open>What a round does with a message of a given id, for the two kinds of request that the
  properties run on.\<close>

lemma srv_round_hole:
  assumes "srv_ok s" and "0 \<le> sockSrv s" and "sockSrv s < FD_SETSIZE"
    and "Msg_ok m" and "uiMsgId (tMsgHead m) = msg_code MSG_C_HOLE"
  shows "\<exists>r. make_msg MSG_TYPE_RESPONSE MSG_R_HOLE 8
        (put_ResultResp \<lparr>rr_result = 1, rr_reserve = zeros 7\<rparr>) = Some r \<and>
      srv_round api readable ind (s\<lparr>rx := [Recv_Dgram (put_Msg m) a]\<rparr>) =
        Some (Next, arrival (put_Msg m) a s, [(a, put_Msg r)])"
proof -
  let ?s = "arrival (put_Msg m) a s"
  obtain r where r: "make_msg MSG_TYPE_RESPONSE MSG_R_HOLE 8
      (put_ResultResp \<lparr>rr_result = 1, rr_reserve = zeros 7\<rparr>) = Some r"
    and h: "on_hole ?s = Some (Next, ?s, send_msg (sockSrv ?s) r (fromAddr ?s))"
    using on_hole_empty [of ?s] assms(1) by auto
  have "put_Msg r \<noteq> []" using Msg_layout.put_length [OF make_msg_ok [OF r]] by auto
  moreover have "srv_dispatch api ind ?s = on_hole ?s"
    by (simp add: srv_dispatch_def msg_of_arrival [OF assms(1,4)] assms(5) del: msg_code.simps)
  ultimately show ?thesis
    using h r assms(2) by (simp add: srv_round_arrival [OF assms(1-3)] send_msg_def sent_def)
qed

text \<open>C6. Whatever arrives, the server only ever answers: every datagram that a round of a reachable
  server emits goes to the sender of the datagram just received and is a response to a login,
  a logout or a hole request. In particular the server never forwards a hole request
  (\<^verbatim>\<open>MSG_C_HOLE_REQ\<close>), never tells a peer that it can start (\<^verbatim>\<open>MSG_C_P2P_CAN_START_REQ\<close>) and never
  relays: the rendezvous that the hole handler implements cannot happen.\<close>

theorem server_only_answers:
  assumes "srv_reach api (P2PSrvProc_start g sock msg0 peer0) s"
    and "length msg0 = 1440" and "PeerInfo_ok peer0"
    and "srv_round api select ind (s\<lparr>rx := rs\<rparr>) = Some (f, s', out)"
    and "(to, d) \<in> set out"
  shows "to = fromAddr s' \<and> uiMsgType (tMsgHead (get_Msg d)) = msg_type_code MSG_TYPE_RESPONSE \<and>
    (\<exists>mid \<in> {MSG_R_LOGIN, MSG_R_LOGOUT, MSG_R_HOLE}. uiMsgId (tMsgHead (get_Msg d)) = msg_code mid)"
proof -
  have "srv_ok (s\<lparr>rx := rs\<rparr>)"
    using srv_reach_ok [OF assms(1) srv_start_ok [OF assms(2,3)]] by simp
  from srv_round_handled [OF assms(4) this] assms(5) show ?thesis
    by (force simp: answers_def)
qed

theorem server_only_answers_witness:
  "\<exists>s' d. srv_round (fixed_engine 0 101 0) readable no_junk
       ((fresh_server (0 :: nat))\<lparr>rx := [Recv_Dgram (put_Msg (plain_msg MSG_C_HOLE)) example_addr]\<rparr>) =
       Some (Next, s', [(example_addr, d)]) \<and> fromAddr s' = example_addr \<and>
     uiMsgType (tMsgHead (get_Msg d)) = msg_type_code MSG_TYPE_RESPONSE"
proof -
  obtain r where run: "srv_round (fixed_engine 0 101 0) readable no_junk
       ((fresh_server (0 :: nat))\<lparr>rx := [Recv_Dgram (put_Msg (plain_msg MSG_C_HOLE)) example_addr]\<rparr>) =
       Some (Next, arrival (put_Msg (plain_msg MSG_C_HOLE)) example_addr (fresh_server (0 :: nat)),
         [(example_addr, put_Msg r)])"
    using srv_round_hole [of "fresh_server (0 :: nat)" "plain_msg MSG_C_HOLE" "fixed_engine 0 101 0" no_junk example_addr]
    by (auto simp: FD_SETSIZE_def simp del: msg_code.simps)
  from server_only_answers [OF srv_reach.start blank_ok(2,1) run [unfolded fresh_server_def], of example_addr "put_Msg r"]
  show ?thesis using run by (auto simp: fresh_server_def)
qed

text \<open>C12. A hole request is refused in every reachable state, whoever is logged in: the response
  carries result 1 and goes to the requester, and the state changes only in the stored
  message and its sender.\<close>

theorem hole_request_always_refused:
  assumes "srv_reach api (P2PSrvProc_start g sock msg0 peer0) s"
    and "length msg0 = 1440" and "PeerInfo_ok peer0" and "0 \<le> sock" and "sock < FD_SETSIZE"
    and "Msg_ok m" and "uiMsgId (tMsgHead m) = msg_code MSG_C_HOLE"
  shows "\<exists>r. srv_round api readable ind (s\<lparr>rx := [Recv_Dgram (put_Msg m) a]\<rparr>) =
        Some (Next, arrival (put_Msg m) a s, [(a, put_Msg r)]) \<and>
      uiMsgId (tMsgHead r) = msg_code MSG_R_HOLE \<and> rr_result (get_ResultResp (aucParam r)) = 1"
proof -
  have ok: "srv_ok s" "sockSrv s = sock"
    using srv_reach_ok [OF assms(1) srv_start_ok [OF assms(2,3)]] by (simp_all add: P2PSrvProc_start_def)
  obtain r where r: "make_msg MSG_TYPE_RESPONSE MSG_R_HOLE 8
        (put_ResultResp \<lparr>rr_result = 1, rr_reserve = zeros 7\<rparr>) = Some r"
    and run: "srv_round api readable ind (s\<lparr>rx := [Recv_Dgram (put_Msg m) a]\<rparr>) =
        Some (Next, arrival (put_Msg m) a s, [(a, put_Msg r)])"
    using srv_round_hole [of s m api ind a] ok assms(4-7) by auto
  have "uiMsgId (tMsgHead r) = msg_code MSG_R_HOLE" "rr_result (get_ResultResp (aucParam r)) = 1"
    using r by (auto simp: make_msg_eq put_ResultResp_def overwrite_def get_ResultResp_def)
  with run show ?thesis by blast
qed

theorem hole_request_always_refused_witness:
  "\<exists>r. srv_round (fixed_engine 0 101 0) readable no_junk
       ((fresh_server (0 :: nat))\<lparr>rx := [Recv_Dgram (put_Msg (plain_msg MSG_C_HOLE)) example_addr]\<rparr>) =
       Some (Next, arrival (put_Msg (plain_msg MSG_C_HOLE)) example_addr (fresh_server (0 :: nat)),
         [(example_addr, put_Msg r)]) \<and> rr_result (get_ResultResp (aucParam r)) = 1"
  using hole_request_always_refused [OF srv_reach.start blank_ok(2,1), where sock = 5 and
      m = "plain_msg MSG_C_HOLE" and api = "fixed_engine 0 101 0" and
      g = "(db_static_init 0)\<lparr>db_handle := True\<rparr>" and ind = no_junk and a = example_addr]
  by (auto simp: fresh_server_def FD_SETSIZE_def simp del: msg_code.simps)

text \<open>C14. A notification that a peer has sent its punch (\<^verbatim>\<open>MSG_C_HAVE_SEND_P2P_REQ\<close>) and a relay request
  have no defined result in any reachable state: both handlers call \<^verbatim>\<open>GetPeerByName\<close> on the empty
  list, which falls off its end without a return value.\<close>

theorem fetching_handlers_undefined:
  assumes "srv_reach api (P2PSrvProc_start g sock msg0 peer0) s"
    and "length msg0 = 1440" and "PeerInfo_ok peer0" and "0 \<le> sock" and "sock < FD_SETSIZE"
    and "Msg_ok m" and "uiMsgId (tMsgHead m) \<in> {msg_code MSG_C_HAVE_SEND_P2P_REQ, p2p_code RELAYMESSAGE}"
  shows "srv_round api readable ind (s\<lparr>rx := [Recv_Dgram (put_Msg m) a]\<rparr>) = None"
proof -
  have ok: "srv_ok s" "sockSrv s = sock"
    using srv_reach_ok [OF assms(1) srv_start_ok [OF assms(2,3)]] by (simp_all add: P2PSrvProc_start_def)
  let ?s = "arrival (put_Msg m) a s"
  have "srv_dispatch api ind ?s = None"
    using assms(7) fetch_empty [of ?s] ok
    by (auto simp: srv_dispatch_def msg_of_arrival [OF ok(1) assms(6)])
  then show ?thesis using ok assms(4,5) by (simp add: srv_round_arrival)
qed

theorem fetching_handlers_undefined_witness:
  "srv_round (fixed_engine 0 101 0) readable no_junk
     ((fresh_server (0 :: nat))\<lparr>rx := [Recv_Dgram (put_Msg (plain_msg MSG_C_HAVE_SEND_P2P_REQ)) example_addr]\<rparr>) = None"
  using fetching_handlers_undefined [OF srv_reach.start blank_ok(2,1), where sock = 5 and
      m = "plain_msg MSG_C_HAVE_SEND_P2P_REQ" and api = "fixed_engine 0 101 0" and
      g = "(db_static_init 0)\<lparr>db_handle := True\<rparr>" and ind = no_junk and a = example_addr]
  by (simp add: fresh_server_def FD_SETSIZE_def del: msg_code.simps p2p_code.simps)

text \<open>C16. An empty datagram makes the server process the message of the previous datagram once more,
  now as if the new sender had sent it.\<close>

theorem empty_datagram_replays:
  assumes "srv_ok s" and "0 \<le> sockSrv s" and "sockSrv s < FD_SETSIZE" and "Msg_ok m"
    and "msg_of s = m"
  shows "srv_round api readable ind (s\<lparr>rx := [Recv_Dgram [] a]\<rparr>) =
    srv_round api readable ind (s\<lparr>rx := [Recv_Dgram (put_Msg m) a]\<rparr>)"
proof -
  have len: "length (stMsg s) = 1440" using assms(1) by (simp add: srv_ok_def)
  have "put_Msg (get_Msg (stMsg s)) = stMsg s" if "length (stMsg s) = 1440"
    using that by (rule put_get_Msg)
  then have "arrival [] a s = arrival (put_Msg m) a s"
    using len assms(5) by (simp add: arrival_def msg_of_def overwrite_def)
  then show ?thesis by (simp add: srv_round_arrival [OF assms(1-3)])
qed

theorem empty_datagram_replays_witness:
  "srv_round (fixed_engine 0 101 0) readable no_junk
      (arrival (put_Msg (plain_msg MSG_C_LOGOUT)) example_addr (fresh_server (0 :: nat))
        \<lparr>rx := [Recv_Dgram [] \<lparr>sin_family = AF_INET, sin_port = 1, sin_addr = 1\<rparr>]\<rparr>) =
   srv_round (fixed_engine 0 101 0) readable no_junk
      (arrival (put_Msg (plain_msg MSG_C_LOGOUT)) example_addr (fresh_server (0 :: nat))
        \<lparr>rx := [Recv_Dgram (put_Msg (plain_msg MSG_C_LOGOUT))
                 \<lparr>sin_family = AF_INET, sin_port = 1, sin_addr = 1\<rparr>]\<rparr>)"
  by (rule empty_datagram_replays) (simp_all add: FD_SETSIZE_def msg_of_arrival)

section \<open>Addresses and introductions\<close>

lemma stored_ip: "strcpy dst (inet_ntoa a) = Some d \<Longrightarrow> FTC_InetAddr d = Some a"
  using inet_addr_c_str [OF strcpy_c_str] by (simp add: FTC_InetAddr_def inet_addr_inet_ntoa)

text \<open>C17. The record that a login stores for a peer gives back the peer's public address: turned into
  text and a host order port at login, and back into a socket address by the handlers that
  send to the peer, it is the address the login came from.\<close>

theorem stored_address_round_trip:
  assumes "fill_peer s req = Some p"
  shows "peer_addr p = Some \<lparr>sin_family = AF_INET, sin_port = sin_port (fromAddr s), sin_addr = sin_addr (fromAddr s)\<rparr>"
  using assms stored_ip
  by (auto simp: fill_peer_def peer_addr_def FTC_Htons_def Option.bind_eq_Some_conv Let_def)

theorem stored_address_round_trip_witness:
  "\<exists>p. fill_peer ((fresh_server (0 :: nat))\<lparr>fromAddr := example_addr\<rparr>)
       \<lparr>lr_name = zeros 12, lr_MyLanIP = zeros 16, lr_MyLanPort = 0, lr_ID = zeros 8, lr_bCorD = 0\<rparr> = Some p \<and>
     peer_addr p = Some example_addr"
proof -
  let ?s = "(fresh_server (0 :: nat))\<lparr>fromAddr := example_addr\<rparr>"
  let ?req = "\<lparr>lr_name = zeros 12, lr_MyLanIP = zeros 16, lr_MyLanPort = 0, lr_ID = zeros 8, lr_bCorD = 0\<rparr>"
  obtain p where p: "fill_peer ?s ?req = Some p"
    using inet_ntoa_fits [of "sin_addr example_addr"]
    by (simp add: fill_peer_def strcpy_def c_str_inet_ntoa fresh_server_def P2PSrvProc_start_def blank_peer_def Let_def)
  from stored_address_round_trip [OF p] p show ?thesis by (simp add: example_addr_def)
qed

text \<open>The hole handler as written introduces two peers: asked for a name that its list holds, it
  sends one \<^verbatim>\<open>MSG_C_HOLE_REQ\<close> to the public address of a peer of that name, and the message carries
  the requester's name and, in the form the receiving client decodes, the requester's public
  address and port.\<close>

lemma on_hole_introduces:
  assumes wf: "peers_wf (peer_heap s, ClientList s)" and req: "get_HoleReq (param_of s) = req"
    and to: "c_str (hr_toName req) = Some t" and my: "c_str (hr_myName req) = Some n"
    and ok: "HoleReq_ok req"
    and listed: "CheckPeerListByName (peer_heap s) (Some (ClientList s)) (Some (hr_toName req)) = Some True"
    and addr: "\<forall>p \<in> set (contents (peer_heap s) (ClientList s)). peer_addr p \<noteq> None"
  shows "\<exists>p remote m. p \<in> set (contents (peer_heap s) (ClientList s)) \<and> named p t \<and> peer_addr p = Some remote \<and>
    on_hole s = Some (Next, s, send_msg (sockSrv s) m remote) \<and>
    uiMsgId (tMsgHead m) = msg_code MSG_C_HOLE_REQ \<and> Msg_ok m \<and>
    (let sub = get_HoleFromSrvReq (aucParam m)
     in c_str (hs_srcName sub) = Some n \<and> FTC_InetAddr (hs_srcPubIP sub) = Some (sin_addr (fromAddr s)) \<and>
        FTC_Htons (hs_srcPubPort sub) = sin_port (fromAddr s))"
proof -
  obtain p where p: "GetPeerByName (peer_heap s) (ClientList s) (hr_toName req) = Some p" "c_str (name p) = Some t"
    using peer_list.guarded_fetch [OF wf to] listed by auto
  then have mem: "p \<in> set (contents (peer_heap s) (ClientList s))" "named p t"
    using peer_lookup.lookup_result [OF wf to, of p] by (simp_all add: named_def)
  obtain remote where remote: "peer_addr p = Some remote" using addr mem(1) by blast
  have "length n < length (zeros 12)" using ok c_str_length [OF my] by (simp add: HoleReq_ok_def)
  then obtain src where src: "strcpy (zeros 12) (hr_myName req) = Some src" using strcpy_fits [OF my] by blast
  have "length (dotted (put_u32 (sin_addr (fromAddr s)))) < length (zeros 16)"
    using inet_ntoa_fits [of "sin_addr (fromAddr s)"] by simp
  then obtain ip where ip: "strcpy (zeros 16) (inet_ntoa (sin_addr (fromAddr s))) = Some ip"
    using strcpy_fits [OF c_str_inet_ntoa] by blast
  define sub where "sub = \<lparr>hs_srcName = src, hs_srcPubIP = ip, hs_srcPubPort = htons (sin_port (fromAddr s))\<rparr>"
  have sub: "HoleFromSrvReq_ok sub"
    using strcpy_length [OF src] strcpy_length [OF ip] by (simp add: sub_def HoleFromSrvReq_ok_def)
  obtain m where m: "make_msg MSG_TYPE_INDICATE MSG_C_HOLE_REQ 30 (put_HoleFromSrvReq sub) = Some m"
    using HoleFromSrvReq_layout.put_length [OF sub] by (simp add: make_msg_eq)
  have "get_HoleFromSrvReq (aucParam m) = sub"
    by (simp only: make_msg_fields [OF m] HoleFromSrvReq_layout.get_overwrite [OF sub])
  moreover have "on_hole s = Some (Next, s, send_msg (sockSrv s) m remote)"
    using m p(2) by (simp add: on_hole_def req listed p remote src ip sub_def)
  moreover have "c_str (hs_srcName sub) = Some n" "FTC_InetAddr (hs_srcPubIP sub) = Some (sin_addr (fromAddr s))"
    "FTC_Htons (hs_srcPubPort sub) = sin_port (fromAddr s)"
    using strcpy_c_str [OF src] my stored_ip [OF ip] by (simp_all add: sub_def FTC_Htons_def)
  ultimately show ?thesis using mem remote make_msg_fields(2) [OF m] make_msg_ok [OF m] by (auto simp: Let_def)
qed

text \<open>A server whose list holds one peer, and that has just received a message of zeros.\<close>

definition hole_server :: "nat server" where
  "hole_server = (fresh_server 0)\<lparr>peer_heap := [7 \<mapsto> blank_peer], ClientList := [7], fromAddr := example_addr\<rparr>"

lemma hole_server_facts:
  "peers_wf (peer_heap hole_server, ClientList hole_server)"
  "get_HoleReq (param_of hole_server) = \<lparr>hr_myName = zeros 12, hr_toName = zeros 12, hr_reserve = zeros 8\<rparr>"
  "CheckPeerListByName (peer_heap hole_server) (Some (ClientList hole_server)) (Some (zeros 12)) = Some True"
  "\<forall>p \<in> set (contents (peer_heap hole_server) (ClientList hole_server)). peer_addr p \<noteq> None"
  "sockSrv hole_server = 5" "fromAddr hole_server = example_addr"
proof -
  have l: "ClientList hole_server = [7]" and h: "peer_heap hole_server = [7 \<mapsto> blank_peer]" by (simp_all add: hole_server_def)
  have n: "named blank_peer []" by (simp add: named_def blank_peer_def)
  then show wf: "peers_wf (peer_heap hole_server, ClientList hole_server)" by (auto simp: l h)
  show "CheckPeerListByName (peer_heap hole_server) (Some (ClientList hole_server)) (Some (zeros 12)) = Some True"
    using check_loop_refines [OF wf, of "zeros 12" "[]"] n by (simp add: CheckPeerListByName_def contents_def l h)
  show "\<forall>p \<in> set (contents (peer_heap hole_server) (ClientList hole_server)). peer_addr p \<noteq> None"
    by (simp add: contents_def peer_addr_def FTC_InetAddr_def inet_addr_def blank_peer_def l h)
  show "get_HoleReq (param_of hole_server) = \<lparr>hr_myName = zeros 12, hr_toName = zeros 12, hr_reserve = zeros 8\<rparr>"
    by (simp add: hole_server_def param_of_def msg_of_def fresh_server_def P2PSrvProc_start_def get_Msg_def get_HoleReq_def)
  show "sockSrv hole_server = 5" "fromAddr hole_server = example_addr" by (simp_all add: hole_server_def)
qed

section \<open>Start-up\<close>

lemma create_tables_setup: "create_tables api g sqls = Some (r, g') \<Longrightarrow> setup_of g' = setup_of g"
proof (induction api g sqls rule: create_tables.induct)
  case (2 api g sql sqls)
  then obtain ret i g1 where ins: "sqllite_insert api g sql [] True False = Some (ret, i, g1)"
    by (auto simp: Option.bind_eq_Some_conv)
  with sqllite_insert_setup [OF ins] 2 show ?case by (auto split: if_splits)
qed simp

lemma sqllite_init_open:
  "sqllite_init api rb wb url g = Some (ret, g') \<Longrightarrow> 0 \<le> ret \<Longrightarrow> db_handle g' \<and> insertcallback g' = insertcallback g"
  by (auto simp: sqllite_init_def Let_def split: if_splits prod.splits)

lemma main_server_runs:
  assumes "main_server api rb wb env thread_ok g msg0 peer0 = Some (Main_Runs s calls)"
  obtains g2 sock where "s = P2PSrvProc_start g2 sock msg0 peer0" and "0 \<le> sock" and thread_ok
    and "FTC_CreateUdpSock env 0 (FTC_Htons SERVER_PORT) = (sock, calls)"
    and "db_handle g2" and "insertcallback g2 = insertcallback g"
proof -
  have ip: "FTC_InetAddr (literal ''0.0.0.0'') = Some 0" by code_simp
  obtain ret g1 where i: "sqllite_init api rb wb P2P_DB_NAME g = Some (ret, g1)"
    using assms by (auto simp: main_server_def Option.bind_eq_Some_conv)
  obtain sock cs where c: "FTC_CreateUdpSock env 0 (FTC_Htons SERVER_PORT) = (sock, cs)" by fastforce
  obtain g2 where g2: "0 \<le> ret" "setup_of g2 = setup_of g1" "0 \<le> sock" thread_ok
      "s = P2PSrvProc_start g2 sock msg0 peer0" "calls = cs"
    using assms by (auto simp: main_server_def initbasicdata_def i ip c Option.bind_eq_Some_conv split: if_splits
        dest!: create_tables_setup sqllite_insert_setup)
  with that c sqllite_init_open [OF i] setup_of_D [OF g2(2)] show ?thesis by auto
qed

text \<open>C18. When the program reaches its service loop, the database is open, the socket is a descriptor
  bound to port 8888 of every interface in non-blocking mode, and the thread starts in a
  well-formed state; on every other path \<^verbatim>\<open>main\<close> returns -1.\<close>

theorem main_server_ready:
  assumes "main_server api rb wb env thread_ok g msg0 peer0 = Some st"
    and "length msg0 = 1440" and "PeerInfo_ok peer0"
  shows "case st of
      Main_Exit r g' calls \<Rightarrow> r = - 1
    | Main_Runs s calls \<Rightarrow> srv_ok s \<and> db_handle (sdb s) \<and> insertcallback (sdb s) = insertcallback g \<and>
        0 \<le> sockSrv s \<and> thread_ok \<and>
        calls = [Call_socket, Call_bind (sockSrv s) \<lparr>sin_family = AF_INET, sin_port = htons 8888, sin_addr = 0\<rparr>,
          Call_getfl (sockSrv s), Call_setfl (sockSrv s) (env_getfl env OR O_NONBLOCK)]"
proof (cases st)
  case (Main_Exit r g' calls)
  then show ?thesis using assms(1) by (auto simp: main_server_def case_prod_beta Let_def Option.bind_eq_Some_conv split: if_splits)
next
  case (Main_Runs s calls)
  then have "main_server api rb wb env thread_ok g msg0 peer0 = Some (Main_Runs s calls)" using assms(1) by simp
  then obtain g2 sock where "s = P2PSrvProc_start g2 sock msg0 peer0" "0 \<le> sock" thread_ok "db_handle g2"
      "insertcallback g2 = insertcallback g" "FTC_CreateUdpSock env 0 (FTC_Htons SERVER_PORT) = (sock, calls)"
    by (rule main_server_runs)
  then show ?thesis
    using srv_start_ok [OF assms(2,3)]
    by (auto simp: Main_Runs P2PSrvProc_start_def SERVER_PORT_def FTC_Htons_def FTC_CreateUdpSock_def
        CreateUdpSockUnix_def Let_def split: if_splits)
qed

theorem main_server_ready_witness:
  "\<exists>s calls. main_server (fixed_engine 0 101 0) False True
      \<lparr>env_socket = 5, env_bind = 0, env_getfl = 2, env_setfl = 0\<rparr> True (db_static_init 0) (zeros 1440) blank_peer =
      Some (Main_Runs s calls) \<and> srv_ok s \<and> db_handle (sdb s)"
proof -
  have "case main_server (fixed_engine 0 101 0) False True
      \<lparr>env_socket = 5, env_bind = 0, env_getfl = 2, env_setfl = 0\<rparr> True (db_static_init 0) (zeros 1440) blank_peer of
      Some (Main_Runs s calls) \<Rightarrow> True | _ \<Rightarrow> False"
    by code_simp
  then obtain s calls where run: "main_server (fixed_engine 0 101 0) False True
      \<lparr>env_socket = 5, env_bind = 0, env_getfl = 2, env_setfl = 0\<rparr> True (db_static_init 0) (zeros 1440) blank_peer =
      Some (Main_Runs s calls)"
    by (auto split: option.splits start.splits)
  from main_server_ready [OF run blank_ok(2,1)] run show ?thesis by auto
qed

end
