(* ===== verification/Login_Directory.thy ===== *)
theory Login_Directory
  imports P2P_Server
begin

text \<open>
  The login service of the server against its abstract specification.

  What the server promises its clients is a directory from user names to their addresses and
  login state. The server keeps it in the table \<^verbatim>\<open>p2p_peerinfo\<close>, through SQL texts that SQLite
  executes; \<open>peer_db\<close> states what SQLite documents about exactly these texts, over the rows of
  the table. The theory shows that the handlers of \<^verbatim>\<open>server.cpp\<close>, run through the dispatch loop
  on the bytes of the requests, implement the directory.
\<close>

section \<open>Rows and the SQL texts\<close>

record entry =
  e_pubipaddr :: "byte list"
  e_pubport :: int
  e_lanipaddr :: "byte list"
  e_lanport :: int
  e_devicetype :: int
  e_loginstatus :: int

record peer_row =
  row_id :: int
  row_username :: "byte list"
  row_entry :: entry

text \<open>The select text puts the name between double quotes. SQLite reads a double quoted word as a
  column name if the table has such a column, without regard to case, and a quote in the name
  ends the word, so the text means a comparison with the name for these names only.\<close>

definition peer_columns :: "byte list list" where
  "peer_columns = map bytes [''id'', ''username'', ''pubipaddr'', ''pubport'', ''lanipaddr'', ''lanport'',
     ''devicetype'', ''loginstatus'', ''rowid'', ''oid'', ''_rowid_'']"

definition tolower :: "byte \<Rightarrow> byte" where
  "tolower c = (if 65 \<le> c \<and> c \<le> 90 then c + 32 else c)"

definition plain_name :: "byte list \<Rightarrow> bool" where
  "plain_name n \<longleftrightarrow> n \<noteq> [] \<and> 34 \<notin> set n \<and> 0 \<notin> set n \<and> map tolower n \<notin> set peer_columns"

definition has_user :: "byte list \<Rightarrow> peer_row \<Rightarrow> bool" where
  "has_user n r \<longleftrightarrow> row_username r = n"

definition entry_of_params :: "byte list \<Rightarrow> int \<Rightarrow> byte list \<Rightarrow> int \<Rightarrow> int \<Rightarrow> entry" where
  "entry_of_params pub pport lan lport dev = \<lparr>e_pubipaddr = pub, e_pubport = pport, e_lanipaddr = lan,
     e_lanport = lport, e_devicetype = dev, e_loginstatus = 1\<rparr>"

definition update_user :: "byte list \<Rightarrow> (entry \<Rightarrow> entry) \<Rightarrow> peer_row list \<Rightarrow> peer_row list" where
  "update_user n f rs = map (\<lambda>r. if has_user n r then r\<lparr>row_entry := f (row_entry r)\<rparr> else r) rs"

text \<open>\<open>live\<close> holds of an engine state whose connection can read and write the table, and \<open>rows\<close> are
  the rows of the table in that state.\<close>

definition executes ::
  "('e, 's) sqlite \<Rightarrow> ('e \<Rightarrow> bool) \<Rightarrow> ('e \<Rightarrow> peer_row list) \<Rightarrow> sql_text \<Rightarrow> db_val list \<Rightarrow>
   (peer_row list \<Rightarrow> peer_row list \<Rightarrow> bool) \<Rightarrow> bool" where
  "executes api live rows sql params eff \<longleftrightarrow>
     (\<forall>e. live e \<longrightarrow> (\<exists>st e' st'. sqlite3_prepare_v2 api e True sql = (SQLITE_OK, st) \<and>
        sqlite3_step api e (bind_params api st 0 params) = (SQLITE_DONE, e', st') \<and> live e' \<and>
        eff (rows e) (rows e')))"

definition selects_user :: "('e, 's) sqlite \<Rightarrow> ('e \<Rightarrow> bool) \<Rightarrow> ('e \<Rightarrow> peer_row list) \<Rightarrow> bool" where
  "selects_user api live rows \<longleftrightarrow>
     (\<forall>e n. live e \<and> plain_name n \<longrightarrow> (\<exists>st e' st'.
        sqlite3_prepare_v2 api e True (sql_select_user n) = (SQLITE_OK, st) \<and> live e' \<and> rows e' = rows e \<and>
        (case find_first (has_user n) (rows e) of
           None \<Rightarrow> sqlite3_step api e st = (SQLITE_DONE, e', st')
         | Some r \<Rightarrow> sqlite3_step api e st = (SQLITE_ROW, e', st') \<and>
             sqlite3_column_type api st' 1 \<noteq> SQLITE_NULL \<and>
             sqlite3_column_int api st' 1 = e_loginstatus (row_entry r))))"

definition runs_update_login :: "('e, 's) sqlite \<Rightarrow> ('e \<Rightarrow> bool) \<Rightarrow> ('e \<Rightarrow> peer_row list) \<Rightarrow> bool" where
  "runs_update_login api live rows \<longleftrightarrow>
     (\<forall>pub pport lan lport dev n.
        executes api live rows sql_update_login
          [DB_STRING pub, DB_INT pport, DB_STRING lan, DB_INT lport, DB_INT dev, DB_STRING n]
          (\<lambda>rs rs'. rs' = update_user n (\<lambda>_. entry_of_params pub pport lan lport dev) rs))"

definition runs_insert_login :: "('e, 's) sqlite \<Rightarrow> ('e \<Rightarrow> bool) \<Rightarrow> ('e \<Rightarrow> peer_row list) \<Rightarrow> bool" where
  "runs_insert_login api live rows \<longleftrightarrow>
     (\<forall>pub pport lan lport dev n.
        executes api live rows sql_insert_login
          [DB_STRING pub, DB_INT pport, DB_STRING lan, DB_INT lport, DB_INT dev, DB_STRING n]
          (\<lambda>rs rs'. \<exists>i. rs' = rs @ [\<lparr>row_id = i, row_username = n,
             row_entry = entry_of_params pub pport lan lport dev\<rparr>]))"

definition runs_update_logout :: "('e, 's) sqlite \<Rightarrow> ('e \<Rightarrow> bool) \<Rightarrow> ('e \<Rightarrow> peer_row list) \<Rightarrow> bool" where
  "runs_update_logout api live rows \<longleftrightarrow>
     (\<forall>n. executes api live rows sql_update_logout [DB_STRING n]
          (\<lambda>rs rs'. rs' = update_user n (\<lambda>x. x\<lparr>e_loginstatus := 0\<rparr>) rs))"

text \<open>Two conditions joined by a comma are a syntax error.\<close>

definition rejects_get_peers :: "('e, 's) sqlite \<Rightarrow> bool" where
  "rejects_get_peers api \<longleftrightarrow> (\<forall>e. fst (sqlite3_prepare_v2 api e True sql_get_peers) \<noteq> SQLITE_OK)"

definition peer_db :: "('e, 's) sqlite \<Rightarrow> ('e \<Rightarrow> bool) \<Rightarrow> ('e \<Rightarrow> peer_row list) \<Rightarrow> bool" where
  "peer_db api live rows \<longleftrightarrow> selects_user api live rows \<and> runs_update_login api live rows \<and>
     runs_insert_login api live rows \<and> runs_update_logout api live rows"

section \<open>The abstract directory\<close>

type_synonym directory = "byte list \<rightharpoonup> entry"

definition dir_login :: "byte list \<Rightarrow> entry \<Rightarrow> directory \<Rightarrow> int \<times> directory" where
  "dir_login n x d =
     (case d n of
        Some y \<Rightarrow> if e_loginstatus y = 1 then (1, d) else (0, d(n \<mapsto> x))
      | None \<Rightarrow> (0, d(n \<mapsto> x)))"

definition dir_logout :: "byte list \<Rightarrow> directory \<Rightarrow> directory" where
  "dir_logout n d = d(n := map_option (\<lambda>x. x\<lparr>e_loginstatus := 0\<rparr>) (d n))"

definition dir_of :: "peer_row list \<Rightarrow> directory" where
  "dir_of rs = map_of (map (\<lambda>r. (row_username r, row_entry r)) rs)"

lemma dir_of_find: "dir_of rs n = map_option row_entry (find_first (has_user n) rs)"
  by (induction rs) (auto simp: dir_of_def has_user_def)

lemma dir_of_update_user: "dir_of (update_user n f rs) = (dir_of rs)(n := map_option f (dir_of rs n))"
  by (rule ext, induction rs) (auto simp: dir_of_def update_user_def has_user_def)

lemma dir_of_append:
  "dir_of rs n = None \<Longrightarrow> dir_of (rs @ [\<lparr>row_id = i, row_username = n, row_entry = x\<rparr>]) = (dir_of rs)(n \<mapsto> x)"
  by (rule ext, induction rs) (auto simp: dir_of_def split: if_splits)

lemma users_update_user [simp]: "map row_username (update_user n f rs) = map row_username rs"
  by (simp add: update_user_def)

lemma dir_of_None_iff: "dir_of rs n = None \<longleftrightarrow> n \<notin> row_username ` set rs"
  by (induction rs) (auto simp: dir_of_def)

section \<open>A login request\<close>

definition login_req_ok :: "T_MsgLoginReq \<Rightarrow> byte list \<Rightarrow> bool" where
  "login_req_ok req n \<longleftrightarrow> LoginReq_ok req \<and> c_str (lr_name req) = Some n \<and> plain_name n \<and>
     0 \<in> set (lr_ID req) \<and> 0 \<in> set (lr_MyLanIP req)"

definition login_entry :: "sockaddr_in \<Rightarrow> T_MsgLoginReq \<Rightarrow> entry" where
  "login_entry a req = entry_of_params (dotted (put_u32 (sin_addr a))) (uint (htons (sin_port a)))
     (the (c_str (lr_MyLanIP req))) (uint (lr_MyLanPort req)) (uint (lr_bCorD req))"

definition result_msg :: "msg_id \<Rightarrow> byte \<Rightarrow> T_Msg" where
  "result_msg mid v = the (make_msg MSG_TYPE_RESPONSE mid 8 (put_ResultResp \<lparr>rr_result = v, rr_reserve = zeros 7\<rparr>))"

lemma make_result_msg:
  "make_msg MSG_TYPE_RESPONSE mid 8 (put_ResultResp \<lparr>rr_result = v, rr_reserve = zeros 7\<rparr>) = Some (result_msg mid v)"
  by (simp add: result_msg_def make_msg_eq put_ResultResp_def)

lemma send_result_msg: "0 \<le> sock \<Longrightarrow> send_msg sock (result_msg mid v) a = [(a, put_Msg (result_msg mid v))]"
  using Msg_layout.put_length [OF make_msg_ok [OF make_result_msg [of mid v]]]
  by (auto simp: send_msg_def sent_def)

lemma reply_login_eq: "reply_login s v = Some (Next, s, send_msg (sockSrv s) (result_msg MSG_R_LOGIN (of_int v)) (fromAddr s))"
  using make_result_msg [of MSG_R_LOGIN "of_int v"] by (simp add: reply_login_def ResponseLoginmsg_def)

lemma strcpy_fill:
  assumes "c_str src = Some t" and "length t < length dst"
  obtains d where "strcpy dst src = Some d" and "c_str d = Some t" and "length d = length dst"
  using strcpy_fits [OF assms] strcpy_c_str strcpy_length assms(1) by metis

lemma fill_peer_total:
  assumes "PeerInfo_ok (ptPeer s)" and "LoginReq_ok req" and n: "c_str (lr_name req) = Some n"
    and nul: "0 \<in> set (lr_ID req)" "0 \<in> set (lr_MyLanIP req)"
  obtains p where "fill_peer s req = Some p" and "PeerInfo_ok p"
    and "login_params p = Some [DB_STRING (e_pubipaddr (login_entry (fromAddr s) req)),
       DB_INT (e_pubport (login_entry (fromAddr s) req)), DB_STRING (e_lanipaddr (login_entry (fromAddr s) req)),
       DB_INT (e_lanport (login_entry (fromAddr s) req)), DB_INT (e_devicetype (login_entry (fromAddr s) req)),
       DB_STRING n]"
proof -
  have req: "length (lr_name req) = 12" "length (lr_ID req) = 8" "length (lr_MyLanIP req) = 16"
    using assms(2) by (simp_all add: LoginReq_ok_def)
  obtain i where i: "c_str (lr_ID req) = Some i"
    using nul(1) c_str_None_iff [of "lr_ID req"] by auto
  obtain l where l: "c_str (lr_MyLanIP req) = Some l"
    using nul(2) c_str_None_iff [of "lr_MyLanIP req"] by auto
  let ?pub = "inet_ntoa (sin_addr (fromAddr s))"
  have len: "length n < length (name (ptPeer s))" "length i < length (ID (ptPeer s))"
    "length l < length (sLanIp (ptPeer s))" "length (dotted (put_u32 (sin_addr (fromAddr s)))) < length (sPubIp (ptPeer s))"
    using assms(1) c_str_length [OF n] c_str_length [OF i] c_str_length [OF l] req
      inet_ntoa_fits [of "sin_addr (fromAddr s)"] by (simp_all add: PeerInfo_ok_def)
  obtain n' where n': "strcpy (name (ptPeer s)) (lr_name req) = Some n'" "c_str n' = Some n"
    using strcpy_fill [OF n len(1)] by blast
  obtain i' where i': "strcpy (ID (ptPeer s)) (lr_ID req) = Some i'"
    using strcpy_fill [OF i len(2)] by blast
  obtain l' where l': "strcpy (sLanIp (ptPeer s)) (lr_MyLanIP req) = Some l'" "c_str l' = Some l"
    using strcpy_fill [OF l len(3)] by blast
  obtain p' where p': "strcpy (sPubIp (ptPeer s)) ?pub = Some p'"
      "c_str p' = Some (dotted (put_u32 (sin_addr (fromAddr s))))"
    using strcpy_fill [OF c_str_inet_ntoa len(4)] by blast
  obtain p where p: "fill_peer s req = Some p" by (simp add: fill_peer_def n' i' l' p' Let_def)
  have "login_params p = Some [DB_STRING (e_pubipaddr (login_entry (fromAddr s) req)),
       DB_INT (e_pubport (login_entry (fromAddr s) req)), DB_STRING (e_lanipaddr (login_entry (fromAddr s) req)),
       DB_INT (e_lanport (login_entry (fromAddr s) req)), DB_INT (e_devicetype (login_entry (fromAddr s) req)),
       DB_STRING n]"
    using p by (auto simp: fill_peer_def n' i' l' p' Let_def login_params_def db_string_def
        login_entry_def entry_of_params_def l)
  with p fill_peer_ok [OF p assms(1)] show ?thesis by (rule that)
qed

section \<open>The login handler implements the directory\<close>

definition db_ready :: "('e \<Rightarrow> bool) \<Rightarrow> 'e server \<Rightarrow> bool" where
  "db_ready live s \<longleftrightarrow> db_handle (sdb s) \<and> insertcallback (sdb s) = None \<and> live (engine (sdb s))"

definition table :: "('e \<Rightarrow> peer_row list) \<Rightarrow> 'e server \<Rightarrow> peer_row list" where
  "table rows s = rows (engine (sdb s))"

lemma set_sql_total:
  assumes "srv_ok s" and "length t < 256"
  obtains s' where "set_sql s t = Some s'" and "sdb s' = sdb s" and "ptPeer s' = ptPeer s"
    and "srv_ok s'" and "sockSrv s' = sockSrv s" and "fromAddr s' = fromAddr s"
  using assms by (simp add: set_sql_def srv_ok_def)

lemma sql_lengths:
  "length sql_update_login < 256" "length sql_insert_login < 256" "length sql_update_logout < 256"
  "length sql_get_peers < 256" "length n < 12 \<Longrightarrow> length (sql_select_user n) < 256"
  by (simp_all add: sql_update_login_def sql_insert_login_def sql_update_logout_def sql_get_peers_def
      sql_select_user_def)

lemma login_entry_params:
  "entry_of_params (e_pubipaddr (login_entry a req)) (e_pubport (login_entry a req))
     (e_lanipaddr (login_entry a req)) (e_lanport (login_entry a req)) (e_devicetype (login_entry a req)) =
   login_entry a req"
  by (simp add: login_entry_def entry_of_params_def)

definition login_done ::
  "('e \<Rightarrow> bool) \<Rightarrow> ('e \<Rightarrow> peer_row list) \<Rightarrow> 'e server \<Rightarrow> 'e outcome \<Rightarrow> byte \<Rightarrow> peer_row list \<Rightarrow> bool" where
  "login_done live rows s result v rs' \<longleftrightarrow>
     (\<exists>s'. result = Some (Next, s', send_msg (sockSrv s) (result_msg MSG_R_LOGIN v) (fromAddr s)) \<and>
        db_ready live s' \<and> table rows s' = rs')"

lemma reply_login_done:
  assumes "sockSrv s1 = sockSrv s" and "fromAddr s1 = fromAddr s" and "setup_of g = setup_of (sdb s)"
    and "db_ready live s" and "live (engine g)" and "rows (engine g) = rs'"
  shows "login_done live rows s (reply_login (s1\<lparr>sdb := g\<rparr>) v) (of_int v) rs'"
  using assms setup_of_D [OF assms(3)]
  by (simp add: login_done_def reply_login_eq db_ready_def table_def)

lemma executesE:
  assumes "executes api live rows sql params eff" and "live (engine g)" and "db_handle g"
  obtains st e' st' where "sqlite3_prepare_v2 api (engine g) (db_handle g) sql = (SQLITE_OK, st)"
    and "sqlite3_step api (engine g) (bind_params api st 0 params) = (SQLITE_DONE, e', st')"
    and "live e'" and "eff (rows (engine g)) (rows e')"
  using assms unfolding executes_def by metis

lemma query_user:
  assumes "selects_user api live rows" and "live (engine g)" and "db_handle g" and "plain_name n"
  obtains ret stmt g' where "sqllite_query api g (sql_select_user n) [] True = (ret, stmt, g')"
    and "setup_of g' = setup_of g" and "live (engine g')" and "rows (engine g') = rows (engine g)"
    and "case find_first (has_user n) (rows (engine g)) of None \<Rightarrow> stmt = None
       | Some r \<Rightarrow> \<exists>st. stmt = Some st \<and> PSS_DB_CPY_INT api st 1 = e_loginstatus (row_entry r)"
proof -
  obtain st e' st' where p: "sqlite3_prepare_v2 api (engine g) True (sql_select_user n) = (SQLITE_OK, st)"
    and e': "live e'" "rows e' = rows (engine g)"
    and step: "case find_first (has_user n) (rows (engine g)) of
        None \<Rightarrow> sqlite3_step api (engine g) st = (SQLITE_DONE, e', st')
      | Some r \<Rightarrow> sqlite3_step api (engine g) st = (SQLITE_ROW, e', st') \<and>
          sqlite3_column_type api st' 1 \<noteq> SQLITE_NULL \<and>
          sqlite3_column_int api st' 1 = e_loginstatus (row_entry r)"
    using assms(1,2,4) unfolding selects_user_def by blast
  show ?thesis
  proof (cases "find_first (has_user n) (rows (engine g))")
    case None
    with step p assms(3) obtain g' where "sqllite_query api g (sql_select_user n) [] True = (- 2, None, g')"
      "engine g' = e'" "setup_of g' = setup_of g"
      using sqllite_query_done [of api g "sql_select_user n" st "[]" e' st' True] by auto
    with None e' show ?thesis by (intro that [of "- 2" None g']) auto
  next
    case (Some r)
    with step p assms(3) obtain g' where "sqllite_query api g (sql_select_user n) [] True = (0, Some st', g')"
      "engine g' = e'" "setup_of g' = setup_of g"
      using sqllite_query_row [of api g "sql_select_user n" st "[]" e' st'] by auto
    with Some e' step show ?thesis by (intro that [of 0 "Some st'" g']) (auto simp: PSS_DB_CPY_INT_def)
  qed
qed

definition entry_params :: "byte list \<Rightarrow> entry \<Rightarrow> db_val list" where
  "entry_params n x = [DB_STRING (e_pubipaddr x), DB_INT (e_pubport x), DB_STRING (e_lanipaddr x),
     DB_INT (e_lanport x), DB_INT (e_devicetype x), DB_STRING n]"

lemma update_entry:
  assumes "runs_update_login api live rows" and "live (engine g)" and "db_handle g"
  obtains g' where "sqllite_update api g sql_update_login (entry_params n (login_entry a req)) True = (0, g')"
    and "setup_of g' = setup_of g" and "live (engine g')"
    and "rows (engine g') = update_user n (\<lambda>_. login_entry a req) (rows (engine g))"
proof -
  let ?x = "login_entry a req"
  have ex: "executes api live rows sql_update_login (entry_params n (login_entry a req))
      (\<lambda>rs rs'. rs' = update_user n (\<lambda>_. login_entry a req) rs)"
    using assms(1) [unfolded runs_update_login_def, rule_format, of "e_pubipaddr ?x" "e_pubport ?x" "e_lanipaddr ?x" "e_lanport ?x" "e_devicetype ?x" n]
    by (simp add: entry_params_def login_entry_params)
  obtain st e' st' where p: "sqlite3_prepare_v2 api (engine g) (db_handle g) sql_update_login = (SQLITE_OK, st)"
    and q: "sqlite3_step api (engine g) (bind_params api st 0 (entry_params n (login_entry a req))) = (SQLITE_DONE, e', st')"
    and e': "live e'" "rows e' = update_user n (\<lambda>_. login_entry a req) (rows (engine g))"
    by (rule executesE [OF ex assms(2,3)])
  from sqllite_update_done [OF p q, of True] e' that show ?thesis by metis
qed

lemma insert_entry:
  assumes "runs_insert_login api live rows" and "live (engine g)" and "db_handle g" and "insertcallback g = None"
  obtains i j g' where "sqllite_insert api g sql_insert_login (entry_params n (login_entry a req)) True False = Some (0, j, g')"
    and "setup_of g' = setup_of g" and "live (engine g')"
    and "rows (engine g') = rows (engine g) @ [\<lparr>row_id = i, row_username = n, row_entry = login_entry a req\<rparr>]"
proof -
  let ?x = "login_entry a req"
  have ex: "executes api live rows sql_insert_login (entry_params n (login_entry a req))
      (\<lambda>rs rs'. \<exists>i. rs' = rs @ [\<lparr>row_id = i, row_username = n, row_entry = login_entry a req\<rparr>])"
    using assms(1) [unfolded runs_insert_login_def, rule_format, of "e_pubipaddr ?x" "e_pubport ?x" "e_lanipaddr ?x" "e_lanport ?x" "e_devicetype ?x" n]
    by (simp add: entry_params_def login_entry_params)
  obtain st e' st' i where p: "sqlite3_prepare_v2 api (engine g) (db_handle g) sql_insert_login = (SQLITE_OK, st)"
    and q: "sqlite3_step api (engine g) (bind_params api st 0 (entry_params n (login_entry a req))) = (SQLITE_DONE, e', st')"
    and e': "live e'" "rows e' = rows (engine g) @ [\<lparr>row_id = i, row_username = n, row_entry = login_entry a req\<rparr>]"
    by (rule executesE [OF ex assms(2,3)]) auto
  from sqllite_insert_done [OF p q assms(4), of True] e' that show ?thesis by metis
qed

text \<open>The handler up to the query: what follows depends on the answer to the query only.\<close>

definition login_rest :: "('e, 's) sqlite \<Rightarrow> 'e server \<Rightarrow> db_val list \<Rightarrow> 's option \<Rightarrow> 'e db_globals \<Rightarrow> 'e outcome" where
  "login_rest api s params stmt g =
     (case stmt of
       Some stmt \<Rightarrow>
         if PSS_DB_CPY_INT api stmt 1 = 1 then reply_login (s\<lparr>sdb := finalize g\<rparr>) 1
         else do {
           s \<leftarrow> set_sql (s\<lparr>sdb := finalize g\<rparr>) sql_update_login;
           let (ret, g) = sqllite_update api (sdb s) sql_update_login params True;
           reply_login (s\<lparr>sdb := g\<rparr>) (if ret \<noteq> 0 then 1 else 0) }
     | None \<Rightarrow> do {
         s \<leftarrow> set_sql (s\<lparr>sdb := g\<rparr>) sql_insert_login;
         (ret, _, g) \<leftarrow> sqllite_insert api (sdb s) sql_insert_login params True False;
         reply_login (s\<lparr>sdb := g\<rparr>) (if ret \<noteq> 0 then 1 else 0) })"

lemma on_login_begin:
  assumes ok: "srv_ok s" and req: "get_LoginReq (param_of s) = req" and rok: "LoginReq_ok req"
    and n: "c_str (lr_name req) = Some n" and nul: "0 \<in> set (lr_ID req)" "0 \<in> set (lr_MyLanIP req)"
    and q: "sqllite_query api (sdb s) (sql_select_user n) [] True = (ret, stmt, g)"
  obtains s1 where "srv_ok s1" and "sockSrv s1 = sockSrv s" and "fromAddr s1 = fromAddr s"
    and "on_login api s = login_rest api s1 (entry_params n (login_entry (fromAddr s) req)) stmt g"
proof -
  obtain p where p: "fill_peer s req = Some p" "PeerInfo_ok p"
    and params: "login_params p = Some (entry_params n (login_entry (fromAddr s) req))"
    using fill_peer_total [OF _ rok n nul, of s] ok unfolding srv_ok_def entry_params_def by blast
  have len: "length n < 12" using rok c_str_length [OF n] by (simp add: LoginReq_ok_def)
  have "srv_ok (s\<lparr>ptPeer := p\<rparr>)" using ok p(2) by (simp add: srv_ok_def)
  then obtain s1 where s1: "set_sql (s\<lparr>ptPeer := p\<rparr>) (sql_select_user n) = Some s1" "sdb s1 = sdb s"
      "ptPeer s1 = p" "srv_ok s1" "sockSrv s1 = sockSrv s" "fromAddr s1 = fromAddr s"
    by (rule set_sql_total [OF _ sql_lengths(5) [OF len]]) simp
  have keep: "ptPeer s2 = ptPeer s1" if "set_sql (s1\<lparr>sdb := h\<rparr>) t = Some s2" for h t s2
    using that by (auto simp: set_sql_def split: if_splits)
  have "on_login api s = login_rest api s1 (entry_params n (login_entry (fromAddr s) req)) stmt g"
    by (simp add: on_login_def login_rest_def req n p(1) s1(1,2) q Let_def params s1(3) keep
        cong: option.case_cong Option.bind_cong if_cong)
  with s1 that show ?thesis by blast
qed

lemma login_rest_done:
  assumes db: "peer_db api live rows" and ready: "db_ready live s" and ok: "srv_ok s1"
    and s1: "sockSrv s1 = sockSrv s" "fromAddr s1 = fromAddr s"
    and g: "setup_of g = setup_of (sdb s)" "live (engine g)" "rows (engine g) = table rows s"
    and stmt: "case find_first (has_user n) (table rows s) of None \<Rightarrow> stmt = None
       | Some r \<Rightarrow> \<exists>st. stmt = Some st \<and> PSS_DB_CPY_INT api st 1 = e_loginstatus (row_entry r)"
  shows "case find_first (has_user n) (table rows s) of
      None \<Rightarrow> \<exists>i. login_done live rows s (login_rest api s1 (entry_params n (login_entry a req)) stmt g) 0
        (table rows s @ [\<lparr>row_id = i, row_username = n, row_entry = login_entry a req\<rparr>])
    | Some r \<Rightarrow> login_done live rows s (login_rest api s1 (entry_params n (login_entry a req)) stmt g)
        (if e_loginstatus (row_entry r) = 1 then 1 else 0)
        (if e_loginstatus (row_entry r) = 1 then table rows s
         else update_user n (\<lambda>_. login_entry a req) (table rows s))"
proof (cases "find_first (has_user n) (table rows s)")
  case None
  have hg: "db_handle g" "insertcallback g = None"
    using setup_of_D [OF g(1)] ready by (simp_all add: db_ready_def)
  have "srv_ok (s1\<lparr>sdb := g\<rparr>)" using ok by simp
  then obtain s2 where s2: "set_sql (s1\<lparr>sdb := g\<rparr>) sql_insert_login = Some s2" "sdb s2 = g"
      "sockSrv s2 = sockSrv s" "fromAddr s2 = fromAddr s"
    by (rule set_sql_total [OF _ sql_lengths(2)]) (simp_all add: s1)
  obtain i j g' where
    ins: "sqllite_insert api g sql_insert_login (entry_params n (login_entry a req)) True False = Some (0, j, g')"
    and g': "setup_of g' = setup_of g" "live (engine g')"
      "rows (engine g') = rows (engine g) @ [\<lparr>row_id = i, row_username = n, row_entry = login_entry a req\<rparr>]"
    using insert_entry [of api live rows g] db g(2) hg unfolding peer_db_def by metis
  have "login_done live rows s (reply_login (s2\<lparr>sdb := g'\<rparr>) 0) (of_int 0) (rows (engine g'))"
    using s2 g g' ready by (intro reply_login_done) simp_all
  then show ?thesis using None stmt g(3) g'(3) by (auto simp: login_rest_def s2 ins)
next
  case (Some r)
  then obtain st where st: "stmt = Some st" "PSS_DB_CPY_INT api st 1 = e_loginstatus (row_entry r)"
    using stmt by auto
  have fg: "setup_of (finalize g) = setup_of (sdb s)" "live (engine (finalize g))"
    "rows (engine (finalize g)) = table rows s" using g by simp_all
  show ?thesis
  proof (cases "e_loginstatus (row_entry r) = 1")
    case True
    have "login_done live rows s (reply_login (s1\<lparr>sdb := finalize g\<rparr>) 1) (of_int 1) (table rows s)"
      using s1 fg ready by (intro reply_login_done) simp_all
    then show ?thesis using Some True st by (simp add: login_rest_def)
  next
    case False
    have "srv_ok (s1\<lparr>sdb := finalize g\<rparr>)" using ok by simp
    then obtain s2 where s2: "set_sql (s1\<lparr>sdb := finalize g\<rparr>) sql_update_login = Some s2" "sdb s2 = finalize g"
        "sockSrv s2 = sockSrv s" "fromAddr s2 = fromAddr s"
      by (rule set_sql_total [OF _ sql_lengths(1)]) (simp_all add: s1)
    obtain g' where
      up: "sqllite_update api (finalize g) sql_update_login (entry_params n (login_entry a req)) True = (0, g')"
      and g': "setup_of g' = setup_of (finalize g)" "live (engine g')"
        "rows (engine g') = update_user n (\<lambda>_. login_entry a req) (rows (engine (finalize g)))"
      using update_entry [of api live rows "finalize g"] db fg(2) setup_of_D [OF fg(1)] ready
      unfolding peer_db_def db_ready_def by metis
    have "login_done live rows s (reply_login (s2\<lparr>sdb := g'\<rparr>) 0) (of_int 0) (rows (engine g'))"
      using s2 fg g' ready by (intro reply_login_done) simp_all
    then show ?thesis using Some False st g'(3) fg(3) by (simp add: login_rest_def s2 up)
  qed
qed

text \<open>The handler computes the abstract login.\<close>

lemma on_login_refines:
  assumes db: "peer_db api live rows" and ok: "srv_ok s" and ready: "db_ready live s"
    and req: "get_LoginReq (param_of s) = req" and rok: "login_req_ok req n"
    and dir: "dir_login n (login_entry (fromAddr s) req) (dir_of (table rows s)) = (v, d')"
    and dist: "distinct (map row_username (table rows s))"
  shows "\<exists>rs'. login_done live rows s (on_login api s) (of_int v) rs' \<and> dir_of rs' = d' \<and>
    distinct (map row_username rs')"
proof -
  let ?x = "login_entry (fromAddr s) req"
  have sel: "selects_user api live rows" using db by (simp add: peer_db_def)
  have h: "live (engine (sdb s))" "db_handle (sdb s)" "plain_name n"
    using ready rok by (simp_all add: db_ready_def login_req_ok_def)
  obtain ret stmt g where q: "sqllite_query api (sdb s) (sql_select_user n) [] True = (ret, stmt, g)"
    and g: "setup_of g = setup_of (sdb s)" "live (engine g)" "rows (engine g) = table rows s"
    and stmt: "case find_first (has_user n) (table rows s) of None \<Rightarrow> stmt = None
       | Some r \<Rightarrow> \<exists>st. stmt = Some st \<and> PSS_DB_CPY_INT api st 1 = e_loginstatus (row_entry r)"
    by (rule query_user [OF sel h, folded table_def [of rows s]])
  obtain s1 where s1: "srv_ok s1" "sockSrv s1 = sockSrv s" "fromAddr s1 = fromAddr s"
    and rest: "on_login api s = login_rest api s1 (entry_params n ?x) stmt g"
    using on_login_begin [OF ok req _ _ _ _ q] rok unfolding login_req_ok_def by blast
  note res = login_rest_done [OF db ready s1 g stmt, of "fromAddr s" req, folded rest]
  show ?thesis
  proof (cases "find_first (has_user n) (table rows s)")
    case None
    with res obtain i where i: "login_done live rows s (on_login api s) 0
        (table rows s @ [\<lparr>row_id = i, row_username = n, row_entry = ?x\<rparr>])" by auto
    have free: "dir_of (table rows s) n = None" by (simp add: dir_of_find None)
    then have "v = 0" "d' = (dir_of (table rows s))(n \<mapsto> ?x)"
      using dir by (simp_all add: dir_login_def)
    with i dist free dir_of_append [OF free, of i ?x] show ?thesis
      by (intro exI [of _ "table rows s @ [\<lparr>row_id = i, row_username = n, row_entry = ?x\<rparr>]"])
        (simp add: dir_of_None_iff)
  next
    case (Some r)
    then have known: "dir_of (table rows s) n = Some (row_entry r)" by (simp add: dir_of_find)
    show ?thesis
    proof (cases "e_loginstatus (row_entry r) = 1")
      case True
      with dir known have "v = 1" "d' = dir_of (table rows s)" by (simp_all add: dir_login_def)
      with res Some True dist show ?thesis by (intro exI [of _ "table rows s"]) simp
    next
      case False
      with dir known have "v = 0" "d' = (dir_of (table rows s))(n \<mapsto> ?x)" by (simp_all add: dir_login_def)
      with res Some False dist known show ?thesis
        by (intro exI [of _ "update_user n (\<lambda>_. ?x) (table rows s)"]) (simp add: dir_of_update_user)
    qed
  qed
qed

lemma on_logout_refines:
  assumes db: "peer_db api live rows" and ok: "srv_ok s" and ready: "db_ready live s"
    and n: "c_str (nr_myName (get_NameReq (param_of s))) = Some n"
  shows "\<exists>s'. on_logout api s = Some (Next, s', send_msg (sockSrv s) (result_msg MSG_R_LOGOUT 0) (fromAddr s)) \<and>
    db_ready live s' \<and> table rows s' = update_user n (\<lambda>x. x\<lparr>e_loginstatus := 0\<rparr>) (table rows s)"
proof -
  obtain s1 where s1: "set_sql s sql_update_logout = Some s1" "sdb s1 = sdb s"
      "sockSrv s1 = sockSrv s" "fromAddr s1 = fromAddr s"
    by (rule set_sql_total [OF ok sql_lengths(3)]) simp
  have ex: "executes api live rows sql_update_logout [DB_STRING n]
      (\<lambda>rs rs'. rs' = update_user n (\<lambda>x. x\<lparr>e_loginstatus := 0\<rparr>) rs)"
    using db unfolding peer_db_def runs_update_logout_def by blast
  have h: "live (engine (sdb s))" "db_handle (sdb s)" using ready by (simp_all add: db_ready_def)
  obtain st e' st' where p: "sqlite3_prepare_v2 api (engine (sdb s)) (db_handle (sdb s)) sql_update_logout = (SQLITE_OK, st)"
    and q: "sqlite3_step api (engine (sdb s)) (bind_params api st 0 [DB_STRING n]) = (SQLITE_DONE, e', st')"
    and e': "live e'" "rows e' = update_user n (\<lambda>x. x\<lparr>e_loginstatus := 0\<rparr>) (rows (engine (sdb s)))"
    by (rule executesE [OF ex h])
  obtain g' where up: "sqllite_update api (sdb s) sql_update_logout [DB_STRING n] True = (0, g')"
    and g': "engine g' = e'" "setup_of g' = setup_of (sdb s)"
    using sqllite_update_done [OF p q] by blast
  show ?thesis
    using setup_of_D [OF g'(2)] ready g' e'
    by (simp add: on_logout_def s1 n db_string_def up make_result_msg db_ready_def table_def)
qed

section \<open>Requests as datagrams\<close>

text \<open>A client's request, with the address the kernel reports for its sender.\<close>

datatype request = Login_Req sockaddr_in T_MsgLoginReq | Logout_Req sockaddr_in T_MsgLogoutReq

fun request_ok :: "request \<Rightarrow> bool" where
  "request_ok (Login_Req a req) \<longleftrightarrow> LoginReq_ok req \<and> 0 \<in> set (lr_ID req) \<and> 0 \<in> set (lr_MyLanIP req) \<and>
     (case c_str (lr_name req) of None \<Rightarrow> False | Some n \<Rightarrow> plain_name n)"
| "request_ok (Logout_Req a req) \<longleftrightarrow> NameReq_ok req \<and> 0 \<in> set (nr_myName req)"

fun request_addr :: "request \<Rightarrow> sockaddr_in" where
  "request_addr (Login_Req a req) = a"
| "request_addr (Logout_Req a req) = a"

definition login_msg :: "T_MsgLoginReq \<Rightarrow> T_Msg" where
  "login_msg req = the (make_msg MSG_TYPE_REQUEST MSG_C_LOGIN 40 (put_LoginReq req))"

definition logout_msg :: "T_MsgLogoutReq \<Rightarrow> T_Msg" where
  "logout_msg req = the (make_msg MSG_TYPE_REQUEST MSG_C_LOGOUT 12 (put_NameReq req))"

fun request_msg :: "request \<Rightarrow> T_Msg" where
  "request_msg (Login_Req a req) = login_msg req"
| "request_msg (Logout_Req a req) = logout_msg req"

lemma make_login_msg:
  "LoginReq_ok req \<Longrightarrow> make_msg MSG_TYPE_REQUEST MSG_C_LOGIN 40 (put_LoginReq req) = Some (login_msg req)"
  by (simp add: login_msg_def make_msg_eq LoginReq_layout.put_length)

lemma make_logout_msg:
  "NameReq_ok req \<Longrightarrow> make_msg MSG_TYPE_REQUEST MSG_C_LOGOUT 12 (put_NameReq req) = Some (logout_msg req)"
  by (simp add: logout_msg_def make_msg_eq NameReq_layout.put_length)

lemma login_msg_fields:
  assumes "LoginReq_ok req"
  shows "Msg_ok (login_msg req)" and "uiMsgId (tMsgHead (login_msg req)) = msg_code MSG_C_LOGIN"
    and "get_LoginReq (aucParam (login_msg req)) = req"
proof -
  note m = make_login_msg [OF assms]
  show "Msg_ok (login_msg req)" by (rule make_msg_ok [OF m])
  show "uiMsgId (tMsgHead (login_msg req)) = msg_code MSG_C_LOGIN"
    "get_LoginReq (aucParam (login_msg req)) = req"
    by (simp_all only: make_msg_fields [OF m] LoginReq_layout.get_overwrite [OF assms])
qed

lemma logout_msg_fields:
  assumes "NameReq_ok req"
  shows "Msg_ok (logout_msg req)" and "uiMsgId (tMsgHead (logout_msg req)) = msg_code MSG_C_LOGOUT"
    and "get_NameReq (aucParam (logout_msg req)) = req"
proof -
  note m = make_logout_msg [OF assms]
  show "Msg_ok (logout_msg req)" by (rule make_msg_ok [OF m])
  show "uiMsgId (tMsgHead (logout_msg req)) = msg_code MSG_C_LOGOUT"
    "get_NameReq (aucParam (logout_msg req)) = req"
    by (simp_all only: make_msg_fields [OF m] NameReq_layout.get_overwrite [OF assms])
qed

text \<open>The server serves a list of requests, one round of its loop for each.\<close>

fun serve :: "('e, 's) sqlite \<Rightarrow> indeterminate \<Rightarrow> 'e server \<Rightarrow> request list \<Rightarrow> ('e server \<times> datagram list) option" where
  "serve api ind s [] = Some (s, [])"
| "serve api ind s (r # rs) = do {
     (f, s, out) \<leftarrow> srv_round api readable ind (s\<lparr>rx := [Recv_Dgram (put_Msg (request_msg r)) (request_addr r)]\<rparr>);
     (if f = Next
      then do {
        (s, outs) \<leftarrow> serve api ind s rs;
        Some (s, out @ outs) }
      else Some (s, out)) }"

text \<open>The specification: the directory after a list of requests, and the answers.\<close>

fun dir_step :: "directory \<Rightarrow> request \<Rightarrow> datagram \<times> directory" where
  "dir_step d (Login_Req a req) =
     (let (v, d') = dir_login (the (c_str (lr_name req))) (login_entry a req) d
      in ((a, put_Msg (result_msg MSG_R_LOGIN (of_int v))), d'))"
| "dir_step d (Logout_Req a req) =
     ((a, put_Msg (result_msg MSG_R_LOGOUT 0)), dir_logout (the (c_str (nr_myName req))) d)"

fun dir_serve :: "directory \<Rightarrow> request list \<Rightarrow> datagram list \<times> directory" where
  "dir_serve d [] = ([], d)"
| "dir_serve d (r # rs) = (let (out, d1) = dir_step d r; (outs, d2) = dir_serve d1 rs in (out # outs, d2))"

lemma srv_round_dispatch:
  assumes "srv_ok s" and "0 \<le> sockSrv s" and "sockSrv s < FD_SETSIZE"
    and "srv_dispatch api ind (arrival d a s) = Some (f, s', out)"
  shows "srv_round api readable ind (s\<lparr>rx := [Recv_Dgram d a]\<rparr>) = Some (f, s', out) \<and> srv_ok s' \<and> sockSrv s' = sockSrv s"
  using srv_round_arrival [OF assms(1-3), of api ind d a] assms(4)
    srv_dispatch_handled [OF assms(4)] assms(1) by (simp add: handled_def)

lemma arrival_ready [simp]: "db_ready live (arrival d a s) = db_ready live s" "table rows (arrival d a s) = table rows s"
  by (simp_all add: db_ready_def table_def)

lemma login_round:
  assumes db: "peer_db api live rows" and ok: "srv_ok s" "0 \<le> sockSrv s" "sockSrv s < FD_SETSIZE"
    and ready: "db_ready live s" and rok: "login_req_ok req n"
    and dist: "distinct (map row_username (table rows s))"
    and dir: "dir_login n (login_entry a req) (dir_of (table rows s)) = (v, d')"
  shows "\<exists>s'. srv_round api readable ind (s\<lparr>rx := [Recv_Dgram (put_Msg (login_msg req)) a]\<rparr>) =
      Some (Next, s', [(a, put_Msg (result_msg MSG_R_LOGIN (of_int v)))]) \<and> srv_ok s' \<and> sockSrv s' = sockSrv s \<and>
      db_ready live s' \<and> dir_of (table rows s') = d' \<and> distinct (map row_username (table rows s'))"
proof -
  let ?s = "arrival (put_Msg (login_msg req)) a s"
  have r: "LoginReq_ok req" using rok by (simp add: login_req_ok_def)
  have m: "msg_of ?s = login_msg req" by (rule msg_of_arrival [OF ok(1) login_msg_fields(1) [OF r]])
  have "get_LoginReq (param_of ?s) = req" by (simp add: param_of_def m login_msg_fields(3) [OF r])
  then obtain rs' where "login_done live rows ?s (on_login api ?s) (of_int v) rs'" "dir_of rs' = d'"
      "distinct (map row_username rs')"
    using on_login_refines [OF db, of ?s req n v d'] ok ready rok dist dir by auto
  then obtain s' where h: "on_login api ?s = Some (Next, s', send_msg (sockSrv s) (result_msg MSG_R_LOGIN (of_int v)) a)"
      "db_ready live s'" "table rows s' = rs'" by (auto simp: login_done_def)
  have "srv_dispatch api ind ?s = on_login api ?s"
    by (simp add: srv_dispatch_def m login_msg_fields(2) [OF r] del: msg_code.simps)
  from srv_round_dispatch [OF ok this [unfolded h(1)]] h \<open>dir_of rs' = d'\<close> \<open>distinct (map row_username rs')\<close>
  show ?thesis by (simp add: send_result_msg [OF ok(2)])
qed

lemma logout_round:
  assumes db: "peer_db api live rows" and ok: "srv_ok s" "0 \<le> sockSrv s" "sockSrv s < FD_SETSIZE"
    and ready: "db_ready live s" and r: "NameReq_ok req" and n: "c_str (nr_myName req) = Some n"
    and dist: "distinct (map row_username (table rows s))"
  shows "\<exists>s'. srv_round api readable ind (s\<lparr>rx := [Recv_Dgram (put_Msg (logout_msg req)) a]\<rparr>) =
      Some (Next, s', [(a, put_Msg (result_msg MSG_R_LOGOUT 0))]) \<and> srv_ok s' \<and> sockSrv s' = sockSrv s \<and>
      db_ready live s' \<and> dir_of (table rows s') = dir_logout n (dir_of (table rows s)) \<and>
      distinct (map row_username (table rows s'))"
proof -
  let ?s = "arrival (put_Msg (logout_msg req)) a s"
  have m: "msg_of ?s = logout_msg req" by (rule msg_of_arrival [OF ok(1) logout_msg_fields(1) [OF r]])
  have "c_str (nr_myName (get_NameReq (param_of ?s))) = Some n"
    by (simp add: param_of_def m logout_msg_fields(3) [OF r] n)
  then obtain s' where h: "on_logout api ?s = Some (Next, s', send_msg (sockSrv s) (result_msg MSG_R_LOGOUT 0) a)"
      "db_ready live s'" "table rows s' = update_user n (\<lambda>x. x\<lparr>e_loginstatus := 0\<rparr>) (table rows s)"
    using on_logout_refines [OF db, of ?s n] ok ready by auto
  have "srv_dispatch api ind ?s = on_logout api ?s"
    by (simp add: srv_dispatch_def m logout_msg_fields(2) [OF r] del: msg_code.simps)
  from srv_round_dispatch [OF ok this [unfolded h(1)]] h dist show ?thesis
    by (simp add: send_result_msg [OF ok(2)] dir_of_update_user dir_logout_def)
qed

section \<open>The reference engine\<close>

text \<open>A SQLite that knows the SQL texts of the server, to show that the contract can hold and to run
  the server on: its state is the rows of the table.\<close>

datatype mem_stmt = Mem_Stmt sql_text "db_val list" "peer_row option"

definition select_prefix :: sql_text where
  "select_prefix = bytes ''select id,loginstatus from p2p_peerinfo where username='' @ [34]"

definition select_name :: "sql_text \<Rightarrow> byte list" where
  "select_name sql = take (length sql - length select_prefix - 2) (drop (length select_prefix) sql)"

definition mem_step :: "peer_row list \<Rightarrow> mem_stmt \<Rightarrow> int \<times> peer_row list \<times> mem_stmt" where
  "mem_step rs st =
     (case st of Mem_Stmt sql params _ \<Rightarrow>
       if take (length select_prefix) sql = select_prefix then
         (case find_first (has_user (select_name sql)) rs of
            None \<Rightarrow> (SQLITE_DONE, rs, st)
          | Some r \<Rightarrow> (SQLITE_ROW, rs, Mem_Stmt sql params (Some r)))
       else (case params of
          [DB_STRING pub, DB_INT pport, DB_STRING lan, DB_INT lport, DB_INT dev, DB_STRING n] \<Rightarrow>
            (SQLITE_DONE,
             if sql = sql_update_login
             then update_user n (\<lambda>_. entry_of_params pub pport lan lport dev) rs
             else rs @ [\<lparr>row_id = int (length rs) + 1, row_username = n,
                         row_entry = entry_of_params pub pport lan lport dev\<rparr>], st)
        | [DB_STRING n] \<Rightarrow> (SQLITE_DONE, update_user n (\<lambda>x. x\<lparr>e_loginstatus := 0\<rparr>) rs, st)
        | _ \<Rightarrow> (1, rs, st)))"

definition mem_sqlite :: "(peer_row list, mem_stmt) sqlite" where
  "mem_sqlite = \<lparr>sqlite3_open = (\<lambda>e _. (0, e)), sqlite3_close = (\<lambda>e. e),
     sqlite3_prepare_v2 = (\<lambda>_ h sql. (if h \<and> sql \<noteq> sql_get_peers then 0 else 1, Mem_Stmt sql [] None)),
     sqlite3_bind = (\<lambda>st _ v. case st of Mem_Stmt sql ps r \<Rightarrow> Mem_Stmt sql (ps @ [v]) r),
     sqlite3_step = mem_step, sqlite3_column_type = (\<lambda>_ _. 1),
     sqlite3_column_int = (\<lambda>st i. case st of Mem_Stmt _ _ (Some r) \<Rightarrow>
        (if i = 0 then row_id r else e_loginstatus (row_entry r)) | _ \<Rightarrow> 0),
     sqlite3_column_double = (\<lambda>_ _. 0), sqlite3_column_text = (\<lambda>_ _. [0]), sqlite3_exec = (\<lambda>e _ _. (0, e))\<rparr>"

lemma select_name_sql [simp]: "select_name (sql_select_user n) = n"
  by (simp add: select_name_def sql_select_user_def select_prefix_def)

lemma select_texts:
  "take (length select_prefix) (sql_select_user n) = select_prefix"
  "take (length select_prefix) sql_update_login \<noteq> select_prefix"
  "take (length select_prefix) sql_insert_login \<noteq> select_prefix"
  "take (length select_prefix) sql_update_logout \<noteq> select_prefix"
  "sql_insert_login \<noteq> sql_update_login"
  by (simp_all add: select_prefix_def sql_select_user_def sql_update_login_def sql_insert_login_def
      sql_update_logout_def bytes_def)

lemma prepared_texts:
  "sql_update_login \<noteq> sql_get_peers" "sql_insert_login \<noteq> sql_get_peers" "sql_update_logout \<noteq> sql_get_peers"
  by (simp_all add: sql_update_login_def sql_insert_login_def sql_update_logout_def sql_get_peers_def bytes_def)

lemma select_not_get_peers: "sql_select_user n \<noteq> sql_get_peers"
proof
  assume "sql_select_user n = sql_get_peers"
  then have "sql_select_user n ! 10 = sql_get_peers ! 10" by simp
  then show False by (simp add: sql_select_user_def sql_get_peers_def bytes_def)
qed

lemma mem_sqlite_contract: "peer_db mem_sqlite (\<lambda>_. True) (\<lambda>rs. rs)"
proof -
  note defs = mem_sqlite_def bind_value_def mem_step_def select_texts prepared_texts select_not_get_peers sqlite_codes
  have "selects_user mem_sqlite (\<lambda>_. True) (\<lambda>rs. rs)"
    unfolding selects_user_def
  proof (intro allI impI)
    fix rs :: "peer_row list" and n
    show "\<exists>st e' st'. sqlite3_prepare_v2 mem_sqlite rs True (sql_select_user n) = (SQLITE_OK, st) \<and>
        True \<and> e' = rs \<and>
        (case find_first (has_user n) rs of
           None \<Rightarrow> sqlite3_step mem_sqlite rs st = (SQLITE_DONE, e', st')
         | Some r \<Rightarrow> sqlite3_step mem_sqlite rs st = (SQLITE_ROW, e', st') \<and>
             sqlite3_column_type mem_sqlite st' 1 \<noteq> SQLITE_NULL \<and>
             sqlite3_column_int mem_sqlite st' 1 = e_loginstatus (row_entry r))"
      by (cases "find_first (has_user n) rs") (simp_all add: defs)
  qed
  moreover have "runs_update_login mem_sqlite (\<lambda>_. True) (\<lambda>rs. rs)"
    by (simp add: runs_update_login_def executes_def defs)
  moreover have "runs_insert_login mem_sqlite (\<lambda>_. True) (\<lambda>rs. rs)"
    by (simp add: runs_insert_login_def executes_def defs)
  moreover have "runs_update_logout mem_sqlite (\<lambda>_. True) (\<lambda>rs. rs)"
    by (simp add: runs_update_logout_def executes_def defs)
  ultimately show ?thesis by (simp add: peer_db_def)
qed

section \<open>The login service as a whole\<close>

lemma serve_refines:
  assumes "peer_db api live rows"
  shows "srv_ok s \<Longrightarrow> 0 \<le> sockSrv s \<Longrightarrow> sockSrv s < FD_SETSIZE \<Longrightarrow> db_ready live s \<Longrightarrow>
    distinct (map row_username (table rows s)) \<Longrightarrow> (\<forall>r \<in> set rs. request_ok r) \<Longrightarrow>
    \<exists>s'. serve api ind s rs = Some (s', fst (dir_serve (dir_of (table rows s)) rs)) \<and>
      dir_of (table rows s') = snd (dir_serve (dir_of (table rows s)) rs) \<and>
      distinct (map row_username (table rows s')) \<and> db_ready live s' \<and> srv_ok s'"
proof (induction rs arbitrary: s)
  case (Cons r rs)
  let ?d = "dir_of (table rows s)"
  obtain out d1 where step: "dir_step ?d r = (out, d1)" by fastforce
  have "\<exists>s1. srv_round api readable ind (s\<lparr>rx := [Recv_Dgram (put_Msg (request_msg r)) (request_addr r)]\<rparr>) =
      Some (Next, s1, [out]) \<and> srv_ok s1 \<and> sockSrv s1 = sockSrv s \<and> db_ready live s1 \<and>
      dir_of (table rows s1) = d1 \<and> distinct (map row_username (table rows s1))"
  proof (cases r)
    case (Login_Req a req)
    with Cons.prems obtain n where "login_req_ok req n" "c_str (lr_name req) = Some n"
      by (auto simp: login_req_ok_def split: option.splits)
    with login_round [OF assms Cons.prems(1-4) _ Cons.prems(5)] step Login_Req show ?thesis
      by (auto split: prod.splits)
  next
    case (Logout_Req a req)
    with Cons.prems obtain n where "NameReq_ok req" "c_str (nr_myName req) = Some n"
      using c_str_None_iff [of "nr_myName req"] by auto
    with logout_round [OF assms Cons.prems(1-4) _ _ Cons.prems(5)] step Logout_Req show ?thesis
      by auto
  qed
  then obtain s1 where s1: "srv_round api readable ind (s\<lparr>rx := [Recv_Dgram (put_Msg (request_msg r)) (request_addr r)]\<rparr>) =
      Some (Next, s1, [out])" "srv_ok s1" "sockSrv s1 = sockSrv s" "db_ready live s1"
      "dir_of (table rows s1) = d1" "distinct (map row_username (table rows s1))" by blast
  with Cons.IH [of s1] Cons.prems step show ?case
    by (auto split: prod.splits)
qed auto

text \<open>C1. The login service refines the directory: served through the dispatch loop on the bytes of
  the requests, any list of login and logout requests with terminated fields and plain names
  is answered, request by request, as the abstract directory answers it (a second login of a
  user who is logged in is refused, a user who has logged out can log in again from a new
  address), and afterwards the table holds exactly the abstract directory, with one row per
  user name.\<close>

theorem login_service_refines_directory:
  assumes "peer_db api live rows" and "srv_ok s" and "0 \<le> sockSrv s" and "sockSrv s < FD_SETSIZE"
    and "db_ready live s" and "distinct (map row_username (table rows s))"
    and "\<forall>r \<in> set rs. request_ok r"
  shows "\<exists>s'. serve api ind s rs = Some (s', fst (dir_serve (dir_of (table rows s)) rs)) \<and>
      dir_of (table rows s') = snd (dir_serve (dir_of (table rows s)) rs) \<and>
      distinct (map row_username (table rows s'))"
  using serve_refines [OF assms] by blast

definition example_login :: "T_MsgLoginReq" where
  "example_login = \<lparr>lr_name = bytes ''alice'' @ zeros 7, lr_MyLanIP = bytes ''10.0.0.2'' @ zeros 8,
     lr_MyLanPort = 8889, lr_ID = bytes ''AAAAAAA'' @ [0], lr_bCorD = 1\<rparr>"

lemma alice_name: "c_str (bytes ''alice'' @ zeros 7) = Some (bytes ''alice'')"
  by code_simp

lemma alice_plain: "plain_name (bytes ''alice'')"
  by (simp add: plain_name_def peer_columns_def tolower_def bytes_def)

lemma example_login_ok: "request_ok (Login_Req a example_login)" "login_req_ok example_login (bytes ''alice'')"
  by (simp_all add: example_login_def LoginReq_ok_def login_req_ok_def alice_name alice_plain)

lemma fresh_server_ready: "db_ready (\<lambda>_. True) (fresh_server e)" "table (\<lambda>rs. rs) (fresh_server rs) = rs"
  by (simp_all add: db_ready_def fresh_server_def P2PSrvProc_start_def db_static_init_def table_def)

theorem login_service_refines_directory_witness:
  "\<exists>s'. serve mem_sqlite no_junk (fresh_server []) [Login_Req example_addr example_login, Login_Req example_addr example_login] =
      Some (s', [(example_addr, put_Msg (result_msg MSG_R_LOGIN 0)), (example_addr, put_Msg (result_msg MSG_R_LOGIN 1))]) \<and>
    dir_of (table (\<lambda>rs. rs) s') = [bytes ''alice'' \<mapsto> login_entry example_addr example_login]"
proof -
  let ?rs = "[Login_Req example_addr example_login, Login_Req example_addr example_login]"
  have "\<exists>s'. serve mem_sqlite no_junk (fresh_server []) ?rs =
      Some (s', fst (dir_serve (dir_of (table (\<lambda>rs. rs) (fresh_server []))) ?rs)) \<and>
      dir_of (table (\<lambda>rs. rs) s') = snd (dir_serve (dir_of (table (\<lambda>rs. rs) (fresh_server []))) ?rs) \<and>
      distinct (map row_username (table (\<lambda>rs. rs) s'))"
    by (rule login_service_refines_directory [OF mem_sqlite_contract])
      (simp_all add: fresh_server_ready FD_SETSIZE_def example_login_ok del: request_ok.simps)
  moreover have "dir_serve Map.empty ?rs = ([(example_addr, put_Msg (result_msg MSG_R_LOGIN 0)),
      (example_addr, put_Msg (result_msg MSG_R_LOGIN 1))], [bytes ''alice'' \<mapsto> login_entry example_addr example_login])"
    by (simp add: dir_login_def example_login_def alice_name login_entry_def entry_of_params_def)
  ultimately show ?thesis by (auto simp: fresh_server_ready dir_of_def)
qed

section \<open>Ends of the service\<close>

lemma get_peers_round:
  assumes "rejects_get_peers api" and "srv_ok s" and "0 \<le> sockSrv s" and "sockSrv s < FD_SETSIZE"
    and "db_handle (sdb s)" and "Msg_ok m" and "uiMsgId (tMsgHead m) = msg_code MSG_C_GET_PEERS"
  shows "\<exists>s'. srv_round api readable ind (s\<lparr>rx := [Recv_Dgram (put_Msg m) a]\<rparr>) = Some (Thread_Return, s', []) \<and>
    engine (sdb s') = engine (sdb s) \<and> setup_of (sdb s') = setup_of (sdb s) \<and> srv_ok s' \<and> sockSrv s' = sockSrv s"
proof -
  let ?s = "arrival (put_Msg m) a s"
  obtain s1 where s1: "set_sql ?s sql_get_peers = Some s1" "sdb s1 = sdb s"
    by (rule set_sql_total [OF arrival_ok [OF assms(2)] sql_lengths(4)]) simp
  obtain rc st where rc: "sqlite3_prepare_v2 api (engine (sdb s)) (db_handle (sdb s)) sql_get_peers = (rc, st)"
    "rc \<noteq> SQLITE_OK"
    using assms(1,5) by (metis fst_conv prod.exhaust rejects_get_peers_def)
  from sqllite_query_error [OF rc, of "[]" True] obtain g' where
    q: "sqllite_query api (sdb s) sql_get_peers [] True = (- 1, None, g')" "engine g' = engine (sdb s)"
      "setup_of g' = setup_of (sdb s)" by auto
  have "srv_dispatch api ind ?s = on_get_peers api ?s"
    by (simp add: srv_dispatch_def msg_of_arrival [OF assms(2,6)] assms(7) del: msg_code.simps)
  also have "\<dots> = Some (Thread_Return, s1\<lparr>sdb := g'\<rparr>, [])"
    by (simp add: on_get_peers_def s1 q)
  finally show ?thesis using srv_round_dispatch [OF assms(2-4)] q(2,3) by fastforce
qed

text \<open>C15. The first request for the list of peers ends the server: SQLite rejects the text of the
  query, the handler returns -1 from the thread function, nothing is sent and no further
  datagram is served.\<close>

theorem get_peers_ends_server:
  assumes "rejects_get_peers api" and "srv_ok s" and "0 \<le> sockSrv s" and "sockSrv s < FD_SETSIZE"
    and "db_handle (sdb s)" and "Msg_ok m" and "uiMsgId (tMsgHead m) = msg_code MSG_C_GET_PEERS"
  shows "\<exists>s'. srv_round api readable ind (s\<lparr>rx := [Recv_Dgram (put_Msg m) a]\<rparr>) = Some (Thread_Return, s', []) \<and>
    engine (sdb s') = engine (sdb s)"
  using get_peers_round [OF assms] by blast

lemma mem_sqlite_rejects: "rejects_get_peers mem_sqlite"
  by (simp add: rejects_get_peers_def mem_sqlite_def sqlite_codes)

theorem get_peers_ends_server_witness:
  "\<exists>s'. srv_round mem_sqlite readable no_junk
     ((fresh_server [])\<lparr>rx := [Recv_Dgram (put_Msg (plain_msg MSG_C_GET_PEERS)) example_addr]\<rparr>) =
     Some (Thread_Return, s', []) \<and> engine (sdb s') = []"
proof -
  have "db_handle (sdb (fresh_server ([] :: peer_row list)))" "engine (sdb (fresh_server ([] :: peer_row list))) = []"
    by (simp_all add: fresh_server_def P2PSrvProc_start_def db_static_init_def)
  then show ?thesis
    using get_peers_ends_server [OF mem_sqlite_rejects, of "fresh_server []" "plain_msg MSG_C_GET_PEERS" no_junk example_addr]
    by (simp add: FD_SETSIZE_def del: msg_code.simps)
qed

lemma sqllite_insert_total: "insertcallback g = None \<Longrightarrow> \<exists>r. sqllite_insert api g sql params obs False = Some r"
  by (cases "insert_stmt api (g\<lparr>isinsert := True\<rparr>) sql params obs False None 0") (simp add: sqllite_insert_def)

lemma login_rest_total:
  assumes "srv_ok s1" and "insertcallback g = None"
  shows "\<exists>r. login_rest api s1 params stmt g = Some r"
proof (cases stmt)
  case None
  have "srv_ok (s1\<lparr>sdb := g\<rparr>)" using assms(1) by simp
  then obtain s2 where s2: "set_sql (s1\<lparr>sdb := g\<rparr>) sql_insert_login = Some s2" "sdb s2 = g"
    by (rule set_sql_total [OF _ sql_lengths(2)]) simp
  with None sqllite_insert_total [OF assms(2), of api sql_insert_login params True] show ?thesis
    by (auto simp: login_rest_def reply_login_eq)
next
  case (Some st)
  have "srv_ok (s1\<lparr>sdb := finalize g\<rparr>)" using assms(1) by simp
  then obtain s2 where "set_sql (s1\<lparr>sdb := finalize g\<rparr>) sql_update_login = Some s2"
    by (rule set_sql_total [OF _ sql_lengths(1)]) simp
  with Some show ?thesis by (auto simp: login_rest_def reply_login_eq split: prod.splits)
qed

text \<open>C11. The login handler is free of undefined behaviour exactly for the requests whose name, LAN
  address and id are terminated within their arrays, whatever SQLite answers; the code checks
  none of the three, so one datagram without a NUL makes the server read and write past its
  buffers.\<close>

theorem on_login_defined_iff:
  assumes "srv_ok s" and "insertcallback (sdb s) = None" and "get_LoginReq (param_of s) = req"
    and "LoginReq_ok req"
  shows "on_login api s \<noteq> None \<longleftrightarrow>
    0 \<in> set (lr_name req) \<and> 0 \<in> set (lr_MyLanIP req) \<and> 0 \<in> set (lr_ID req)"
proof
  assume "on_login api s \<noteq> None"
  then obtain n p where "c_str (lr_name req) = Some n" "fill_peer s req = Some p"
    by (auto simp: on_login_def assms(3) Option.bind_eq_Some_conv Let_def)
  then show "0 \<in> set (lr_name req) \<and> 0 \<in> set (lr_MyLanIP req) \<and> 0 \<in> set (lr_ID req)"
    using c_str_None_iff [of "lr_name req"] c_str_None_iff [of "lr_MyLanIP req"] c_str_None_iff [of "lr_ID req"]
    by (auto simp: fill_peer_def Let_def Option.bind_eq_Some_conv strcpy_Some_iff)
next
  assume nul: "0 \<in> set (lr_name req) \<and> 0 \<in> set (lr_MyLanIP req) \<and> 0 \<in> set (lr_ID req)"
  then obtain n where n: "c_str (lr_name req) = Some n" using c_str_None_iff [of "lr_name req"] by auto
  obtain ret stmt g where q: "sqllite_query api (sdb s) (sql_select_user n) [] True = (ret, stmt, g)"
    by (metis prod.exhaust)
  have "insertcallback g = None"
    using assms(2) setup_of_D(2) [OF sqllite_query_frame(1) [OF q]] by simp
  moreover obtain s1 params where "srv_ok s1" "on_login api s = login_rest api s1 params stmt g"
    using on_login_begin [OF assms(1,3,4) n _ _ q] nul by blast
  ultimately show "on_login api s \<noteq> None" using login_rest_total [of s1 g api params stmt] by auto
qed

theorem on_login_defined_iff_witness:
  "on_login mem_sqlite
     (arrival (put_Msg (login_msg (example_login\<lparr>lr_name := replicate 12 65\<rparr>))) example_addr (fresh_server [])) = None"
proof -
  let ?req = "example_login\<lparr>lr_name := replicate 12 65\<rparr>"
  let ?s = "arrival (put_Msg (login_msg ?req)) example_addr (fresh_server ([] :: peer_row list))"
  have r: "LoginReq_ok ?req" by (simp add: LoginReq_ok_def example_login_def)
  have "get_LoginReq (param_of ?s) = ?req"
    by (simp add: param_of_def msg_of_arrival [OF fresh_server_ok(1) login_msg_fields(1) [OF r]]
        login_msg_fields(3) [OF r])
  moreover have "insertcallback (sdb ?s) = None"
    by (simp add: fresh_server_def P2PSrvProc_start_def db_static_init_def)
  ultimately show ?thesis
    using on_login_defined_iff [of ?s ?req mem_sqlite] r
    by (cases "on_login mem_sqlite ?s") simp_all
qed

end
