(* ===== verification/P2P_Client.thy ===== *)
theory P2P_Client
  imports FTC_Sock FTC_Peer
begin

text \<open>
  The Linux client \<^verbatim>\<open>P2P_Server_src/client.cpp\<close>.

  The record \<open>client\<close> is the global \<^verbatim>\<open>stPeerLocal\<close>, the global peer list, and the locals of the
  receiving thread \<^verbatim>\<open>P2PClientProc\<close> that live across its rounds. The thread allocates one peer
  record and pushes the pointer to it for every peer it is told, so the record lives in a
  store at the address \<open>cl_ptPeer\<close>. A handler returns the new state and the datagrams it sends,
  and \<open>None\<close> for undefined behaviour.
\<close>

section \<open>State\<close>

definition SERVER_IP :: "byte list" where "SERVER_IP = literal ''43.252.231.67''"
definition CLIENT_SERVER_PORT :: u16 where "CLIENT_SERVER_PORT = 8888"
definition LAN_PORT :: u16 where "LAN_PORT = 8889"

record client =
  bIsLogin :: bool
  my_bCorD :: byte
  my_ID :: "byte list"
  sMyName :: "byte list"
  sToName :: "byte list"
  sockCli :: int
  sockLocal :: int
  serverAddr :: sockaddr_in
  cl_heap :: peer_store
  cl_ClientList :: PeerList
  cl_ptPeer :: peer_ptr
  cl_stMsg :: "byte list"
  cl_fromAddr :: sockaddr_in

definition cl_param :: "client \<Rightarrow> byte list" where
  "cl_param c = aucParam (get_Msg (cl_stMsg c))"

type_synonym cl_outcome = "(client \<times> datagram list) option"

definition cl_send :: "client \<Rightarrow> T_Msg \<Rightarrow> sockaddr_in \<Rightarrow> datagram list" where
  "cl_send c m remote = sent (sockCli c) (put_Msg m) remote"

section \<open>Requests to the server\<close>

text \<open>A NULL argument is only reported: the copies that follow have no result.\<close>

definition LoginToServer ::
  "client \<Rightarrow> byte list option \<Rightarrow> byte list option \<Rightarrow> byte list option \<Rightarrow> u16 \<Rightarrow> datagram list option" where
  "LoginToServer c strMyName strLanIp strID uLanPort = do {
     my \<leftarrow> strMyName;
     lan \<leftarrow> strLanIp;
     ident \<leftarrow> strID;
     n \<leftarrow> strcpy (zeros 12) my;
     l \<leftarrow> strcpy (zeros 16) lan;
     i \<leftarrow> strcpy (zeros 8) ident;
     let stLoginMsg = \<lparr>lr_name = n, lr_MyLanIP = l, lr_MyLanPort = uLanPort, lr_ID = i,
                       lr_bCorD = my_bCorD c\<rparr>;
     stMsg \<leftarrow> make_msg MSG_TYPE_REQUEST MSG_C_LOGIN 40 (put_LoginReq stLoginMsg);
     Some (cl_send c stMsg (serverAddr c)) }"

text \<open>\<^verbatim>\<open>ifr\<close> is not initialised: when the \<^verbatim>\<open>ioctl\<close> fails its address is indeterminate, and is printed
  all the same.\<close>

record if_env =
  if_socket :: int
  if_ioctl :: "u32 option"
  if_indet_name :: "byte list"
  if_indet_addr :: u32

definition get_ip_addr :: "if_env \<Rightarrow> byte list \<Rightarrow> byte list \<Rightarrow> (int \<times> byte list) option" where
  "get_ip_addr env ifname net_ip = do {
     _ \<leftarrow> strcpy (if_indet_name env) ifname;
     let ret = (if if_socket env < 0 then - 1 else 0);
     let ret = (if if_ioctl env = None then - 1 else ret);
     ip \<leftarrow> strcpy net_ip (inet_ntoa (case if_ioctl env of Some a \<Rightarrow> a | None \<Rightarrow> if_indet_addr env));
     Some (ret, ip) }"

definition GetPeerListFromServer :: "client \<Rightarrow> datagram list option" where
  "GetPeerListFromServer c = do {
     n \<leftarrow> strcpy (zeros 12) (sMyName c);
     stMsg \<leftarrow> make_msg MSG_TYPE_REQUEST MSG_C_GET_PEERS 20
       (put_GetPeerListReq \<lparr>gp_name = n, gp_reserve = zeros 8\<rparr>);
     Some (cl_send c stMsg (serverAddr c)) }"

definition SendP2PHoleMsg :: "client \<Rightarrow> datagram list option" where
  "SendP2PHoleMsg c = do {
     my \<leftarrow> strcpy (zeros 12) (sMyName c);
     to \<leftarrow> strcpy (zeros 12) (sToName c);
     stMsg \<leftarrow> make_msg MSG_TYPE_REQUEST MSG_C_HOLE 32
       (put_HoleReq \<lparr>hr_myName = my, hr_toName = to, hr_reserve = zeros 8\<rparr>);
     Some (cl_send c stMsg (serverAddr c)) }"

definition SendLogoutMsg :: "client \<Rightarrow> datagram list option" where
  "SendLogoutMsg c = do {
     my \<leftarrow> strcpy (zeros 12) (sMyName c);
     stMsg \<leftarrow> make_msg MSG_TYPE_REQUEST MSG_C_LOGOUT 12 (put_NameReq \<lparr>nr_myName = my\<rparr>);
     Some (cl_send c stMsg (serverAddr c)) }"

section \<open>The heart beat thread\<close>

text \<open>The message is made once, when the thread starts; each round sends it if the client is
  logged in.\<close>

definition heartbeat_msg :: "client \<Rightarrow> T_Msg option" where
  "heartbeat_msg c = do {
     s \<leftarrow> c_str (sMyName c);
     make_msg MSG_TYPE_REQUEST MSG_C_HEART_BEAT (of_nat (length s)) (s @ [0]) }"

definition SendHeartbeat :: "T_Msg \<Rightarrow> client \<Rightarrow> datagram list" where
  "SendHeartbeat stMsg c = (if bIsLogin c then cl_send c stMsg (serverAddr c) else [])"

section \<open>Handlers of the receiving thread\<close>

definition on_r_login :: "client \<Rightarrow> cl_outcome" where
  "on_r_login c =
     (if rr_result (get_ResultResp (cl_param c)) = 0 then Some (c\<lparr>bIsLogin := True\<rparr>, [])
      else Some (c\<lparr>bIsLogin := False\<rparr>, []))"

text \<open>One pass of the loop over the peers of a response.\<close>

definition take_peer :: "client \<Rightarrow> T_PeerInfo \<Rightarrow> client option" where
  "take_peer c src = do {
     p \<leftarrow> cl_heap c (cl_ptPeer c);
     n \<leftarrow> strcpy (name p) (name src);
     i \<leftarrow> strcpy (ID p) (ID src);
     pub \<leftarrow> strcpy (sPubIp p) (sPubIp src);
     lan \<leftarrow> strcpy (sLanIp p) (sLanIp src);
     let p = p\<lparr>name := n, ID := i, bCorD := bCorD src, sPubIp := pub, usPubPort := usPubPort src,
               sLanIp := lan, usLanPort := usLanPort src\<rparr>;
     Some (c\<lparr>cl_heap := (cl_heap c)(cl_ptPeer c \<mapsto> p), cl_ClientList := cl_ClientList c @ [cl_ptPeer c]\<rparr>) }"

fun take_peers :: "nat \<Rightarrow> nat \<Rightarrow> client \<Rightarrow> client option" where
  "take_peers 0 i c = Some c"
| "take_peers (Suc k) i c = do {
     src \<leftarrow> peerList_at (cl_param c) i;
     c \<leftarrow> take_peer c src;
     take_peers k (i + 1) c }"

text \<open>The test in front of \<^verbatim>\<open>clear\<close> asks for a list that is empty and has elements.\<close>

definition on_r_get_peers :: "client \<Rightarrow> cl_outcome" where
  "on_r_get_peers c = do {
     let n = resp_uiPeerNums (cl_param c);
     let c = (if cl_ClientList c = [] \<and> length (cl_ClientList c) > 0 then c\<lparr>cl_ClientList := []\<rparr> else c);
     c \<leftarrow> take_peers (unat n) 0 c;
     Some (c, []) }"

definition on_r_hole :: "client \<Rightarrow> cl_outcome" where
  "on_r_hole c = Some (c, [])"

text \<open>The handler clears a 12 byte object with the size of a 30 byte one, and 24 bytes from the
  middle of a 24 byte object. In C such a write is undefined; this is \<open>slack = 0\<close>, by \<open>memset_standard\<close>.
  A larger \<open>slack\<close> describes a compiled function whose frame leaves that many bytes behind the object
  unused, in which the write does no harm. The first name of the second object keeps the bytes
  behind its NUL uninitialised.\<close>

definition memset_slack :: "nat \<Rightarrow> byte list \<Rightarrow> nat \<Rightarrow> byte list option" where
  "memset_slack slack obj n =
     (if n \<le> length obj + slack then Some (overwrite obj (zeros (min n (length obj)))) else None)"

lemma memset_standard:
  "memset_slack 0 obj n = (if n \<le> length obj then Some (zeros n @ drop n obj) else None)"
  by (simp add: memset_slack_def overwrite_def)

definition on_c_hole_req :: "nat \<Rightarrow> byte list \<Rightarrow> client \<Rightarrow> cl_outcome" where
  "on_c_hole_req slack indet c = do {
     let pMsg = get_HoleFromSrvReq (cl_param c);
     _ \<leftarrow> c_str (hs_srcName pMsg);
     a \<leftarrow> FTC_InetAddr (hs_srcPubIP pMsg);
     let remote = \<lparr>sin_family = AF_INET, sin_port = FTC_Htons (hs_srcPubPort pMsg), sin_addr = a\<rparr>;
     sub \<leftarrow> memset_slack slack indet 30;
     my \<leftarrow> strcpy sub (sMyName c);
     m1 \<leftarrow> make_msg MSG_TYPE_REQUEST MSG_C_P2P_CONN_REQ 12 (put_NameReq \<lparr>nr_myName = my\<rparr>);
     to0 \<leftarrow> memset_slack slack indet 24;
     my2 \<leftarrow> strcpy indet (sMyName c);
     to \<leftarrow> strcpy to0 (sToName c);
     m2 \<leftarrow> make_msg MSG_TYPE_INDICATE MSG_C_HAVE_SEND_P2P_REQ 24
       (put_HaveSendP2PReq \<lparr>sp_myName = my2, sp_toName = to\<rparr>);
     Some (c, cl_send c m1 remote @ cl_send c m2 (cl_fromAddr c)) }"

definition on_c_p2p_conn_req :: "client \<Rightarrow> cl_outcome" where
  "on_c_p2p_conn_req c = do {
     _ \<leftarrow> c_str (nr_myName (get_NameReq (cl_param c)));
     Some (c, []) }"

definition on_c_can_start :: "client \<Rightarrow> cl_outcome" where
  "on_c_can_start c = do {
     let ptMsgSub = get_NameReq (cl_param c);
     toPeer \<leftarrow> GetPeerByName (cl_heap c) (cl_ClientList c) (nr_myName ptMsgSub);
     a \<leftarrow> FTC_InetAddr (sPubIp toPeer);
     let remote = \<lparr>sin_family = AF_INET, sin_port = FTC_Htons (usPubPort toPeer), sin_addr = a\<rparr>;
     my \<leftarrow> strcpy (zeros 12) (sMyName c);
     m \<leftarrow> make_msg MSG_TYPE_REQUEST MSG_C_P2P_START_REQ 12 (put_NameReq \<lparr>nr_myName = my\<rparr>);
     Some (c, cl_send c m remote) }"

definition on_c_start :: "client \<Rightarrow> cl_outcome" where
  "on_c_start c = do {
     m \<leftarrow> make_msg MSG_TYPE_RESPONSE MSG_R_P2P_START_RESP 8 (zeros 8);
     Some (c, cl_send c m (cl_fromAddr c)) }"

definition on_r_start_resp :: "client \<Rightarrow> cl_outcome" where
  "on_r_start_resp c = Some (c, [])"

definition on_r_logout :: "client \<Rightarrow> cl_outcome" where
  "on_r_logout c =
     (if rr_result (get_ResultResp (cl_param c)) = 0 then Some (c\<lparr>bIsLogin := False\<rparr>, []) else Some (c, []))"

section \<open>The receiving loop\<close>

definition cl_dispatch :: "nat \<Rightarrow> byte list \<Rightarrow> client \<Rightarrow> cl_outcome" where
  "cl_dispatch slack indet c =
     (let mMsgID = uiMsgId (tMsgHead (get_Msg (cl_stMsg c))) in
      if mMsgID = msg_code MSG_R_LOGIN then on_r_login c
      else if mMsgID = msg_code MSG_R_GET_PEERS then on_r_get_peers c
      else if mMsgID = msg_code MSG_R_HOLE then on_r_hole c
      else if mMsgID = msg_code MSG_C_HOLE_REQ then on_c_hole_req slack indet c
      else if mMsgID = msg_code MSG_C_P2P_CONN_REQ then on_c_p2p_conn_req c
      else if mMsgID = msg_code MSG_C_P2P_CAN_START_REQ then on_c_can_start c
      else if mMsgID = msg_code MSG_C_P2P_START_REQ then on_c_start c
      else if mMsgID = msg_code MSG_R_P2P_START_RESP then on_r_start_resp c
      else if mMsgID = msg_code MSG_R_LOGOUT then on_r_logout c
      else Some (c, []))"

text \<open>One round of the loop with the results \<open>rs\<close> of the kernel.\<close>

definition cl_round ::
  "(int \<Rightarrow> timeval \<Rightarrow> int \<times> bool) \<Rightarrow> recv_result list \<Rightarrow> nat \<Rightarrow> byte list \<Rightarrow> client \<Rightarrow> cl_outcome" where
  "cl_round select rs slack indet c = do {
     ready \<leftarrow> FTC_SelectRead select (sockCli c) 0;
     if ready = 0
     then do {
       r \<leftarrow> Option.bind (FTC_Recvfrom2 rs (sockCli c) (Some (cl_stMsg c)) 1440 (cl_fromAddr c)) id;
       let c = c\<lparr>cl_stMsg := ro_buf r, cl_fromAddr := ro_addr r\<rparr>;
       if ro_ret r < 0 then Some (c, []) else cl_dispatch slack indet c }
     else Some (c, []) }"

section \<open>Commands\<close>

text \<open>\<^verbatim>\<open>fgets\<close> reads at most 19 bytes, up to and including a newline; at the end of the input the
  array keeps its indeterminate contents.\<close>

definition fgets :: "byte list \<Rightarrow> nat \<Rightarrow> byte list \<Rightarrow> byte list" where
  "fgets arr n inp =
     (if inp = [] then arr
      else let body = takeWhile (\<lambda>b. b \<noteq> 10) inp;
               line = take (n - 1) (if body = inp then body else body @ [10])
           in overwrite arr (line @ [0]))"

text \<open>The statements of \<^verbatim>\<open>DoInput\<close> and the datagrams they send.\<close>

definition DoInput_body :: "if_env \<Rightarrow> byte list \<Rightarrow> byte list \<Rightarrow> client \<Rightarrow> datagram list option" where
  "DoInput_body env arr inp c = do {
     let sInput = fgets arr 20 inp;
     r \<leftarrow> strncmp sInput (literal ''login'') 5;
     if r = 0
     then do {
       (_, strLanIp) \<leftarrow> get_ip_addr env (literal ''eth0'') (zeros 16);
       LoginToServer c (Some (sMyName c)) (Some strLanIp) (Some (my_ID c)) LAN_PORT }
     else do {
       r \<leftarrow> strncmp sInput (literal ''get'') 3;
       if r = 0 then GetPeerListFromServer c
       else do {
         r \<leftarrow> strncmp sInput (literal ''connect'') 7;
         if r = 0 then SendP2PHoleMsg c
         else do {
           r \<leftarrow> strncmp sInput (literal ''logout'') 6;
           if r = 0 then SendLogoutMsg c else Some [] } } } }"

text \<open>Behind its statements control reaches the end of the function, which has to return a value and has no
  return statement. For the C++ compiler of the Makefile the call is undefined from there on, after the
  datagrams have been sent. The end of the call is therefore part of the result; it is always
  \<open>Falls_Off\<close>, and nothing is claimed of the thread that made the call behind it.\<close>

datatype call_end = Value_Returned byte | Falls_Off

definition DoInput :: "if_env \<Rightarrow> byte list \<Rightarrow> byte list \<Rightarrow> client \<Rightarrow> (datagram list \<times> call_end) option" where
  "DoInput env arr inp c = do { out \<leftarrow> DoInput_body env arr inp c; Some (out, Falls_Off) }"

section \<open>Start of the program\<close>

text \<open>The arguments behind the program name. Every option takes the argument that follows it, the
  options \<^verbatim>\<open>-d\<close> and \<^verbatim>\<open>-c\<close> too.\<close>

fun parse_args :: "client \<Rightarrow> byte list list \<Rightarrow> client option" where
  "parse_args c [] = Some c"
| "parse_args c [a] = do {
     u \<leftarrow> strncmp a (literal ''-u'') 2;
     Some c }"
| "parse_args c (a # v # rest) = do {
     u \<leftarrow> strncmp a (literal ''-u'') 2;
     r \<leftarrow> strncmp a (literal ''-r'') 2;
     d \<leftarrow> strncmp a (literal ''-d'') 2;
     k \<leftarrow> strncmp a (literal ''-c'') 2;
     if u = 0 then do { n \<leftarrow> strcpy (sMyName c) v; parse_args (c\<lparr>sMyName := n\<rparr>) rest }
     else if r = 0 then do { n \<leftarrow> strcpy (sToName c) v; parse_args (c\<lparr>sToName := n\<rparr>) rest }
     else if d = 0 then parse_args (c\<lparr>my_bCorD := 1\<rparr>) rest
     else if k = 0 then parse_args (c\<lparr>my_bCorD := 0\<rparr>) rest
     else parse_args c (v # rest) }"

text \<open>The globals after \<^verbatim>\<open>memset\<close> and the fixed id.\<close>

definition client_init :: "client option" where
  "client_init = do {
     i \<leftarrow> strcpy (zeros 8) (literal ''AAAAAAA'');
     Some \<lparr>bIsLogin = False, my_bCorD = 0, my_ID = i, sMyName = zeros 12, sToName = zeros 12,
       sockCli = 0, sockLocal = 0, serverAddr = \<lparr>sin_family = 0, sin_port = 0, sin_addr = 0\<rparr>,
       cl_heap = Map.empty, cl_ClientList = [], cl_ptPeer = 0, cl_stMsg = [],
       cl_fromAddr = \<lparr>sin_family = 0, sin_port = 0, sin_addr = 0\<rparr>\<rparr> }"

text \<open>The receiving thread allocates its peer record at \<open>p\<close>, uninitialised, and clears its locals.\<close>

definition P2PClientProc_start :: "client \<Rightarrow> peer_ptr \<Rightarrow> T_PeerInfo \<Rightarrow> client" where
  "P2PClientProc_start c p peer0 =
     c\<lparr>cl_heap := (cl_heap c)(p \<mapsto> peer0), cl_ptPeer := p, cl_stMsg := zeros 1440,
       cl_fromAddr := \<lparr>sin_family = 0, sin_port = 0, sin_addr = 0\<rparr>\<rparr>"

datatype client_start = Client_Exit int "sock_call list" | Client_Runs client T_Msg "sock_call list"

definition main_client ::
  "sock_env \<Rightarrow> sock_env \<Rightarrow> bool \<Rightarrow> bool \<Rightarrow> peer_ptr \<Rightarrow> T_PeerInfo \<Rightarrow> byte list list \<Rightarrow> client_start option" where
  "main_client env1 env2 beat_ok proc_ok p peer0 args =
     (if length args + 1 \<noteq> 5 then Some (Client_Exit (- 1) [])
      else do {
        c \<leftarrow> client_init;
        c \<leftarrow> parse_args c args;
        ip \<leftarrow> FTC_InetAddr (literal ''0.0.0.0'');
        let (s1, calls1) = FTC_CreateUdpSock env1 ip (FTC_Htons 0);
        if 0 > s1 then Some (Client_Exit (- 1) calls1)
        else do {
          let (s2, calls2) = FTC_CreateUdpSock env2 ip (FTC_Htons LAN_PORT);
          if 0 > s2 then Some (Client_Exit (- 1) (calls1 @ calls2))
          else do {
            let c = c\<lparr>sockCli := s1, sockLocal := s2\<rparr>;
            if \<not> beat_ok then Some (Client_Exit (- 1) (calls1 @ calls2))
            else do {
              beat \<leftarrow> heartbeat_msg c;
              srv \<leftarrow> FTC_InetAddr SERVER_IP;
              let c = c\<lparr>serverAddr := \<lparr>sin_family = AF_INET, sin_port = FTC_Htons CLIENT_SERVER_PORT, sin_addr = srv\<rparr>\<rparr>;
              if \<not> proc_ok then Some (Client_Exit (- 1) (calls1 @ calls2))
              else Some (Client_Runs (P2PClientProc_start c p peer0) beat (calls1 @ calls2)) } } } })"

section \<open>What a request carries\<close>

text \<open>\<open>cl_ok\<close>: the names are terminated, as the command line leaves them, and the receive buffer
  has its size.\<close>

definition cl_ok :: "client \<Rightarrow> bool" where
  "cl_ok c \<longleftrightarrow> length (sMyName c) = 12 \<and> 0 \<in> set (sMyName c) \<and> length (sToName c) = 12 \<and>
     0 \<in> set (sToName c) \<and> length (my_ID c) = 8 \<and> 0 \<in> set (my_ID c) \<and> length (cl_stMsg c) = 1440 \<and>
     (\<exists>p. cl_heap c (cl_ptPeer c) = Some p \<and> PeerInfo_ok p)"

lemma terminated: "0 \<in> set a \<Longrightarrow> \<exists>s. c_str a = Some s"
  using c_str_None_iff [of a] by (cases "c_str a") auto

lemma strcpy_terminated:
  assumes "0 \<in> set src" and "length src = length dst"
  obtains d s where "strcpy dst src = Some d" and "c_str src = Some s" and "c_str d = Some s"
    and "length d = length dst" and "0 \<in> set d"
proof -
  obtain s where s: "c_str src = Some s" using terminated [OF assms(1)] by blast
  obtain d where d: "strcpy dst src = Some d" using strcpy_same_size assms by blast
  have "c_str d = Some s" using strcpy_c_str [OF d] s by simp
  moreover from this have "0 \<in> set d" using c_str_None_iff [of d] by auto
  ultimately show ?thesis using that d s strcpy_length [OF d] by blast
qed

lemma strcpy_name:
  "0 \<in> set src \<Longrightarrow> length src = length dst \<Longrightarrow> \<exists>d. strcpy dst src = Some d \<and> c_str d = c_str src \<and> length d = length dst"
  using strcpy_same_size strcpy_c_str strcpy_length by metis

lemma LoginToServer_request:
  assumes "cl_ok c" and "length lan = 16" and "0 \<in> set lan"
  obtains req where "LoginToServer c (Some (sMyName c)) (Some lan) (Some (my_ID c)) port =
      Some (cl_send c (the (make_msg MSG_TYPE_REQUEST MSG_C_LOGIN 40 (put_LoginReq req))) (serverAddr c))"
    and "LoginReq_ok req" and "c_str (lr_name req) = c_str (sMyName c)" and "c_str (lr_MyLanIP req) = c_str lan"
    and "lr_MyLanPort req = port" and "0 \<in> set (lr_ID req)" and "0 \<in> set (lr_MyLanIP req)"
    and "lr_bCorD req = my_bCorD c"
proof -
  have len: "length (sMyName c) = length (zeros 12)" "0 \<in> set (sMyName c)" "length (my_ID c) = length (zeros 8)"
    "0 \<in> set (my_ID c)" using assms(1) by (simp_all add: cl_ok_def)
  obtain n where n: "strcpy (zeros 12) (sMyName c) = Some n" "length n = 12" "c_str n = c_str (sMyName c)"
    by (rule strcpy_terminated [OF len(2,1)]) simp
  obtain i where i: "strcpy (zeros 8) (my_ID c) = Some i" "length i = 8" "0 \<in> set i"
    by (rule strcpy_terminated [OF len(4,3)]) simp
  have "length lan = length (zeros 16)" using assms(2) by simp
  then obtain l where l: "strcpy (zeros 16) lan = Some l" "length l = 16" "c_str l = c_str lan" "0 \<in> set l"
    by (rule strcpy_terminated [OF assms(3)]) simp
  define req where "req = \<lparr>lr_name = n, lr_MyLanIP = l, lr_MyLanPort = port, lr_ID = i, lr_bCorD = my_bCorD c\<rparr>"
  have ok: "LoginReq_ok req" using n i l by (simp add: req_def LoginReq_ok_def)
  obtain m where "make_msg MSG_TYPE_REQUEST MSG_C_LOGIN 40 (put_LoginReq req) = Some m"
    using LoginReq_layout.put_length [OF ok] by (simp add: make_msg_eq)
  then show ?thesis using n i l ok by (intro that [of req]) (simp_all add: LoginToServer_def req_def)
qed

section \<open>What a received message changes\<close>

text \<open>The part of the state that no message changes.\<close>

definition session :: "client \<Rightarrow> byte \<times> byte list \<times> byte list \<times> byte list \<times> int \<times> int \<times> sockaddr_in \<times> peer_ptr \<times> byte list \<times> sockaddr_in" where
  "session c = (my_bCorD c, my_ID c, sMyName c, sToName c, sockCli c, sockLocal c, serverAddr c, cl_ptPeer c,
     cl_stMsg c, cl_fromAddr c)"

lemma session_update [simp]:
  "session (c\<lparr>bIsLogin := b\<rparr>) = session c" "session (c\<lparr>cl_heap := h\<rparr>) = session c"
  "session (c\<lparr>cl_ClientList := l\<rparr>) = session c"
  by (simp_all add: session_def)

lemma sessionD:
  assumes "session c' = session c"
  shows "cl_ptPeer c' = cl_ptPeer c" and "cl_stMsg c' = cl_stMsg c" and "cl_param c' = cl_param c"
    and "sockCli c' = sockCli c" and "serverAddr c' = serverAddr c" and "sMyName c' = sMyName c"
  using assms by (simp_all add: session_def cl_param_def)

definition same_peer :: "T_PeerInfo \<Rightarrow> T_PeerInfo \<Rightarrow> bool" where
  "same_peer p src \<longleftrightarrow> c_str (name p) = c_str (name src) \<and> c_str (ID p) = c_str (ID src) \<and> bCorD p = bCorD src \<and>
     c_str (sPubIp p) = c_str (sPubIp src) \<and> usPubPort p = usPubPort src \<and> c_str (sLanIp p) = c_str (sLanIp src) \<and>
     usLanPort p = usLanPort src"

lemma take_peer_spec:
  assumes "take_peer c src = Some c'"
  shows "session c' = session c" and "bIsLogin c' = bIsLogin c"
    and "cl_ClientList c' = cl_ClientList c @ [cl_ptPeer c]"
    and "\<exists>p. cl_heap c' = (cl_heap c)(cl_ptPeer c \<mapsto> p) \<and> same_peer p src"
  using assms
  by (auto simp: take_peer_def Option.bind_eq_Some_conv Let_def same_peer_def strcpy_c_str)

lemma take_peers_spec:
  "take_peers k i c = Some c' \<Longrightarrow>
   session c' = session c \<and> bIsLogin c' = bIsLogin c \<and>
   cl_ClientList c' = cl_ClientList c @ replicate k (cl_ptPeer c) \<and>
   (0 < k \<longrightarrow> (\<exists>p src. peerList_at (cl_param c) (i + k - 1) = Some src \<and>
      cl_heap c' (cl_ptPeer c) = Some p \<and> same_peer p src))"
proof (induction k arbitrary: i c)
  case (Suc k)
  then obtain src c1 where src: "peerList_at (cl_param c) i = Some src" and t: "take_peer c src = Some c1"
    and rest: "take_peers k (i + 1) c1 = Some c'"
    by (auto simp: Option.bind_eq_Some_conv)
  note one = take_peer_spec [OF t]
  note same = sessionD [OF one(1)]
  from Suc.IH [OF rest] have ih: "session c' = session c1" "bIsLogin c' = bIsLogin c1"
    "cl_ClientList c' = cl_ClientList c1 @ replicate k (cl_ptPeer c)"
    "0 < k \<longrightarrow> (\<exists>p src. peerList_at (cl_param c) (i + 1 + k - 1) = Some src \<and>
      cl_heap c' (cl_ptPeer c) = Some p \<and> same_peer p src)" by (simp_all add: same)
  have "\<exists>p src. peerList_at (cl_param c) (i + Suc k - 1) = Some src \<and> cl_heap c' (cl_ptPeer c) = Some p \<and> same_peer p src"
  proof (cases k)
    case 0
    with rest one(4) src show ?thesis by auto
  next
    case (Suc j)
    with ih(4) show ?thesis by auto
  qed
  with ih one show ?case by (simp add: replicate_append_same)
qed simp

lemma cl_dispatch_session:
  assumes "cl_dispatch slack indet c = Some (c', out)"
  shows "session c' = session c"
  using assms
  by (auto simp: cl_dispatch_def Let_def on_r_login_def on_r_get_peers_def on_r_hole_def on_c_hole_req_def
      on_c_p2p_conn_req_def on_c_can_start_def on_c_start_def on_r_start_resp_def on_r_logout_def
      Option.bind_eq_Some_conv split: if_splits dest!: take_peers_spec)

section \<open>The login state\<close>

text \<open>C22. The login state of the client is a state machine driven by two messages: a login response sets
  it to whether the server accepted, a logout response with result 0 clears it, and every
  other message keeps it; after the message the beat thread sends to the server exactly if
  the state is set. No message changes the client's names, sockets or server address.\<close>

theorem client_login_state:
  assumes "cl_dispatch slack indet c = Some (c', out)" and "0 \<le> sockCli c" and "Msg_ok beat"
  shows "bIsLogin c' =
      (let i = uiMsgId (tMsgHead (get_Msg (cl_stMsg c))); r = rr_result (get_ResultResp (cl_param c))
       in if i = msg_code MSG_R_LOGIN then r = 0
          else if i = msg_code MSG_R_LOGOUT \<and> r = 0 then False else bIsLogin c) \<and>
    SendHeartbeat beat c' = (if bIsLogin c' then [(serverAddr c, put_Msg beat)] else []) \<and>
    session c' = session c"
proof -
  have s: "session c' = session c" by (rule cl_dispatch_session [OF assms(1)])
  have "put_Msg beat \<noteq> []" using Msg_layout.put_length [OF assms(3)] by auto
  then have "SendHeartbeat beat c' = (if bIsLogin c' then [(serverAddr c, put_Msg beat)] else [])"
    using assms(2) sessionD [OF s] by (simp add: SendHeartbeat_def cl_send_def sent_def)
  moreover have "bIsLogin c' =
      (let i = uiMsgId (tMsgHead (get_Msg (cl_stMsg c))); r = rr_result (get_ResultResp (cl_param c))
       in if i = msg_code MSG_R_LOGIN then r = 0
          else if i = msg_code MSG_R_LOGOUT \<and> r = 0 then False else bIsLogin c)"
    using assms(1)
    by (auto simp: cl_dispatch_def Let_def on_r_login_def on_r_get_peers_def on_r_hole_def on_c_hole_req_def
        on_c_p2p_conn_req_def on_c_can_start_def on_c_start_def on_r_start_resp_def on_r_logout_def
        Option.bind_eq_Some_conv split: if_splits dest!: take_peers_spec)
  ultimately show ?thesis using s by blast
qed

definition example_client :: client where
  "example_client = \<lparr>bIsLogin = False, my_bCorD = 0, my_ID = bytes ''AAAAAAA'' @ [0],
     sMyName = bytes ''bob'' @ zeros 9, sToName = bytes ''alice'' @ zeros 7, sockCli = 4, sockLocal = 6,
     serverAddr = \<lparr>sin_family = AF_INET, sin_port = FTC_Htons 8888, sin_addr = 16777343\<rparr>,
     cl_heap = [9 \<mapsto> example_peer []], cl_ClientList = [], cl_ptPeer = 9, cl_stMsg = zeros 1440,
     cl_fromAddr = \<lparr>sin_family = AF_INET, sin_port = FTC_Htons 8888, sin_addr = 16777343\<rparr>\<rparr>"

lemma example_client_ok: "cl_ok example_client"
  by (simp add: cl_ok_def example_client_def example_peer_def PeerInfo_ok_def)

theorem client_login_state_witness:
  "\<exists>c'. cl_dispatch 0 [] (example_client\<lparr>cl_stMsg := put_Msg (plain_msg MSG_R_LOGIN)\<rparr>) = Some (c', []) \<and> bIsLogin c' \<and>
    SendHeartbeat (plain_msg MSG_C_HEART_BEAT) c' = [(serverAddr example_client, put_Msg (plain_msg MSG_C_HEART_BEAT))]"
proof -
  let ?c = "example_client\<lparr>cl_stMsg := put_Msg (plain_msg MSG_R_LOGIN)\<rparr>"
  have r: "rr_result (get_ResultResp (cl_param ?c)) = 0" by (simp add: cl_param_def) (simp add: plain_msg_def)
  then obtain c' where run: "cl_dispatch 0 [] ?c = Some (c', [])"
    by (auto simp: cl_dispatch_def on_r_login_def simp del: msg_code.simps)
  from client_login_state [OF run, of "plain_msg MSG_C_HEART_BEAT"] r run show ?thesis
    by (auto simp: example_client_def simp del: msg_code.simps)
qed

section \<open>The peer list of the client\<close>

text \<open>C25. After a response with peers, every new entry of the client's list is the same record, and it
  holds the last peer of the response: a client that had no peers finds, of all the peers it
  was told, only the last one. At most 24 peers fit a message.\<close>

theorem client_peer_list_aliases:
  assumes "on_r_get_peers c = Some (c', out)" and "resp_uiPeerNums (cl_param c) = n" and "0 < n"
    and "length (cl_stMsg c) = 1440"
  shows "unat n \<le> 24 \<and> cl_ClientList c' = cl_ClientList c @ replicate (unat n) (cl_ptPeer c) \<and>
    (\<exists>p src. peerList_at (cl_param c) (unat n - 1) = Some src \<and> cl_heap c' (cl_ptPeer c) = Some p \<and> same_peer p src \<and>
      (cl_ClientList c = [] \<longrightarrow> (\<forall>s t. c_str s = Some t \<and> c_str (name src) \<noteq> Some t \<longrightarrow>
         GetPeerByName (cl_heap c') (cl_ClientList c') s = None)))"
proof -
  have k: "0 < unat n" using assms(3) by (simp add: unat_gt_0 word_neq_0_conv)
  have t: "take_peers (unat n) 0 c = Some c'"
    using assms(1,2) by (auto simp: on_r_get_peers_def Option.bind_eq_Some_conv Let_def split: if_splits)
  obtain p src where src: "peerList_at (cl_param c) (unat n - 1) = Some src"
    and p: "cl_heap c' (cl_ptPeer c) = Some p" "same_peer p src"
    and l: "cl_ClientList c' = cl_ClientList c @ replicate (unat n) (cl_ptPeer c)"
    using take_peers_spec [OF t] k by auto
  have "length (cl_param c) = MSG_PARAM_LEN" using assms(4) by (simp add: cl_param_def get_Msg_def)
  then have "unat n - 1 < 24" using src peerList_at_bound by blast
  moreover have "GetPeerByName (cl_heap c') (replicate j (cl_ptPeer c)) s = None"
    if "c_str s = Some t" "c_str (name src) \<noteq> Some t" for j s t
  proof (induction j)
    case (Suc j)
    have "strcmp (name p) s \<noteq> Some 0"
      using that p(2) by (auto simp: strcmp_0_iff same_peer_def)
    with Suc p(1) show ?case by (cases "strcmp (name p) s") auto
  qed simp
  ultimately show ?thesis using src p l k by auto
qed

definition peers_param :: "T_PeerInfo \<Rightarrow> byte list" where
  "peers_param p = put_u32 1 @ zeros 8 @ put_PeerInfo p @ zeros 1354"

lemma peers_param_facts:
  assumes "PeerInfo_ok p"
  shows "length (peers_param p) = 1424" and "resp_uiPeerNums (peers_param p) = 1" and "peerList_at (peers_param p) 0 = Some p"
proof -
  note len = PeerInfo_layout.put_length [OF assms]
  show "length (peers_param p) = 1424" "resp_uiPeerNums (peers_param p) = 1"
    by (simp_all add: peers_param_def len resp_uiPeerNums_def region_append_take)
  show "peerList_at (peers_param p) 0 = Some p"
    by (simp add: peerList_at_def peers_param_def len PeerInfo_layout.get_put [OF assms])
qed

lemma example_peer_ok: "length n < 12 \<Longrightarrow> PeerInfo_ok (example_peer n)"
  by (simp add: PeerInfo_ok_def example_peer_def)

theorem client_peer_list_aliases_witness:
  "\<exists>c'. on_r_get_peers (example_client\<lparr>cl_stMsg := put_Msg ((plain_msg MSG_R_GET_PEERS)\<lparr>aucParam := peers_param (example_peer ''alice'')\<rparr>)\<rparr>)
      = Some (c', []) \<and> cl_ClientList c' = [9]"
proof -
  let ?m = "(plain_msg MSG_R_GET_PEERS)\<lparr>aucParam := peers_param (example_peer ''alice'')\<rparr>"
  let ?c = "example_client\<lparr>cl_stMsg := put_Msg ?m\<rparr>"
  have ok: "PeerInfo_ok (example_peer ''alice'')" by (rule example_peer_ok) simp
  have m: "Msg_ok ?m" by (simp add: Msg_ok_def peers_param_facts(1) [OF ok])
  have p: "cl_param ?c = peers_param (example_peer ''alice'')"
    using Msg_layout.get_put [OF m, of "[]"] by (simp add: cl_param_def)
  have len: "length (cl_stMsg ?c) = 1440" using Msg_layout.put_length [OF m] by simp
  have "\<exists>c'. take_peer ?c (example_peer ''alice'') = Some c'"
    by (simp add: take_peer_def example_client_def example_peer_def strcpy_def bytes_def Let_def)
  then obtain c' where run: "on_r_get_peers ?c = Some (c', [])"
    by (auto simp: on_r_get_peers_def p peers_param_facts [OF ok])
  have "cl_ClientList c' = cl_ClientList ?c @ replicate (unat (1 :: u32)) (cl_ptPeer ?c)"
    using client_peer_list_aliases [OF run _ _ len, of 1] by (simp add: p peers_param_facts [OF ok])
  with run show ?thesis by (auto simp: example_client_def)
qed

definition peer_terminated :: "T_PeerInfo \<Rightarrow> bool" where
  "peer_terminated p \<longleftrightarrow> 0 \<in> set (name p) \<and> 0 \<in> set (ID p) \<and> 0 \<in> set (sPubIp p) \<and> 0 \<in> set (sLanIp p)"

lemma take_peer_Some_iff:
  assumes "cl_heap c (cl_ptPeer c) = Some p" and "PeerInfo_ok p" and "PeerInfo_ok src"
  shows "take_peer c src \<noteq> None \<longleftrightarrow> peer_terminated src"
proof
  assume "take_peer c src \<noteq> None"
  then show "peer_terminated src"
    using c_str_None_iff [of "name src"] c_str_None_iff [of "ID src"] c_str_None_iff [of "sPubIp src"]
      c_str_None_iff [of "sLanIp src"]
    by (auto simp: take_peer_def Option.bind_eq_Some_conv Let_def strcpy_Some_iff peer_terminated_def)
next
  assume t: "peer_terminated src"
  have len: "length (name src) = length (name p)" "length (ID src) = length (ID p)"
    "length (sPubIp src) = length (sPubIp p)" "length (sLanIp src) = length (sLanIp p)"
    using assms(2,3) by (simp_all add: PeerInfo_ok_def)
  obtain n i pub lan where "strcpy (name p) (name src) = Some n" "strcpy (ID p) (ID src) = Some i"
    "strcpy (sPubIp p) (sPubIp src) = Some pub" "strcpy (sLanIp p) (sLanIp src) = Some lan"
    using t len unfolding peer_terminated_def by (metis strcpy_same_size)
  then show "take_peer c src \<noteq> None" by (simp add: take_peer_def assms(1) Let_def)
qed

lemma take_peer_record_ok:
  assumes "take_peer c src = Some c'" and "cl_heap c (cl_ptPeer c) = Some p" and "PeerInfo_ok p"
  shows "\<exists>p'. cl_heap c' (cl_ptPeer c) = Some p' \<and> PeerInfo_ok p'"
  using assms by (auto simp: take_peer_def Option.bind_eq_Some_conv Let_def PeerInfo_ok_def strcpy_length)

lemma peerList_at_ok: "peerList_at param i = Some src \<Longrightarrow> PeerInfo_ok src"
  by (auto simp: peerList_at_def intro!: PeerInfo_layout.get_ok split: if_splits)

lemma take_peers_Some_iff:
  "cl_heap c (cl_ptPeer c) = Some p \<Longrightarrow> PeerInfo_ok p \<Longrightarrow>
   take_peers k i c \<noteq> None \<longleftrightarrow> (\<forall>j<k. \<exists>src. peerList_at (cl_param c) (i + j) = Some src \<and> peer_terminated src)"
proof (induction k arbitrary: i c p)
  case (Suc k)
  show ?case
  proof (cases "\<exists>src. peerList_at (cl_param c) i = Some src \<and> peer_terminated src")
    case False
    have "take_peers (Suc k) i c = None"
    proof (cases "peerList_at (cl_param c) i")
      case (Some src)
      then have "take_peer c src = None"
        using False take_peer_Some_iff [OF Suc.prems peerList_at_ok [OF Some]] by auto
      with Some show ?thesis by simp
    qed simp
    with False show ?thesis by force
  next
    case True
    then obtain src where src: "peerList_at (cl_param c) i = Some src" "peer_terminated src" by blast
    obtain c1 where c1: "take_peer c src = Some c1"
      using take_peer_Some_iff [OF Suc.prems peerList_at_ok [OF src(1)]] src(2) by auto
    obtain p' where p': "cl_heap c1 (cl_ptPeer c1) = Some p'" "PeerInfo_ok p'"
      using take_peer_record_ok [OF c1 Suc.prems] sessionD(1) [OF take_peer_spec(1) [OF c1]] by auto
    have "take_peers (Suc k) i c = take_peers k (i + 1) c1" by (simp add: src c1)
    also have "\<dots> \<noteq> None \<longleftrightarrow> (\<forall>j<k. \<exists>src. peerList_at (cl_param c) (i + 1 + j) = Some src \<and> peer_terminated src)"
      using Suc.IH [OF p', of "i + 1"] sessionD(3) [OF take_peer_spec(1) [OF c1]] by simp
    also have "\<dots> \<longleftrightarrow> (\<forall>j<Suc k. \<exists>src. peerList_at (cl_param c) (i + j) = Some src \<and> peer_terminated src)"
      using src by (auto simp: less_Suc_eq_0_disj)
    finally show ?thesis .
  qed
qed simp

text \<open>C26. The handler of the peer list is defined exactly if each of the announced peers lies inside the
  message and has its four texts terminated; the count is not checked, so a count above 24
  makes the client read past the message.\<close>

theorem on_r_get_peers_defined_iff:
  assumes "cl_ok c"
  shows "on_r_get_peers c \<noteq> None \<longleftrightarrow>
    unat (resp_uiPeerNums (cl_param c)) \<le> 24 \<and>
    (\<forall>j < unat (resp_uiPeerNums (cl_param c)). peer_terminated (get_PeerInfo (drop (12 + 58 * j) (cl_param c))))"
proof -
  obtain p where p: "cl_heap c (cl_ptPeer c) = Some p" "PeerInfo_ok p" using assms by (auto simp: cl_ok_def)
  let ?n = "unat (resp_uiPeerNums (cl_param c))"
  have len: "length (cl_param c) = 1424" using assms by (simp add: cl_ok_def cl_param_def get_Msg_def)
  have "on_r_get_peers c \<noteq> None \<longleftrightarrow> take_peers ?n 0 c \<noteq> None"
    by (cases "take_peers ?n 0 c") (auto simp: on_r_get_peers_def Let_def)
  also have "\<dots> \<longleftrightarrow> (\<forall>j<?n. j < 24 \<and> peer_terminated (get_PeerInfo (drop (12 + 58 * j) (cl_param c))))"
    using take_peers_Some_iff [OF p, of ?n 0] by (auto simp: peerList_at_def len)
  also have "\<dots> \<longleftrightarrow> ?n \<le> 24 \<and> (\<forall>j<?n. peer_terminated (get_PeerInfo (drop (12 + 58 * j) (cl_param c))))"
  proof -
    have "(\<forall>j<n. j < k) \<longleftrightarrow> n \<le> k" for n k :: nat by (meson leD le_less_linear less_le_trans less_irrefl)
    then show ?thesis by blast
  qed
  finally show ?thesis .
qed

theorem on_r_get_peers_defined_iff_witness:
  "on_r_get_peers (example_client\<lparr>cl_stMsg := put_Msg ((plain_msg MSG_R_GET_PEERS)\<lparr>aucParam := put_u32 25 @ zeros 1420\<rparr>)\<rparr>) = None"
proof -
  let ?m = "(plain_msg MSG_R_GET_PEERS)\<lparr>aucParam := put_u32 25 @ zeros 1420\<rparr>"
  let ?c = "example_client\<lparr>cl_stMsg := put_Msg ?m\<rparr>"
  have m: "Msg_ok ?m" by (simp add: Msg_ok_def)
  have p: "cl_param ?c = put_u32 25 @ zeros 1420"
    using Msg_layout.get_put [OF m, of "[]"] by (simp add: cl_param_def)
  have "cl_ok ?c" using example_client_ok Msg_layout.put_length [OF m] by (simp add: cl_ok_def)
  from on_r_get_peers_defined_iff [OF this] have "on_r_get_peers ?c \<noteq> None \<longrightarrow> unat (25 :: u32) \<le> 24"
    by (simp add: p resp_uiPeerNums_def region_append_take)
  then show ?thesis by (cases "on_r_get_peers ?c") simp_all
qed

section \<open>The punch\<close>

lemma hole_req_answer:
  assumes ok: "cl_ok c" and pMsg: "get_HoleFromSrvReq (cl_param c) = pMsg" and n: "c_str (hs_srcName pMsg) = Some n"
    and a: "FTC_InetAddr (hs_srcPubIP pMsg) = Some a" and indet: "length indet = 12" and sock: "0 \<le> sockCli c"
    and slack: "18 \<le> slack"
  shows "\<exists>m1 m2. on_c_hole_req slack indet c =
        Some (c, [(\<lparr>sin_family = AF_INET, sin_port = FTC_Htons (hs_srcPubPort pMsg), sin_addr = a\<rparr>, put_Msg m1),
                  (cl_fromAddr c, put_Msg m2)]) \<and>
      uiMsgId (tMsgHead m1) = msg_code MSG_C_P2P_CONN_REQ \<and>
      c_str (nr_myName (get_NameReq (aucParam m1))) = c_str (sMyName c) \<and>
      uiMsgId (tMsgHead m2) = msg_code MSG_C_HAVE_SEND_P2P_REQ \<and>
      c_str (sp_myName (get_HaveSendP2PReq (aucParam m2))) = c_str (sMyName c) \<and>
      c_str (sp_toName (get_HaveSendP2PReq (aucParam m2))) = c_str (sToName c)"
proof -
  have names: "0 \<in> set (sMyName c)" "length (sMyName c) = 12" "0 \<in> set (sToName c)" "length (sToName c) = 12"
    using ok by (simp_all add: cl_ok_def)
  let ?z = "overwrite indet (zeros 12)"
  have z: "memset_slack slack indet 30 = Some ?z" "memset_slack slack indet 24 = Some ?z" "length ?z = 12"
    using slack indet by (simp_all add: memset_slack_def)
  obtain my where my: "strcpy ?z (sMyName c) = Some my" "c_str my = c_str (sMyName c)" "length my = 12"
    using strcpy_name [OF names(1), of ?z] names(2) z(3) by metis
  obtain my2 where my2: "strcpy indet (sMyName c) = Some my2" "c_str my2 = c_str (sMyName c)" "length my2 = 12"
    using strcpy_name [OF names(1), of indet] names(2) indet by metis
  obtain to where to: "strcpy ?z (sToName c) = Some to" "c_str to = c_str (sToName c)" "length to = 12"
    using strcpy_name [OF names(3), of ?z] names(4) z(3) by metis
  have ok1: "NameReq_ok \<lparr>nr_myName = my\<rparr>" and ok2: "HaveSendP2PReq_ok \<lparr>sp_myName = my2, sp_toName = to\<rparr>"
    using my to my2 by (simp_all add: NameReq_ok_def HaveSendP2PReq_ok_def)
  obtain m1 where m1: "make_msg MSG_TYPE_REQUEST MSG_C_P2P_CONN_REQ 12 (put_NameReq \<lparr>nr_myName = my\<rparr>) = Some m1"
    using NameReq_layout.put_length [OF ok1] by (simp add: make_msg_eq)
  obtain m2 where m2: "make_msg MSG_TYPE_INDICATE MSG_C_HAVE_SEND_P2P_REQ 24
      (put_HaveSendP2PReq \<lparr>sp_myName = my2, sp_toName = to\<rparr>) = Some m2"
    using HaveSendP2PReq_layout.put_length [OF ok2] by (simp add: make_msg_eq)
  have ne: "put_Msg m1 \<noteq> []" "put_Msg m2 \<noteq> []"
    using Msg_layout.put_length [OF make_msg_ok [OF m1]] Msg_layout.put_length [OF make_msg_ok [OF m2]] by auto
  have "on_c_hole_req slack indet c =
      Some (c, [(\<lparr>sin_family = AF_INET, sin_port = FTC_Htons (hs_srcPubPort pMsg), sin_addr = a\<rparr>, put_Msg m1),
                (cl_fromAddr c, put_Msg m2)])"
    using sock ne by (simp add: on_c_hole_req_def pMsg n a z my my2 to m1 m2 cl_send_def sent_def Let_def)
  moreover have "get_NameReq (aucParam m1) = \<lparr>nr_myName = my\<rparr>"
    "get_HaveSendP2PReq (aucParam m2) = \<lparr>sp_myName = my2, sp_toName = to\<rparr>"
    by (simp_all only: make_msg_fields [OF m1] make_msg_fields [OF m2] NameReq_layout.get_overwrite [OF ok1]
        HaveSendP2PReq_layout.get_overwrite [OF ok2])
  ultimately show ?thesis
    using make_msg_fields(2) [OF m1] make_msg_fields(2) [OF m2] my my2 to
    by (intro exI [of _ m1] exI [of _ m2]) simp
qed

text \<open>C24. Told by the server that a peer wants to connect, the client sends its own name straight to
  that peer's public address, which opens the hole, and then notifies the sender of the
  message of it; but only in a frame that leaves 18 unused bytes behind the cleared object: the
  code clears 30 bytes of a 12 byte object, which C leaves undefined.\<close>

theorem client_answers_hole_req:
  assumes ok: "cl_ok c" and pMsg: "get_HoleFromSrvReq (cl_param c) = pMsg" and n: "c_str (hs_srcName pMsg) = Some n"
    and a: "FTC_InetAddr (hs_srcPubIP pMsg) = Some a" and indet: "length indet = 12" and sock: "0 \<le> sockCli c"
  shows "(slack < 18 \<longrightarrow> on_c_hole_req slack indet c = None) \<and>
    (18 \<le> slack \<longrightarrow> (\<exists>m1 m2. on_c_hole_req slack indet c =
        Some (c, [(\<lparr>sin_family = AF_INET, sin_port = FTC_Htons (hs_srcPubPort pMsg), sin_addr = a\<rparr>, put_Msg m1),
                  (cl_fromAddr c, put_Msg m2)]) \<and>
      uiMsgId (tMsgHead m1) = msg_code MSG_C_P2P_CONN_REQ \<and>
      c_str (nr_myName (get_NameReq (aucParam m1))) = c_str (sMyName c) \<and>
      uiMsgId (tMsgHead m2) = msg_code MSG_C_HAVE_SEND_P2P_REQ \<and>
      c_str (sp_myName (get_HaveSendP2PReq (aucParam m2))) = c_str (sMyName c) \<and>
      c_str (sp_toName (get_HaveSendP2PReq (aucParam m2))) = c_str (sToName c)))"
  using hole_req_answer [OF ok pMsg n a indet sock, of slack]
  by (auto simp: on_c_hole_req_def pMsg n a memset_slack_def indet Let_def)

theorem client_answers_hole_req_witness:
  "on_c_hole_req 0 (zeros 12) example_client = None \<and> on_c_hole_req 20 (zeros 12) example_client \<noteq> None"
proof -
  have p: "get_HoleFromSrvReq (cl_param example_client) =
      \<lparr>hs_srcName = zeros 12, hs_srcPubIP = zeros 16, hs_srcPubPort = get_u16 (zeros 2)\<rparr>"
    by (simp add: cl_param_def example_client_def get_Msg_def get_HoleFromSrvReq_def)
  have n: "c_str (hs_srcName \<lparr>hs_srcName = zeros 12, hs_srcPubIP = zeros 16, hs_srcPubPort = get_u16 (zeros 2)\<rparr>) = Some []"
    by simp
  have a: "FTC_InetAddr (hs_srcPubIP \<lparr>hs_srcName = zeros 12, hs_srcPubIP = zeros 16, hs_srcPubPort = get_u16 (zeros 2)\<rparr>)
      = Some 0xffffffff"
    by (simp add: FTC_InetAddr_def inet_addr_def inet_aton.simps)
  have s: "length (zeros 12) = 12" "0 \<le> sockCli example_client" by (simp_all add: example_client_def)
  show ?thesis
    using client_answers_hole_req [OF example_client_ok p n a s, of 0]
      client_answers_hole_req [OF example_client_ok p n a s, of 20] by auto
qed

section \<open>The command line\<close>

lemma htons_0: "htons 0 = 0"
  by code_simp

lemma main_client_runs:
  assumes "0 \<notin> set me" and "length me < 12" and "0 \<notin> set other" and "length other < 12"
    and "FTC_CreateUdpSock env1 0 0 = (s1, calls1)" and "0 \<le> s1"
    and "FTC_CreateUdpSock env2 0 (FTC_Htons LAN_PORT) = (s2, calls2)" and "0 \<le> s2"
  shows "\<exists>c beat. main_client env1 env2 True True p peer0 [literal ''-u'', me @ [0], literal ''-r'', other @ [0]] =
        Some (Client_Runs c beat (calls1 @ calls2)) \<and>
      c_str (sMyName c) = Some me \<and> c_str (sToName c) = Some other \<and> \<not> bIsLogin c \<and> sockCli c = s1 \<and>
      sin_port (serverAddr c) = FTC_Htons 8888 \<and> inet_ntoa (sin_addr (serverAddr c)) = SERVER_IP"
proof -
  have lits: "strncmp (literal ''-u'') (literal ''-u'') 2 = Some 0" "strncmp (literal ''-u'') (literal ''-r'') 2 \<noteq> None"
    "strncmp (literal ''-u'') (literal ''-d'') 2 \<noteq> None" "strncmp (literal ''-u'') (literal ''-c'') 2 \<noteq> None"
    "strncmp (literal ''-r'') (literal ''-u'') 2 = Some (- 3)" "strncmp (literal ''-r'') (literal ''-r'') 2 = Some 0"
    "strncmp (literal ''-r'') (literal ''-d'') 2 \<noteq> None" "strncmp (literal ''-r'') (literal ''-c'') 2 \<noteq> None"
    by code_simp+
  have ip: "FTC_InetAddr (literal ''0.0.0.0'') = Some 0" by code_simp
  have srv: "FTC_InetAddr SERVER_IP = Some 1139276843" "inet_ntoa 1139276843 = SERVER_IP" by code_simp+
  have cp: "strcpy (zeros 12) (n @ [0]) = Some (overwrite (zeros 12) (n @ [0]))" if "0 \<notin> set n" "length n < 12" for n
    using strcpy_fits [of "n @ [0]" n "zeros 12"] that by simp
  obtain c where c: "client_init = Some c" "sMyName c = zeros 12" "sToName c = zeros 12" "\<not> bIsLogin c"
    by (simp add: client_init_def strcpy_def literal_def bytes_def)
  let ?c = "c\<lparr>sMyName := overwrite (zeros 12) (me @ [0]), sToName := overwrite (zeros 12) (other @ [0])\<rparr>"
  have parse: "parse_args c [literal ''-u'', me @ [0], literal ''-r'', other @ [0]] = Some ?c"
    using lits by (auto simp: c cp assms(1-4))
  have me: "c_str (overwrite (zeros 12) (me @ [0])) = Some me" using assms(1) by simp
  obtain beat where "heartbeat_msg (?c\<lparr>sockCli := s1, sockLocal := s2\<rparr>) = Some beat"
    using me assms(2) by (simp add: heartbeat_msg_def make_msg_eq)
  then show ?thesis
    using assms by (simp add: main_client_def c parse ip srv FTC_Htons_def htons_0 P2PClientProc_start_def CLIENT_SERVER_PORT_def
        Let_def del: parse_args.simps)
qed

definition example_sock_env :: "int \<Rightarrow> sock_env" where
  "example_sock_env s = \<lparr>env_socket = s, env_bind = 0, env_getfl = 2, env_setfl = 0\<rparr>"

lemma example_socks:
  "\<exists>c1. FTC_CreateUdpSock (example_sock_env 3) 0 0 = (3, c1)"
  "\<exists>c2. FTC_CreateUdpSock (example_sock_env 4) 0 (FTC_Htons LAN_PORT) = (4, c2)"
  by (simp_all add: FTC_CreateUdpSock_def CreateUdpSockUnix_def Let_def example_sock_env_def)

lemma example_names:
  "0 \<notin> set (bytes ''bob'')" "length (bytes ''bob'') < 12" "0 \<notin> set (bytes ''alice'')" "length (bytes ''alice'') < 12"
  by (simp_all add: bytes_def)

lemma example_client_runs:
  "\<exists>c beat calls. main_client (example_sock_env 3) (example_sock_env 4) True True 9 (example_peer [])
      [literal ''-u'', bytes ''bob'' @ [0], literal ''-r'', bytes ''alice'' @ [0]] = Some (Client_Runs c beat calls) \<and>
    c_str (sMyName c) = Some (bytes ''bob'') \<and> sockCli c = 3"
proof -
  obtain c1 c2 where "FTC_CreateUdpSock (example_sock_env 3) 0 0 = (3, c1)"
    "FTC_CreateUdpSock (example_sock_env 4) 0 (FTC_Htons LAN_PORT) = (4, c2)" using example_socks by blast
  from main_client_runs [OF example_names this(1) _ this(2), where p = 9 and ?peer0.0 = "example_peer []"] show ?thesis by auto
qed

text \<open>C30. The command line that the program documents (\<^verbatim>\<open>-c\<close> or \<^verbatim>\<open>-d\<close>, then \<^verbatim>\<open>-u name -r name\<close>) is refused,
  because the program insists on four arguments, and the form with four arguments and names of
  at most 11 characters starts the client, if its sockets and threads can be made, with these
  names, not logged in.\<close>

theorem client_command_line:
  assumes "0 \<notin> set me" and "length me < 12" and "0 \<notin> set other" and "length other < 12"
    and "FTC_CreateUdpSock env1 0 0 = (s1, calls1)" and "0 \<le> s1"
    and "FTC_CreateUdpSock env2 0 (FTC_Htons LAN_PORT) = (s2, calls2)" and "0 \<le> s2"
  shows "main_client env1 env2 True True p peer0 [opt, literal ''-u'', me @ [0], literal ''-r'', other @ [0]] =
      Some (Client_Exit (- 1) []) \<and>
    (\<exists>c beat. main_client env1 env2 True True p peer0 [literal ''-u'', me @ [0], literal ''-r'', other @ [0]] =
        Some (Client_Runs c beat (calls1 @ calls2)) \<and>
      c_str (sMyName c) = Some me \<and> c_str (sToName c) = Some other \<and> \<not> bIsLogin c \<and> sockCli c = s1 \<and>
      sin_port (serverAddr c) = FTC_Htons 8888 \<and> inet_ntoa (sin_addr (serverAddr c)) = SERVER_IP)"
  using main_client_runs [OF assms] by (simp add: main_client_def)

theorem client_command_line_witness:
  "\<exists>c beat calls. main_client (example_sock_env 3) (example_sock_env 4) True True 9 (example_peer [])
      [literal ''-u'', bytes ''bob'' @ [0], literal ''-r'', bytes ''alice'' @ [0]] = Some (Client_Runs c beat calls) \<and>
    c_str (sMyName c) = Some (bytes ''bob'') \<and> sockCli c = 3"
proof -
  obtain c1 c2 where "FTC_CreateUdpSock (example_sock_env 3) 0 0 = (3, c1)"
    "FTC_CreateUdpSock (example_sock_env 4) 0 (FTC_Htons LAN_PORT) = (4, c2)" using example_socks by blast
  from client_command_line [OF example_names this(1) _ this(2), where p = 9 and ?peer0.0 = "example_peer []" and opt = "literal ''-c''"]
  show ?thesis by auto
qed

section \<open>What the client puts on the network\<close>

text \<open>A datagram of the client: a whole message with a given type and id.\<close>

definition whole_msg :: "E_MsgType \<Rightarrow> msg_id set \<Rightarrow> byte list \<Rightarrow> bool" where
  "whole_msg ty ids d \<longleftrightarrow> length d = 1440 \<and> uiMsgType (tMsgHead (get_Msg d)) = msg_type_code ty \<and>
     uiMsgId (tMsgHead (get_Msg d)) \<in> msg_code ` ids"

lemma cl_send_whole:
  assumes "make_msg ty mid k sub = Some m" and "(a, d) \<in> set (cl_send c m r)"
  shows "a = r" and "whole_msg ty {mid} d"
proof -
  have ok: "Msg_ok m" by (rule make_msg_ok [OF assms(1)])
  have d: "a = r" "d = put_Msg m" using assms(2) by (auto simp: cl_send_def sent_def split: if_splits)
  then show "a = r" "whole_msg ty {mid} d"
    using Msg_layout.put_length [OF ok] Msg_layout.get_put [OF ok, of "[]"] make_msg_fields(1,2) [OF assms(1)]
    by (simp_all add: whole_msg_def)
qed

lemma whole_msg_mono: "whole_msg ty {mid} d \<Longrightarrow> mid \<in> ids \<Longrightarrow> whole_msg ty ids d"
  by (auto simp: whole_msg_def)

lemma request_typed:
  "LoginToServer c x y z p = Some out \<Longrightarrow> (a, d) \<in> set out \<Longrightarrow> a = serverAddr c \<and> whole_msg MSG_TYPE_REQUEST {MSG_C_LOGIN} d"
  "GetPeerListFromServer c = Some out \<Longrightarrow> (a, d) \<in> set out \<Longrightarrow> a = serverAddr c \<and> whole_msg MSG_TYPE_REQUEST {MSG_C_GET_PEERS} d"
  "SendP2PHoleMsg c = Some out \<Longrightarrow> (a, d) \<in> set out \<Longrightarrow> a = serverAddr c \<and> whole_msg MSG_TYPE_REQUEST {MSG_C_HOLE} d"
  "SendLogoutMsg c = Some out \<Longrightarrow> (a, d) \<in> set out \<Longrightarrow> a = serverAddr c \<and> whole_msg MSG_TYPE_REQUEST {MSG_C_LOGOUT} d"
  by (auto simp: LoginToServer_def GetPeerListFromServer_def SendP2PHoleMsg_def SendLogoutMsg_def Let_def
      Option.bind_eq_Some_conv dest: cl_send_whole)

definition command_ids :: "msg_id set" where
  "command_ids = {MSG_C_LOGIN, MSG_C_GET_PEERS, MSG_C_HOLE, MSG_C_LOGOUT}"

lemma DoInput_typed:
  assumes "DoInput env arr inp c = Some (out, e)" and "(a, d) \<in> set out"
  shows "a = serverAddr c \<and> whole_msg MSG_TYPE_REQUEST command_ids d"
  using assms
  by (auto simp: DoInput_def DoInput_body_def Let_def Option.bind_eq_Some_conv command_ids_def split: if_splits
      dest!: request_typed intro: whole_msg_mono)

text \<open>What a received message may make the client send, and to whom.\<close>

definition reaction :: "client \<Rightarrow> sockaddr_in \<Rightarrow> byte list \<Rightarrow> bool" where
  "reaction c a d \<longleftrightarrow> whole_msg MSG_TYPE_REQUEST {MSG_C_P2P_CONN_REQ, MSG_C_P2P_START_REQ} d \<or>
     a = cl_fromAddr c \<and> (whole_msg MSG_TYPE_INDICATE {MSG_C_HAVE_SEND_P2P_REQ} d \<or>
       whole_msg MSG_TYPE_RESPONSE {MSG_R_P2P_START_RESP} d)"

lemma reactionI:
  "make_msg MSG_TYPE_REQUEST MSG_C_P2P_CONN_REQ k sub = Some m \<Longrightarrow> (a, d) \<in> set (cl_send c m r) \<Longrightarrow> reaction c a d"
  "make_msg MSG_TYPE_REQUEST MSG_C_P2P_START_REQ k sub = Some m \<Longrightarrow> (a, d) \<in> set (cl_send c m r) \<Longrightarrow> reaction c a d"
  "make_msg MSG_TYPE_INDICATE MSG_C_HAVE_SEND_P2P_REQ k sub = Some m \<Longrightarrow> (a, d) \<in> set (cl_send c m (cl_fromAddr c)) \<Longrightarrow> reaction c a d"
  "make_msg MSG_TYPE_RESPONSE MSG_R_P2P_START_RESP k sub = Some m \<Longrightarrow> (a, d) \<in> set (cl_send c m (cl_fromAddr c)) \<Longrightarrow> reaction c a d"
  by (auto simp: reaction_def dest: cl_send_whole intro: whole_msg_mono)

lemma cl_dispatch_typed:
  assumes "cl_dispatch slack indet c = Some (c', out)" and "(a, d) \<in> set out"
  shows "reaction c a d"
  using assms
  by (auto simp: cl_dispatch_def Let_def on_r_login_def on_r_get_peers_def on_r_hole_def on_c_hole_req_def
      on_c_p2p_conn_req_def on_c_can_start_def on_c_start_def on_r_start_resp_def on_r_logout_def
      Option.bind_eq_Some_conv split: if_splits intro: reactionI)



end
