(* ===== verification/P2P_Network.thy ===== *)
theory P2P_Network
  imports Login_Directory P2P_Client
begin

text \<open>
  The server and any number of Linux clients on one network.

  The network keeps every datagram that was ever sent, with the address it came from and the address it
  goes to, and may deliver it never, once or many times, in any order, which is what UDP allows; it
  delivers nothing that was not sent. A client is known by the address under which its datagrams appear
  to the server. The steps are the entry points of the two programs: a command of a user, a beat of the
  heart beat thread, a round of a client's receiving loop and a round of the server's loop, each on the
  definitions of \<open>P2P_Client\<close> and \<open>P2P_Server\<close>.

  A command ends with a call of \<^verbatim>\<open>DoInput\<close> that falls off its end. The step \<open>command\<close> is what has been sent by
  then. The client is kept in the network behind it, as in a build in which control comes back to \<^verbatim>\<open>main\<close>; a
  client whose process dies there is one that takes no further step, so that what is proved of all reachable
  states covers it.
\<close>

section \<open>The network\<close>

definition server_addr :: sockaddr_in where
  "server_addr = \<lparr>sin_family = AF_INET, sin_port = FTC_Htons CLIENT_SERVER_PORT, sin_addr = the (FTC_InetAddr SERVER_IP)\<rparr>"

type_synonym node = "client \<times> T_Msg"
type_synonym packet = "sockaddr_in \<times> sockaddr_in \<times> byte list"

record 'e net =
  srv :: "'e server"
  up :: bool
  nodes :: "sockaddr_in \<rightharpoonup> node"
  wire :: "packet set"

definition post :: "sockaddr_in \<Rightarrow> datagram list \<Rightarrow> packet set" where
  "post src out = (\<lambda>(dst, d). (src, dst, d)) ` set out"

inductive net_step :: "('e, 's) sqlite \<Rightarrow> 'e net \<Rightarrow> 'e net \<Rightarrow> bool" for api where
  command: "nodes N a = Some (c, beat) \<Longrightarrow> DoInput env arr inp c = Some (out, e) \<Longrightarrow>
     net_step api N (N\<lparr>wire := wire N \<union> post a out\<rparr>)"
| heart_beat: "nodes N a = Some (c, beat) \<Longrightarrow>
     net_step api N (N\<lparr>wire := wire N \<union> post a (SendHeartbeat beat c)\<rparr>)"
| client_recv: "nodes N a = Some (c, beat) \<Longrightarrow> (src, a, d) \<in> wire N \<Longrightarrow>
     cl_round readable [Recv_Dgram d src] slack indet c = Some (c', out) \<Longrightarrow>
     net_step api N (N\<lparr>nodes := (nodes N)(a \<mapsto> (c', beat)), wire := wire N \<union> post a out\<rparr>)"
| server_recv: "up N \<Longrightarrow> (src, server_addr, d) \<in> wire N \<Longrightarrow>
     srv_round api readable ind ((srv N)\<lparr>rx := [Recv_Dgram d src]\<rparr>) = Some (f, s', out) \<Longrightarrow>
     net_step api N (N\<lparr>srv := s', up := (f = Next), wire := wire N \<union> post server_addr out\<rparr>)"

inductive net_reach :: "('e, 's) sqlite \<Rightarrow> 'e net \<Rightarrow> 'e net \<Rightarrow> bool" for api N0 where
  net_start: "net_reach api N0 N0"
| net_more: "net_reach api N0 N \<Longrightarrow> net_step api N N' \<Longrightarrow> net_reach api N0 N'"

definition node_name :: "'e net \<Rightarrow> sockaddr_in \<Rightarrow> byte list option" where
  "node_name N a = Option.bind (nodes N a) (\<lambda>(c, beat). c_str (sMyName c))"

text \<open>The start: a server that its \<^verbatim>\<open>main\<close> has started on a table with one row per name, and clients that their
  \<^verbatim>\<open>main\<close> has started, at addresses other than the server's, with different names that SQLite reads as names.\<close>

definition client_started :: "client \<Rightarrow> T_Msg \<Rightarrow> bool" where
  "client_started c beat \<longleftrightarrow> (\<exists>env1 env2 p peer0 args calls. PeerInfo_ok peer0 \<and>
     main_client env1 env2 True True p peer0 args = Some (Client_Runs c beat calls)) \<and> sockCli c < FD_SETSIZE"

definition server_started :: "('e, 's) sqlite \<Rightarrow> ('e \<Rightarrow> bool) \<Rightarrow> ('e \<Rightarrow> peer_row list) \<Rightarrow> 'e server \<Rightarrow> bool" where
  "server_started api live rows s \<longleftrightarrow> (\<exists>rb wb env e msg0 peer0 calls. length msg0 = 1440 \<and> PeerInfo_ok peer0 \<and>
     main_server api rb wb env True (db_static_init e) msg0 peer0 = Some (Main_Runs s calls)) \<and> sockSrv s < FD_SETSIZE \<and>
     live (engine (sdb s)) \<and> distinct (map row_username (table rows s))"

definition net_init :: "('e, 's) sqlite \<Rightarrow> ('e \<Rightarrow> bool) \<Rightarrow> ('e \<Rightarrow> peer_row list) \<Rightarrow> 'e net \<Rightarrow> bool" where
  "net_init api live rows N \<longleftrightarrow> server_started api live rows (srv N) \<and> up N \<and> wire N = {} \<and> nodes N server_addr = None \<and>
     (\<forall>a c beat. nodes N a = Some (c, beat) \<longrightarrow> client_started c beat) \<and>
     (\<forall>a n. node_name N a = Some n \<longrightarrow> plain_name n \<and> (\<forall>b. node_name N b = Some n \<longrightarrow> b = a))"

section \<open>What a started client is\<close>

definition client_inv :: "client \<Rightarrow> T_Msg \<Rightarrow> bool" where
  "client_inv c beat \<longleftrightarrow> cl_ok c \<and> 0 \<le> sockCli c \<and> sockCli c < FD_SETSIZE \<and> serverAddr c = server_addr \<and>
     cl_ClientList c = [] \<and> Msg_ok beat \<and> uiMsgId (tMsgHead beat) = msg_code MSG_C_HEART_BEAT \<and> 0 \<in> set (aucParam beat)"

definition named_ok :: "client \<Rightarrow> bool" where
  "named_ok c \<longleftrightarrow> length (sMyName c) = 12 \<and> 0 \<in> set (sMyName c) \<and> length (sToName c) = 12 \<and> 0 \<in> set (sToName c) \<and>
     length (my_ID c) = 8 \<and> 0 \<in> set (my_ID c) \<and> \<not> bIsLogin c \<and> cl_ClientList c = []"

lemma strcpy_keeps_terminated: "strcpy dst src = Some d \<Longrightarrow> length d = length dst \<and> 0 \<in> set d"
  by (auto simp: strcpy_Some_iff overwrite_def)

lemma parse_args_named: "parse_args c args = Some c' \<Longrightarrow> named_ok c \<Longrightarrow> named_ok c'"
proof (induction c args arbitrary: c' rule: parse_args.induct)
  case (3 c a v rest)
  obtain u r d k where cmp: "strncmp a (literal ''-u'') 2 = Some u" "strncmp a (literal ''-r'') 2 = Some r"
      "strncmp a (literal ''-d'') 2 = Some d" "strncmp a (literal ''-c'') 2 = Some k"
    using "3.prems"(1) by (auto simp: Option.bind_eq_Some_conv)
  note IH = "3.IH" [OF cmp]
  consider "u = 0" | "u \<noteq> 0" "r = 0" | "u \<noteq> 0" "r \<noteq> 0" "d = 0" | "u \<noteq> 0" "r \<noteq> 0" "d \<noteq> 0" "k = 0"
    | "u \<noteq> 0" "r \<noteq> 0" "d \<noteq> 0" "k \<noteq> 0" by blast
  then show ?case
  proof cases
    case 1
    with "3.prems"(1) cmp obtain n where n: "strcpy (sMyName c) v = Some n" "parse_args (c\<lparr>sMyName := n\<rparr>) rest = Some c'"
      by (auto simp: Option.bind_eq_Some_conv)
    show ?thesis
      by (rule IH(1) [OF 1 n]) (use "3.prems"(2) strcpy_keeps_terminated [OF n(1)] in \<open>simp add: named_ok_def\<close>)
  next
    case 2
    with "3.prems"(1) cmp obtain n where n: "strcpy (sToName c) v = Some n" "parse_args (c\<lparr>sToName := n\<rparr>) rest = Some c'"
      by (auto simp: Option.bind_eq_Some_conv)
    show ?thesis
      by (rule IH(2) [OF 2 n]) (use "3.prems"(2) strcpy_keeps_terminated [OF n(1)] in \<open>simp add: named_ok_def\<close>)
  next
    case 3
    show ?thesis by (rule IH(3) [OF 3]) (use "3.prems" cmp 3 in \<open>simp_all add: named_ok_def\<close>)
  next
    case 4
    show ?thesis by (rule IH(4) [OF 4]) (use "3.prems" cmp 4 in \<open>simp_all add: named_ok_def\<close>)
  next
    case 5
    show ?thesis by (rule IH(5) [OF 5]) (use "3.prems" cmp 5 in simp_all)
  qed
qed (auto simp: Option.bind_eq_Some_conv)

lemma client_init_named: "client_init = Some c \<Longrightarrow> named_ok c"
  by (auto simp: client_init_def named_ok_def Option.bind_eq_Some_conv dest!: strcpy_keeps_terminated)

lemma heartbeat_msg_facts:
  assumes "heartbeat_msg c = Some m"
  shows "Msg_ok m" and "uiMsgId (tMsgHead m) = msg_code MSG_C_HEART_BEAT" and "0 \<in> set (aucParam m)"
proof -
  obtain s where m: "make_msg MSG_TYPE_REQUEST MSG_C_HEART_BEAT (of_nat (length s)) (s @ [0]) = Some m"
    using assms by (auto simp: heartbeat_msg_def Option.bind_eq_Some_conv)
  show "Msg_ok m" by (rule make_msg_ok [OF m])
  show "uiMsgId (tMsgHead m) = msg_code MSG_C_HEART_BEAT" by (rule make_msg_fields(2) [OF m])
  show "0 \<in> set (aucParam m)" unfolding make_msg_fields(4) [OF m] by (auto simp: overwrite_def)
qed

lemma started_client_inv:
  assumes "client_started c beat"
  shows "client_inv c beat" and "\<not> bIsLogin c"
proof -
  obtain env1 env2 p peer0 args calls where peer: "PeerInfo_ok peer0" and
    run: "main_client env1 env2 True True p peer0 args = Some (Client_Runs c beat calls)" and fd: "sockCli c < FD_SETSIZE"
    using assms by (auto simp: client_started_def)
  obtain c0 c1 s1 s2 where c0: "client_init = Some c0" and c1: "parse_args c0 args = Some c1"
    and beat: "heartbeat_msg (c1\<lparr>sockCli := s1, sockLocal := s2\<rparr>) = Some beat" and s1: "0 \<le> s1"
    and c: "c = P2PClientProc_start (c1\<lparr>sockCli := s1, sockLocal := s2, serverAddr := server_addr\<rparr>) p peer0"
    using run by (force simp: main_client_def Let_def Option.bind_eq_Some_conv server_addr_def case_prod_beta split: if_splits)
  have "named_ok c1" by (rule parse_args_named [OF c1 client_init_named [OF c0]])
  then show "client_inv c beat" "\<not> bIsLogin c"
    using s1 fd peer heartbeat_msg_facts [OF beat]
    by (simp_all add: c client_inv_def named_ok_def cl_ok_def P2PClientProc_start_def)
qed

section \<open>The messages of the closed system\<close>

text \<open>What a client called \<open>n\<close> sends to the server.\<close>

definition client_request :: "byte list \<Rightarrow> byte list \<Rightarrow> bool" where
  "client_request n d \<longleftrightarrow>
     (\<exists>req. d = put_Msg (login_msg req) \<and> login_req_ok req n) \<or>
     (\<exists>req. d = put_Msg (logout_msg req) \<and> NameReq_ok req \<and> c_str (nr_myName req) = Some n) \<or>
     (\<exists>m. d = put_Msg m \<and> Msg_ok m \<and>
        (uiMsgId (tMsgHead m) = msg_code MSG_C_GET_PEERS \<or> uiMsgId (tMsgHead m) = msg_code MSG_C_HOLE \<or>
         uiMsgId (tMsgHead m) = msg_code MSG_C_HEART_BEAT \<and> 0 \<in> set (aucParam m)))"

text \<open>The directory holds the name \<open>n\<close> with the address \<open>a\<close>.\<close>

definition registered :: "directory \<Rightarrow> byte list \<Rightarrow> sockaddr_in \<Rightarrow> bool" where
  "registered dir n a \<longleftrightarrow> (\<exists>x. dir n = Some x \<and> e_pubipaddr x = dotted (put_u32 (sin_addr a)) \<and>
     e_pubport x = uint (htons (sin_port a)))"

text \<open>What the server sends to the client called \<open>n\<close> at \<open>a\<close>: an acceptance only once it is registered.\<close>

definition server_answer :: "directory \<Rightarrow> byte list \<Rightarrow> sockaddr_in \<Rightarrow> byte list \<Rightarrow> bool" where
  "server_answer dir n a d \<longleftrightarrow> (\<exists>mid v. d = put_Msg (result_msg mid v) \<and> mid \<in> {MSG_R_LOGIN, MSG_R_LOGOUT, MSG_R_HOLE} \<and>
     (mid = MSG_R_LOGIN \<longrightarrow> v = 0 \<longrightarrow> registered dir n a))"

lemma cl_sendD: "(dst, d) \<in> set (cl_send c m r) \<Longrightarrow> dst = r \<and> d = put_Msg m"
  by (auto simp: cl_send_def sent_def split: if_splits)

lemma login_command:
  assumes "cl_ok c" and "c_str (sMyName c) = Some n" and "plain_name n"
    and "get_ip_addr env ifname (zeros 16) = Some (r, lan)"
  obtains req where "LoginToServer c (Some (sMyName c)) (Some lan) (Some (my_ID c)) port = Some (cl_send c (login_msg req) (serverAddr c))"
    and "login_req_ok req n"
proof -
  have "length lan = 16" "0 \<in> set lan"
    using assms(4) by (auto simp: get_ip_addr_def Let_def Option.bind_eq_Some_conv dest: strcpy_keeps_terminated)
  then obtain req where "LoginToServer c (Some (sMyName c)) (Some lan) (Some (my_ID c)) port = Some (cl_send c (login_msg req) (serverAddr c))"
      "LoginReq_ok req" "c_str (lr_name req) = c_str (sMyName c)" "0 \<in> set (lr_ID req)" "0 \<in> set (lr_MyLanIP req)"
    by (rule LoginToServer_request [OF assms(1), of lan port]) (auto simp: login_msg_def)
  with assms that show ?thesis by (auto simp: login_req_ok_def)
qed

lemma logout_command:
  assumes "SendLogoutMsg c = Some out" and "length (sMyName c) = 12"
  obtains req where "out = cl_send c (logout_msg req) (serverAddr c)" and "NameReq_ok req"
    and "c_str (nr_myName req) = c_str (sMyName c)"
proof -
  obtain my m where my: "strcpy (zeros 12) (sMyName c) = Some my"
    and m: "make_msg MSG_TYPE_REQUEST MSG_C_LOGOUT 12 (put_NameReq \<lparr>nr_myName = my\<rparr>) = Some m"
    and out: "out = cl_send c m (serverAddr c)"
    using assms(1) by (auto simp: SendLogoutMsg_def Option.bind_eq_Some_conv)
  have ok: "NameReq_ok \<lparr>nr_myName = my\<rparr>" using strcpy_length [OF my] by (simp add: NameReq_ok_def)
  from make_logout_msg [OF ok] m out ok strcpy_c_str [OF my] show ?thesis by (intro that) auto
qed

lemma plain_request:
  "make_msg ty mid k sub = Some m \<Longrightarrow> mid = MSG_C_GET_PEERS \<or> mid = MSG_C_HOLE \<Longrightarrow> client_request n (put_Msg m)"
  using make_msg_ok [of ty mid k sub m] make_msg_fields(2) [of ty mid k sub m] unfolding client_request_def by blast

lemma command_requests:
  assumes "client_inv c beat" and "c_str (sMyName c) = Some n" and "plain_name n"
    and "DoInput env arr inp c = Some (out, e)" and "(dst, d) \<in> set out"
  shows "dst = server_addr \<and> client_request n d"
proof -
  have c: "cl_ok c" "serverAddr c = server_addr" "length (sMyName c) = 12" using assms(1) by (auto simp: client_inv_def cl_ok_def)
  have login: ?thesis if "LoginToServer c (Some (sMyName c)) (Some lan) (Some (my_ID c)) LAN_PORT = Some out"
    "get_ip_addr env ifname (zeros 16) = Some (r, lan)" for lan r ifname
    using login_command [OF c(1) assms(2,3) that(2), of LAN_PORT] that(1) assms(5) c(2)
    by (auto simp: client_request_def dest!: cl_sendD)
  have get: ?thesis if "GetPeerListFromServer c = Some out"
    using that assms(5) c(2) by (auto simp: GetPeerListFromServer_def Option.bind_eq_Some_conv dest!: cl_sendD intro: plain_request)
  have hole: ?thesis if "SendP2PHoleMsg c = Some out"
    using that assms(5) c(2) by (auto simp: SendP2PHoleMsg_def Option.bind_eq_Some_conv dest!: cl_sendD intro: plain_request)
  have logout: ?thesis if logout: "SendLogoutMsg c = Some out"
  proof -
    obtain req where "out = cl_send c (logout_msg req) server_addr" "NameReq_ok req" "c_str (nr_myName req) = Some n"
      by (rule logout_command [OF logout c(3)]) (auto simp: assms(2) c(2))
    with cl_sendD [of dst d c] assms(5) show ?thesis unfolding client_request_def by blast
  qed
  show ?thesis
    using assms(4,5) by (auto simp: DoInput_def DoInput_body_def Let_def Option.bind_eq_Some_conv split: if_splits
        dest: login get hole logout)
qed

lemma heart_beat_requests:
  "client_inv c beat \<Longrightarrow> (dst, d) \<in> set (SendHeartbeat beat c) \<Longrightarrow> dst = server_addr \<and> client_request n d"
  by (auto simp: SendHeartbeat_def client_inv_def client_request_def dest!: cl_sendD split: if_splits)

section \<open>A round of the server\<close>

definition srv_inv :: "('e \<Rightarrow> bool) \<Rightarrow> ('e \<Rightarrow> peer_row list) \<Rightarrow> 'e server \<Rightarrow> bool" where
  "srv_inv live rows s \<longleftrightarrow> srv_ok s \<and> 0 \<le> sockSrv s \<and> sockSrv s < FD_SETSIZE \<and> db_ready live s \<and>
     distinct (map row_username (table rows s))"

definition srv_dir :: "('e \<Rightarrow> peer_row list) \<Rightarrow> 'e server \<Rightarrow> directory" where
  "srv_dir rows s = dir_of (table rows s)"

text \<open>The effect of a round on a request of the client called \<open>n\<close> at \<open>a\<close>: registrations stay, apart from that of
  \<open>n\<close> at another address, and the answers go to \<open>a\<close>.\<close>

definition good_round ::
  "('e \<Rightarrow> bool) \<Rightarrow> ('e \<Rightarrow> peer_row list) \<Rightarrow> byte list \<Rightarrow> sockaddr_in \<Rightarrow> 'e server \<Rightarrow> 'e server \<Rightarrow> datagram list \<Rightarrow> bool" where
  "good_round live rows n a s s' out \<longleftrightarrow> srv_inv live rows s' \<and>
     (\<forall>m b. registered (srv_dir rows s) m b \<longrightarrow> (m = n \<longrightarrow> b = a) \<longrightarrow> registered (srv_dir rows s') m b) \<and>
     (\<forall>(dst, d) \<in> set out. dst = a \<and> server_answer (srv_dir rows s') n a d)"

lemma good_round_same:
  "srv_inv live rows s' \<Longrightarrow> srv_dir rows s' = srv_dir rows s \<Longrightarrow>
   \<forall>(dst, d) \<in> set out. dst = a \<and> server_answer (srv_dir rows s) n a d \<Longrightarrow> good_round live rows n a s s' out"
  by (simp add: good_round_def)

lemma login_good:
  assumes db: "peer_db api live rows" and inv: "srv_inv live rows s" and rok: "login_req_ok req n"
  shows "\<exists>s' out. srv_round api readable ind (s\<lparr>rx := [Recv_Dgram (put_Msg (login_msg req)) a]\<rparr>) = Some (Next, s', out) \<and>
    good_round live rows n a s s' out"
proof -
  obtain v d' where dir: "dir_login n (login_entry a req) (dir_of (table rows s)) = (v, d')" by fastforce
  obtain s' where s': "srv_round api readable ind (s\<lparr>rx := [Recv_Dgram (put_Msg (login_msg req)) a]\<rparr>) =
      Some (Next, s', [(a, put_Msg (result_msg MSG_R_LOGIN (of_int v)))])" and
    inv': "srv_inv live rows s'" and dir': "srv_dir rows s' = d'"
    using login_round [OF db _ _ _ _ rok _ dir, of ind] inv by (auto simp: srv_inv_def srv_dir_def)
  have v: "v = 0 \<and> d' = (dir_of (table rows s))(n \<mapsto> login_entry a req) \<or> v = 1 \<and> d' = dir_of (table rows s)"
    using dir by (auto simp: dir_login_def split: option.splits if_splits)
  have reg: "registered ((dir_of (table rows s))(n \<mapsto> login_entry a req)) n a"
    by (simp add: registered_def login_entry_def entry_of_params_def)
  have "registered d' m b" if "registered (srv_dir rows s) m b" "m = n \<longrightarrow> b = a" for m b
    using v reg that by (cases "m = n") (auto simp: srv_dir_def registered_def)
  moreover have "server_answer d' n a (put_Msg (result_msg MSG_R_LOGIN (of_int v)))"
    using v reg unfolding server_answer_def by fastforce
  ultimately show ?thesis using s' inv' by (auto simp: good_round_def dir')
qed

lemma logout_good:
  assumes db: "peer_db api live rows" and inv: "srv_inv live rows s" and r: "NameReq_ok req" "c_str (nr_myName req) = Some n"
  shows "\<exists>s' out. srv_round api readable ind (s\<lparr>rx := [Recv_Dgram (put_Msg (logout_msg req)) a]\<rparr>) = Some (Next, s', out) \<and>
    good_round live rows n a s s' out"
proof -
  obtain s' where s': "srv_round api readable ind (s\<lparr>rx := [Recv_Dgram (put_Msg (logout_msg req)) a]\<rparr>) =
      Some (Next, s', [(a, put_Msg (result_msg MSG_R_LOGOUT 0))])" and
    inv': "srv_inv live rows s'" and dir': "srv_dir rows s' = dir_logout n (srv_dir rows s)"
    using logout_round [OF db _ _ _ _ r, of s ind a] inv by (auto simp: srv_inv_def srv_dir_def)
  have "registered (srv_dir rows s') m b" if "registered (srv_dir rows s) m b" for m b
    using that by (auto simp: dir' dir_logout_def registered_def)
  moreover have "server_answer dir n a (put_Msg (result_msg MSG_R_LOGOUT 0))" for dir
    unfolding server_answer_def by blast
  ultimately show ?thesis using s' inv' by (auto simp: good_round_def)
qed

lemma hole_good:
  assumes inv: "srv_inv live rows s" and m: "Msg_ok m" "uiMsgId (tMsgHead m) = msg_code MSG_C_HOLE"
  shows "\<exists>s' out. srv_round api readable ind (s\<lparr>rx := [Recv_Dgram (put_Msg m) a]\<rparr>) = Some (Next, s', out) \<and>
    good_round live rows n a s s' out"
proof -
  have "srv_round api readable ind (s\<lparr>rx := [Recv_Dgram (put_Msg m) a]\<rparr>) =
      Some (Next, arrival (put_Msg m) a s, [(a, put_Msg (result_msg MSG_R_HOLE 1))])"
    using srv_round_hole [OF _ _ _ m, of s api ind a] inv make_result_msg [of MSG_R_HOLE 1] by (auto simp: srv_inv_def)
  moreover have "server_answer dir n a (put_Msg (result_msg MSG_R_HOLE 1))" for dir
    unfolding server_answer_def by blast
  ultimately show ?thesis using inv by (auto intro!: good_round_same simp: srv_inv_def srv_dir_def)
qed

lemma heart_beat_good:
  assumes inv: "srv_inv live rows s" and m: "Msg_ok m" "uiMsgId (tMsgHead m) = msg_code MSG_C_HEART_BEAT" "0 \<in> set (aucParam m)"
  shows "\<exists>s' out. srv_round api readable ind (s\<lparr>rx := [Recv_Dgram (put_Msg m) a]\<rparr>) = Some (Next, s', out) \<and>
    good_round live rows n a s s' out"
proof -
  let ?s = "arrival (put_Msg m) a s"
  have ok: "srv_ok s" "0 \<le> sockSrv s" "sockSrv s < FD_SETSIZE" using inv by (simp_all add: srv_inv_def)
  obtain t where "c_str (aucParam m) = Some t" using terminated [OF m(3)] by blast
  then have "srv_dispatch api ind ?s = Some (Next, ?s, [])"
    by (simp add: srv_dispatch_def msg_of_arrival [OF ok(1) m(1)] m(2) on_heart_beat_def param_of_def)
  then show ?thesis using inv by (auto intro!: good_round_same simp: srv_round_arrival [OF ok] srv_inv_def srv_dir_def)
qed

lemma get_peers_good:
  assumes rej: "rejects_get_peers api" and inv: "srv_inv live rows s"
    and m: "Msg_ok m" "uiMsgId (tMsgHead m) = msg_code MSG_C_GET_PEERS"
  shows "\<exists>s'. srv_round api readable ind (s\<lparr>rx := [Recv_Dgram (put_Msg m) a]\<rparr>) = Some (Thread_Return, s', []) \<and>
    good_round live rows n a s s' []"
proof -
  have ok: "srv_ok s" "0 \<le> sockSrv s" "sockSrv s < FD_SETSIZE" "db_handle (sdb s)"
    using inv by (simp_all add: srv_inv_def db_ready_def)
  from get_peers_round [OF rej ok m, of ind a] obtain s' where
    s': "srv_round api readable ind (s\<lparr>rx := [Recv_Dgram (put_Msg m) a]\<rparr>) = Some (Thread_Return, s', [])"
      "engine (sdb s') = engine (sdb s)" "setup_of (sdb s') = setup_of (sdb s)" "srv_ok s'" "sockSrv s' = sockSrv s" by blast
  then have "srv_inv live rows s'" "srv_dir rows s' = srv_dir rows s"
    using inv setup_of_D [OF s'(3)] by (simp_all add: srv_inv_def db_ready_def table_def srv_dir_def)
  with s'(1) show ?thesis by (auto intro!: good_round_same)
qed

text \<open>Every request of a client is served, and only a request for the peers ends the server.\<close>

lemma request_good:
  assumes db: "peer_db api live rows" and rej: "rejects_get_peers api" and inv: "srv_inv live rows s" and d: "client_request n d"
  shows "\<exists>f s' out. srv_round api readable ind (s\<lparr>rx := [Recv_Dgram d a]\<rparr>) = Some (f, s', out) \<and>
    good_round live rows n a s s' out \<and> (f = Next \<or> uiMsgId (tMsgHead (get_Msg d)) = msg_code MSG_C_GET_PEERS)"
proof -
  consider (login) req where "d = put_Msg (login_msg req)" "login_req_ok req n"
    | (logout) req where "d = put_Msg (logout_msg req)" "NameReq_ok req" "c_str (nr_myName req) = Some n"
    | (get) m where "d = put_Msg m" "Msg_ok m" "uiMsgId (tMsgHead m) = msg_code MSG_C_GET_PEERS"
    | (hole) m where "d = put_Msg m" "Msg_ok m" "uiMsgId (tMsgHead m) = msg_code MSG_C_HOLE"
    | (beat) m where "d = put_Msg m" "Msg_ok m" "uiMsgId (tMsgHead m) = msg_code MSG_C_HEART_BEAT" "0 \<in> set (aucParam m)"
    using d unfolding client_request_def by blast
  then show ?thesis
  proof cases
    case login
    then show ?thesis using login_good [OF db inv login(2), of ind a] by blast
  next
    case logout
    then show ?thesis using logout_good [OF db inv logout(2,3), of ind a] by blast
  next
    case get
    then show ?thesis using get_peers_good [OF rej inv get(2,3), of ind a n] Msg_layout.get_put [OF get(2), of "[]"] by auto
  next
    case hole
    then show ?thesis using hole_good [OF inv hole(2,3), of api ind a n] by blast
  next
    case beat
    then show ?thesis using heart_beat_good [OF inv beat(2-4), of api ind a n] by blast
  qed
qed

section \<open>A round of a client\<close>

text \<open>A whole message that arrives at a client is handled as if it had been in its buffer.\<close>

lemma cl_round_message:
  assumes "length (cl_stMsg c) = 1440" and "0 \<le> sockCli c" and "sockCli c < FD_SETSIZE" and "Msg_ok m"
  shows "cl_round readable [Recv_Dgram (put_Msg m) a] slack indet c =
    cl_dispatch slack indet (c\<lparr>cl_stMsg := put_Msg m, cl_fromAddr := a\<rparr>)"
proof -
  have len: "length (put_Msg m) = 1440" using Msg_layout.put_length [OF assms(4)] .
  then have "recv_write (cl_stMsg c) 1440 (put_Msg m) = Some (1440, put_Msg m)"
    using assms(1) by (simp add: recv_write_def overwrite_def)
  then show ?thesis
    using assms by (simp add: cl_round_def FTC_SelectRead_def readable_def FTC_Recvfrom2_def)
qed

lemma result_msg_fields:
  "Msg_ok (result_msg mid v)" "uiMsgId (tMsgHead (result_msg mid v)) = msg_code mid"
  "rr_result (get_ResultResp (aucParam (result_msg mid v))) = v"
proof -
  have ok: "ResultResp_ok \<lparr>rr_result = v, rr_reserve = zeros 7\<rparr>" by (simp add: ResultResp_ok_def)
  note m = make_result_msg [of mid v]
  show "Msg_ok (result_msg mid v)" "uiMsgId (tMsgHead (result_msg mid v)) = msg_code mid"
    by (rule make_msg_ok [OF m], rule make_msg_fields(2) [OF m])
  show "rr_result (get_ResultResp (aucParam (result_msg mid v))) = v"
    by (simp only: make_msg_fields(4) [OF m] ResultResp_layout.get_overwrite [OF ok]) simp
qed

definition after_answer :: "msg_id \<Rightarrow> byte \<Rightarrow> bool \<Rightarrow> bool" where
  "after_answer mid v b = (if mid = MSG_R_LOGIN then v = 0 else if mid = MSG_R_LOGOUT \<and> v = 0 then False else b)"

text \<open>An answer of the server changes the login state only, and the client sends nothing.\<close>

lemma client_round_answer:
  assumes inv: "client_inv c beat" and mid: "mid \<in> {MSG_R_LOGIN, MSG_R_LOGOUT, MSG_R_HOLE}"
  shows "cl_round readable [Recv_Dgram (put_Msg (result_msg mid v)) src] slack indet c =
    Some (c\<lparr>cl_stMsg := put_Msg (result_msg mid v), cl_fromAddr := src, bIsLogin := after_answer mid v (bIsLogin c)\<rparr>, [])"
proof -
  let ?c = "c\<lparr>cl_stMsg := put_Msg (result_msg mid v), cl_fromAddr := src\<rparr>"
  have m: "get_Msg (put_Msg (result_msg mid v)) = result_msg mid v"
    using Msg_layout.get_put [OF result_msg_fields(1), of mid v "[]"] by simp
  have r: "rr_result (get_ResultResp (cl_param ?c)) = v" by (simp add: cl_param_def m result_msg_fields(3))
  have "cl_dispatch slack indet ?c = Some (?c\<lparr>bIsLogin := after_answer mid v (bIsLogin c)\<rparr>, [])"
    using mid r by (auto simp: cl_dispatch_def m result_msg_fields(2) on_r_login_def on_r_hole_def on_r_logout_def after_answer_def)
  then show ?thesis using cl_round_message [OF _ _ _ result_msg_fields(1)] inv by (simp add: client_inv_def cl_ok_def)
qed

lemma client_inv_answer:
  assumes "client_inv c beat"
  shows "client_inv (c\<lparr>cl_stMsg := put_Msg (result_msg mid v), cl_fromAddr := src, bIsLogin := b\<rparr>) beat"
  using assms Msg_layout.put_length [OF result_msg_fields(1), of mid v] by (simp add: client_inv_def cl_ok_def)

section \<open>The invariant of the network\<close>

definition packet_ok :: "directory \<Rightarrow> (sockaddr_in \<Rightarrow> byte list option) \<Rightarrow> packet \<Rightarrow> bool" where
  "packet_ok dir nm p = (case p of (src, dst, d) \<Rightarrow>
     (\<exists>n. dst = server_addr \<and> nm src = Some n \<and> client_request n d) \<or>
     (\<exists>n. src = server_addr \<and> nm dst = Some n \<and> server_answer dir n dst d))"

definition net_inv :: "('e \<Rightarrow> bool) \<Rightarrow> ('e \<Rightarrow> peer_row list) \<Rightarrow> 'e net \<Rightarrow> bool" where
  "net_inv live rows N \<longleftrightarrow> srv_inv live rows (srv N) \<and> node_name N server_addr = None \<and>
     (\<forall>a n. node_name N a = Some n \<longrightarrow> plain_name n \<and> (\<forall>b. node_name N b = Some n \<longrightarrow> b = a)) \<and>
     (\<forall>p \<in> wire N. packet_ok (srv_dir rows (srv N)) (node_name N) p) \<and>
     (\<forall>a c beat. nodes N a = Some (c, beat) \<longrightarrow> client_inv c beat \<and>
        (\<forall>n. node_name N a = Some n \<longrightarrow> bIsLogin c \<longrightarrow> registered (srv_dir rows (srv N)) n a)) \<and>
     (up N \<or> (\<exists>(src, dst, d) \<in> wire N. dst = server_addr \<and> uiMsgId (tMsgHead (get_Msg d)) = msg_code MSG_C_GET_PEERS))"

lemma node_name_client:
  assumes "nodes N a = Some (c, beat)" and "client_inv c beat"
  obtains n where "node_name N a = Some n" and "c_str (sMyName c) = Some n"
  using assms terminated [of "sMyName c"] by (auto simp: node_name_def client_inv_def cl_ok_def)

lemma started_server_inv:
  assumes "server_started api live rows s"
  shows "srv_inv live rows s"
proof -
  obtain rb wb env e msg0 peer0 calls where ok: "length msg0 = 1440" "PeerInfo_ok peer0" and
    run: "main_server api rb wb env True (db_static_init e) msg0 peer0 = Some (Main_Runs s calls)"
    using assms by (auto simp: server_started_def)
  obtain g sock where s: "s = P2PSrvProc_start g sock msg0 peer0" "0 \<le> sock" "db_handle g" "insertcallback g = None"
    by (rule main_server_runs [OF run]) (simp add: db_static_init_def)
  then have "sockSrv s = sock" "sdb s = g" by (simp_all add: P2PSrvProc_start_def)
  then show ?thesis
    using assms s srv_start_ok [OF ok, of g sock] by (simp add: server_started_def srv_inv_def db_ready_def)
qed

lemma net_init_inv:
  assumes "net_init api live rows N"
  shows "net_inv live rows N"
proof -
  have "client_inv c beat \<and> \<not> bIsLogin c" if "nodes N a = Some (c, beat)" for a c beat
    using that assms started_client_inv [of c beat] by (auto simp: net_init_def)
  moreover have "node_name N server_addr = None" using assms by (simp add: net_init_def node_name_def)
  ultimately show ?thesis
    using assms started_server_inv [of api live rows "srv N"] by (auto simp: net_init_def net_inv_def)
qed

text \<open>Sending keeps the invariant if what is sent is a request of the sender.\<close>

lemma send_keeps_inv:
  assumes inv: "net_inv live rows N" and a: "node_name N a = Some n"
    and out: "\<And>dst d. (dst, d) \<in> set out \<Longrightarrow> dst = server_addr \<and> client_request n d"
  shows "net_inv live rows (N\<lparr>wire := wire N \<union> post a out\<rparr>)"
proof -
  have "packet_ok dir (node_name N) p" if "p \<in> post a out" for p dir
    using that out a by (auto simp: post_def packet_ok_def)
  moreover have "node_name (N\<lparr>wire := wire N \<union> post a out\<rparr>) = node_name N" by (simp add: node_name_def fun_eq_iff)
  ultimately show ?thesis using inv by (simp add: net_inv_def) blast
qed

lemma client_recv_keeps_inv:
  assumes inv: "net_inv live rows N" and a: "nodes N a = Some (c, beat)" and p: "(src, a, d) \<in> wire N"
    and run: "cl_round readable [Recv_Dgram d src] slack indet c = Some (c', out)"
  shows "net_inv live rows (N\<lparr>nodes := (nodes N)(a \<mapsto> (c', beat)), wire := wire N \<union> post a out\<rparr>)"
proof -
  have c: "client_inv c beat" using inv a by (auto simp: net_inv_def)
  obtain n where n: "node_name N a = Some n" "c_str (sMyName c) = Some n" by (rule node_name_client [OF a c])
  have "a \<noteq> server_addr" using inv n by (auto simp: net_inv_def)
  then obtain mid v where d: "d = put_Msg (result_msg mid v)" "mid \<in> {MSG_R_LOGIN, MSG_R_LOGOUT, MSG_R_HOLE}"
    and reg: "mid = MSG_R_LOGIN \<longrightarrow> v = 0 \<longrightarrow> registered (srv_dir rows (srv N)) n a"
    using inv p n by (auto simp: net_inv_def packet_ok_def server_answer_def)
  have c': "c' = c\<lparr>cl_stMsg := d, cl_fromAddr := src, bIsLogin := after_answer mid v (bIsLogin c)\<rparr>" "out = []"
    using run client_round_answer [OF c d(2), of v src slack indet] by (simp_all add: d(1))
  have "client_inv c' beat" using client_inv_answer [OF c] by (simp add: c' d(1))
  moreover have "registered (srv_dir rows (srv N)) n a" if "bIsLogin c'"
    using that reg inv a n by (auto simp: c' after_answer_def net_inv_def split: if_splits)
  moreover have "node_name (N\<lparr>nodes := (nodes N)(a \<mapsto> (c', beat)), wire := wire N \<union> post a out\<rparr>) = node_name N"
    using a by (auto simp: node_name_def c')
  ultimately show ?thesis using inv n by (auto simp: net_inv_def c'(2) post_def)
qed

lemma server_recv_keeps_inv:
  assumes db: "peer_db api live rows" "rejects_get_peers api" and inv: "net_inv live rows N"
    and p: "(src, server_addr, d) \<in> wire N"
    and run: "srv_round api readable ind ((srv N)\<lparr>rx := [Recv_Dgram d src]\<rparr>) = Some (f, s', out)"
  shows "net_inv live rows (N\<lparr>srv := s', up := (f = Next), wire := wire N \<union> post server_addr out\<rparr>)"
proof -
  let ?N = "N\<lparr>srv := s', up := (f = Next), wire := wire N \<union> post server_addr out\<rparr>"
  have s: "srv_inv live rows (srv N)" using inv by (simp add: net_inv_def)
  obtain n where n: "node_name N src = Some n" "client_request n d"
    using inv p by (auto simp: net_inv_def packet_ok_def)
  have round: "good_round live rows n src (srv N) s' out" "f = Next \<or> uiMsgId (tMsgHead (get_Msg d)) = msg_code MSG_C_GET_PEERS"
    using request_good [OF db s n(2), of ind src] run by auto
  have keep: "registered (srv_dir rows s') m b" if "registered (srv_dir rows (srv N)) m b" "node_name N b = Some m" for m b
    using round(1) that n inv unfolding good_round_def net_inv_def by blast
  have nn: "node_name ?N = node_name N" by (simp add: node_name_def fun_eq_iff)
  have "packet_ok (srv_dir rows s') (node_name N) q" if "q \<in> wire N" for q
  proof -
    have "packet_ok (srv_dir rows (srv N)) (node_name N) q" using inv that by (simp add: net_inv_def)
    with keep show ?thesis unfolding packet_ok_def server_answer_def by (fastforce split: prod.splits)
  qed
  moreover have "packet_ok (srv_dir rows s') (node_name N) q" if "q \<in> post server_addr out" for q
    using that round(1) n(1) by (auto simp: good_round_def packet_ok_def post_def)
  moreover have "srv_inv live rows s'" using round(1) by (simp add: good_round_def)
  moreover have "up ?N \<or> (\<exists>(src, dst, d) \<in> wire ?N. dst = server_addr \<and> uiMsgId (tMsgHead (get_Msg d)) = msg_code MSG_C_GET_PEERS)"
    using round(2) p by auto
  ultimately show ?thesis using inv keep by (simp add: net_inv_def nn) blast
qed

lemma net_step_inv:
  assumes db: "peer_db api live rows" "rejects_get_peers api" and "net_step api N N'" and inv: "net_inv live rows N"
  shows "net_inv live rows N'"
  using assms(3)
proof cases
  case (command a c beat env arr inp out)
  have c: "client_inv c beat" using inv command(2) by (auto simp: net_inv_def)
  obtain n where n: "node_name N a = Some n" "c_str (sMyName c) = Some n" by (rule node_name_client [OF command(2) c])
  then have "plain_name n" using inv by (auto simp: net_inv_def)
  with command_requests [OF c n(2) _ command(3)] show ?thesis unfolding command(1) by (intro send_keeps_inv [OF inv n(1)])
next
  case (heart_beat a c beat)
  have c: "client_inv c beat" using inv heart_beat(2) by (auto simp: net_inv_def)
  obtain n where "node_name N a = Some n" by (rule node_name_client [OF heart_beat(2) c])
  with heart_beat_requests [OF c] show ?thesis unfolding heart_beat(1) by (intro send_keeps_inv [OF inv])
next
  case (client_recv a c beat src d slack indet c' out)
  then show ?thesis using client_recv_keeps_inv [OF inv client_recv(2-4)] by simp
next
  case (server_recv src d ind f s' out)
  then show ?thesis using server_recv_keeps_inv [OF db inv server_recv(3,4)] by simp
qed

lemma net_reach_inv:
  assumes "net_reach api N0 N" and "peer_db api live rows" and "rejects_get_peers api" and "net_init api live rows N0"
  shows "net_inv live rows N"
  using assms(1) by induction (simp_all add: net_init_inv [OF assms(4)] net_step_inv [OF assms(2,3)])

section \<open>Runs in which a client logs in\<close>

text \<open>These runs serve the examples: a run goes on behind a command of the client, which supposes that its
  process survives the end of \<^verbatim>\<open>DoInput\<close>.\<close>

lemma net_reach_trans:
  assumes "net_reach api N1 N2" and "net_reach api N0 N1"
  shows "net_reach api N0 N2"
  using assms by (induction) (auto intro: net_more)

definition plain_env :: if_env where
  "plain_env = \<lparr>if_socket = 3, if_ioctl = Some 0, if_indet_name = zeros 16, if_indet_addr = 0\<rparr>"

lemma input_sends: "DoInput_body env arr inp c = Some out \<Longrightarrow> DoInput env arr inp c = Some (out, Falls_Off)"
  by (simp add: DoInput_def)

lemma login_input:
  obtains lan where "get_ip_addr plain_env (literal ''eth0'') (zeros 16) = Some (0, lan)"
    and "\<And>c. DoInput_body plain_env (zeros 20) (bytes ''login'' @ [10]) c =
       LoginToServer c (Some (sMyName c)) (Some lan) (Some (my_ID c)) LAN_PORT"
proof -
  have eth: "strcpy (zeros 16) (literal ''eth0'') \<noteq> None" by code_simp
  have "strcpy (zeros 16) (inet_ntoa 0) \<noteq> None" by code_simp
  with eth obtain lan where ip: "get_ip_addr plain_env (literal ''eth0'') (zeros 16) = Some (0, lan)"
    by (auto simp: get_ip_addr_def plain_env_def)
  have "strncmp (fgets (zeros 20) 20 (bytes ''login'' @ [10])) (literal ''login'') 5 = Some 0" by code_simp
  with ip show ?thesis by (intro that) (simp_all add: DoInput_body_def)
qed

lemma logout_input: "DoInput_body plain_env (zeros 20) (bytes ''logout'' @ [10]) c = SendLogoutMsg c"
proof -
  let ?in = "fgets (zeros 20) 20 (bytes ''logout'' @ [10])"
  have "strncmp ?in (literal ''login'') 5 = Some 6" "strncmp ?in (literal ''get'') 3 = Some 5"
    "strncmp ?in (literal ''connect'') 7 = Some 9" "strncmp ?in (literal ''logout'') 6 = Some 0" by code_simp+
  then show ?thesis by (simp add: DoInput_body_def Let_def)
qed

lemma send_whole: "0 \<le> sockCli c \<Longrightarrow> Msg_ok m \<Longrightarrow> cl_send c m r = [(r, put_Msg m)]"
  using Msg_layout.put_length [of m] by (auto simp: cl_send_def sent_def)

lemma post_single [simp]: "post a [(r, d)] = {(a, r, d)}"
  by (simp add: post_def)

definition logged_in :: "directory \<Rightarrow> byte list \<Rightarrow> bool" where
  "logged_in dir n \<longleftrightarrow> (\<exists>x. dir n = Some x \<and> e_loginstatus x = 1)"

lemma net_invD:
  assumes "net_inv live rows N" and "nodes N a = Some (c, beat)" and "node_name N a = Some n"
  shows "client_inv c beat" and "cl_ok c" and "0 \<le> sockCli c" and "serverAddr c = server_addr"
    and "c_str (sMyName c) = Some n" and "plain_name n"
proof -
  show c: "client_inv c beat" and "plain_name n" using assms by (auto simp: net_inv_def)
  show "c_str (sMyName c) = Some n" using assms(2,3) by (simp add: node_name_def)
  show "cl_ok c" "0 \<le> sockCli c" "serverAddr c = server_addr" using c by (simp_all add: client_inv_def)
qed

lemma net_inv_srvD:
  assumes "net_inv live rows N"
  shows "srv_ok (srv N)" and "0 \<le> sockSrv (srv N)" and "sockSrv (srv N) < FD_SETSIZE" and "db_ready live (srv N)"
    and "distinct (map row_username (table rows (srv N)))"
  using assms by (simp_all add: net_inv_def srv_inv_def)

text \<open>A user who is not logged in sends a login request, the server accepts, and the client takes note.\<close>

lemma login_exchange:
  assumes db: "peer_db api live rows" and inv: "net_inv live rows N" and "up N"
    and a: "nodes N a = Some (c, beat)" "node_name N a = Some n" and out: "\<not> logged_in (srv_dir rows (srv N)) n"
  shows "\<exists>N' c'. net_reach api N N' \<and> nodes N' a = Some (c', beat) \<and> bIsLogin c'"
proof -
  note c = net_invD [OF inv a] and s = net_inv_srvD [OF inv]
  obtain lan where ip: "get_ip_addr plain_env (literal ''eth0'') (zeros 16) = Some (0, lan)" and
    inp: "DoInput_body plain_env (zeros 20) (bytes ''login'' @ [10]) c =
       LoginToServer c (Some (sMyName c)) (Some lan) (Some (my_ID c)) LAN_PORT" using login_input by metis
  obtain req where req: "DoInput_body plain_env (zeros 20) (bytes ''login'' @ [10]) c = Some (cl_send c (login_msg req) server_addr)"
    "login_req_ok req n" using login_command [OF c(2,5,6) ip, of LAN_PORT] by (metis inp c(4))
  let ?d = "put_Msg (login_msg req)" and ?r = "put_Msg (result_msg MSG_R_LOGIN 0)"
  have "Msg_ok (login_msg req)" using req(2) login_msg_fields(1) by (auto simp: login_req_ok_def)
  with req(1) c(3) have inp: "DoInput_body plain_env (zeros 20) (bytes ''login'' @ [10]) c = Some [(server_addr, ?d)]"
    by (simp add: send_whole)
  have dir: "dir_login n (login_entry a req) (dir_of (table rows (srv N))) = (0, (dir_of (table rows (srv N)))(n \<mapsto> login_entry a req))"
    using out by (auto simp: dir_login_def logged_in_def srv_dir_def split: option.splits)
  obtain s' ind where s': "srv_round api readable ind ((srv N)\<lparr>rx := [Recv_Dgram ?d a]\<rparr>) = Some (Next, s', [(a, ?r)])"
    using login_round [OF db s(1-4) req(2) s(5) dir] unfolding of_int_0 by blast
  let ?c = "c\<lparr>cl_stMsg := ?r, cl_fromAddr := server_addr, bIsLogin := True\<rparr>"
  have cl: "cl_round readable [Recv_Dgram ?r server_addr] 0 [] c = Some (?c, [])"
    using client_round_answer [OF c(1), of MSG_R_LOGIN 0 server_addr 0 "[]"] by (simp add: after_answer_def)
  let ?N1 = "N\<lparr>wire := wire N \<union> {(a, server_addr, ?d)}\<rparr>"
  let ?N2 = "?N1\<lparr>srv := s', up := True, wire := wire ?N1 \<union> {(server_addr, a, ?r)}\<rparr>"
  let ?N3 = "?N2\<lparr>nodes := (nodes N)(a \<mapsto> (?c, beat)), wire := wire ?N2 \<union> post a []\<rparr>"
  have "net_step api N ?N1" using command [OF a(1) input_sends [OF inp], of api] by simp
  moreover have "net_step api ?N1 ?N2"
    using server_recv [of ?N1 a ?d api ind Next s' "[(a, ?r)]"] s' \<open>up N\<close> by simp
  moreover have "net_step api ?N2 ?N3"
    using client_recv [of ?N2 a c beat server_addr ?r 0 "[]" ?c "[]" api] a(1) cl by simp
  ultimately have "net_reach api N ?N3"
    by (blast intro: net_start net_more)
  moreover have "nodes ?N3 a = Some (?c, beat)" "bIsLogin ?c" by simp_all
  ultimately show ?thesis by blast
qed

lemma logout_exchange:
  assumes db: "peer_db api live rows" "rejects_get_peers api" and inv: "net_inv live rows N" and "up N"
    and a: "nodes N a = Some (c, beat)" "node_name N a = Some n"
  shows "\<exists>N'. net_reach api N N' \<and> net_inv live rows N' \<and> up N' \<and> nodes N' = nodes N \<and> \<not> logged_in (srv_dir rows (srv N')) n"
proof -
  note c = net_invD [OF inv a] and s = net_inv_srvD [OF inv]
  have name: "length (sMyName c) = 12" "0 \<in> set (sMyName c)" using c(2) by (simp_all add: cl_ok_def)
  have "\<exists>out. SendLogoutMsg c = Some out"
    using strcpy_name [of "sMyName c" "zeros 12"] name
    by (auto simp: SendLogoutMsg_def make_msg_eq put_NameReq_def)
  then obtain req where req: "SendLogoutMsg c = Some (cl_send c (logout_msg req) server_addr)" "NameReq_ok req"
      "c_str (nr_myName req) = Some n"
    by (metis logout_command [OF _ name(1)] c(4,5))
  let ?d = "put_Msg (logout_msg req)" and ?r = "put_Msg (result_msg MSG_R_LOGOUT 0)"
  have inp: "DoInput_body plain_env (zeros 20) (bytes ''logout'' @ [10]) c = Some [(server_addr, ?d)]"
    unfolding logout_input req(1) by (simp add: send_whole [OF c(3) logout_msg_fields(1) [OF req(2)]])
  obtain s' ind where s': "srv_round api readable ind ((srv N)\<lparr>rx := [Recv_Dgram ?d a]\<rparr>) = Some (Next, s', [(a, ?r)])"
      "srv_dir rows s' = dir_logout n (srv_dir rows (srv N))"
    using logout_round [OF db(1) s(1-4) req(2,3) s(5)] unfolding srv_dir_def by blast
  let ?N1 = "N\<lparr>wire := wire N \<union> {(a, server_addr, ?d)}\<rparr>"
  let ?N2 = "?N1\<lparr>srv := s', up := True, wire := wire ?N1 \<union> {(server_addr, a, ?r)}\<rparr>"
  have steps: "net_step api N ?N1" "net_step api ?N1 ?N2"
    using command [OF a(1) input_sends [OF inp], of api] server_recv [of ?N1 a ?d api ind Next s' "[(a, ?r)]"] s'(1) \<open>up N\<close> by simp_all
  then have "net_inv live rows ?N2" using net_step_inv [OF db] inv by blast
  moreover have "net_reach api N ?N2" using steps by (blast intro: net_start net_more)
  moreover have "\<not> logged_in (srv_dir rows s') n" by (auto simp: s'(2) logged_in_def dir_logout_def)
  ultimately show ?thesis by (intro exI [of _ ?N2]) simp
qed

lemma log_in_possible:
  assumes db: "peer_db api live rows" "rejects_get_peers api" and inv: "net_inv live rows N" and "up N"
    and a: "nodes N a = Some (c, beat)"
  shows "\<exists>N' c'. net_reach api N N' \<and> nodes N' a = Some (c', beat) \<and> bIsLogin c'"
proof -
  have c: "client_inv c beat" using inv a by (auto simp: net_inv_def)
  obtain n where n: "node_name N a = Some n" by (rule node_name_client [OF a c])
  obtain N1 where N1: "net_reach api N N1" "net_inv live rows N1" "up N1" "nodes N1 = nodes N"
      "\<not> logged_in (srv_dir rows (srv N1)) n"
    using logout_exchange [OF db inv \<open>up N\<close> a n] by blast
  have "nodes N1 a = Some (c, beat)" "node_name N1 a = Some n" using a n N1(4) by (simp_all add: node_name_def)
  then obtain N2 c' where "net_reach api N1 N2" "nodes N2 a = Some (c', beat)" "bIsLogin c'"
    using login_exchange [OF db(1) N1(2,3) _ _ N1(5)] by blast
  with net_reach_trans [OF _ N1(1)] show ?thesis by blast
qed

section \<open>The system as a whole\<close>

text \<open>C2. Agreement between clients and server on a network that may lose, repeat and reorder datagrams: if no two
  clients were started with the same name and the names are plain, then whenever a client takes itself for
  logged in, the server's table holds, under that client's name, the very address at which the server sees that
  client, whatever the other clients did in between. (With a shared name another client can log it out and in.)\<close>

theorem net_registration:
  assumes "peer_db api live rows" and "rejects_get_peers api" and "net_init api live rows N0" and "net_reach api N0 N"
    and "nodes N a = Some (c, beat)" and "bIsLogin c"
  shows "\<exists>n x. c_str (sMyName c) = Some n \<and> dir_of (table rows (srv N)) n = Some x \<and>
    e_pubipaddr x = dotted (put_u32 (sin_addr a)) \<and> e_pubport x = uint (htons (sin_port a))"
proof -
  have inv: "net_inv live rows N" by (rule net_reach_inv [OF assms(4,1-3)])
  then have "client_inv c beat" using assms(5) by (auto simp: net_inv_def)
  then obtain n where "node_name N a = Some n" "c_str (sMyName c) = Some n" by (rule node_name_client [OF assms(5)])
  with inv assms(5,6) show ?thesis by (auto simp: net_inv_def registered_def srv_dir_def)
qed

text \<open>C3. In the closed system, with plain and different names as above, no datagram leads to undefined behaviour: every
  datagram on its way to the server or to a client is handled with a defined result, whatever the uninitialised memory holds, although neither program checks
  what it receives; and the server runs unless some client has asked it for the peers.\<close>

theorem net_defined:
  assumes "peer_db api live rows" and "rejects_get_peers api" and "net_init api live rows N0" and "net_reach api N0 N"
  shows "(\<forall>src d ind. (src, server_addr, d) \<in> wire N \<longrightarrow>
      srv_round api readable ind ((srv N)\<lparr>rx := [Recv_Dgram d src]\<rparr>) \<noteq> None) \<and>
    (\<forall>src a d c beat slack indet. (src, a, d) \<in> wire N \<and> nodes N a = Some (c, beat) \<longrightarrow>
      cl_round readable [Recv_Dgram d src] slack indet c \<noteq> None) \<and>
    (up N \<or> (\<exists>(src, dst, d) \<in> wire N. uiMsgId (tMsgHead (get_Msg d)) = msg_code MSG_C_GET_PEERS))"
proof (intro conjI allI impI)
  have inv: "net_inv live rows N" by (rule net_reach_inv [OF assms(4,1-3)])
  show "up N \<or> (\<exists>(src, dst, d) \<in> wire N. uiMsgId (tMsgHead (get_Msg d)) = msg_code MSG_C_GET_PEERS)"
    using inv unfolding net_inv_def by blast
  fix src d ind
  assume "(src, server_addr, d) \<in> wire N"
  then obtain n where "client_request n d" using inv by (auto simp: net_inv_def packet_ok_def)
  then show "srv_round api readable ind ((srv N)\<lparr>rx := [Recv_Dgram d src]\<rparr>) \<noteq> None"
    using request_good [OF assms(1,2), of "srv N" n d ind src] inv by (auto simp: net_inv_def)
next
  have inv: "net_inv live rows N" by (rule net_reach_inv [OF assms(4,1-3)])
  fix src a d c beat slack indet
  assume p: "(src, a, d) \<in> wire N \<and> nodes N a = Some (c, beat)"
  then have c: "client_inv c beat" and "a \<noteq> server_addr"
    using inv node_name_client [of N a c beat] by (auto simp: net_inv_def)
  then obtain mid v where "d = put_Msg (result_msg mid v)" "mid \<in> {MSG_R_LOGIN, MSG_R_LOGOUT, MSG_R_HOLE}"
    using inv p by (auto simp: net_inv_def packet_ok_def server_answer_def)
  with client_round_answer [OF c, of mid v src slack indet] show "cl_round readable [Recv_Dgram d src] slack indet c \<noteq> None"
    by simp
qed

text \<open>C4. The system never becomes peer to peer: no client ever sends a datagram to another client, every datagram
  from the server is one of its three kinds of answer, and no client ever learns of a peer.\<close>

theorem net_no_peers:
  assumes "peer_db api live rows" and "rejects_get_peers api" and "net_init api live rows N0" and "net_reach api N0 N"
  shows "(\<forall>(src, dst, d) \<in> wire N. dst = server_addr \<or> src = server_addr \<and>
      uiMsgId (tMsgHead (get_Msg d)) \<in> msg_code ` {MSG_R_LOGIN, MSG_R_LOGOUT, MSG_R_HOLE}) \<and>
    (\<forall>a c beat. nodes N a = Some (c, beat) \<longrightarrow> cl_ClientList c = [])"
proof -
  have inv: "net_inv live rows N" by (rule net_reach_inv [OF assms(4,1-3)])
  have "dst = server_addr \<or> src = server_addr \<and>
      uiMsgId (tMsgHead (get_Msg d)) \<in> msg_code ` {MSG_R_LOGIN, MSG_R_LOGOUT, MSG_R_HOLE}" if p: "(src, dst, d) \<in> wire N" for src dst d
  proof (cases "dst = server_addr")
    case False
    then obtain mid v where "src = server_addr" "d = put_Msg (result_msg mid v)" "mid \<in> {MSG_R_LOGIN, MSG_R_LOGOUT, MSG_R_HOLE}"
      using inv p by (auto simp: net_inv_def packet_ok_def server_answer_def)
    with Msg_layout.get_put [OF result_msg_fields(1), of mid v "[]"] show ?thesis
      by (simp add: result_msg_fields(2) del: msg_code.simps)
  qed simp
  then show ?thesis using inv by (auto simp: net_inv_def client_inv_def)
qed

section \<open>An example network\<close>

definition example_net :: "peer_row list server \<Rightarrow> client \<Rightarrow> T_Msg \<Rightarrow> peer_row list net" where
  "example_net s c beat = \<lparr>srv = s, up = True, nodes = [example_addr \<mapsto> (c, beat)], wire = {}\<rparr>"

lemma example_server_started: "\<exists>s. server_started mem_sqlite (\<lambda>_. True) (\<lambda>rs. rs) s"
proof -
  have ip: "FTC_InetAddr (literal ''0.0.0.0'') = Some 0" by code_simp
  obtain calls where "main_server mem_sqlite True True (example_sock_env 5) True (db_static_init []) (zeros 1440) blank_peer =
      Some (Main_Runs (P2PSrvProc_start ((db_static_init [])\<lparr>db_handle := True\<rparr>) 5 (zeros 1440) blank_peer) calls)"
    by (simp add: main_server_def sqllite_init_def mem_sqlite_def sqlite_codes ip FTC_CreateUdpSock_def CreateUdpSockUnix_def
        example_sock_env_def db_static_init_def Let_def)
  with blank_ok have "server_started mem_sqlite (\<lambda>_. True) (\<lambda>rs. rs)
      (P2PSrvProc_start ((db_static_init [])\<lparr>db_handle := True\<rparr>) 5 (zeros 1440) blank_peer)"
    unfolding server_started_def
    by (intro conjI exI) (assumption, simp_all add: P2PSrvProc_start_def FD_SETSIZE_def table_def db_static_init_def)
  then show ?thesis by blast
qed

lemma example_net_init:
  obtains s c beat where "net_init mem_sqlite (\<lambda>_. True) (\<lambda>rs. rs) (example_net s c beat)" and "c_str (sMyName c) = Some (bytes ''bob'')"
proof -
  obtain c beat calls where run: "main_client (example_sock_env 3) (example_sock_env 4) True True 9 (example_peer [])
      [literal ''-u'', bytes ''bob'' @ [0], literal ''-r'', bytes ''alice'' @ [0]] = Some (Client_Runs c beat calls)"
    and c: "c_str (sMyName c) = Some (bytes ''bob'')" "sockCli c = 3"
    using example_client_runs by blast
  have "PeerInfo_ok (example_peer [])" by (simp add: example_peer_def PeerInfo_ok_def)
  with run c(2) have "client_started c beat"
    unfolding client_started_def by (intro conjI exI) (assumption, simp, simp add: FD_SETSIZE_def)
  moreover obtain s where "server_started mem_sqlite (\<lambda>_. True) (\<lambda>rs. rs) s" using example_server_started by blast
  moreover have "example_addr \<noteq> server_addr" by code_simp
  moreover have "plain_name (bytes ''bob'')" by (simp add: plain_name_def peer_columns_def tolower_def bytes_def)
  ultimately have "net_init mem_sqlite (\<lambda>_. True) (\<lambda>rs. rs) (example_net s c beat)"
    using c(1) by (auto simp: net_init_def example_net_def node_name_def split: if_splits)
  with c(1) that show ?thesis by blast
qed

lemma example_net_logged_in:
  obtains N0 N c beat where "net_init mem_sqlite (\<lambda>_. True) (\<lambda>rs. rs) N0" and "net_reach mem_sqlite N0 N"
    and "nodes N example_addr = Some (c, beat)" and "bIsLogin c"
proof -
  obtain s c beat where init: "net_init mem_sqlite (\<lambda>_. True) (\<lambda>rs. rs) (example_net s c beat)" by (rule example_net_init)
  have "up (example_net s c beat)" "nodes (example_net s c beat) example_addr = Some (c, beat)" by (simp_all add: example_net_def)
  from log_in_possible [OF mem_sqlite_contract mem_sqlite_rejects net_init_inv [OF init] this] init that show ?thesis by blast
qed

theorem net_registration_witness:
  "\<exists>(N :: peer_row list net) c beat n x. nodes N example_addr = Some (c, beat) \<and> bIsLogin c \<and> c_str (sMyName c) = Some n \<and>
     dir_of (table (\<lambda>rs. rs) (srv N)) n = Some x \<and> e_pubport x = uint (htons (sin_port example_addr))"
  using net_registration [OF mem_sqlite_contract mem_sqlite_rejects] example_net_logged_in by metis

theorem net_defined_witness:
  "\<exists>(N0 :: peer_row list net) N. net_init mem_sqlite (\<lambda>_. True) (\<lambda>rs. rs) N0 \<and> net_reach mem_sqlite N0 N \<and> N \<noteq> N0 \<and>
     (\<forall>src d ind. (src, server_addr, d) \<in> wire N \<longrightarrow>
        srv_round mem_sqlite readable ind ((srv N)\<lparr>rx := [Recv_Dgram d src]\<rparr>) \<noteq> None)"
proof -
  obtain N0 N c beat where N: "net_init mem_sqlite (\<lambda>_. True) (\<lambda>rs. rs) N0" "net_reach mem_sqlite N0 N"
    "nodes N example_addr = Some (c, beat)" "bIsLogin c" by (rule example_net_logged_in)
  have "\<not> bIsLogin c" if "N = N0" using N(1,3) that started_client_inv(2) [of c beat] by (auto simp: net_init_def)
  then have "N \<noteq> N0" using N(4) by blast
  with N net_defined [OF mem_sqlite_contract mem_sqlite_rejects N(1,2)] show ?thesis by blast
qed

theorem net_no_peers_witness:
  "\<exists>(N0 :: peer_row list net) N c beat. net_init mem_sqlite (\<lambda>_. True) (\<lambda>rs. rs) N0 \<and> net_reach mem_sqlite N0 N \<and>
     nodes N example_addr = Some (c, beat) \<and> bIsLogin c \<and> cl_ClientList c = []"
proof -
  obtain N0 N c beat where N: "net_init mem_sqlite (\<lambda>_. True) (\<lambda>rs. rs) N0" "net_reach mem_sqlite N0 N"
    "nodes N example_addr = Some (c, beat)" "bIsLogin c" by (rule example_net_logged_in)
  with net_no_peers [OF mem_sqlite_contract mem_sqlite_rejects N(1,2)] show ?thesis by blast
qed

end
