(* ===== verification/Win_Client.thy ===== *)
theory Win_Client
  imports FTC_Sock Comm_Message
begin

text \<open>
  The Windows client \<^verbatim>\<open>P2P_Client_src/client/clientDlg.cpp\<close> over the messages of \<^verbatim>\<open>p2ptype.h\<close>.

  The record \<open>dlg\<close> is the dialog object \<^verbatim>\<open>CclientDlg\<close>, the global \<^verbatim>\<open>RecvedACK\<close>, the contents and the
  enabled state of the controls the code writes, the timer, the number of heart beat threads,
  the number of list nodes allocated so far, and the two locals of the receiving thread that
  live across its rounds. A \<^verbatim>\<open>CString\<close> is the list of its characters. \<open>h_recv\<close> says whether the
  receiving thread runs. The nodes of \<^verbatim>\<open>ClientList\<close> are allocated one by one and not changed
  afterwards, so the list holds their values.

  An operation returns the new state and what it does to the outside: the datagrams it sends,
  the boxes it shows and the time it sleeps. \<open>None\<close> is undefined behaviour. What the data exchange
  of the framework reads from the form is the argument \<open>form\<close>, and what Winsock returns are
  arguments too.
\<close>

section \<open>Messages\<close>

datatype win_id =
    W_C_LOGIN | W_R_LOGIN | W_C_HEART_BEAT | W_R_HEART_BEAT | W_C_GET_PEERS | W_R_GET_PEERS
  | W_C_HOLE | W_R_HOLE | W_C_LOGOUT | W_R_LOGOUT

fun win_code :: "win_id \<Rightarrow> u32" where
  "win_code W_C_LOGIN = 0"
| "win_code W_R_LOGIN = 1"
| "win_code W_C_HEART_BEAT = 2"
| "win_code W_R_HEART_BEAT = 3"
| "win_code W_C_GET_PEERS = 4"
| "win_code W_R_GET_PEERS = 5"
| "win_code W_C_HOLE = 6"
| "win_code W_R_HOLE = 7"
| "win_code W_C_LOGOUT = 8"
| "win_code W_R_LOGOUT = 9"

definition MAX_COMMAND :: nat where "MAX_COMMAND = 256"

abbreviation win_msg :: stCommMsg where
  "win_msg \<equiv> new_stCommMsg WIN_NAME_SIZE"

section \<open>State\<close>

definition INVALID_SOCKET :: u32 where "INVALID_SOCKET = - 1"

record dlg =
  bLogin :: bool
  bConnect :: bool
  bRelay :: bool
  m_nServerPort :: int
  m_strServerAddr :: "byte list"
  m_strMyID :: "byte list"
  m_strToID :: "byte list"
  w_ClientList :: "stUserListNode list"
  m_cliSocket :: u32
  remoteAddr :: sockaddr_in
  localAddr :: sockaddr_in
  cliIpAddr :: "byte list"
  h_recv :: bool
  RecvedACK :: bool
  en_login :: bool
  en_connet :: bool
  en_disconnect :: bool
  en_users :: bool
  ed_log :: "byte list"
  ed_recv :: "byte list"
  ed_send :: "byte list"
  timer1 :: bool
  heart_threads :: nat
  nodes :: nat
  w_buf :: "byte list"
  w_remote :: sockaddr_in

datatype win_out = W_Send sockaddr_in "byte list" | W_Box string | W_Sleep nat

type_synonym win_outcome = "(dlg \<times> win_out list) option"

record form =
  f_server :: "byte list"
  f_port :: int
  f_myid :: "byte list"
  f_toid :: "byte list"

definition UpdateData :: "form \<Rightarrow> dlg \<Rightarrow> dlg" where
  "UpdateData f d = d\<lparr>m_strServerAddr := f_server f, m_nServerPort := f_port f, m_strMyID := f_myid f,
     m_strToID := f_toid f\<rparr>"

text \<open>\<^verbatim>\<open>GetBuffer\<close> gives the characters with a NUL behind them.\<close>

definition GetBuffer :: "byte list \<Rightarrow> byte list" where
  "GetBuffer s = s @ [0]"

text \<open>\<^verbatim>\<open>sendto\<close> on a closed socket sends nothing.\<close>

definition win_send :: "dlg \<Rightarrow> byte list \<Rightarrow> sockaddr_in \<Rightarrow> win_out list" where
  "win_send d bs a = (if m_cliSocket d = INVALID_SOCKET then [] else [W_Send a bs])"

definition win_send_msg :: "dlg \<Rightarrow> stCommMsg \<Rightarrow> sockaddr_in \<Rightarrow> win_out list" where
  "win_send_msg d m a =
     win_send d (take (unat (getSize WIN_NAME_SIZE (sizeof_UserListNode WIN_NAME_SIZE) m)) (put_CommMsg m)) a"

text \<open>A datagram longer than the size passed to \<^verbatim>\<open>recvfrom\<close> fills the buffer and is reported as an
  error by Winsock.\<close>

definition win_recvfrom ::
  "recv_result \<Rightarrow> byte list \<Rightarrow> nat \<Rightarrow> sockaddr_in \<Rightarrow> (int \<times> byte list \<times> sockaddr_in) option" where
  "win_recvfrom r buf n a0 =
     (case r of
        Recv_Err \<Rightarrow> Some (- 1, buf, a0)
      | Recv_Dgram d a \<Rightarrow>
          if length (take n d) \<le> length buf
          then Some (if length d \<le> n then int (length d) else - 1, overwrite buf (take n d), a)
          else None)"

section \<open>Texts\<close>

definition crlf :: "byte list" where "crlf = [13, 10]"

definition new_line :: "byte list \<Rightarrow> byte list" where
  "new_line str = (if str = [] then str else str @ crlf)"

definition format_d :: "int \<Rightarrow> byte list" where
  "format_d i = (if i < 0 then 45 # decimal (- i) else decimal i)"

text \<open>The dotted text of an address held in host order.\<close>

definition host_text :: "u32 \<Rightarrow> byte list" where
  "host_text ip = dotted (put_u32 (htonl ip))"

definition user_text :: "string \<Rightarrow> stUserListNode \<Rightarrow> byte list option" where
  "user_text pre u = do {
     n \<leftarrow> c_str (tm_userName u);
     Some (bytes pre @ n @ bytes '' '' @ host_text (tm_uiIP u) @ bytes '':'' @ format_d (uint (tm_usPORT u)) @ crlf) }"

definition say_text :: "byte list \<Rightarrow> byte list \<Rightarrow> byte list \<Rightarrow> byte list" where
  "say_text who addr msg = who @ bytes '' ('' @ addr @ bytes '') say : '' @ crlf @ bytes ''  '' @ msg @ crlf"

section \<open>Dialog operations\<close>

definition CclientDlg :: "dlg \<Rightarrow> dlg" where
  "CclientDlg indet = indet\<lparr>m_strServerAddr := bytes ''43.252.231.67'', m_nServerPort := 8888,
     m_strMyID := bytes ''andy'', m_strToID := bytes ''john'', m_cliSocket := INVALID_SOCKET, h_recv := False,
     bConnect := False, bRelay := False, bLogin := False, w_ClientList := [], RecvedACK := False,
     timer1 := False, heart_threads := 0, nodes := 0\<rparr>"

text \<open>\<^verbatim>\<open>SOCKET\<close> is unsigned, so the test for a negative one never holds.\<close>

definition OnInitDialog :: "u32 \<Rightarrow> form \<Rightarrow> dlg \<Rightarrow> win_outcome" where
  "OnInitDialog s f d =
     (let d = (UpdateData f d)\<lparr>m_cliSocket := s\<rparr>;
          out = (if m_cliSocket d < 0 then [W_Box ''Create socket error!''] else [])
      in Some (d\<lparr>localAddr := \<lparr>sin_family = AF_INET, sin_port = htons 0, sin_addr = htonl 0\<rparr>\<rparr>, out))"

definition UpdateCtrlStates :: "dlg \<Rightarrow> dlg" where
  "UpdateCtrlStates d = d\<lparr>en_login := False, en_connet := True, en_disconnect := True, en_users := True,
     ed_log := bytes ''Login on P2P server success.''\<rparr>"

definition GetUserList :: "dlg \<Rightarrow> win_outcome" where
  "GetUserList d = do {
     n \<leftarrow> strcpy (cMyName win_msg) (GetBuffer (m_strMyID d));
     Some (d, win_send_msg d (win_msg\<lparr>cm_uiMsgType := win_code W_C_HEART_BEAT, cMyName := n\<rparr>) (remoteAddr d)) }"

definition OnBnClickedBtnGetUsers :: "dlg \<Rightarrow> win_outcome" where
  "OnBnClickedBtnGetUsers d = do {
     n \<leftarrow> strcpy (cMyName win_msg) (GetBuffer (m_strMyID d));
     Some (d, win_send_msg d (win_msg\<lparr>cm_uiMsgType := win_code W_C_GET_PEERS, cMyName := n\<rparr>) (remoteAddr d)) }"

text \<open>Control falls off the end of the function when no node has the name.\<close>

fun GetLocalUser :: "stUserListNode list \<Rightarrow> byte list \<Rightarrow> stUserListNode option" where
  "GetLocalUser [] userName = None"
| "GetLocalUser (u # us) userName = do {
     r \<leftarrow> strcmp (tm_userName u) userName;
     if r = 0 then Some u else GetLocalUser us userName }"

definition OnBnClickedBtnConnet :: "form \<Rightarrow> dlg \<Rightarrow> win_outcome" where
  "OnBnClickedBtnConnet f d = do {
     let d = UpdateData f d;
     my \<leftarrow> strcpy (cMyName win_msg) (GetBuffer (m_strMyID d));
     to \<leftarrow> strcpy (cToName win_msg) (GetBuffer (m_strToID d));
     Some (d, win_send_msg d (win_msg\<lparr>cm_uiMsgType := win_code W_C_HOLE, cMyName := my, cToName := to\<rparr>)
                (remoteAddr d)) }"

definition OnBnClickedBtnDisconnect :: "form \<Rightarrow> dlg \<Rightarrow> win_outcome" where
  "OnBnClickedBtnDisconnect f d =
     (if m_cliSocket d = INVALID_SOCKET then Some (d, [])
      else do {
        let d = UpdateData f d;
        my \<leftarrow> strcpy (cMyName win_msg) (GetBuffer (m_strMyID d));
        let out = win_send_msg d (win_msg\<lparr>cm_uiMsgType := win_code W_C_LOGOUT, cMyName := my\<rparr>) (remoteAddr d);
        Some (d\<lparr>en_login := True, en_connet := False, en_disconnect := False, en_users := False,
                ed_log := [], bLogin := True\<rparr>, out) })"

text \<open>The release of the thread and of the socket, which the exit button and \<^verbatim>\<open>OnDestroy\<close> share.\<close>

definition release :: "dlg \<Rightarrow> dlg" where
  "release d =
     (let d = (if h_recv d then d\<lparr>h_recv := False\<rparr> else d)
      in if m_cliSocket d \<noteq> INVALID_SOCKET then d\<lparr>m_cliSocket := INVALID_SOCKET\<rparr> else d)"

definition OnBnClickedButton2 :: "form \<Rightarrow> dlg \<Rightarrow> win_outcome" where
  "OnBnClickedButton2 f d = do {
     (d, out) \<leftarrow> OnBnClickedBtnDisconnect f d;
     Some (release d, out) }"

definition OnDestroy :: "form \<Rightarrow> dlg \<Rightarrow> win_outcome" where
  "OnDestroy f d = do {
     (d, out) \<leftarrow> (if bLogin d then OnBnClickedBtnDisconnect f d else Some (d, []));
     Some (release d, out) }"

text \<open>The host's first address, or \<open>None\<close> where \<^verbatim>\<open>gethostbyname\<close> returns NULL, which is dereferenced.\<close>

definition GetLocalIpAddr :: "u32 option \<Rightarrow> dlg \<Rightarrow> dlg option" where
  "GetLocalIpAddr hn d = do {
     a \<leftarrow> hn;
     t \<leftarrow> strcpy (cliIpAddr d) (inet_ntoa a);
     Some (d\<lparr>cliIpAddr := t\<rparr>) }"

text \<open>The name is copied without its NUL. A new receiving thread starts with its buffer and
  address uninitialised.\<close>

definition OnBnClickedBtnLogin :: "form \<Rightarrow> byte list \<Rightarrow> sockaddr_in \<Rightarrow> dlg \<Rightarrow> win_outcome" where
  "OnBnClickedBtnLogin f buf0 remote0 d =
     (let d = UpdateData f d in
      if m_strMyID d = [] then Some (d, [W_Box ''User id is empty!''])
      else if m_strServerAddr d = [] then Some (d, [W_Box ''P2P server ip is empty!''])
      else if format_d (m_nServerPort d) = [] then Some (d, [W_Box ''P2P server port is empty!''])
      else if m_cliSocket d = INVALID_SOCKET then Some (d, [W_Box ''socket error!''])
      else do {
        a \<leftarrow> inet_addr (GetBuffer (m_strServerAddr d));
        let d = d\<lparr>remoteAddr := \<lparr>sin_family = AF_INET, sin_port = htons (of_int (m_nServerPort d)), sin_addr = a\<rparr>\<rparr>;
        n \<leftarrow> memcpy (cMyName win_msg) (GetBuffer (m_strMyID d)) (length (m_strMyID d));
        let out = win_send_msg d (win_msg\<lparr>cm_uiMsgType := win_code W_C_LOGIN, cMyName := n\<rparr>) (remoteAddr d);
        Some (if \<not> h_recv d then d\<lparr>h_recv := True, w_buf := buf0, w_remote := remote0\<rparr> else d, out) })"

text \<open>The wait for the acknowledgement. The handler only reads the flag; the receiving thread sets it when it
  runs \<open>on_ack\<close>, which \<open>acks i\<close> says it does before poll \<open>i\<close>, and \<open>acks 10\<close> in the last sleep.\<close>

definition ack_meanwhile :: "bool \<Rightarrow> dlg \<Rightarrow> dlg" where
  "ack_meanwhile handled d = (if handled then d\<lparr>RecvedACK := True\<rparr> else d)"

fun wait_ack :: "nat \<Rightarrow> (nat \<Rightarrow> bool) \<Rightarrow> nat \<Rightarrow> dlg \<Rightarrow> dlg \<times> win_out list" where
  "wait_ack 0 acks i d = (ack_meanwhile (acks i) d, [])"
| "wait_ack (Suc k) acks i d =
     (let d = ack_meanwhile (acks i) d in
      if RecvedACK d then (d, [])
      else let (d, out) = wait_ack k acks (i + 1) d in (d, W_Sleep 300 # out))"

definition send_direct :: "byte list \<Rightarrow> byte list \<Rightarrow> (nat \<Rightarrow> bool) \<Rightarrow> dlg \<Rightarrow> win_outcome" where
  "send_direct userName0 message acks d = do {
     userName \<leftarrow> strcpy userName0 (GetBuffer (m_strToID d));
     toPeer \<leftarrow> GetLocalUser (w_ClientList d) userName;
     let d = d\<lparr>RecvedACK := False\<rparr>;
     let remotePeer = \<lparr>sin_family = AF_INET, sin_port = htons (tm_usPORT toPeer), sin_addr = htonl (tm_uiIP toPeer)\<rparr>;
     l \<leftarrow> strlen message;
     my \<leftarrow> strcpy (pm_cP2PCommUserName (p2pMsg win_msg)) (GetBuffer (m_strMyID d));
     let len = of_nat l + 1;
     let head = win_msg\<lparr>cm_uiMsgType := p2p_code P2PMESSAGE,
                  p2pMsg := \<lparr>pm_uiSendLen = len, pm_cP2PCommUserName = my\<rparr>\<rparr>;
     let d = d\<lparr>ed_send := []\<rparr>;
     let (d', waits) = wait_ack 10 acks 0 d;
     Some (d', win_send d (put_CommMsg head) remotePeer @ win_send d (take (unat len) message) remotePeer @ waits) }"

definition send_relay :: "byte list \<Rightarrow> dlg \<Rightarrow> win_outcome" where
  "send_relay message d = do {
     my \<leftarrow> strcpy (cMyName win_msg) (GetBuffer (m_strMyID d));
     to \<leftarrow> strcpy (cToName win_msg) (GetBuffer (m_strToID d));
     l \<leftarrow> strlen message;
     rmy \<leftarrow> strcpy (rm_sUserName (rlyMsg win_msg)) (GetBuffer (m_strMyID d));
     let len = of_nat l + 1;
     let head = win_msg\<lparr>cm_uiMsgType := p2p_code RELAYMESSAGE, cMyName := my, cToName := to,
                  rlyMsg := \<lparr>rm_uiSendLen = len, rm_sUserName = rmy\<rparr>\<rparr>;
     let d = d\<lparr>ed_send := []\<rparr>;
     Some (d, win_send d (put_CommMsg head) (remoteAddr d) @ win_send d (take (unat len) message) (remoteAddr d)) }"

text \<open>\<open>message0\<close> and \<open>userName0\<close> are the uninitialised contents of the two local arrays.\<close>

definition OnBnClickedBtnSend ::
  "form \<Rightarrow> byte list \<Rightarrow> byte list \<Rightarrow> (nat \<Rightarrow> bool) \<Rightarrow> dlg \<Rightarrow> win_outcome" where
  "OnBnClickedBtnSend f message0 userName0 acks d =
     (let d = UpdateData f d in
      if m_cliSocket d = INVALID_SOCKET then Some (d, [W_Box ''socket error!''])
      else if m_strToID d = [] then Some (d, [W_Box ''Please set to peer name''])
      else if ed_send d = [] then Some (d, [W_Box ''Send message is empty!''])
      else do {
        let strMsg = ed_send d;
        let d = d\<lparr>ed_recv := new_line (ed_recv d) @ bytes ''I say : '' @ crlf @ bytes ''  '' @ strMsg @ crlf\<rparr>;
        message \<leftarrow> strcpy message0 (GetBuffer strMsg);
        if \<not> bRelay d then send_direct userName0 message acks d else send_relay message d })"

definition OnBnClickedBtnClear :: "dlg \<Rightarrow> win_outcome" where
  "OnBnClickedBtnClear d = Some (d\<lparr>ed_log := []\<rparr>, [])"

definition WM_KEYDOWN :: nat where "WM_KEYDOWN = 256"
definition VK_RETURN :: nat where "VK_RETURN = 13"

text \<open>\<open>True\<close>: the key is consumed; otherwise the framework's handler gets the message.\<close>

definition PreTranslateMessage ::
  "nat \<Rightarrow> nat \<Rightarrow> form \<Rightarrow> byte list \<Rightarrow> byte list \<Rightarrow> (nat \<Rightarrow> bool) \<Rightarrow> dlg \<Rightarrow> (bool \<times> dlg \<times> win_out list) option" where
  "PreTranslateMessage message wParam f message0 userName0 acks d =
     (if message = WM_KEYDOWN \<and> wParam = VK_RETURN
      then do { (d, out) \<leftarrow> OnBnClickedBtnSend f message0 userName0 acks d; Some (True, d, out) }
      else Some (False, d, []))"

text \<open>The timer handler reads \<^verbatim>\<open>bConnect\<close>, which another thread writes, and acts on it later, so it is in two parts;
  \<open>OnTimer\<close> is the handler when nothing happens between them.\<close>

definition timer_test :: "nat \<Rightarrow> dlg \<Rightarrow> bool" where
  "timer_test nIDEvent d \<longleftrightarrow> nIDEvent = 1 \<and> \<not> bConnect d"

definition timer_relay :: "dlg \<Rightarrow> dlg" where
  "timer_relay d = d\<lparr>ed_log := new_line (ed_log d) @ bytes ''P2P connect failed! start relay mode.'',
     bRelay := True, timer1 := False\<rparr>"

definition OnTimer :: "nat \<Rightarrow> dlg \<Rightarrow> win_outcome" where
  "OnTimer nIDEvent d = Some (if timer_test nIDEvent d then timer_relay d else d, [])"

section \<open>The heart beat thread\<close>

text \<open>One round; \<open>True\<close> means that the thread goes on.\<close>

definition thread_heart_proc :: "dlg \<Rightarrow> (bool \<times> dlg \<times> win_out list) option" where
  "thread_heart_proc d =
     (if \<not> bLogin d
      then Some (False, d\<lparr>h_recv := False, heart_threads := heart_threads d - 1\<rparr>, [])
      else do { (d, out) \<leftarrow> GetUserList d; Some (True, d, out @ [W_Sleep 30000]) })"

section \<open>Handlers of the receiving thread\<close>

definition recvbuf :: "dlg \<Rightarrow> stCommMsg" where
  "recvbuf d = get_CommMsg WIN_NAME_SIZE (w_buf d)"

definition add_user :: "stUserListNode \<Rightarrow> dlg \<Rightarrow> dlg" where
  "add_user u d = d\<lparr>w_ClientList := w_ClientList d @ [u], nodes := nodes d + 1\<rparr>"

text \<open>The loops over the users of a message: with their texts collected in \<open>str\<close> and shown, or silent.\<close>

fun show_users :: "string \<Rightarrow> nat \<Rightarrow> nat \<Rightarrow> byte list \<Rightarrow> dlg \<Rightarrow> dlg option" where
  "show_users pre 0 i str d = Some d"
| "show_users pre (Suc k) i str d = do {
     u \<leftarrow> userList_at WIN_NAME_SIZE (w_buf d) i;
     t \<leftarrow> user_text pre u;
     let str = str @ t;
     show_users pre k (i + 1) str ((add_user u d)\<lparr>ed_log := str\<rparr>) }"

fun add_users :: "nat \<Rightarrow> nat \<Rightarrow> dlg \<Rightarrow> dlg option" where
  "add_users 0 i d = Some d"
| "add_users (Suc k) i d = do {
     u \<leftarrow> userList_at WIN_NAME_SIZE (w_buf d) i;
     add_users k (i + 1) (add_user u d) }"

definition on_w_login :: "dlg \<Rightarrow> win_outcome" where
  "on_w_login d = do {
     let m = recvbuf d;
     let d = (if cm_result m = 0 then UpdateCtrlStates (d\<lparr>bLogin := True\<rparr>)
              else d\<lparr>ed_log := bytes ''Login failed!, you have logined in.''\<rparr>);
     let usercount = userNums m;
     let str = new_line (ed_log d) @ bytes ''Have '' @ format_d (sint usercount) @ bytes '' users logined server:'' @ crlf;
     d \<leftarrow> show_users ''User: '' (unat usercount) 0 str (d\<lparr>w_ClientList := [], ed_log := str\<rparr>);
     Some (d\<lparr>heart_threads := heart_threads d + 1\<rparr>, []) }"

definition on_w_logout :: "dlg \<Rightarrow> win_outcome" where
  "on_w_logout d =
     (if cm_result (recvbuf d) = 0 then Some (d\<lparr>bLogin := False\<rparr>, []) else Some (d, [W_Box ''Logout failed!'']))"

definition on_w_heart_beat :: "dlg \<Rightarrow> win_outcome" where
  "on_w_heart_beat d = do {
     d \<leftarrow> add_users (unat (userNums (recvbuf d))) 0 (d\<lparr>w_ClientList := []\<rparr>);
     Some (d, []) }"

definition on_w_get_peers :: "dlg \<Rightarrow> win_outcome" where
  "on_w_get_peers d = do {
     let usercount = userNums (recvbuf d);
     let str = new_line (ed_log d) @ bytes ''Have '' @ format_d (sint usercount) @ bytes '' users login server:'' @ crlf;
     d \<leftarrow> show_users ''User:'' (unat usercount) 0 str (d\<lparr>w_ClientList := []\<rparr>);
     Some (d, []) }"

definition on_w_hole :: "dlg \<Rightarrow> win_outcome" where
  "on_w_hole d =
     (if cm_result (recvbuf d) = 1
      then Some (d\<lparr>en_connet := True\<rparr>, [W_Box ''Romote user does not exist!!!''])
      else Some (d\<lparr>en_connet := False\<rparr>, []))"

text \<open>The second receive of the two handlers below, into a new array of \<open>len\<close> bytes with contents
  \<open>heap0\<close>. The byte in front of the end is cleared before the result is tested, so a failed or
  empty receive writes in front of the array.\<close>

definition recv_body ::
  "u32 \<Rightarrow> (nat \<Rightarrow> byte) \<Rightarrow> recv_result \<Rightarrow> sockaddr_in \<Rightarrow> (nat \<times> byte list \<times> sockaddr_in) option" where
  "recv_body len heap0 r a0 = do {
     (n, recvmessage, remote) \<leftarrow> win_recvfrom r (map heap0 [0..<unat len]) MAX_PACKET_SIZE a0;
     if 1 \<le> n then Some (nat n, recvmessage[nat n - 1 := 0], remote) else None }"

definition on_p2pmessage :: "(nat \<Rightarrow> byte) \<Rightarrow> recv_result \<Rightarrow> dlg \<Rightarrow> win_outcome" where
  "on_p2pmessage heap0 r d = do {
     let m = p2pMsg (recvbuf d);
     (_, recvmessage, remote) \<leftarrow> recv_body (pm_uiSendLen m) heap0 r (w_remote d);
     who \<leftarrow> c_str (pm_cP2PCommUserName m);
     msg \<leftarrow> c_str recvmessage;
     let d = d\<lparr>w_remote := remote,
               ed_recv := new_line (ed_recv d) @ say_text who (dotted (put_u32 (sin_addr remote))) msg\<rparr>;
     Some (d, win_send_msg d (win_msg\<lparr>cm_uiMsgType := p2p_code P2PMESSAGEACK\<rparr>) remote) }"

text \<open>\<open>message0\<close> is the uninitialised local array of 256 bytes.\<close>

definition on_relaymessage2 :: "(nat \<Rightarrow> byte) \<Rightarrow> byte list \<Rightarrow> recv_result \<Rightarrow> dlg \<Rightarrow> win_outcome" where
  "on_relaymessage2 heap0 message0 r d = (
     let m = rlyMsg (recvbuf d) in
     if rm_uiSendLen m > 0
     then do {
       (n, recvmessage, remote) \<leftarrow> recv_body (rm_uiSendLen m) heap0 r (w_remote d);
       let d = d\<lparr>w_remote := remote\<rparr>;
       if rm_uiSendLen m = of_nat n
       then do {
         message \<leftarrow> strcpy message0 recvmessage;
         fromPeer \<leftarrow> GetLocalUser (w_ClientList d) (cMyName (recvbuf d));
         who \<leftarrow> c_str (rm_sUserName m);
         msg \<leftarrow> c_str message;
         Some (d\<lparr>ed_recv := new_line (ed_recv d) @ say_text who (host_text (tm_uiIP fromPeer)) msg\<rparr>, []) }
       else Some (d, []) }
     else Some (d, []))"

definition on_ack :: "dlg \<Rightarrow> win_outcome" where
  "on_ack d = Some (d\<lparr>RecvedACK := True\<rparr>, [])"

definition on_someone_calls :: "dlg \<Rightarrow> win_outcome" where
  "on_someone_calls d = do {
     let t = transMsg (recvbuf d);
     let peerCli = \<lparr>sin_family = AF_INET, sin_port = htons (tm_usPORT t), sin_addr = htonl (tm_uiIP t)\<rparr>;
     who \<leftarrow> c_str (tm_userName t);
     let d = d\<lparr>ed_log := ed_log d @ crlf @ who @ bytes ''['' @ dotted (put_u32 (sin_addr peerCli)) @ bytes '':'' @
                 format_d (uint (htons (sin_port peerCli))) @ bytes ''] want to connect to you.''\<rparr>;
     let punch = win_send d (put_CommMsg (win_msg\<lparr>cm_uiMsgType := p2p_code P2PPUNCH\<rparr>)) peerCli;
     my \<leftarrow> strcpy (cMyName win_msg) (GetBuffer (m_strMyID d));
     to \<leftarrow> strcpy (cToName win_msg) (GetBuffer (m_strToID d));
     let notice = win_send_msg d (win_msg\<lparr>cm_uiMsgType := p2p_code P2PHAVECONNECT1, cMyName := my, cToName := to\<rparr>)
                    (remoteAddr d);
     Some (d, punch @ [W_Sleep 500] @ notice) }"

definition on_punch :: "dlg \<Rightarrow> win_outcome" where
  "on_punch d = do {
     who \<leftarrow> c_str (cMyName (recvbuf d));
     Some (d\<lparr>ed_log := new_line (ed_log d) @ bytes ''connected '' @ who @ bytes ''('' @
               dotted (put_u32 (sin_addr (w_remote d))) @ bytes '':'' @
               format_d (uint (htons (sin_port (w_remote d)))) @ bytes '') by P2P''\<rparr>, []) }"

definition on_canstart :: "dlg \<Rightarrow> win_outcome" where
  "on_canstart d = do {
     toPeer \<leftarrow> GetLocalUser (w_ClientList d) (GetBuffer (m_strToID d));
     let remotePeer = \<lparr>sin_family = AF_INET, sin_port = htons (tm_usPORT toPeer), sin_addr = htonl (tm_uiIP toPeer)\<rparr>;
     let out = win_send d (put_CommMsg (win_msg\<lparr>cm_uiMsgType := p2p_code P2PPUNCH2\<rparr>)) remotePeer;
     Some (d\<lparr>timer1 := True\<rparr>, out) }"

definition on_punch2 :: "dlg \<Rightarrow> win_outcome" where
  "on_punch2 d = Some (d, win_send d (put_CommMsg (win_msg\<lparr>cm_uiMsgType := p2p_code P2PPUNCHOK\<rparr>)) (w_remote d))"

definition on_punchok :: "dlg \<Rightarrow> win_outcome" where
  "on_punchok d =
     Some (d\<lparr>ed_log := new_line (ed_log d) @ bytes ''has setup P2P connect!'', bConnect := True\<rparr>, [])"

section \<open>The receiving loop\<close>

text \<open>\<open>r2\<close> is the result of the second receive that two of the handlers make.\<close>

definition win_dispatch :: "(nat \<Rightarrow> byte) \<Rightarrow> byte list \<Rightarrow> recv_result \<Rightarrow> dlg \<Rightarrow> win_outcome" where
  "win_dispatch heap0 message0 r2 d =
     (let mMsgType = cm_uiMsgType (recvbuf d) in
      if mMsgType = win_code W_R_LOGIN then on_w_login d
      else if mMsgType = win_code W_R_LOGOUT then on_w_logout d
      else if mMsgType = win_code W_R_HEART_BEAT then on_w_heart_beat d
      else if mMsgType = win_code W_R_GET_PEERS then on_w_get_peers d
      else if mMsgType = win_code W_R_HOLE then on_w_hole d
      else if mMsgType = p2p_code P2PMESSAGE then on_p2pmessage heap0 r2 d
      else if mMsgType = p2p_code RELAYMESSAGE2 then on_relaymessage2 heap0 message0 r2 d
      else if mMsgType = p2p_code P2PMESSAGEACK then on_ack d
      else if mMsgType = p2p_code P2PSOMEONEWANTTOCALLYOU then on_someone_calls d
      else if mMsgType = p2p_code P2PPUNCH then on_punch d
      else if mMsgType = p2p_code P2PCANSTART then on_canstart d
      else if mMsgType = p2p_code P2PPUNCH2 then on_punch2 d
      else if mMsgType = p2p_code P2PPUNCHOK then on_punchok d
      else Some (d, []))"

definition thread_recv_proc ::
  "(nat \<Rightarrow> byte) \<Rightarrow> byte list \<Rightarrow> recv_result \<Rightarrow> recv_result \<Rightarrow> dlg \<Rightarrow> win_outcome" where
  "thread_recv_proc heap0 message0 r r2 d = do {
     (ret, buf, remote) \<leftarrow> win_recvfrom r (w_buf d) MAX_PACKET_SIZE (w_remote d);
     let d = d\<lparr>w_buf := buf, w_remote := remote\<rparr>;
     if ret \<le> 0 then Some (d, []) else win_dispatch heap0 message0 r2 d }"

section \<open>Runs of the client\<close>

text \<open>What the user, the timer and the two threads may do next. A disabled button cannot be pressed,
  and the threads act only while they exist. The buttons and the timer run on one thread. The state of a run
  has, besides the dialog, whether that thread stands in the timer handler behind a test that found
  \<^verbatim>\<open>bConnect\<close> false; the other threads may run there.\<close>

datatype win_op =
    Do_Login form "byte list" sockaddr_in | Do_Connet form | Do_Disconnect form | Do_Exit form | Do_Destroy form
  | Do_Users | Do_Send form "byte list" "byte list" "nat \<Rightarrow> bool" | Do_Clear | Do_Timer nat | Do_Timer_relay | Do_Heart
  | Do_Recv "nat \<Rightarrow> byte" "byte list" recv_result recv_result

fun win_enabled :: "win_op \<Rightarrow> dlg \<Rightarrow> bool \<Rightarrow> bool" where
  "win_enabled (Do_Login f b a) d in_timer = (en_login d \<and> \<not> in_timer)"
| "win_enabled (Do_Connet f) d in_timer = (en_connet d \<and> \<not> in_timer)"
| "win_enabled (Do_Disconnect f) d in_timer = (en_disconnect d \<and> \<not> in_timer)"
| "win_enabled Do_Users d in_timer = (en_users d \<and> \<not> in_timer)"
| "win_enabled (Do_Timer i) d in_timer = ((i = 1 \<longrightarrow> timer1 d) \<and> \<not> in_timer)"
| "win_enabled Do_Timer_relay d in_timer = in_timer"
| "win_enabled Do_Heart d in_timer = (0 < heart_threads d)"
| "win_enabled (Do_Recv h m r r2) d in_timer = h_recv d"
| "win_enabled _ d in_timer = (\<not> in_timer)"

fun win_exec :: "win_op \<Rightarrow> dlg \<Rightarrow> win_outcome" where
  "win_exec (Do_Login f b a) d = OnBnClickedBtnLogin f b a d"
| "win_exec (Do_Connet f) d = OnBnClickedBtnConnet f d"
| "win_exec (Do_Disconnect f) d = OnBnClickedBtnDisconnect f d"
| "win_exec (Do_Exit f) d = OnBnClickedButton2 f d"
| "win_exec (Do_Destroy f) d = OnDestroy f d"
| "win_exec Do_Users d = OnBnClickedBtnGetUsers d"
| "win_exec (Do_Send f m u p) d = OnBnClickedBtnSend f m u p d"
| "win_exec Do_Clear d = OnBnClickedBtnClear d"
| "win_exec (Do_Timer i) d = Some (d, [])"
| "win_exec Do_Timer_relay d = Some (timer_relay d, [])"
| "win_exec Do_Heart d = map_option snd (thread_heart_proc d)"
| "win_exec (Do_Recv h m r r2) d = thread_recv_proc h m r r2 d"

fun win_timer :: "win_op \<Rightarrow> dlg \<Rightarrow> bool \<Rightarrow> bool" where
  "win_timer (Do_Timer i) d in_timer = timer_test i d"
| "win_timer Do_Timer_relay d in_timer = False"
| "win_timer _ d in_timer = in_timer"

inductive win_reach :: "dlg \<times> bool \<Rightarrow> win_out list \<Rightarrow> dlg \<times> bool \<Rightarrow> bool" where
  win_refl: "win_reach s [] s"
| win_step: "win_reach s outs (d1, b) \<Longrightarrow> win_enabled oper d1 b \<Longrightarrow> win_exec oper d1 = Some (d2, out) \<Longrightarrow>
    win_reach s (outs @ out) (d2, win_timer oper d1 b)"

lemma user_state [simp]:
  "bConnect (UpdateData f d) = bConnect d" "bRelay (UpdateData f d) = bRelay d" "bLogin (UpdateData f d) = bLogin d"
  "m_cliSocket (UpdateData f d) = m_cliSocket d" "h_recv (UpdateData f d) = h_recv d"
  "w_ClientList (UpdateData f d) = w_ClientList d" "ed_send (UpdateData f d) = ed_send d"
  "ed_recv (UpdateData f d) = ed_recv d" "remoteAddr (UpdateData f d) = remoteAddr d"
  "bConnect (add_user u d) = bConnect d" "bRelay (add_user u d) = bRelay d" "bLogin (add_user u d) = bLogin d"
  "m_cliSocket (add_user u d) = m_cliSocket d" "h_recv (add_user u d) = h_recv d" "w_buf (add_user u d) = w_buf d"
  "w_ClientList (add_user u d) = w_ClientList d @ [u]" "nodes (add_user u d) = nodes d + 1"
  "bConnect (release d) = bConnect d" "bRelay (release d) = bRelay d"
  "m_cliSocket (release d) = INVALID_SOCKET" "h_recv (release d) = False"
  "bConnect (UpdateCtrlStates d) = bConnect d" "bRelay (UpdateCtrlStates d) = bRelay d"
  "m_cliSocket (UpdateCtrlStates d) = m_cliSocket d" "h_recv (UpdateCtrlStates d) = h_recv d"
  by (simp_all add: UpdateData_def add_user_def release_def UpdateCtrlStates_def Let_def)

text \<open>The modes a run looks at, and what a handler of the receiving thread does to them.\<close>

definition modes :: "dlg \<Rightarrow> bool \<times> bool \<times> u32 \<times> bool" where
  "modes d = (bConnect d, bRelay d, m_cliSocket d, h_recv d)"

lemma modes_update [simp]:
  "modes (add_user u d) = modes d" "modes (UpdateData f d) = modes d" "modes (UpdateCtrlStates d) = modes d"
  "modes (d\<lparr>ed_log := t\<rparr>) = modes d" "modes (d\<lparr>ed_recv := t\<rparr>) = modes d" "modes (d\<lparr>ed_send := t\<rparr>) = modes d"
  "modes (d\<lparr>w_ClientList := l\<rparr>) = modes d" "modes (d\<lparr>bLogin := b\<rparr>) = modes d"
  "modes (d\<lparr>heart_threads := k\<rparr>) = modes d" "modes (d\<lparr>en_connet := b\<rparr>) = modes d"
  "modes (d\<lparr>w_remote := a\<rparr>) = modes d" "modes (d\<lparr>w_buf := x\<rparr>) = modes d" "modes (d\<lparr>timer1 := b\<rparr>) = modes d"
  "modes (d\<lparr>RecvedACK := b\<rparr>) = modes d" "modes (d\<lparr>remoteAddr := a\<rparr>) = modes d"
  "modes (d\<lparr>en_login := b\<rparr>) = modes d" "modes (d\<lparr>en_disconnect := b\<rparr>) = modes d" "modes (d\<lparr>en_users := b\<rparr>) = modes d"
  by (simp_all add: modes_def)

lemma modes_set [simp]:
  "modes (d\<lparr>bConnect := b\<rparr>) = (b, snd (modes d))" "modes (d\<lparr>bRelay := b\<rparr>) = (bConnect d, b, snd (snd (modes d)))"
  "modes (d\<lparr>h_recv := b\<rparr>) = (bConnect d, bRelay d, m_cliSocket d, b)"
  by (simp_all add: modes_def)

lemma modesD: "modes d = modes d' \<Longrightarrow> bConnect d = bConnect d' \<and> bRelay d = bRelay d' \<and> m_cliSocket d = m_cliSocket d' \<and> h_recv d = h_recv d'"
  by (simp add: modes_def)

lemma show_users_modes: "show_users pre k i str d = Some d' \<Longrightarrow> modes d' = modes d"
  by (induction pre k i str d arbitrary: d' rule: show_users.induct)
    (fastforce simp: Option.bind_eq_Some_conv Let_def)+

lemma add_users_modes: "add_users k i d = Some d' \<Longrightarrow> modes d' = modes d"
  by (induction k i d arbitrary: d' rule: add_users.induct)
    (fastforce simp: Option.bind_eq_Some_conv)+

lemmas win_handler_defs = on_w_login_def on_w_logout_def on_w_heart_beat_def on_w_get_peers_def on_w_hole_def
  on_p2pmessage_def on_relaymessage2_def on_ack_def on_someone_calls_def on_punch_def on_canstart_def on_punch2_def

definition no_send :: "win_out list \<Rightarrow> bool" where
  "no_send out \<longleftrightarrow> (\<forall>e \<in> set out. \<forall>a bs. e \<noteq> W_Send a bs)"

lemma no_send_simps [simp]:
  "no_send []" "no_send (xs @ ys) \<longleftrightarrow> no_send xs \<and> no_send ys" "no_send (W_Box t # xs) \<longleftrightarrow> no_send xs"
  "no_send (W_Sleep k # xs) \<longleftrightarrow> no_send xs" "\<not> no_send (W_Send a bs # xs)"
  by (auto simp: no_send_def)

lemma win_send_closed [simp]: "m_cliSocket d = INVALID_SOCKET \<Longrightarrow> win_send d bs a = []"
  by (simp add: win_send_def)

lemma win_send_msg_closed [simp]: "m_cliSocket d = INVALID_SOCKET \<Longrightarrow> win_send_msg d m a = []"
  by (simp add: win_send_msg_def)

lemma win_dispatch_modes:
  assumes "win_dispatch heap0 message0 r2 d = Some (d', out)"
  shows "modes d' = (if cm_uiMsgType (recvbuf d) = p2p_code P2PPUNCHOK then (True, snd (modes d)) else modes d)"
  using assms
  by (auto simp: win_dispatch_def Let_def on_punchok_def win_handler_defs Option.bind_eq_Some_conv
      split: if_splits dest!: show_users_modes add_users_modes)

lemma win_dispatch_closed:
  assumes "win_dispatch heap0 message0 r2 d = Some (d', out)" and "m_cliSocket d = INVALID_SOCKET"
  shows "no_send out"
  using assms
  by (auto simp: win_dispatch_def Let_def on_punchok_def win_handler_defs Option.bind_eq_Some_conv
      split: if_splits)

text \<open>The wait changes nothing but the flag, and sleeps once for every poll in front of the first that sees it.\<close>

lemma ack_meanwhile_simps [simp]:
  "modes (ack_meanwhile b d) = modes d" "RecvedACK (ack_meanwhile b d) \<longleftrightarrow> b \<or> RecvedACK d"
  by (simp_all add: ack_meanwhile_def)

lemma wait_ack_facts [simp]:
  "modes (fst (wait_ack k acks i d)) = modes d" "no_send (snd (wait_ack k acks i d))"
  by (induction k acks i d rule: wait_ack.induct) (simp_all add: Let_def case_prod_beta)

lemma wait_ack_sleeps:
  "\<not> RecvedACK d \<Longrightarrow>
   snd (wait_ack k acks i d) = replicate (length (takeWhile (\<lambda>j. \<not> acks j) [i..<i + k])) (W_Sleep 300)"
  by (induction k acks i d rule: wait_ack.induct)
    (simp_all add: Let_def case_prod_beta upt_conv_Cons del: upt_Suc)

lemma recv_proc_modes:
  assumes "thread_recv_proc h m r r2 d = Some (d', out)"
  shows "modes d' = modes d \<or> modes d' = (True, snd (modes d))"
  using assms
  by (auto simp: thread_recv_proc_def Option.bind_eq_Some_conv Let_def split: if_splits dest!: win_dispatch_modes)

text \<open>No button changes the two modes of the connection.\<close>

lemma send_direct_modes: "send_direct u m p d = Some (d', out) \<Longrightarrow> modes d' = modes d"
  by (auto simp: send_direct_def Option.bind_eq_Some_conv Let_def case_prod_beta simp del: wait_ack.simps)

lemma send_relay_modes: "send_relay m d = Some (d', out) \<Longrightarrow> modes d' = modes d"
  by (auto simp: send_relay_def Option.bind_eq_Some_conv Let_def)

lemma Send_modes: "OnBnClickedBtnSend f m u p d = Some (d', out) \<Longrightarrow> modes d' = modes d"
  by (auto simp: OnBnClickedBtnSend_def Option.bind_eq_Some_conv Let_def split: if_splits
      dest!: send_direct_modes send_relay_modes)

lemma Connet_modes: "OnBnClickedBtnConnet f d = Some (d', out) \<Longrightarrow> modes d' = modes d"
  by (auto simp: OnBnClickedBtnConnet_def Option.bind_eq_Some_conv Let_def)

lemma Disconnect_modes: "OnBnClickedBtnDisconnect f d = Some (d', out) \<Longrightarrow> modes d' = modes d"
  by (auto simp: OnBnClickedBtnDisconnect_def Option.bind_eq_Some_conv Let_def split: if_splits)

lemma GetUserList_modes: "GetUserList d = Some (d', out) \<Longrightarrow> modes d' = modes d"
  by (auto simp: GetUserList_def Option.bind_eq_Some_conv)

lemma GetUsers_modes: "OnBnClickedBtnGetUsers d = Some (d', out) \<Longrightarrow> modes d' = modes d"
  by (auto simp: OnBnClickedBtnGetUsers_def Option.bind_eq_Some_conv)

lemma Login_modes:
  assumes "OnBnClickedBtnLogin f b a d = Some (d', out)"
  shows "modes d' = modes d \<or> m_cliSocket d \<noteq> INVALID_SOCKET \<and> modes d' = (bConnect d, bRelay d, m_cliSocket d, True)"
proof (cases "m_strMyID (UpdateData f d) = [] \<or> m_strServerAddr (UpdateData f d) = [] \<or> format_d (m_nServerPort (UpdateData f d)) = [] \<or> m_cliSocket d = INVALID_SOCKET")
  case True
  with assms have "d' = UpdateData f d" by (auto simp: OnBnClickedBtnLogin_def Let_def split: if_splits)
  then show ?thesis by simp
next
  case False
  with assms obtain a' where "d' = (let d = (UpdateData f d)\<lparr>remoteAddr := a'\<rparr> in if \<not> h_recv d then d\<lparr>h_recv := True, w_buf := b, w_remote := a\<rparr> else d)"
    unfolding OnBnClickedBtnLogin_def Let_def by (auto simp: Option.bind_eq_Some_conv)
  with False show ?thesis by (auto simp: Let_def)
qed

lemma Button2_modes:
  "OnBnClickedButton2 f d = Some (d', out) \<Longrightarrow> modes d' = (bConnect d, bRelay d, INVALID_SOCKET, False)"
  by (auto simp: OnBnClickedButton2_def Option.bind_eq_Some_conv modes_def dest!: Disconnect_modes [unfolded modes_def])

lemma Destroy_modes:
  "OnDestroy f d = Some (d', out) \<Longrightarrow> modes d' = (bConnect d, bRelay d, INVALID_SOCKET, False)"
  by (auto simp: OnDestroy_def Option.bind_eq_Some_conv modes_def split: if_splits
      dest!: Disconnect_modes [unfolded modes_def])

lemma Heart_modes:
  "thread_heart_proc d = Some (b, d', out) \<Longrightarrow> modes d' = modes d \<or> modes d' = (bConnect d, bRelay d, m_cliSocket d, False)"
  by (auto simp: thread_heart_proc_def Option.bind_eq_Some_conv split: if_splits dest!: GetUserList_modes)

lemma timer_relay_simps [simp]:
  "bConnect (timer_relay d) = bConnect d" "bRelay (timer_relay d)" "m_cliSocket (timer_relay d) = m_cliSocket d"
  "h_recv (timer_relay d) = h_recv d" "w_buf (timer_relay d) = w_buf d" "timer1 (timer_relay d) = False"
  by (simp_all add: timer_relay_def)

lemma Clear_modes: "OnBnClickedBtnClear d = Some (d', out) \<Longrightarrow> modes d' = modes d"
  by (auto simp: OnBnClickedBtnClear_def)

lemmas button_modes = Send_modes Connet_modes Disconnect_modes GetUsers_modes Login_modes Button2_modes
  Destroy_modes Heart_modes Clear_modes recv_proc_modes

text \<open>One step sets the two modes of the connection or keeps them, and a connected client that does
  not relay, and is not about to, does not start to.\<close>

definition sticky :: "dlg \<times> bool \<Rightarrow> dlg \<times> bool \<Rightarrow> bool" where
  "sticky s s' \<longleftrightarrow> (case (s, s') of ((d, b), (d', b')) \<Rightarrow>
     (bConnect d \<longrightarrow> bConnect d') \<and> (bRelay d \<longrightarrow> bRelay d') \<and>
     (bConnect d \<and> \<not> bRelay d \<and> \<not> b \<longrightarrow> \<not> bRelay d' \<and> \<not> b'))"

lemma sticky_trans: "sticky s s1 \<Longrightarrow> sticky s1 s2 \<Longrightarrow> sticky s s2"
  by (auto simp: sticky_def split: prod.splits)

lemma win_exec_sticky:
  "win_exec oper d = Some (d', out) \<Longrightarrow> win_enabled oper d b \<Longrightarrow> sticky (d, b) (d', win_timer oper d b)"
  by (cases oper) (auto simp: sticky_def modes_def timer_test_def dest!: button_modes)

lemma win_reach_sticky: "win_reach s outs s' \<Longrightarrow> sticky s s'"
proof (induction rule: win_reach.induct)
  case (win_step s outs d1 b oper d2 out)
  then show ?case using sticky_trans [OF _ win_exec_sticky] by blast
qed (simp add: sticky_def split: prod.splits)

text \<open>A closed client stays closed and sends nothing.\<close>

lemma Send_closed: "OnBnClickedBtnSend f m u p d = Some (d', out) \<Longrightarrow> m_cliSocket d = INVALID_SOCKET \<Longrightarrow> no_send out"
  by (auto simp: OnBnClickedBtnSend_def Let_def)

lemma Connet_closed: "OnBnClickedBtnConnet f d = Some (d', out) \<Longrightarrow> m_cliSocket d = INVALID_SOCKET \<Longrightarrow> no_send out"
  by (auto simp: OnBnClickedBtnConnet_def Option.bind_eq_Some_conv Let_def)

lemma Disconnect_closed: "OnBnClickedBtnDisconnect f d = Some (d', out) \<Longrightarrow> m_cliSocket d = INVALID_SOCKET \<Longrightarrow> no_send out"
  by (auto simp: OnBnClickedBtnDisconnect_def)

lemma GetUserList_closed: "GetUserList d = Some (d', out) \<Longrightarrow> m_cliSocket d = INVALID_SOCKET \<Longrightarrow> no_send out"
  by (auto simp: GetUserList_def Option.bind_eq_Some_conv)

lemma GetUsers_closed: "OnBnClickedBtnGetUsers d = Some (d', out) \<Longrightarrow> m_cliSocket d = INVALID_SOCKET \<Longrightarrow> no_send out"
  by (auto simp: OnBnClickedBtnGetUsers_def Option.bind_eq_Some_conv)

lemma Login_closed: "OnBnClickedBtnLogin f b a d = Some (d', out) \<Longrightarrow> m_cliSocket d = INVALID_SOCKET \<Longrightarrow> no_send out"
  by (auto simp: OnBnClickedBtnLogin_def Let_def split: if_splits)

lemma Button2_closed: "OnBnClickedButton2 f d = Some (d', out) \<Longrightarrow> m_cliSocket d = INVALID_SOCKET \<Longrightarrow> no_send out"
  by (auto simp: OnBnClickedButton2_def Option.bind_eq_Some_conv dest: Disconnect_closed)

lemma Destroy_closed: "OnDestroy f d = Some (d', out) \<Longrightarrow> m_cliSocket d = INVALID_SOCKET \<Longrightarrow> no_send out"
  by (auto simp: OnDestroy_def Option.bind_eq_Some_conv split: if_splits dest: Disconnect_closed)

lemma Heart_closed: "thread_heart_proc d = Some (b, d', out) \<Longrightarrow> m_cliSocket d = INVALID_SOCKET \<Longrightarrow> no_send out"
  by (auto simp: thread_heart_proc_def Option.bind_eq_Some_conv split: if_splits dest: GetUserList_closed)

lemma Clear_closed: "OnBnClickedBtnClear d = Some (d', out) \<Longrightarrow> no_send out"
  by (auto simp: OnBnClickedBtnClear_def)

lemmas button_closed = Send_closed Connet_closed Disconnect_closed GetUsers_closed Login_closed Button2_closed
  Destroy_closed Heart_closed Clear_closed

lemma win_exec_closed:
  assumes "win_exec oper d = Some (d', out)" and "m_cliSocket d = INVALID_SOCKET" and "\<not> h_recv d" and "win_enabled oper d b"
  shows "m_cliSocket d' = INVALID_SOCKET \<and> \<not> h_recv d'" and "no_send out"
proof -
  show "m_cliSocket d' = INVALID_SOCKET \<and> \<not> h_recv d'"
    using assms by (cases oper) (auto simp: modes_def dest!: button_modes)
  show "no_send out"
    using assms by (cases oper) (auto dest: button_closed)
qed

section \<open>The life of a dialog\<close>

text \<open>C9. The two connection modes only ever switch on: whatever the user, the timer and the threads do,
  a client that is connected stays so, one that relays goes on relaying through the server for
  good, and one that is connected directly, does not relay and is not inside the timer handler never starts
  to. Closing the dialog ends the client: the socket is closed, the receiver is gone, and no later step of a
  heart beat thread or of the form sends a datagram.\<close>

theorem win_run_modes:
  assumes "win_reach (d, b) outs (d', b')"
  shows "(bConnect d \<longrightarrow> bConnect d') \<and> (bRelay d \<longrightarrow> bRelay d') \<and>
    (bConnect d \<and> \<not> bRelay d \<and> \<not> b \<longrightarrow> \<not> bRelay d') \<and>
    (m_cliSocket d = INVALID_SOCKET \<and> \<not> h_recv d \<longrightarrow> m_cliSocket d' = INVALID_SOCKET \<and> \<not> h_recv d' \<and> no_send outs) \<and>
    (\<forall>f d1 out. OnDestroy f d' = Some (d1, out) \<or> OnBnClickedButton2 f d' = Some (d1, out) \<longrightarrow>
       m_cliSocket d1 = INVALID_SOCKET \<and> \<not> h_recv d1)"
proof -
  have "m_cliSocket (fst s) = INVALID_SOCKET \<and> \<not> h_recv (fst s) \<longrightarrow>
      m_cliSocket (fst s') = INVALID_SOCKET \<and> \<not> h_recv (fst s') \<and> no_send outs" if "win_reach s outs s'" for s s'
    using that
  proof (induction rule: win_reach.induct)
    case (win_step s outs d1 b oper d2 out)
    then show ?case using win_exec_closed [OF win_step.hyps(3) _ _ win_step.hyps(2)] by auto
  qed simp
  from this [OF assms] win_reach_sticky [OF assms] show ?thesis
    by (auto simp: sticky_def modes_def dest!: Destroy_modes Button2_modes)
qed

definition example_node :: stUserListNode where
  "example_node = \<lparr>tm_userName = bytes ''john'' @ zeros 28, tm_uiIP = 0x7F000001, tm_usPORT = 4000\<rparr>"

definition example_dlg :: dlg where
  "example_dlg = \<lparr>bLogin = True, bConnect = True, bRelay = False, m_nServerPort = 8888,
     m_strServerAddr = bytes ''127.0.0.1'', m_strMyID = bytes ''andy'', m_strToID = bytes ''john'',
     w_ClientList = [example_node], m_cliSocket = 5,
     remoteAddr = \<lparr>sin_family = AF_INET, sin_port = htons 8888, sin_addr = 0x0100007F\<rparr>,
     localAddr = \<lparr>sin_family = AF_INET, sin_port = 0, sin_addr = 0\<rparr>, cliIpAddr = zeros 32, h_recv = True,
     RecvedACK = False, en_login = False, en_connet = True, en_disconnect = True, en_users = True,
     ed_log = [], ed_recv = [], ed_send = bytes ''hi'', timer1 = True, heart_threads = 1, nodes = 1,
     w_buf = zeros 1024, w_remote = \<lparr>sin_family = 0, sin_port = 0, sin_addr = 0\<rparr>\<rparr>"

definition example_form :: form where
  "example_form = \<lparr>f_server = bytes ''127.0.0.1'', f_port = 8888, f_myid = bytes ''andy'', f_toid = bytes ''john''\<rparr>"

lemma win_reach_one:
  "win_enabled oper d b \<Longrightarrow> win_exec oper d = Some (d', out) \<Longrightarrow> win_reach (d, b) out (d', win_timer oper d b)"
  using win_step [OF win_refl, of oper d b d' out] by simp

theorem win_run_modes_witness:
  "\<exists>outs d'. win_reach (example_dlg, False) outs (d', False) \<and> m_cliSocket d' = INVALID_SOCKET \<and> bConnect d' \<and> \<not> bRelay d'"
proof -
  have "\<exists>d1 out. OnDestroy example_form example_dlg = Some (d1, out)"
    by (simp add: OnDestroy_def OnBnClickedBtnDisconnect_def example_dlg_def example_form_def INVALID_SOCKET_def
        strcpy_def GetBuffer_def UpdateData_def new_stCommMsg_def Let_def bytes_def WIN_NAME_SIZE_def)
  then obtain d1 out where d1: "OnDestroy example_form example_dlg = Some (d1, out)" by blast
  have r: "win_reach (example_dlg, False) out (d1, False)"
    using win_reach_one [of "Do_Destroy example_form" example_dlg False d1 out] d1 by simp
  have "bConnect example_dlg" "\<not> bRelay example_dlg" by (simp_all add: example_dlg_def)
  moreover have "m_cliSocket d1 = INVALID_SOCKET" using win_run_modes [OF win_refl, of example_dlg False] d1 by blast
  ultimately show ?thesis using win_run_modes [OF r] r by blast
qed

section \<open>Receiving a message\<close>

lemma win_msg_len [simp]: "CommMsg_ok WIN_NAME_SIZE m \<Longrightarrow> length (put_CommMsg m) = 188"
  using CommMsg_layout.put_length by (simp add: sizeof_CommMsg_def WIN_NAME_SIZE_def)

lemma getSize_plain [simp]: "userNums m = 0 \<Longrightarrow> getSize WIN_NAME_SIZE k m = 188"
  by (simp add: getSize_def sizeof_CommMsg_def WIN_NAME_SIZE_def)

lemma win_send_msg_plain:
  "CommMsg_ok WIN_NAME_SIZE m \<Longrightarrow> userNums m = 0 \<Longrightarrow> win_send_msg d m a = win_send d (put_CommMsg m) a"
  by (simp add: win_send_msg_def)

lemma recv_msg:
  assumes "CommMsg_ok WIN_NAME_SIZE m" and "length (w_buf d) = 1024"
  obtains d1 where "thread_recv_proc h m0 (Recv_Dgram (put_CommMsg m) a) r2 d = win_dispatch h m0 r2 d1"
    and "d1 = d\<lparr>w_buf := overwrite (w_buf d) (put_CommMsg m), w_remote := a\<rparr>" and "recvbuf d1 = m"
proof -
  let ?d = "d\<lparr>w_buf := overwrite (w_buf d) (put_CommMsg m), w_remote := a\<rparr>"
  have "thread_recv_proc h m0 (Recv_Dgram (put_CommMsg m) a) r2 d = win_dispatch h m0 r2 ?d"
    using assms by (simp add: thread_recv_proc_def win_recvfrom_def)
  moreover have "recvbuf ?d = m"
    using CommMsg_layout.get_overwrite [OF assms(1)] by (simp add: recvbuf_def)
  ultimately show ?thesis using that by blast
qed

lemma unat_of_nat_Suc:
  assumes "n < 2 ^ 32 - 1"
  shows "unat (of_nat n + 1 :: u32) = n + 1"
proof -
  have "of_nat n + 1 = (of_nat (n + 1) :: u32)" by simp
  then show ?thesis using assms by (simp only: unat_of_nat) simp
qed

lemma recv_body_text:
  assumes "0 \<notin> set txt" and "length txt < 1024"
  shows "recv_body (of_nat (length txt) + 1) heap0 (Recv_Dgram (txt @ [0]) a) a0 = Some (length txt + 1, txt @ [0], a)"
proof -
  have "unat (of_nat (length txt) + 1 :: u32) = length txt + 1"
    by (rule unat_of_nat_Suc) (use assms(2) in simp)
  then show ?thesis
    using assms(2) by (simp add: recv_body_def win_recvfrom_def overwrite_def nth_append list_update_append nat_add_distrib)
qed

text \<open>Looking up a name among terminated names.\<close>

lemma GetLocalUser_find:
  assumes "\<forall>u \<in> set us. 0 \<in> set (tm_userName u)" and "c_str n = Some s"
  shows "GetLocalUser us n = find_first (\<lambda>u. c_str (tm_userName u) = Some s) us"
  using assms(1)
proof (induction us)
  case (Cons u us)
  obtain t where t: "c_str (tm_userName u) = Some t"
    using Cons.prems c_str_None_iff [of "tm_userName u"] by fastforce
  obtain r where r: "strcmp (tm_userName u) n = Some r" using strcmp_defined [OF t assms(2)] by blast
  have "r = 0 \<longleftrightarrow> t = s" using strcmp_eq_0_conv [OF t assms(2)] r by simp
  with Cons t r show ?case by simp
qed simp

interpretation user_lookup: name_lookup GetLocalUser "\<lambda>us. us" tm_userName "\<lambda>us. \<forall>u \<in> set us. 0 \<in> set (tm_userName u)"
  by unfold_locales (rule GetLocalUser_find)

section \<open>A message between two clients\<close>

definition node_addr :: "stUserListNode \<Rightarrow> sockaddr_in" where
  "node_addr u = \<lparr>sin_family = AF_INET, sin_port = htons (tm_usPORT u), sin_addr = htonl (tm_uiIP u)\<rparr>"

definition p2p_head :: "byte list \<Rightarrow> byte list \<Rightarrow> stCommMsg" where
  "p2p_head my txt = win_msg\<lparr>cm_uiMsgType := p2p_code P2PMESSAGE,
     p2pMsg := \<lparr>pm_uiSendLen = of_nat (length txt) + 1, pm_cP2PCommUserName = overwrite (zeros 32) (my @ [0])\<rparr>\<rparr>"

definition ack_msg :: stCommMsg where
  "ack_msg = win_msg\<lparr>cm_uiMsgType := p2p_code P2PMESSAGEACK\<rparr>"

lemma win_msg_names [simp]:
  "cMyName win_msg = zeros 32" "cToName win_msg = zeros 32" "pm_cP2PCommUserName (p2pMsg win_msg) = zeros 32"
  "rm_sUserName (rlyMsg win_msg) = zeros 32" "userNums win_msg = 0"
  by (simp_all add: new_stCommMsg_def new_stP2PMsg_def new_stRelayMsg_def WIN_NAME_SIZE_def)

lemma CommMsg_ok_update:
  "CommMsg_ok n m \<Longrightarrow> CommMsg_ok n (m\<lparr>cm_uiMsgType := t\<rparr>)"
  "CommMsg_ok n m \<Longrightarrow> p2p_ok n p \<Longrightarrow> CommMsg_ok n (m\<lparr>p2pMsg := p\<rparr>)"
  "CommMsg_ok n m \<Longrightarrow> length x = n \<Longrightarrow> CommMsg_ok n (m\<lparr>cMyName := x\<rparr>)"
  "CommMsg_ok n m \<Longrightarrow> length x = n \<Longrightarrow> CommMsg_ok n (m\<lparr>cToName := x\<rparr>)"
  "CommMsg_ok n m \<Longrightarrow> relay_ok n l \<Longrightarrow> CommMsg_ok n (m\<lparr>rlyMsg := l\<rparr>)"
  by (simp_all add: CommMsg_ok_def)

lemma p2p_head_ok: "length my < 32 \<Longrightarrow> CommMsg_ok WIN_NAME_SIZE (p2p_head my txt)"
  by (simp add: p2p_head_def CommMsg_ok_update p2p_ok_def WIN_NAME_SIZE_def new_stCommMsg_ok [of 32])

lemma ack_msg_ok: "CommMsg_ok WIN_NAME_SIZE ack_msg"
  by (simp add: ack_msg_def CommMsg_ok_update)

lemma send_direct_result:
  assumes "0 \<notin> set txt" and "length txt < 256" and "0 \<notin> set (m_strMyID d)" and "length (m_strMyID d) < 32"
    and "0 \<notin> set (m_strToID d)" and "length (m_strToID d) < length userName0"
    and "\<forall>u \<in> set (w_ClientList d). 0 \<in> set (tm_userName u)" and "m_cliSocket d \<noteq> INVALID_SOCKET"
    and "find_first (\<lambda>u. c_str (tm_userName u) = Some (m_strToID d)) (w_ClientList d) = Some u"
    and "message = overwrite message0 (txt @ [0])" and "length message0 = 256"
  shows "\<exists>d'. send_direct userName0 message acks d = Some (d',
    [W_Send (node_addr u) (put_CommMsg (p2p_head (m_strMyID d) txt)), W_Send (node_addr u) (txt @ [0])] @
      replicate (length (takeWhile (\<lambda>i. \<not> acks i) [0..<10])) (W_Sleep 300))"
proof -
  let ?n = "overwrite userName0 (m_strToID d @ [0])"
  have n: "strcpy userName0 (GetBuffer (m_strToID d)) = Some ?n" "c_str ?n = Some (m_strToID d)"
    using assms by (simp_all add: GetBuffer_def strcpy_fits)
  have my: "strcpy (zeros 32) (GetBuffer (m_strMyID d)) = Some (overwrite (zeros 32) (m_strMyID d @ [0]))"
    using assms by (simp add: GetBuffer_def strcpy_fits)
  have u: "GetLocalUser (w_ClientList d) ?n = Some u"
    using user_lookup.lookup_first [OF assms(7) n(2)] assms(9) by simp
  have l: "strlen message = Some (length txt)" "unat (of_nat (length txt) + 1 :: u32) = length txt + 1"
    "take (length txt + 1) message = txt @ [0]"
    using assms unat_of_nat_Suc [of "length txt"] by (simp_all add: strlen_def overwrite_def)
  show ?thesis
    using assms(8) l(3) by (simp add: send_direct_def n u l my win_send_def p2p_head_def node_addr_def Let_def case_prod_beta
        wait_ack_sleeps del: wait_ack.simps p2p_code.simps upt_Suc)
qed

lemma on_p2pmessage_result:
  assumes "recvbuf d = p2p_head my txt" and "0 \<notin> set my" and "length my < 32" and "0 \<notin> set txt" and "length txt < 1024"
    and "m_cliSocket d \<noteq> INVALID_SOCKET"
  shows "on_p2pmessage heap0 (Recv_Dgram (txt @ [0]) a) d =
    Some (d\<lparr>w_remote := a, ed_recv := new_line (ed_recv d) @ say_text my (dotted (put_u32 (sin_addr a))) txt\<rparr>,
      [W_Send a (put_CommMsg ack_msg)])"
proof -
  have "pm_uiSendLen (p2pMsg (p2p_head my txt)) = of_nat (length txt) + 1"
    "c_str (pm_cP2PCommUserName (p2pMsg (p2p_head my txt))) = Some my"
    using assms(2) by (simp_all add: p2p_head_def)
  then show ?thesis
    using assms recv_body_text [OF assms(4,5)]
    by (simp add: on_p2pmessage_def win_send_msg_plain CommMsg_ok_update ack_msg_def win_send_def Let_def del: p2p_code.simps)
qed

text \<open>C7. A message typed into one client and sent directly arrives at the other and is acknowledged. For a
  text below 256 characters, a receiver name below 15 that is in the sender's list, and a sender
  name below 32, the send button emits a header and a body to the listed address and then sleeps
  once for every poll, of ten, before the first that finds the message acknowledged; the two
  datagrams, received in order, append exactly the sender's name, its address and the text
  to the other client's window and make it answer the sender's address; and the sender's receiving thread
  sets the polled flag when it gets that answer.\<close>

theorem win_message_delivery:
  assumes form: "0 \<notin> set (f_myid f)" "length (f_myid f) < 32" "f_toid f \<noteq> []" "0 \<notin> set (f_toid f)" "length (f_toid f) < 15"
    and msg: "ed_send A = txt" "txt \<noteq> []" "0 \<notin> set txt" "length txt < 256"
    and A: "\<not> bRelay A" "m_cliSocket A \<noteq> INVALID_SOCKET" "\<forall>u \<in> set (w_ClientList A). 0 \<in> set (tm_userName u)"
      "find_first (\<lambda>u. c_str (tm_userName u) = Some (f_toid f)) (w_ClientList A) = Some u"
    and arrs: "length message0 = 256" "length userName0 = 15"
    and B: "length (w_buf B) = 1024" "m_cliSocket B \<noteq> INVALID_SOCKET"
    and A2: "length (w_buf A2) = 1024"
  shows "\<exists>A1 h b B1 ack A3.
    OnBnClickedBtnSend f message0 userName0 acks A =
      Some (A1, [W_Send (node_addr u) h, W_Send (node_addr u) b] @
        replicate (length (takeWhile (\<lambda>i. \<not> acks i) [0..<10])) (W_Sleep 300)) \<and>
    thread_recv_proc heap0 m0 (Recv_Dgram h addrA) (Recv_Dgram b addrA) B = Some (B1, [W_Send addrA ack]) \<and>
    ed_recv B1 = new_line (ed_recv B) @ say_text (f_myid f) (dotted (put_u32 (sin_addr addrA))) txt \<and>
    thread_recv_proc heap0 m0 (Recv_Dgram ack addrB) r2 A2 = Some (A3, []) \<and> RecvedACK A3"
proof -
  let ?h = "p2p_head (f_myid f) txt"
  let ?A = "(UpdateData f A)\<lparr>ed_recv := new_line (ed_recv A) @ bytes ''I say : '' @ crlf @ bytes ''  '' @ txt @ crlf\<rparr>"
  have ids: "m_strMyID ?A = f_myid f" "m_strToID ?A = f_toid f" by (simp_all add: UpdateData_def)
  obtain A1 where "send_direct userName0 (overwrite message0 (txt @ [0])) acks ?A = Some (A1,
      [W_Send (node_addr u) (put_CommMsg (p2p_head (m_strMyID ?A) txt)), W_Send (node_addr u) (txt @ [0])] @
        replicate (length (takeWhile (\<lambda>i. \<not> acks i) [0..<10])) (W_Sleep 300))"
    using send_direct_result [of "txt" ?A userName0 u "overwrite message0 (txt @ [0])" message0 acks] assms
    by (auto simp: ids simp del: find_first.simps upt_Suc)
  moreover have "strcpy message0 (GetBuffer txt) = Some (overwrite message0 (txt @ [0]))"
    using msg arrs by (simp add: GetBuffer_def strcpy_fits)
  ultimately have send: "OnBnClickedBtnSend f message0 userName0 acks A = Some (A1,
      [W_Send (node_addr u) (put_CommMsg ?h), W_Send (node_addr u) (txt @ [0])] @
        replicate (length (takeWhile (\<lambda>i. \<not> acks i) [0..<10])) (W_Sleep 300))"
    using form msg A ids by (simp add: OnBnClickedBtnSend_def Let_def del: upt_Suc)
  obtain B' where B': "thread_recv_proc heap0 m0 (Recv_Dgram (put_CommMsg ?h) addrA) (Recv_Dgram (txt @ [0]) addrA) B =
      win_dispatch heap0 m0 (Recv_Dgram (txt @ [0]) addrA) B'" "ed_recv B' = ed_recv B" "m_cliSocket B' = m_cliSocket B"
      "recvbuf B' = ?h"
    by (rule recv_msg [OF p2p_head_ok [OF form(2)] B(1)]) (rule that, auto)
  have "win_dispatch heap0 m0 (Recv_Dgram (txt @ [0]) addrA) B' = on_p2pmessage heap0 (Recv_Dgram (txt @ [0]) addrA) B'"
    by (simp add: win_dispatch_def B'(4) p2p_head_def)
  with on_p2pmessage_result [OF B'(4)] B' form msg B(2)
  obtain B1 where recv: "thread_recv_proc heap0 m0 (Recv_Dgram (put_CommMsg ?h) addrA) (Recv_Dgram (txt @ [0]) addrA) B =
      Some (B1, [W_Send addrA (put_CommMsg ack_msg)])"
    "ed_recv B1 = new_line (ed_recv B) @ say_text (f_myid f) (dotted (put_u32 (sin_addr addrA))) txt"
    by simp
  obtain A' where A': "thread_recv_proc heap0 m0 (Recv_Dgram (put_CommMsg ack_msg) addrB) r2 A2 = win_dispatch heap0 m0 r2 A'"
      "recvbuf A' = ack_msg"
    by (rule recv_msg [OF ack_msg_ok A2]) (rule that, auto)
  then obtain A3 where "thread_recv_proc heap0 m0 (Recv_Dgram (put_CommMsg ack_msg) addrB) r2 A2 = Some (A3, [])" "RecvedACK A3"
    by (simp add: win_dispatch_def ack_msg_def on_ack_def)
  with send recv show ?thesis by blast
qed

lemma example_dlg_facts:
  "0 \<notin> set (bytes ''andy'')" "0 \<notin> set (bytes ''john'')" "0 \<notin> set (bytes ''hi'')" "bytes ''john'' \<noteq> []" "bytes ''hi'' \<noteq> []"
  "\<forall>u \<in> set (w_ClientList example_dlg). 0 \<in> set (tm_userName u)"
  "find_first (\<lambda>u. c_str (tm_userName u) = Some (bytes ''john'')) (w_ClientList example_dlg) = Some example_node"
  "length (w_buf example_dlg) = 1024" "m_cliSocket example_dlg \<noteq> INVALID_SOCKET" "\<not> bRelay example_dlg"
  "f_myid example_form = bytes ''andy''" "f_toid example_form = bytes ''john''" "ed_send example_dlg = bytes ''hi''"
proof -
  have "0 \<in> set (tm_userName example_node)" "c_str (tm_userName example_node) = Some (bytes ''john'')" by code_simp+
  then show "\<forall>u \<in> set (w_ClientList example_dlg). 0 \<in> set (tm_userName u)"
    "find_first (\<lambda>u. c_str (tm_userName u) = Some (bytes ''john'')) (w_ClientList example_dlg) = Some example_node"
    by (simp_all add: example_dlg_def)
qed (simp_all add: bytes_def example_dlg_def INVALID_SOCKET_def example_form_def)

theorem win_message_delivery_witness:
  "\<exists>A1 h b. OnBnClickedBtnSend example_form (zeros 256) (zeros 15) (\<lambda>i. i = 2) example_dlg =
      Some (A1, [W_Send (node_addr example_node) h, W_Send (node_addr example_node) b, W_Sleep 300, W_Sleep 300])"
proof -
  have w: "replicate (length (takeWhile (\<lambda>i. \<not> i = 2) [0..<10])) (W_Sleep 300) = [W_Sleep 300, W_Sleep 300]"
    by (simp add: upt_rec numeral_eq_Suc)
  have l: "length (f_myid example_form) < 32" "length (f_toid example_form) < 15" "length (bytes ''hi'') < 256"
    "f_toid example_form \<noteq> []" "length (zeros 256) = 256" "length (zeros 15) = 15"
    "0 \<notin> set (f_myid example_form)" "0 \<notin> set (f_toid example_form)"
    by (simp_all add: example_dlg_facts)
  have u: "find_first (\<lambda>u. c_str (tm_userName u) = Some (f_toid example_form)) (w_ClientList example_dlg) = Some example_node"
    by (simp only: example_dlg_facts)
  from win_message_delivery [OF l(7,1,4,8,2) example_dlg_facts(13,5,3) l(3) example_dlg_facts(10,9,6) u l(5,6)
      example_dlg_facts(8,9,8), where acks = "\<lambda>i. i = 2" and ?heap0.0 = "\<lambda>i. 0" and ?m0.0 = "[]" and addrA = "remoteAddr example_dlg"
        and addrB = "remoteAddr example_dlg" and ?r2.0 = Recv_Err]
  show ?thesis unfolding w by auto
qed

text \<open>C27. In direct mode, with a message, a name and an open socket, the send button is free of undefined
  behaviour exactly if the message is below 256 characters, the receiver's name below 15, the
  own name below 32, and the receiver is in the list: the box for an unknown receiver that the code
  intends is never shown.\<close>

theorem win_send_defined_iff:
  assumes form: "0 \<notin> set (f_myid f)" "f_toid f \<noteq> []" "0 \<notin> set (f_toid f)"
    and msg: "ed_send A \<noteq> []" "0 \<notin> set (ed_send A)"
    and A: "\<not> bRelay A" "m_cliSocket A \<noteq> INVALID_SOCKET" "\<forall>u \<in> set (w_ClientList A). 0 \<in> set (tm_userName u)"
    and arrs: "length message0 = 256" "length userName0 = 15"
  shows "OnBnClickedBtnSend f message0 userName0 acks A \<noteq> None \<longleftrightarrow>
    length (ed_send A) < 256 \<and> length (f_toid f) < 15 \<and> length (f_myid f) < 32 \<and>
    (\<exists>u \<in> set (w_ClientList A). c_str (tm_userName u) = Some (f_toid f))"
proof -
  let ?A = "(UpdateData f A)\<lparr>ed_recv := new_line (ed_recv A) @ bytes ''I say : '' @ crlf @ bytes ''  '' @ ed_send A @ crlf\<rparr>"
  have ids: "m_strMyID ?A = f_myid f" "m_strToID ?A = f_toid f" by (simp_all add: UpdateData_def)
  have cp: "strcpy dst (GetBuffer s) = (if length s < length dst then Some (overwrite dst (s @ [0])) else None)"
    if "0 \<notin> set s" for dst s
    using that by (simp add: strcpy_def GetBuffer_def)
  have "OnBnClickedBtnSend f message0 userName0 acks A =
      (if length (ed_send A) < 256 then send_direct userName0 (overwrite message0 (ed_send A @ [0])) acks ?A else None)"
    using assms ids by (simp add: OnBnClickedBtnSend_def Let_def cp)
  moreover have "GetLocalUser (w_ClientList A) (overwrite userName0 (f_toid f @ [0])) \<noteq> None \<longleftrightarrow>
      (\<exists>u \<in> set (w_ClientList A). c_str (tm_userName u) = Some (f_toid f))"
    using user_lookup.lookup_defined_iff [OF A(3), of "overwrite userName0 (f_toid f @ [0])" "f_toid f"] form(3)
    by simp
  moreover have "send_direct userName0 (overwrite message0 (ed_send A @ [0])) acks ?A \<noteq> None \<longleftrightarrow>
      length (f_toid f) < 15 \<and> length (f_myid f) < 32 \<and>
      GetLocalUser (w_ClientList A) (overwrite userName0 (f_toid f @ [0])) \<noteq> None"
    using form msg arrs ids
    by (auto simp: send_direct_def cp strlen_def Let_def Option.bind_eq_Some_conv case_prod_beta simp del: wait_ack.simps)
  ultimately show ?thesis by auto
qed

theorem win_send_defined_iff_witness:
  "OnBnClickedBtnSend (example_form\<lparr>f_toid := bytes ''mary''\<rparr>) (zeros 256) (zeros 15) (\<lambda>i. False) example_dlg = None"
proof -
  let ?f = "example_form\<lparr>f_toid := bytes ''mary''\<rparr>"
  have f: "0 \<notin> set (f_myid ?f)" "f_toid ?f \<noteq> []" "0 \<notin> set (f_toid ?f)"
    by (simp_all add: bytes_def example_form_def)
  have "c_str (tm_userName u) \<noteq> Some (f_toid ?f)" if "u \<in> set (w_ClientList example_dlg)" for u
  proof -
    have "c_str (tm_userName example_node) \<noteq> Some (bytes ''mary'')" by code_simp
    with that show ?thesis by (simp add: example_dlg_def)
  qed
  with win_send_defined_iff [OF f _ _ example_dlg_facts(10,9,6), of "zeros 256" "zeros 15" "\<lambda>i. False"] example_dlg_facts(3,5,13)
  have "\<not> OnBnClickedBtnSend ?f (zeros 256) (zeros 15) (\<lambda>i. False) example_dlg \<noteq> None" by auto
  then show ?thesis by blast
qed

section \<open>The user list\<close>

definition node_at :: "dlg \<Rightarrow> nat \<Rightarrow> stUserListNode" where
  "node_at d i = get_trans WIN_NAME_SIZE (drop (188 + 40 * i) (w_buf d))"

lemma userList_at_node:
  "length (w_buf d) = 1024 \<Longrightarrow> userList_at WIN_NAME_SIZE (w_buf d) i = (if i < 20 then Some (node_at d i) else None)"
  by (auto simp: userList_at_def sizeof_CommMsg_def sizeof_UserListNode_def WIN_NAME_SIZE_def node_at_def)

lemma node_at_update [simp]:
  "node_at (add_user u d) = node_at d" "node_at (d\<lparr>w_ClientList := l, nodes := k\<rparr>) = node_at d"
  "node_at (d\<lparr>w_ClientList := l\<rparr>) = node_at d"
  by (simp_all add: node_at_def add_user_def fun_eq_iff)

lemma add_users_eq:
  "length (w_buf d) = 1024 \<Longrightarrow> add_users k i d =
     (if k = 0 \<or> i + k \<le> 20
      then Some (d\<lparr>w_ClientList := w_ClientList d @ map (node_at d) [i..<i + k], nodes := nodes d + k\<rparr>) else None)"
proof (induction k arbitrary: i d)
  case (Suc k)
  show ?case
  proof (cases "i < 20")
    case True
    then have "add_users (Suc k) i d = add_users k (i + 1) (add_user (node_at d i) d)"
      using Suc.prems by (simp add: userList_at_node)
    also have "\<dots> = (if k = 0 \<or> i + 1 + k \<le> 20
      then Some (d\<lparr>w_ClientList := (w_ClientList d @ [node_at d i]) @ map (node_at d) [i + 1..<i + 1 + k], nodes := nodes d + 1 + k\<rparr>) else None)"
      using Suc.IH [of "add_user (node_at d i) d" "i + 1"] Suc.prems by (simp add: add_user_def [of _ d])
    also have "[i..<i + Suc k] = i # [i + 1..<i + 1 + k]" by (simp add: upt_rec)
    ultimately show ?thesis using True by auto
  qed (use Suc.prems in \<open>simp add: userList_at_node\<close>)
qed simp

text \<open>C28. The heart beat answer replaces the user list by exactly the announced number of nodes, in order.
  The number is not checked: the handler is defined exactly up to 20, which is what the
  receive buffer holds. It allocates a node for each of them, and the handler, like the rest of the
  program, has no statement that frees the nodes of the list it replaces.\<close>

theorem win_heart_beat_list:
  assumes "length (w_buf d) = 1024" and "n = unat (userNums (recvbuf d))"
  shows "(on_w_heart_beat d \<noteq> None \<longleftrightarrow> n \<le> 20) \<and>
    (\<forall>d' out. on_w_heart_beat d = Some (d', out) \<longrightarrow>
       w_ClientList d' = map (node_at d) [0..<n] \<and> nodes d' = nodes d + n \<and> modes d' = modes d \<and> out = [])"
proof -
  have "on_w_heart_beat d = (if n \<le> 20 then Some (d\<lparr>w_ClientList := map (node_at d) [0..<n], nodes := nodes d + n\<rparr>, []) else None)"
    using add_users_eq [of "d\<lparr>w_ClientList := []\<rparr>" n 0] assms by (simp add: on_w_heart_beat_def)
  then show ?thesis by (auto simp: modes_def)
qed

theorem win_heart_beat_list_witness:
  "on_w_heart_beat (example_dlg\<lparr>w_buf := put_CommMsg (win_msg\<lparr>userNums := 21\<rparr>) @ zeros 836\<rparr>) = None"
proof -
  let ?d = "example_dlg\<lparr>w_buf := put_CommMsg (win_msg\<lparr>userNums := 21\<rparr>) @ zeros 836\<rparr>"
  have ok: "CommMsg_ok WIN_NAME_SIZE (win_msg\<lparr>userNums := 21\<rparr>)"
    using new_stCommMsg_ok [of WIN_NAME_SIZE] by (simp add: CommMsg_ok_def)
  have "length (w_buf ?d) = 1024" "userNums (recvbuf ?d) = 21"
    by (simp_all add: ok recvbuf_def CommMsg_layout.get_put [OF ok])
  from win_heart_beat_list [OF this(1) refl] this(2) have "\<not> on_w_heart_beat ?d \<noteq> None" by simp
  then show ?thesis by blast
qed

section \<open>Login\<close>

text \<open>C29. A login response without users. Accepted, it sets the login state, enables the three other buttons
  and disables the login button, and the heart beat thread it starts sends the client's name
  to the server and sleeps 30 seconds. Refused while logged out, it starts the thread all the same,
  and the first thing that thread does is to end the receiving thread.\<close>

theorem win_login_response:
  assumes "CommMsg_ok WIN_NAME_SIZE m" and "cm_uiMsgType m = win_code W_R_LOGIN" and "userNums m = 0"
    and "length (w_buf d) = 1024" and "m_cliSocket d \<noteq> INVALID_SOCKET"
    and "0 \<notin> set (m_strMyID d)" and "length (m_strMyID d) < 32"
  shows "\<exists>d1. thread_recv_proc heap0 m0 (Recv_Dgram (put_CommMsg m) a) r2 d = Some (d1, []) \<and>
    heart_threads d1 = heart_threads d + 1 \<and> w_ClientList d1 = [] \<and>
    (cm_result m = 0 \<longrightarrow> bLogin d1 \<and> \<not> en_login d1 \<and> en_connet d1 \<and> en_disconnect d1 \<and> en_users d1 \<and>
       (\<exists>beat. thread_heart_proc d1 = Some (True, d1, [W_Send (remoteAddr d) (put_CommMsg beat), W_Sleep 30000]) \<and>
          cm_uiMsgType beat = win_code W_C_HEART_BEAT \<and> c_str (cMyName beat) = Some (m_strMyID d))) \<and>
    (cm_result m \<noteq> 0 \<and> \<not> bLogin d \<longrightarrow>
       (\<exists>d2. thread_heart_proc d1 = Some (False, d2, []) \<and> \<not> h_recv d2 \<and> heart_threads d2 = heart_threads d))"
proof -
  obtain d0 where d0: "thread_recv_proc heap0 m0 (Recv_Dgram (put_CommMsg m) a) r2 d = win_dispatch heap0 m0 r2 d0"
      "d0 = d\<lparr>w_buf := overwrite (w_buf d) (put_CommMsg m), w_remote := a\<rparr>" "recvbuf d0 = m"
    by (rule recv_msg [OF assms(1,4)])
  have same: "bLogin d0 = bLogin d" "heart_threads d0 = heart_threads d" "m_cliSocket d0 = m_cliSocket d"
    "m_strMyID d0 = m_strMyID d" "remoteAddr d0 = remoteAddr d" "h_recv d0 = h_recv d"
    by (simp_all add: d0(2))
  have run: "\<exists>t. win_dispatch heap0 m0 r2 d0 =
      Some ((if cm_result m = 0 then UpdateCtrlStates (d0\<lparr>bLogin := True\<rparr>) else d0)
        \<lparr>w_ClientList := [], ed_log := t, heart_threads := heart_threads d + 1\<rparr>, [])"
    using assms(2,3) by (auto simp: win_dispatch_def d0(3) on_w_login_def Let_def UpdateCtrlStates_def same)
  then obtain t where t: "win_dispatch heap0 m0 r2 d0 =
      Some ((if cm_result m = 0 then UpdateCtrlStates (d0\<lparr>bLogin := True\<rparr>) else d0)
        \<lparr>w_ClientList := [], ed_log := t, heart_threads := heart_threads d + 1\<rparr>, [])" by blast
  let ?n = "overwrite (zeros 32) (m_strMyID d @ [0])"
  let ?beat = "win_msg\<lparr>cm_uiMsgType := win_code W_C_HEART_BEAT, cMyName := ?n\<rparr>"
  have "CommMsg_ok WIN_NAME_SIZE ?beat"
    using assms(7) by (intro CommMsg_ok_update) (simp_all add: WIN_NAME_SIZE_def new_stCommMsg_ok [of 32])
  then have beat: "win_send_msg e ?beat (remoteAddr d) = [W_Send (remoteAddr d) (put_CommMsg ?beat)]"
    if "m_cliSocket e \<noteq> INVALID_SOCKET" for e
    using that by (simp add: win_send_msg_plain win_send_def del: win_code.simps)
  have n: "strcpy (zeros 32) (GetBuffer (m_strMyID d)) = Some ?n" "c_str ?n = Some (m_strMyID d)"
    using assms by (simp_all add: GetBuffer_def strcpy_fits)
  show ?thesis
  proof (cases "cm_result m = 0")
    case True
    with t d0(1) same n assms(5) beat show ?thesis
      by (auto simp: UpdateCtrlStates_def thread_heart_proc_def GetUserList_def simp del: win_code.simps intro!: exI [of _ ?beat])
  next
    case False
    with t d0(1) same show ?thesis by (auto simp: thread_heart_proc_def)
  qed
qed

definition login_answer :: "u32 \<Rightarrow> stCommMsg" where
  "login_answer r = win_msg\<lparr>cm_uiMsgType := win_code W_R_LOGIN, cm_result := r\<rparr>"

lemma login_answer_facts:
  "CommMsg_ok WIN_NAME_SIZE (login_answer r)" "cm_uiMsgType (login_answer r) = win_code W_R_LOGIN"
  "userNums (login_answer r) = 0" "cm_result (login_answer r) = r"
  using new_stCommMsg_ok [of WIN_NAME_SIZE] by (simp_all add: login_answer_def CommMsg_ok_def)

theorem win_login_response_witness:
  "\<exists>d1 d2. thread_recv_proc (\<lambda>i. 0) [] (Recv_Dgram (put_CommMsg (login_answer 1)) (remoteAddr example_dlg)) Recv_Err
      (example_dlg\<lparr>bLogin := False\<rparr>) = Some (d1, []) \<and>
    thread_heart_proc d1 = Some (False, d2, []) \<and> \<not> h_recv d2"
proof -
  let ?d = "example_dlg\<lparr>bLogin := False\<rparr>"
  have d: "length (w_buf ?d) = 1024" "m_cliSocket ?d \<noteq> INVALID_SOCKET" "0 \<notin> set (m_strMyID ?d)" "length (m_strMyID ?d) < 32"
    by (simp_all add: example_dlg_def INVALID_SOCKET_def bytes_def)
  from win_login_response [OF login_answer_facts(1,2,3) [of 1] d, where ?r2.0 = Recv_Err and ?m0.0 = "[]" and ?heap0.0 = "\<lambda>i. 0"
      and a = "remoteAddr example_dlg"]
  show ?thesis by (auto simp: login_answer_facts)
qed

section \<open>The punch\<close>

definition plain_win :: "p2p_id \<Rightarrow> stCommMsg" where
  "plain_win i = win_msg\<lparr>cm_uiMsgType := p2p_code i\<rparr>"

lemma plain_win_facts: "CommMsg_ok WIN_NAME_SIZE (plain_win i)" "cm_uiMsgType (plain_win i) = p2p_code i"
  by (simp_all add: plain_win_def CommMsg_ok_update)

text \<open>C8. The handshake of two clients. Told that it can start, client A sends a punch to the listed address of
  the peer it wants and starts its timer; client B answers the punch to the address it came
  from, without a change of its own modes; and the answer makes A connected, after which the timer
  does nothing. If the answer does not come, the timer switches A to the relay and stops.\<close>

theorem win_punch_handshake:
  assumes A: "length (w_buf A) = 1024" "m_cliSocket A \<noteq> INVALID_SOCKET" "0 \<notin> set (m_strToID A)"
      "\<forall>u \<in> set (w_ClientList A). 0 \<in> set (tm_userName u)"
      "find_first (\<lambda>u. c_str (tm_userName u) = Some (m_strToID A)) (w_ClientList A) = Some u"
    and B: "length (w_buf B) = 1024" "m_cliSocket B \<noteq> INVALID_SOCKET"
    and start: "CommMsg_ok WIN_NAME_SIZE m" "cm_uiMsgType m = p2p_code P2PCANSTART"
  shows "\<exists>A1 p B1 ok A2.
    thread_recv_proc heap0 m0 (Recv_Dgram (put_CommMsg m) srv) r2 A = Some (A1, [W_Send (node_addr u) p]) \<and> timer1 A1 \<and>
    thread_recv_proc heap0 m0 (Recv_Dgram p addrA) r2 B = Some (B1, [W_Send addrA ok]) \<and> modes B1 = modes B \<and>
    thread_recv_proc heap0 m0 (Recv_Dgram ok addrB) r2 A1 = Some (A2, []) \<and> bConnect A2 \<and> OnTimer 1 A2 = Some (A2, []) \<and>
    (\<not> bConnect A \<longrightarrow> (\<exists>A3. OnTimer 1 A1 = Some (A3, []) \<and> bRelay A3 \<and> \<not> timer1 A3))"
proof -
  obtain A' where A': "thread_recv_proc heap0 m0 (Recv_Dgram (put_CommMsg m) srv) r2 A = win_dispatch heap0 m0 r2 A'"
      "A' = A\<lparr>w_buf := overwrite (w_buf A) (put_CommMsg m), w_remote := srv\<rparr>" "recvbuf A' = m"
    by (rule recv_msg [OF start(1) A(1)])
  let ?A1 = "A'\<lparr>timer1 := True\<rparr>"
  have same: "m_strToID A' = m_strToID A" "w_ClientList A' = w_ClientList A" "m_cliSocket A' = m_cliSocket A"
    "bConnect A' = bConnect A" by (simp_all add: A'(2))
  have "c_str (GetBuffer (m_strToID A)) = Some (m_strToID A)" using A(3) by (simp add: GetBuffer_def)
  then have "GetLocalUser (w_ClientList A) (GetBuffer (m_strToID A)) = Some u"
    using user_lookup.lookup_first [OF A(4)] A(5) by simp
  then have "on_canstart A' = Some (?A1, [W_Send (node_addr u) (put_CommMsg (plain_win P2PPUNCH2))])"
    using A(2) by (simp add: on_canstart_def same Let_def win_send_def node_addr_def plain_win_def del: p2p_code.simps)
  moreover have "win_dispatch heap0 m0 r2 A' = on_canstart A'"
    by (simp add: win_dispatch_def A'(3) start(2))
  ultimately have 1: "thread_recv_proc heap0 m0 (Recv_Dgram (put_CommMsg m) srv) r2 A =
      Some (?A1, [W_Send (node_addr u) (put_CommMsg (plain_win P2PPUNCH2))])" using A'(1) by simp
  obtain B' where B': "thread_recv_proc heap0 m0 (Recv_Dgram (put_CommMsg (plain_win P2PPUNCH2)) addrA) r2 B = win_dispatch heap0 m0 r2 B'"
      "B' = B\<lparr>w_buf := overwrite (w_buf B) (put_CommMsg (plain_win P2PPUNCH2)), w_remote := addrA\<rparr>"
      "recvbuf B' = plain_win P2PPUNCH2"
    by (rule recv_msg [OF plain_win_facts(1) B(1)])
  then have 2: "thread_recv_proc heap0 m0 (Recv_Dgram (put_CommMsg (plain_win P2PPUNCH2)) addrA) r2 B =
      Some (B', [W_Send addrA (put_CommMsg (plain_win P2PPUNCHOK))])" and mB: "modes B' = modes B"
    using B(2) by (simp_all add: win_dispatch_def plain_win_facts on_punch2_def win_send_def plain_win_def [of P2PPUNCHOK])
  have "length (w_buf ?A1) = 1024" using A(1) start(1) by (simp add: A'(2))
  then obtain A'' where A'': "thread_recv_proc heap0 m0 (Recv_Dgram (put_CommMsg (plain_win P2PPUNCHOK)) addrB) r2 ?A1 = win_dispatch heap0 m0 r2 A''"
      "recvbuf A'' = plain_win P2PPUNCHOK"
    by (rule recv_msg [OF plain_win_facts(1)]) (rule that)
  then obtain A2 where 3: "thread_recv_proc heap0 m0 (Recv_Dgram (put_CommMsg (plain_win P2PPUNCHOK)) addrB) r2 ?A1 = Some (A2, [])" "bConnect A2"
    by (simp add: win_dispatch_def plain_win_facts on_punchok_def)
  have "OnTimer 1 A2 = Some (A2, [])" using 3(2) by (simp add: OnTimer_def timer_test_def)
  moreover have "\<not> bConnect A \<longrightarrow> (\<exists>A3. OnTimer 1 ?A1 = Some (A3, []) \<and> bRelay A3 \<and> \<not> timer1 A3)"
    by (simp add: OnTimer_def timer_test_def same)
  moreover have "timer1 ?A1" by simp
  ultimately show ?thesis using 1 2 3 mB by blast
qed

theorem win_punch_handshake_witness:
  "\<exists>A1 p. thread_recv_proc (\<lambda>i. 0) [] (Recv_Dgram (put_CommMsg (plain_win P2PCANSTART)) (remoteAddr example_dlg)) Recv_Err example_dlg =
      Some (A1, [W_Send (node_addr example_node) p]) \<and> timer1 A1"
proof -
  have to: "m_strToID example_dlg = bytes ''john''" by (simp add: example_dlg_def)
  then have u: "0 \<notin> set (m_strToID example_dlg)"
      "find_first (\<lambda>u. c_str (tm_userName u) = Some (m_strToID example_dlg)) (w_ClientList example_dlg) = Some example_node"
    by (simp_all only: to example_dlg_facts not_False_eq_True)
  from win_punch_handshake [OF example_dlg_facts(8,9) u(1) example_dlg_facts(6) u(2) example_dlg_facts(8,9)
      plain_win_facts(1,2), where ?r2.0 = Recv_Err and ?m0.0 = "[]" and ?heap0.0 = "\<lambda>i. 0" and srv = "remoteAddr example_dlg"
      and addrA = "remoteAddr example_dlg" and addrB = "remoteAddr example_dlg"]
  show ?thesis by blast
qed

section \<open>The timer and the answer to a punch\<close>

text \<open>C10. The timer handler races with the receiving thread. In every state in which the timer runs, the client is
  not connected, its socket is open and the receiver exists, the answer to its punch may be handled between the timer handler's
  test of \<^verbatim>\<open>bConnect\<close> and its assignment of \<^verbatim>\<open>bRelay\<close>: the client is then connected and relays all the same,
  and it stays so for the rest of the run.\<close>

theorem win_timer_race:
  assumes "timer1 d" and "\<not> bConnect d" and "h_recv d" and "m_cliSocket d \<noteq> INVALID_SOCKET" and "length (w_buf d) = 1024"
  shows "\<exists>d'. win_reach (d, False) [] (d', False) \<and> bConnect d' \<and> bRelay d' \<and> \<not> timer1 d' \<and>
    (\<forall>outs d2 b. win_reach (d', False) outs (d2, b) \<longrightarrow> bConnect d2 \<and> bRelay d2)"
proof -
  let ?op = "Do_Recv (\<lambda>i. 0) [] (Recv_Dgram (put_CommMsg (plain_win P2PPUNCHOK)) (remoteAddr d)) Recv_Err"
  obtain d1 where d1: "win_exec ?op d = Some (d1, [])" "bConnect d1"
  proof -
    obtain d0 where "win_exec ?op d = win_dispatch (\<lambda>i. 0) [] Recv_Err d0" "recvbuf d0 = plain_win P2PPUNCHOK"
      by (rule recv_msg [OF plain_win_facts(1) assms(5)]) (rule that, simp_all)
    then show ?thesis by (intro that) (auto simp: win_dispatch_def plain_win_facts on_punchok_def)
  qed
  have "win_reach (d, False) [] (d, True)"
    using win_reach_one [of "Do_Timer 1" d False d "[]"] assms(1,2) by (simp add: timer_test_def)
  from win_step [OF this, of ?op d1 "[]"] d1 assms(3) have "win_reach (d, False) [] (d1, True)" by simp
  from win_step [OF this, of Do_Timer_relay] have "win_reach (d, False) [] (timer_relay d1, False)" by simp
  moreover have "bConnect d2 \<and> bRelay d2" if "win_reach (timer_relay d1, False) outs (d2, b)" for outs d2 b
    using win_reach_sticky [OF that] d1(2) by (simp add: sticky_def)
  ultimately show ?thesis using d1(2) by (intro exI [of _ "timer_relay d1"]) auto
qed

theorem win_timer_race_witness:
  "\<exists>d'. win_reach (example_dlg\<lparr>bConnect := False\<rparr>, False) [] (d', False) \<and> bConnect d' \<and> bRelay d'"
proof -
  let ?d = "example_dlg\<lparr>bConnect := False\<rparr>"
  have "timer1 ?d" "\<not> bConnect ?d" "h_recv ?d" "m_cliSocket ?d \<noteq> INVALID_SOCKET" "length (w_buf ?d) = 1024"
    by (simp_all add: example_dlg_def INVALID_SOCKET_def)
  from win_timer_race [OF this] show ?thesis by blast
qed

end
