(* ===== verification/FTC_Time.thy ===== *)
theory FTC_Time
  imports FTC_Message "HOL-Library.Signed_Division"
begin

text \<open>
  Time and signals: \<^verbatim>\<open>P2P_Server_src/FTC_Time.c\<close>, and the sleep of \<^verbatim>\<open>FTCTask.c\<close>.

  Results of the kernel are arguments. \<^verbatim>\<open>U32\<close> values are words, so the readings wrap as they do in
  the program; \<^verbatim>\<open>long\<close> and \<^verbatim>\<open>S32\<close> values are integers.
\<close>

section \<open>Definitions\<close>

text \<open>The call handed to \<^verbatim>\<open>sigaction\<close>; its result is not looked at.\<close>

record sig_action =
  sa_signum :: u32
  sa_handler :: nat
  sa_flags :: int

definition FTC_AttachSignal :: "u32 \<Rightarrow> nat \<Rightarrow> E_StateCode \<times> sig_action" where
  "FTC_AttachSignal uiSegId handler =
     (STATE_CODE_NO_ERROR, \<lparr>sa_signum = uiSegId, sa_handler = handler, sa_flags = 0\<rparr>)"

record clk_statics =
  niClkSec :: int
  niMsPreClk :: int

text \<open>\<open>clk_tck\<close> is what \<^verbatim>\<open>sysconf\<close> and \<open>now\<close> what \<^verbatim>\<open>times\<close> returns. The first value is kept in a static
  variable. A product outside the 64 bit type of \<^verbatim>\<open>tNow\<close> overflows.\<close>

definition FTC_GetCpuStartInMsec :: "int \<Rightarrow> int \<Rightarrow> clk_statics \<Rightarrow> (u32 \<times> clk_statics) option" where
  "FTC_GetCpuStartInMsec clk_tck now st = do {
     st \<leftarrow> (if niClkSec st = 0
           then (if clk_tck = - 1 then Some (st\<lparr>niClkSec := 0\<rparr>)
                 else if clk_tck = 0 then None
                 else Some (st\<lparr>niClkSec := clk_tck, niMsPreClk := 1000 sdiv clk_tck\<rparr>))
           else Some st);
     if niClkSec st \<noteq> 0 \<and> now \<noteq> - 1
     then (let p = niMsPreClk st * now
           in if p < - (2 ^ 63) \<or> p \<ge> 2 ^ 63 then None else Some (of_int p, st))
     else Some (0, st) }"

text \<open>\<open>tod\<close> is the time of day, \<open>None\<close> if the call fails.\<close>

definition FTC_GetCurTimeInMsec :: "(int \<times> int) option \<Rightarrow> u32" where
  "FTC_GetCurTimeInMsec tod =
     (case tod of None \<Rightarrow> 0 | Some (sec, usec) \<Rightarrow> of_int (sec * 1000 + usec sdiv 1000))"

text \<open>The argument of \<^verbatim>\<open>nanosleep\<close>: seconds and nanoseconds. \<^verbatim>\<open>FTC_Sleep\<close> computes in \<^verbatim>\<open>U32\<close>,
  \<^verbatim>\<open>TSK_wait\<close> in \<^verbatim>\<open>S32\<close>.\<close>

definition FTC_Sleep :: "u32 \<Rightarrow> int \<times> int" where
  "FTC_Sleep uiMS = (uint (uiMS div 1000), uint ((uiMS mod 1000) * 1000000))"

definition TSK_wait :: "int \<Rightarrow> int \<times> int" where
  "TSK_wait uiMS = (uiMS sdiv 1000, (uiMS smod 1000) * 1000000)"

text \<open>Both pointers may be NULL, but not both at once; the result is the return value and whether
  \<^verbatim>\<open>gettimeofday\<close> was called with them.\<close>

definition FTC_Gettimeofday :: "bool \<Rightarrow> bool \<Rightarrow> int \<times> bool" where
  "FTC_Gettimeofday tp_null tzp_null = (if tp_null \<and> tzp_null then (- 1, False) else (0, True))"

definition timespec_ok :: "int \<times> int \<Rightarrow> bool" where
  "timespec_ok t \<longleftrightarrow> 0 \<le> fst t \<and> 0 \<le> snd t \<and> snd t < 1000000000"

section \<open>Properties\<close>

lemma uint_div_1000: "uint ((w :: u32) div 1000) = uint w div 1000"
  by (simp add: uint_div)

lemma uint_mod_1000: "uint ((w :: u32) mod 1000) = uint w mod 1000"
  by (simp add: uint_mod)

lemma TSK_wait_nonneg: "0 \<le> a \<Longrightarrow> TSK_wait a = (a div 1000, (a mod 1000) * 1000000)"
  by (cases "a = 0") (simp_all add: TSK_wait_def signed_divide_int_def signed_modulo_int_def sgn_if)

text \<open>A sleep request is exact and valid for the kernel for every number of milliseconds that
  \<^verbatim>\<open>FTC_Sleep\<close> can be given: no intermediate product wraps; the sleep of the tasks agrees with it
  on the non-negative \<^verbatim>\<open>S32\<close> values.\<close>

lemma FTC_Sleep_exact:
  "timespec_ok (FTC_Sleep w) \<and>
   fst (FTC_Sleep w) * 1000000000 + snd (FTC_Sleep w) = uint w * 1000000 \<and>
   (uint w < 2 ^ 31 \<longrightarrow> TSK_wait (uint w) = FTC_Sleep w)"
proof -
  have m: "uint ((w mod 1000) * 1000000) = (uint w mod 1000) * 1000000"
  proof -
    have "uint ((w mod 1000) * 1000000) = (uint (w mod 1000) * 1000000) mod 2 ^ 32"
      by (simp add: uint_word_ariths)
    also have "\<dots> = (uint w mod 1000) * 1000000"
    proof -
      have "0 \<le> uint w mod 1000" "uint w mod 1000 < 1000" by simp_all
      moreover have "x * 1000000 < 2 ^ 32" if "x < 1000" for x :: int using that by simp
      ultimately have "(uint w mod 1000) * 1000000 < 2 ^ 32" by blast
      with \<open>0 \<le> uint w mod 1000\<close> show ?thesis
        by (simp only: uint_mod_1000) (simp add: mod_pos_pos_trivial)
    qed
    finally show ?thesis .
  qed
  have s: "FTC_Sleep w = (uint w div 1000, (uint w mod 1000) * 1000000)"
    by (simp add: FTC_Sleep_def uint_div_1000 m)
  have "uint w div 1000 * 1000000000 + (uint w mod 1000) * 1000000 = uint w * 1000000"
  proof -
    have "a div 1000 * 1000000000 + (a mod 1000) * 1000000 = a * 1000000" for a :: int
      using div_mult_mod_eq [of a 1000] by linarith
    then show ?thesis .
  qed
  moreover have "0 \<le> uint w" "uint w mod 1000 < 1000" "0 \<le> uint w mod 1000" by simp_all
  ultimately show ?thesis
    by (simp add: s timespec_ok_def TSK_wait_nonneg pos_imp_zdiv_nonneg_iff)
qed

lemma FTC_Sleep_exact_example: "TSK_wait 10 = FTC_Sleep 10 \<and> FTC_Sleep 1500 = (1, 500000000)"
  using FTC_Sleep_exact [of 10] by (auto simp: FTC_Sleep_def)

text \<open>The millisecond clock wraps about every 49.7 days, and differences survive the wrap: the \<^verbatim>\<open>U32\<close>
  difference of two readings is the elapsed time in milliseconds modulo \<open>2\<^sup>3\<^sup>2\<close>, so it is exact for
  spans shorter than that.\<close>

lemma FTC_GetCurTimeInMsec_difference:
  assumes "0 \<le> u1" and "0 \<le> u2" and "s1 * 1000 + u1 div 1000 \<le> s2 * 1000 + u2 div 1000"
    and "(s2 * 1000 + u2 div 1000) - (s1 * 1000 + u1 div 1000) < 2 ^ 32"
  shows "uint (FTC_GetCurTimeInMsec (Some (s2, u2)) - FTC_GetCurTimeInMsec (Some (s1, u1))) =
    (s2 * 1000 + u2 div 1000) - (s1 * 1000 + u1 div 1000)"
proof -
  let ?t = "\<lambda>s u. s * 1000 + u div (1000 :: int)"
  have r: "FTC_GetCurTimeInMsec (Some (s, u)) = of_int (?t s u)" if "0 \<le> u" for s u
    using that by (simp add: FTC_GetCurTimeInMsec_def signed_divide_int_def sgn_if)
  have "uint (of_int (?t s2 u2) - of_int (?t s1 u1) :: u32) = (?t s2 u2 - ?t s1 u1) mod 2 ^ 32"
    by (simp only: of_int_diff [symmetric] uint_word_of_int) (simp add: take_bit_eq_mod)
  also have "\<dots> = ?t s2 u2 - ?t s1 u1" using assms(3,4) by (intro mod_pos_pos_trivial) auto
  finally show ?thesis using r assms(1,2) by simp
qed

lemma FTC_GetCurTimeInMsec_difference_example:
  "uint (FTC_GetCurTimeInMsec (Some (4294968, 0)) - FTC_GetCurTimeInMsec (Some (4294967, 0))) = 1000"
  using FTC_GetCurTimeInMsec_difference [of 0 0 4294967 4294968] by simp

text \<open>With the usual 100 ticks a second the processor clock counts in steps of ten milliseconds, and
  the conversion factor is fixed by the first successful call.\<close>

lemma FTC_GetCpuStartInMsec_cached:
  assumes "FTC_GetCpuStartInMsec clk now st = Some (r, st')" and "niClkSec st \<noteq> 0"
  shows "st' = st"
  using assms by (auto simp: FTC_GetCpuStartInMsec_def Let_def split: if_splits)

lemma FTC_GetCpuStartInMsec_100:
  assumes "0 \<le> now" and "now < 2 ^ 59"
  shows "FTC_GetCpuStartInMsec 100 now \<lparr>niClkSec = 0, niMsPreClk = 0\<rparr> =
    Some (of_int (10 * now), \<lparr>niClkSec = 100, niMsPreClk = 10\<rparr>)"
  using assms by (simp add: FTC_GetCpuStartInMsec_def Let_def signed_divide_int_def)

end
