(* ===== verification/FTC_Mutex.thy ===== *)
theory FTC_Mutex
  imports P2P_Prelude
begin

text \<open>
  The mutexes of \<^verbatim>\<open>P2P_Server_src/FTCMutex.c\<close> on Linux.

  A handle is NULL or the address of an allocated mutex. The pthread library is not part of the repository:
  its four calls are the record \<open>pthread\<close>, over the state \<open>'k\<close> of all mutexes. A call that waits is kept
  apart from one that returns; \<open>None\<close> is undefined behaviour. What POSIX promises of a normal mutex is
  \<open>normal_mutexes\<close>.
\<close>

section \<open>Operations\<close>

type_synonym HMUTEX = "nat option"
type_synonym thread_id = nat

abbreviation HMUTEX_INVALID :: HMUTEX where "HMUTEX_INVALID \<equiv> None"

datatype 'k lock_result = Waits | Returns int 'k

record 'k pthread =
  pthread_mutex_init :: "nat \<Rightarrow> 'k \<Rightarrow> 'k"
  pthread_mutex_destroy :: "nat \<Rightarrow> 'k \<Rightarrow> 'k option"
  pthread_mutex_lock :: "thread_id \<Rightarrow> nat \<Rightarrow> 'k \<Rightarrow> 'k lock_result option"
  pthread_mutex_unlock :: "thread_id \<Rightarrow> nat \<Rightarrow> 'k \<Rightarrow> (int \<times> 'k) option"

text \<open>\<open>alloc\<close> is the address \<^verbatim>\<open>malloc\<close> returns.\<close>

definition FTC_MutexCreate :: "'k pthread \<Rightarrow> nat option \<Rightarrow> 'k \<Rightarrow> HMUTEX \<times> 'k" where
  "FTC_MutexCreate api alloc k =
     (let result = alloc in
      case result of None \<Rightarrow> (result, k) | Some a \<Rightarrow> (result, pthread_mutex_init api a k))"

text \<open>The block is freed behind the call of \<^verbatim>\<open>pthread_mutex_destroy\<close>; the result says which one.\<close>

definition FTC_MutexDestroy :: "'k pthread \<Rightarrow> HMUTEX \<Rightarrow> 'k \<Rightarrow> (nat option \<times> 'k) option" where
  "FTC_MutexDestroy api pHandle k =
     (case pHandle of
        None \<Rightarrow> Some (None, k)
      | Some a \<Rightarrow> do { k \<leftarrow> pthread_mutex_destroy api a k; Some (Some a, k) })"

definition FTC_MutexLock :: "'k pthread \<Rightarrow> thread_id \<Rightarrow> HMUTEX \<Rightarrow> 'k \<Rightarrow> 'k lock_result option" where
  "FTC_MutexLock api t pHandle k =
     (case pHandle of
        None \<Rightarrow> Some (Returns (- 1) k)
      | Some a \<Rightarrow> pthread_mutex_lock api t a k)"

definition FTC_MutexUnLock :: "'k pthread \<Rightarrow> thread_id \<Rightarrow> HMUTEX \<Rightarrow> 'k \<Rightarrow> (int \<times> 'k) option" where
  "FTC_MutexUnLock api t pHandle k =
     (case pHandle of
        None \<Rightarrow> Some (- 1, k)
      | Some a \<Rightarrow> pthread_mutex_unlock api t a k)"

section \<open>Sections under a mutex\<close>

text \<open>\<open>holder k a\<close> is \<open>None\<close> if there is no mutex at \<open>a\<close>, and otherwise the thread that holds it, if any.\<close>

definition normal_mutexes :: "'k pthread \<Rightarrow> ('k \<Rightarrow> nat \<Rightarrow> thread_id option option) \<Rightarrow> bool" where
  "normal_mutexes api holder \<longleftrightarrow>
     (\<forall>a k. holder (pthread_mutex_init api a k) = (holder k)(a := Some None)) \<and>
     (\<forall>t a k. holder k a = Some None \<longrightarrow>
        (\<exists>k'. pthread_mutex_lock api t a k = Some (Returns 0 k') \<and> holder k' = (holder k)(a := Some (Some t)))) \<and>
     (\<forall>t u a k. holder k a = Some (Some u) \<longrightarrow> pthread_mutex_lock api t a k = Some Waits) \<and>
     (\<forall>t a k. holder k a = Some (Some t) \<longrightarrow>
        (\<exists>k'. pthread_mutex_unlock api t a k = Some (0, k') \<and> holder k' = (holder k)(a := Some None)))"

lemma normal_mutexesD:
  assumes "normal_mutexes api holder"
  shows normal_init: "holder (pthread_mutex_init api a k) = (holder k)(a := Some None)"
    and normal_lock: "holder k a = Some None \<Longrightarrow>
      \<exists>k'. pthread_mutex_lock api t a k = Some (Returns 0 k') \<and> holder k' = (holder k)(a := Some (Some t))"
    and normal_wait: "holder k a = Some (Some u) \<Longrightarrow> pthread_mutex_lock api t a k = Some Waits"
    and normal_unlock: "holder k a = Some (Some t) \<Longrightarrow>
      \<exists>k'. pthread_mutex_unlock api t a k = Some (0, k') \<and> holder k' = (holder k)(a := Some None)"
  using assms unfolding normal_mutexes_def by blast+

text \<open>Threads that take and release one mutex in any order: \<open>inside\<close> are the threads between a
  lock that returned 0 and their unlock.\<close>

inductive mutex_run :: "'k pthread \<Rightarrow> nat \<Rightarrow> 'k \<times> thread_id set \<Rightarrow> bool" for api a where
  create: "FTC_MutexCreate api (Some a) k = (Some a, k') \<Longrightarrow> mutex_run api a (k', {})"
| lock: "mutex_run api a (k, inside) \<Longrightarrow> FTC_MutexLock api t (Some a) k = Some (Returns 0 k') \<Longrightarrow>
     mutex_run api a (k', insert t inside)"
| unlock: "mutex_run api a (k, inside) \<Longrightarrow> t \<in> inside \<Longrightarrow> FTC_MutexUnLock api t (Some a) k = Some (0, k') \<Longrightarrow>
     mutex_run api a (k', inside - {t})"

lemma mutex_run_holder:
  assumes "normal_mutexes api holder"
  shows "mutex_run api a s \<Longrightarrow> (case s of (k, inside) \<Rightarrow>
     (inside = {} \<and> holder k a = Some None) \<or> (\<exists>t. inside = {t} \<and> holder k a = Some (Some t)))"
proof (induction rule: mutex_run.induct)
  case (create k k')
  then show ?case using normal_init [OF assms] by (auto simp: FTC_MutexCreate_def)
next
  case (lock k inside t k')
  from lock.IH consider "inside = {}" "holder k a = Some None" | u where "inside = {u}" "holder k a = Some (Some u)" by auto
  then show ?case
  proof cases
    case 1
    obtain k1 where "pthread_mutex_lock api t a k = Some (Returns 0 k1)" "holder k1 = (holder k)(a := Some (Some t))"
      using normal_lock [OF assms 1(2), of t] by blast
    with lock.hyps(2) 1 show ?thesis by (simp add: FTC_MutexLock_def)
  next
    case 2
    have "pthread_mutex_lock api t a k = Some Waits" by (rule normal_wait [OF assms 2(2)])
    with lock.hyps(2) show ?thesis by (simp add: FTC_MutexLock_def)
  qed
next
  case (unlock k inside t k')
  then have own: "holder k a = Some (Some t)" "inside = {t}" by auto
  obtain k1 where "pthread_mutex_unlock api t a k = Some (0, k1)" "holder k1 = (holder k)(a := Some None)"
    using normal_unlock [OF assms own(1)] by blast
  with unlock.hyps(3) own(2) show ?case by (simp add: FTC_MutexUnLock_def)
qed

text \<open>Over normal mutexes the wrapper gives mutual exclusion and progress: however threads interleave their
  calls on a created mutex, at most one of them is between its lock and its unlock; while none is, any thread
  gets in; and a thread inside can always leave with result 0, while another one that tries to enter waits.\<close>

lemma mutex_exclusion:
  assumes laws: "normal_mutexes api holder" and run: "mutex_run api a (k, inside)"
  shows "inside = {} \<Longrightarrow> \<exists>k'. FTC_MutexLock api t (Some a) k = Some (Returns 0 k') \<and> mutex_run api a (k', {t})"
    and "t \<in> inside \<Longrightarrow> inside = {t} \<and> (\<forall>u. FTC_MutexLock api u (Some a) k = Some Waits) \<and>
      (\<exists>k'. FTC_MutexUnLock api t (Some a) k = Some (0, k') \<and> mutex_run api a (k', {}))"
proof -
  assume empty: "inside = {}"
  then have "holder k a = Some None" using mutex_run_holder [OF laws run] by auto
  from normal_lock [OF laws this, of t] obtain k' where "FTC_MutexLock api t (Some a) k = Some (Returns 0 k')"
    by (auto simp: FTC_MutexLock_def)
  with mutex_run.lock [OF run this] empty
  show "\<exists>k'. FTC_MutexLock api t (Some a) k = Some (Returns 0 k') \<and> mutex_run api a (k', {t})" by blast
next
  assume t: "t \<in> inside"
  then have own: "inside = {t}" "holder k a = Some (Some t)" using mutex_run_holder [OF laws run] by auto
  have "FTC_MutexLock api u (Some a) k = Some Waits" for u
    by (simp add: FTC_MutexLock_def normal_wait [OF laws own(2)])
  moreover obtain k' where k': "FTC_MutexUnLock api t (Some a) k = Some (0, k')"
    using normal_unlock [OF laws own(2)] by (auto simp: FTC_MutexUnLock_def)
  moreover from mutex_run.unlock [OF run t k'] own(1) have "mutex_run api a (k', {})" by simp
  ultimately show "inside = {t} \<and> (\<forall>u. FTC_MutexLock api u (Some a) k = Some Waits) \<and>
      (\<exists>k'. FTC_MutexUnLock api t (Some a) k = Some (0, k') \<and> mutex_run api a (k', {}))" using own(1) by blast
qed

text \<open>A table of holders satisfies the laws.\<close>

definition table_pthread :: "(nat \<Rightarrow> thread_id option option) pthread" where
  "table_pthread = \<lparr>pthread_mutex_init = (\<lambda>a k. k(a := Some None)),
     pthread_mutex_destroy = (\<lambda>a k. if k a = Some None then Some (k(a := None)) else None),
     pthread_mutex_lock = (\<lambda>t a k. case k a of None \<Rightarrow> None | Some None \<Rightarrow> Some (Returns 0 (k(a := Some (Some t))))
       | Some (Some _) \<Rightarrow> Some Waits),
     pthread_mutex_unlock = (\<lambda>t a k. if k a = Some (Some t) then Some (0, k(a := Some None)) else None)\<rparr>"

lemma table_pthread_normal: "normal_mutexes table_pthread (\<lambda>k. k)"
  by (simp add: normal_mutexes_def table_pthread_def)

lemma mutex_exclusion_example:
  "\<exists>k. mutex_run table_pthread 1 (k, {7}) \<and> FTC_MutexLock table_pthread 8 (Some 1) k = Some Waits"
proof -
  have "mutex_run table_pthread 1 ((\<lambda>_. None)(1 := Some None), {})"
    by (rule mutex_run.create [of _ _ "\<lambda>_. None"]) (simp add: FTC_MutexCreate_def table_pthread_def)
  from mutex_exclusion(1) [OF table_pthread_normal this, of 7] obtain k where "mutex_run table_pthread 1 (k, {7})" by blast
  with mutex_exclusion(2) [OF table_pthread_normal this, of 7] show ?thesis by blast
qed

text \<open>A handle that could not be allocated is refused by lock and unlock and ignored by destroy, without a call
  of the library.\<close>

lemma null_handle:
  "FTC_MutexCreate api None k = (HMUTEX_INVALID, k)"
  "FTC_MutexLock api t HMUTEX_INVALID k = Some (Returns (- 1) k)"
  "FTC_MutexUnLock api t HMUTEX_INVALID k = Some (- 1, k)"
  "FTC_MutexDestroy api HMUTEX_INVALID k = Some (None, k)"
  by (simp_all add: FTC_MutexCreate_def FTC_MutexLock_def FTC_MutexUnLock_def FTC_MutexDestroy_def)

end
