(* ===== verification/FTC_Task.thy ===== *)
theory FTC_Task
  imports FTC_Time
begin

unbundle bit_operations_syntax

text \<open>
  The task wrapper \<^verbatim>\<open>P2P_Server_src/FTCTask.c\<close>.

  Creation is a function of the results of its library calls and yields the actions it takes.
  A task and a caller of \<^verbatim>\<open>TSK_delete\<close> run concurrently on the shared task structure: the step
  relation \<open>tsk_step\<close> interleaves their accesses, one statement of the source at a time.
\<close>

section \<open>Types\<close>

datatype E_TskState = TSK_STATE_IDLE | TSK_STATE_RUNNING | TSK_STATE_TERMINATING

fun tsk_state_code :: "E_TskState \<Rightarrow> int" where
  "tsk_state_code TSK_STATE_IDLE = 0"
| "tsk_state_code TSK_STATE_RUNNING = 1"
| "tsk_state_code TSK_STATE_TERMINATING = 2"

record TSK_Attrs =
  ta_priority :: int
  ta_stack :: "nat option"
  ta_stacksize :: u32
  ta_stackseg :: int
  ta_environ :: "nat option"
  ta_name :: "byte list option"
  ta_exitflag :: bool
  ta_initstackflag :: bool
  ta_bFifo :: bool

definition DEFAULT_TSK_ATTR :: TSK_Attrs where
  "DEFAULT_TSK_ATTR = \<lparr>ta_priority = 20, ta_stack = None, ta_stacksize = 8 * 1024, ta_stackseg = 0,
     ta_environ = None, ta_name = None, ta_exitflag = False, ta_initstackflag = False, ta_bFifo = False\<rparr>"

definition TSK_STACK_SIZE_DEFAULT :: u32 where "TSK_STACK_SIZE_DEFAULT = 0"

definition TSK_DELETE_TRY_TIMES :: nat where "TSK_DELETE_TRY_TIMES = 100"

text \<open>\<^verbatim>\<open>FTC_CREATE_THREADEX\<close>: the result of \<^verbatim>\<open>pthread_create\<close> as TRUE or FALSE.\<close>

definition FTC_CREATE_THREADEX :: "int \<Rightarrow> bool" where
  "FTC_CREATE_THREADEX created = (0 = created)"

section \<open>Creating a task\<close>

text \<open>The results of the library calls. \<open>te_block\<close> is the usable size of the block that \<^verbatim>\<open>malloc\<close> gives for
  the task structure: the call asks for the size of a pointer, 8 bytes, while the member
  \<^verbatim>\<open>eTskState\<close> lies at the offsets 8 to 11.\<close>

record task_env =
  te_block :: "nat option"
  te_attr_init :: int
  te_inherit :: int
  te_policy :: int
  te_param :: int
  te_private :: bool
  te_create :: int
  te_pri_min :: u32
  te_pri_max :: u32

datatype tsk_act =
    Alloc_handle | Attr_init | Set_stack u32 | Set_priority u32 | Alloc_private | Spawn
  | Free_private | Attr_destroy | Free_handle

definition clamp_priority :: "u32 \<Rightarrow> u32 \<Rightarrow> int \<Rightarrow> u32" where
  "clamp_priority lo hi priority =
     (let uiPri = of_int priority in if uiPri > hi then hi else if uiPri < lo then lo else uiPri)"

definition TSK_create :: "task_env \<Rightarrow> TSK_Attrs \<Rightarrow> (bool \<times> tsk_act list) option" where
  "TSK_create env attrs =
     (case te_block env of
        None \<Rightarrow> Some (False, [])
      | Some block \<Rightarrow>
        if te_attr_init env \<noteq> 0 then Some (False, [Alloc_handle, Free_handle])
        else
          let acts = [Alloc_handle, Attr_init]
                @ (if TSK_STACK_SIZE_DEFAULT \<noteq> ta_stacksize attrs then [Set_stack (ta_stacksize attrs)] else []);
              uiPri = clamp_priority (te_pri_min env) (te_pri_max env) (ta_priority attrs);
              status = te_inherit env OR te_policy env OR te_param env;
              acts = acts @ (if ta_bFifo attrs then [Set_priority uiPri] else [])
          in if ta_bFifo attrs \<and> status \<noteq> 0 then Some (False, acts @ [Attr_destroy, Free_handle])
             else if block < 12 then None
             else if \<not> te_private env then Some (False, acts @ [Attr_destroy, Free_handle])
             else if te_create env \<noteq> 0
             then Some (False, acts @ [Alloc_private, Free_private, Attr_destroy, Free_handle])
             else Some (True, acts @ [Alloc_private, Spawn, Attr_destroy]))"

text \<open>What a list of actions leaves allocated: the handle, the parameter block, the attributes.\<close>

fun owned :: "tsk_act list \<Rightarrow> bool \<times> bool \<times> bool \<Rightarrow> bool \<times> bool \<times> bool" where
  "owned [] hpa = hpa"
| "owned (x # xs) (h, p, a) =
     owned xs (case x of Alloc_handle \<Rightarrow> (True, p, a) | Free_handle \<Rightarrow> (False, p, a)
       | Alloc_private \<Rightarrow> (h, True, a) | Free_private \<Rightarrow> (h, False, a)
       | Attr_init \<Rightarrow> (h, p, True) | Attr_destroy \<Rightarrow> (h, p, False) | _ \<Rightarrow> (h, p, a))"

text \<open>\<^verbatim>\<open>TSK_create\<close> leaks nothing: when it returns NULL everything it allocated is freed, when it
  returns a handle exactly the handle and the parameter block of the new thread remain, and the
  attribute object is destroyed in both cases; a priority it sets lies between the limits of
  the system. It is undefined if the block it gets holds no more than the 8 bytes asked for.\<close>

lemma TSK_create_balanced:
  assumes "TSK_create env attrs = r" and "te_pri_min env \<le> te_pri_max env"
  shows "(case r of
      None \<Rightarrow> \<exists>block. te_block env = Some block \<and> block < 12
    | Some (handle, acts) \<Rightarrow> owned acts (False, False, False) = (handle, handle, False) \<and>
        (\<forall>p. Set_priority p \<in> set acts \<longrightarrow> te_pri_min env \<le> p \<and> p \<le> te_pri_max env)) \<and>
    (te_block env = Some 8 \<and> te_attr_init env = 0 \<and> \<not> ta_bFifo attrs \<longrightarrow> r = None)"
proof -
  have "te_pri_min env \<le> clamp_priority (te_pri_min env) (te_pri_max env) i \<and>
      clamp_priority (te_pri_min env) (te_pri_max env) i \<le> te_pri_max env" for i
    using assms(2) by (auto simp: clamp_priority_def Let_def)
  then show ?thesis
    unfolding assms(1) [symmetric]
    by (cases "te_block env") (simp_all add: TSK_create_def Let_def)
qed

lemma TSK_create_balanced_example:
  "TSK_create \<lparr>te_block = Some 24, te_attr_init = 0, te_inherit = 0, te_policy = 0, te_param = 0, te_private = True,
      te_create = 11, te_pri_min = 1, te_pri_max = 99\<rparr> (DEFAULT_TSK_ATTR\<lparr>ta_bFifo := True\<rparr>) =
    Some (False, [Alloc_handle, Attr_init, Set_stack 8192, Set_priority 20, Alloc_private, Free_private, Attr_destroy, Free_handle]) \<and>
   owned [Alloc_handle, Attr_init, Set_stack 8192, Set_priority 20, Alloc_private, Free_private, Attr_destroy, Free_handle]
     (False, False, False) = (False, False, False)"
proof -
  let ?env = "\<lparr>te_block = Some 24, te_attr_init = 0, te_inherit = 0, te_policy = 0, te_param = 0, te_private = True,
      te_create = 11, te_pri_min = 1, te_pri_max = 99\<rparr>"
  let ?r = "Some (False, [Alloc_handle, Attr_init, Set_stack 8192, Set_priority 20, Alloc_private, Free_private, Attr_destroy, Free_handle])"
  have run: "TSK_create ?env (DEFAULT_TSK_ATTR\<lparr>ta_bFifo := True\<rparr>) = ?r"
    by (simp add: TSK_create_def DEFAULT_TSK_ATTR_def TSK_STACK_SIZE_DEFAULT_def clamp_priority_def Let_def)
  with TSK_create_balanced [OF run] show ?thesis by simp
qed

section \<open>Waiting for a task\<close>

text \<open>\<open>obs\<close> are the states that the loop reads; \<open>None\<close> while it still waits. The counter is an \<^verbatim>\<open>S32\<close>
  whose overflow is undefined.\<close>

fun wait_ready :: "E_TskState list \<Rightarrow> int \<Rightarrow> int \<Rightarrow> E_StateCode option" where
  "wait_ready [] uiTimes uiTimeOut = None"
| "wait_ready (s # obs) uiTimes uiTimeOut =
     (if s \<noteq> TSK_STATE_IDLE then Some STATE_CODE_NO_ERROR
      else if - 1 \<noteq> uiTimeOut then
        if uiTimes + 10 > 2147483647 then None
        else if uiTimes + 10 > uiTimeOut then Some STATE_CODE_TIME_OUT
        else wait_ready obs (uiTimes + 10) uiTimeOut
      else wait_ready obs uiTimes uiTimeOut)"

definition TSK_WaitforReady :: "E_TskState list \<Rightarrow> int \<Rightarrow> E_StateCode option" where
  "TSK_WaitforReady obs uiTimeOut = wait_ready obs 0 uiTimeOut"

definition FTC_SetTaskName :: "(byte list \<Rightarrow> int) \<Rightarrow> byte list \<Rightarrow> int" where
  "FTC_SetTaskName prctl_set_name nm = prctl_set_name nm"

lemma wait_ready_idle:
  "\<forall>s \<in> set pre. s = TSK_STATE_IDLE \<Longrightarrow> 0 \<le> t \<Longrightarrow> t \<le> 2147483637 \<Longrightarrow> 0 \<le> c \<Longrightarrow> c + 10 * int (length pre) \<le> t \<Longrightarrow>
   wait_ready (pre @ obs) c t = wait_ready obs (c + 10 * int (length pre)) t"
  by (induction pre arbitrary: c) (auto simp: algebra_simps)

text \<open>C33. \<^verbatim>\<open>TSK_WaitforReady\<close> keeps its time limit: with a limit of \<open>t\<close> milliseconds it reads the state of
  the task at most \<open>t div 10 + 1\<close> times, ten milliseconds apart; it reports success as soon as one
  of these readings is not idle and a time-out exactly if all are idle.\<close>

theorem TSK_WaitforReady_limit:
  assumes "0 \<le> t" and "t \<le> 2147483637" and "length obs = nat (t div 10) + 1"
  shows "TSK_WaitforReady (obs @ later) t =
    Some (if \<forall>s \<in> set obs. s = TSK_STATE_IDLE then STATE_CODE_TIME_OUT else STATE_CODE_NO_ERROR)"
proof (cases "\<forall>s \<in> set obs. s = TSK_STATE_IDLE")
  case True
  obtain pre l where obs: "obs = pre @ [l]" using assms(3) by (cases obs rule: rev_cases) auto
  have k: "int (length pre) = t div 10" using assms(1,3) obs by simp
  have "TSK_WaitforReady (obs @ later) t = wait_ready (l # later) (10 * int (length pre)) t"
    using True assms(1,2) k by (simp add: TSK_WaitforReady_def obs wait_ready_idle [of pre t 0])
  also have "\<dots> = Some STATE_CODE_TIME_OUT"
    using True obs k assms(1,2) by auto
  finally show ?thesis using True by simp
next
  case False
  then obtain pre l post where obs: "obs = pre @ l # post" "l \<noteq> TSK_STATE_IDLE" "\<forall>s \<in> set pre. s = TSK_STATE_IDLE"
    using split_list_first_prop [of obs "\<lambda>s. s \<noteq> TSK_STATE_IDLE"] by auto
  have "10 * int (length pre) \<le> t" using assms(1,3) obs(1) by simp
  then have "TSK_WaitforReady (obs @ later) t = Some STATE_CODE_NO_ERROR"
    using obs assms(1,2) by (simp add: TSK_WaitforReady_def wait_ready_idle [of pre t 0])
  with False show ?thesis by simp
qed

theorem TSK_WaitforReady_limit_witness:
  "TSK_WaitforReady ([TSK_STATE_IDLE, TSK_STATE_RUNNING] @ []) 15 = Some STATE_CODE_NO_ERROR"
  using TSK_WaitforReady_limit [of 15 "[TSK_STATE_IDLE, TSK_STATE_RUNNING]" "[]"] by simp

section \<open>A task and its deletion\<close>

text \<open>Where the two threads stand: the task in \<^verbatim>\<open>TskEntry\<close>, the caller in \<^verbatim>\<open>TSK_delete\<close>.\<close>

datatype task_pc = At_entry | In_proc | At_loop | At_idle | At_free | Ended

datatype delete_pc = At_check | At_set | Waiting nat | At_cancel | At_join | At_release | Returned

record tsk_sys =
  eTskState :: E_TskState
  handle_live :: bool
  cancelled :: bool
  task :: task_pc
  deleter :: delete_pc
  fault :: bool

text \<open>An access of the task to the structure after it is freed is a fault.\<close>

definition touch :: "tsk_sys \<Rightarrow> tsk_sys" where
  "touch s = (if handle_live s then s else s\<lparr>fault := True\<rparr>)"

fun TskEntry :: "tsk_sys \<Rightarrow> tsk_sys" where
  "TskEntry s =
     (case task s of
        At_entry \<Rightarrow> (touch s)\<lparr>eTskState := TSK_STATE_RUNNING, task := In_proc\<rparr>
      | In_proc \<Rightarrow> s\<lparr>task := At_loop\<rparr>
      | At_loop \<Rightarrow> (if eTskState s = TSK_STATE_RUNNING then touch s else (touch s)\<lparr>task := At_idle\<rparr>)
      | At_idle \<Rightarrow> (touch s)\<lparr>eTskState := TSK_STATE_IDLE, task := At_free\<rparr>
      | At_free \<Rightarrow> s\<lparr>task := Ended\<rparr>
      | Ended \<Rightarrow> s)"

fun TSK_delete :: "tsk_sys \<Rightarrow> tsk_sys" where
  "TSK_delete s =
     (case deleter s of
        At_check \<Rightarrow> (if eTskState s \<noteq> TSK_STATE_IDLE then s\<lparr>deleter := At_set\<rparr> else s\<lparr>deleter := At_release\<rparr>)
      | At_set \<Rightarrow> s\<lparr>eTskState := TSK_STATE_TERMINATING, deleter := Waiting 0\<rparr>
      | Waiting iLoop \<Rightarrow>
          (if eTskState s = TSK_STATE_IDLE then s\<lparr>deleter := At_cancel\<rparr>
           else if iLoop + 1 = TSK_DELETE_TRY_TIMES then s\<lparr>deleter := At_cancel\<rparr>
           else s\<lparr>deleter := Waiting (iLoop + 1)\<rparr>)
      | At_cancel \<Rightarrow> s\<lparr>cancelled := True, deleter := At_join\<rparr>
      | At_join \<Rightarrow> (if task s = Ended then s\<lparr>deleter := At_release\<rparr> else s)
      | At_release \<Rightarrow> s\<lparr>handle_live := False, deleter := Returned\<rparr>
      | Returned \<Rightarrow> s)"

text \<open>A cancelled task ends at its next cancellation point: in the user's function, if that has one,
  or in the sleep of its loop.\<close>

inductive tsk_step :: "tsk_sys \<Rightarrow> tsk_sys \<Rightarrow> bool" where
  task_runs: "tsk_step s (TskEntry s)"
| delete_runs: "tsk_step s (TSK_delete s)"
| cancel: "cancelled s \<Longrightarrow> task s \<in> {In_proc, At_loop} \<Longrightarrow> tsk_step s (s\<lparr>task := Ended\<rparr>)"

inductive tsk_reach :: "tsk_sys \<Rightarrow> tsk_sys \<Rightarrow> bool" for s0 where
  init: "tsk_reach s0 s0"
| step: "tsk_reach s0 s \<Longrightarrow> tsk_step s s' \<Longrightarrow> tsk_reach s0 s'"

inductive_cases tsk_stepE: "tsk_step s s'"

text \<open>The system as \<^verbatim>\<open>TSK_create\<close> leaves it, and as \<^verbatim>\<open>TSK_WaitforReady\<close> finds it on success.\<close>

definition tsk_created :: tsk_sys where
  "tsk_created = \<lparr>eTskState = TSK_STATE_IDLE, handle_live = True, cancelled = False, task = At_entry,
     deleter = At_check, fault = False\<rparr>"

definition tsk_ready :: tsk_sys where
  "tsk_ready = \<lparr>eTskState = TSK_STATE_RUNNING, handle_live = True, cancelled = False, task = In_proc,
     deleter = At_check, fault = False\<rparr>"

definition tsk_inv :: "tsk_sys \<Rightarrow> bool" where
  "tsk_inv s \<longleftrightarrow> \<not> fault s \<and> task s \<noteq> At_entry \<and> (\<not> handle_live s \<longrightarrow> task s = Ended) \<and>
     (case deleter s of
        At_check \<Rightarrow> eTskState s = TSK_STATE_RUNNING \<and> task s \<in> {In_proc, At_loop} \<and> \<not> cancelled s
      | At_set \<Rightarrow> eTskState s = TSK_STATE_RUNNING \<and> task s \<in> {In_proc, At_loop} \<and> \<not> cancelled s
      | Waiting i \<Rightarrow> i < TSK_DELETE_TRY_TIMES
      | At_release \<Rightarrow> task s = Ended
      | Returned \<Rightarrow> task s = Ended
      | _ \<Rightarrow> True)"

lemma tsk_inv_task: "tsk_inv s \<Longrightarrow> tsk_inv (TskEntry s)"
  by (cases "task s"; cases "deleter s") (auto simp: tsk_inv_def touch_def)

lemma tsk_inv_delete: "tsk_inv s \<Longrightarrow> tsk_inv (TSK_delete s)"
  by (cases "deleter s") (auto simp: tsk_inv_def TSK_DELETE_TRY_TIMES_def)

lemma tsk_inv_cancel: "tsk_inv s \<Longrightarrow> cancelled s \<Longrightarrow> tsk_inv (s\<lparr>task := Ended\<rparr>)"
  by (cases "deleter s") (auto simp: tsk_inv_def)

lemma tsk_reach_inv: "tsk_reach s0 s \<Longrightarrow> tsk_inv s0 \<Longrightarrow> tsk_inv s"
proof (induction rule: tsk_reach.induct)
  case (step s s')
  then have inv: "tsk_inv s" by simp
  from step.hyps(2) show ?case
    by (rule tsk_stepE) (use inv tsk_inv_task tsk_inv_delete tsk_inv_cancel in auto)
qed

text \<open>C31. Deleting a task that is known to run is safe under every interleaving: the structure is freed
  only after the task's thread has ended, so the thread never touches freed memory, and the
  deleting thread polls at most 100 times before it cancels.\<close>

theorem delete_ready_task_safe:
  assumes "tsk_reach tsk_ready s"
  shows "\<not> fault s \<and> (\<not> handle_live s \<longrightarrow> task s = Ended) \<and> (\<forall>i. deleter s = Waiting i \<longrightarrow> i < 100)"
proof -
  have "tsk_inv tsk_ready" by (simp add: tsk_inv_def tsk_ready_def)
  from tsk_reach_inv [OF assms this] show ?thesis by (auto simp: tsk_inv_def TSK_DELETE_TRY_TIMES_def)
qed

lemma tsk_reach_task: "tsk_reach s0 s \<Longrightarrow> tsk_reach s0 (TskEntry s)"
  by (rule tsk_reach.step [OF _ task_runs])

lemma tsk_reach_delete: "tsk_reach s0 s \<Longrightarrow> tsk_reach s0 (TSK_delete s)"
  by (rule tsk_reach.step [OF _ delete_runs])

theorem delete_ready_task_safe_witness:
  "\<exists>s. tsk_reach tsk_ready s \<and> deleter s = Waiting 0 \<and> \<not> fault s"
proof -
  have r: "tsk_reach tsk_ready (TSK_delete (TSK_delete tsk_ready))"
    by (intro tsk_reach_delete tsk_reach.init)
  moreover have "deleter (TSK_delete (TSK_delete tsk_ready)) = Waiting 0" by (simp add: tsk_ready_def)
  ultimately show ?thesis using delete_ready_task_safe [OF r] by blast
qed

text \<open>C32. Deleting a task that has just been created is not: if the new thread has not run yet, its state
  is still idle, \<^verbatim>\<open>TSK_delete\<close> frees the structure at once and returns, and the thread then writes
  its state into freed memory.\<close>

theorem delete_created_task_races:
  "\<exists>s. tsk_reach tsk_created s \<and> deleter s = Returned \<and> \<not> handle_live s \<and> fault s"
proof -
  let ?s = "TskEntry (TSK_delete (TSK_delete tsk_created))"
  have "tsk_reach tsk_created ?s" by (intro tsk_reach_task tsk_reach_delete tsk_reach.init)
  moreover have "deleter ?s = Returned \<and> \<not> handle_live ?s \<and> fault ?s"
    by (simp add: tsk_created_def touch_def)
  ultimately show ?thesis by blast
qed

text \<open>The value \<^verbatim>\<open>TSK_delete\<close> returns: \<open>called\<close> says whether it went through cancel and join, whose
  results are the other arguments.\<close>

definition TSK_delete_result :: "bool \<Rightarrow> int \<Rightarrow> int \<Rightarrow> E_StateCode" where
  "TSK_delete_result called cancel_status join_status =
     (let status = (if called then cancel_status OR join_status else 0)
      in if 0 = status then STATE_CODE_NO_ERROR else STATE_CODE_UNDEFINED_ERROR)"

end
