(* ===== verification/Net_Tool.thy ===== *)
theory Net_Tool
  imports C_Library
begin

text \<open>
  The address listing of \<^verbatim>\<open>P2P_Server_src/nettool.cpp\<close>.

  \<open>ifs\<close> is the list that \<^verbatim>\<open>getifaddrs\<close> delivers, \<open>None\<close> if it fails, in which case the pointer the
  loops start from is not initialised. An interface without an address has a NULL \<^verbatim>\<open>ifa_addr\<close>, which
  both loops dereference. Both functions call \<^verbatim>\<open>freeifaddrs\<close> only after the loop has moved the pointer
  to NULL, so the list is never freed.
\<close>

section \<open>Definitions\<close>

definition NET_AF_INET :: u16 where "NET_AF_INET = 2"
definition INET_ADDRSTRLEN :: nat where "INET_ADDRSTRLEN = 16"

record ifaddrs =
  ifa_addr :: "(u16 \<times> u32) option"

text \<open>\<^verbatim>\<open>strncat\<close> appends at most \<open>n\<close> characters and a NUL.\<close>

definition strncat :: "byte list \<Rightarrow> byte list \<Rightarrow> nat \<Rightarrow> byte list option" where
  "strncat dst src n = do {
     d \<leftarrow> c_str dst;
     s \<leftarrow> (if n \<le> length src \<and> 0 \<notin> set (take n src) then Some (take n src) else c_str src);
     if length d + length s < length dst then Some (overwrite dst (d @ s @ [0])) else None }"

fun count_ips :: "ifaddrs list \<Rightarrow> int \<Rightarrow> int option" where
  "count_ips [] n = Some n"
| "count_ips (i # is) n = do {
     (fam, a) \<leftarrow> ifa_addr i;
     if fam = NET_AF_INET
     then do {
       r \<leftarrow> strcmp (inet_ntoa a) (literal ''127.0.0.1'');
       count_ips is (if r \<noteq> 0 then n + 1 else n) }
     else count_ips is n }"

definition get_ip_num :: "ifaddrs list option \<Rightarrow> int option" where
  "get_ip_num ifs = do { l \<leftarrow> ifs; count_ips l 0 }"

fun cat_ips :: "ifaddrs list \<Rightarrow> nat \<Rightarrow> byte list \<Rightarrow> byte list option" where
  "cat_ips [] n ips = Some ips"
| "cat_ips (i # is) n ips = do {
     (fam, a) \<leftarrow> ifa_addr i;
     if fam = NET_AF_INET
     then do {
       ips \<leftarrow> (if n = 0 then strncat ips (inet_ntoa a) INET_ADDRSTRLEN
               else do {
                 ips \<leftarrow> strncat ips (literal '','') 1;
                 strncat ips (inet_ntoa a) INET_ADDRSTRLEN });
       cat_ips is (n + 1) ips }
     else cat_ips is n ips }"

definition get_local_ip :: "ifaddrs list option \<Rightarrow> byte list \<Rightarrow> (int \<times> byte list) option" where
  "get_local_ip ifs ips = do {
     l \<leftarrow> ifs;
     ips \<leftarrow> cat_ips l 0 ips;
     Some (0, ips) }"

section \<open>The addresses of a host\<close>

definition has_addrs :: "ifaddrs list \<Rightarrow> bool" where
  "has_addrs l \<longleftrightarrow> (\<forall>i \<in> set l. ifa_addr i \<noteq> None)"

definition inet_addrs :: "ifaddrs list \<Rightarrow> u32 list" where
  "inet_addrs l = concat (map (\<lambda>i. case ifa_addr i of Some (fam, a) \<Rightarrow> if fam = NET_AF_INET then [a] else [] | None \<Rightarrow> []) l)"

definition ip_text :: "u32 \<Rightarrow> byte list" where
  "ip_text a = dotted (put_u32 a)"

fun comma_list :: "byte list list \<Rightarrow> byte list" where
  "comma_list [] = []"
| "comma_list [t] = t"
| "comma_list (t # ts) = t @ 44 # comma_list ts"

lemma has_addrs_simps [simp]: "has_addrs []" "has_addrs (i # l) \<longleftrightarrow> ifa_addr i \<noteq> None \<and> has_addrs l"
  by (auto simp: has_addrs_def)

lemma inet_addrs_simps [simp]:
  "inet_addrs [] = []"
  "ifa_addr i = Some (fam, a) \<Longrightarrow> inet_addrs (i # l) = (if fam = NET_AF_INET then a # inet_addrs l else inet_addrs l)"
  by (simp_all add: inet_addrs_def)

lemma ip_text_loopback: "ip_text a = bytes ''127.0.0.1'' \<longleftrightarrow> a = 0x0100007F"
proof
  assume "ip_text a = bytes ''127.0.0.1''"
  then have "inet_ntoa a = inet_ntoa 0x0100007F"
    by (simp add: inet_ntoa_def ip_text_def) code_simp
  then show "a = 0x0100007F" using inet_addr_inet_ntoa by (metis option.inject)
qed (simp add: ip_text_def, code_simp)

lemma strcmp_loopback:
  "\<exists>r. strcmp (inet_ntoa a) (literal ''127.0.0.1'') = Some r \<and> (r = 0 \<longleftrightarrow> a = 0x0100007F)"
proof -
  have lit: "c_str (literal ''127.0.0.1'') = Some (bytes ''127.0.0.1'')" by code_simp
  note a = c_str_inet_ntoa [of a]
  obtain r where r: "strcmp (inet_ntoa a) (literal ''127.0.0.1'') = Some r" using strcmp_defined [OF a lit] by blast
  with strcmp_eq_0_conv [OF a lit] have "r = 0 \<longleftrightarrow> ip_text a = bytes ''127.0.0.1''" by (simp add: ip_text_def)
  then show ?thesis using r ip_text_loopback [of a] by blast
qed

lemma count_ips_spec:
  "count_ips l n = (if has_addrs l then Some (n + int (length (filter (\<lambda>a. a \<noteq> 0x0100007F) (inet_addrs l)))) else None)"
proof (induction l arbitrary: n)
  case (Cons i l)
  show ?case
  proof (cases "ifa_addr i")
    case (Some fa)
    obtain fam a where fa: "fa = (fam, a)" by (cases fa)
    obtain r where "strcmp (inet_ntoa a) (literal ''127.0.0.1'') = Some r" "r = 0 \<longleftrightarrow> a = 0x0100007F"
      using strcmp_loopback by blast
    with Cons Some fa show ?thesis by simp
  qed simp
qed simp

lemma strncat_text:
  assumes "c_str dst = Some d" and "0 \<notin> set s" and "length s < n"
  shows "strncat dst (s @ [0]) n = (if length d + length s < length dst then Some (overwrite dst (d @ s @ [0])) else None)"
  using assms by (simp add: strncat_def)

lemma strncat_comma:
  assumes "c_str dst = Some d"
  shows "strncat dst (literal '','') (Suc 0) = (if length d + 1 < length dst then Some (overwrite dst (d @ [44, 0])) else None)"
  using assms by (simp add: strncat_def literal_def bytes_def)

lemma overwrite_again: "length xs \<le> length ys \<Longrightarrow> overwrite (overwrite buf xs) ys = overwrite buf ys"
  by (simp add: overwrite_def)

text \<open>The text the loop builds behind the string it started from.\<close>

definition more_ips :: "nat \<Rightarrow> u32 list \<Rightarrow> byte list" where
  "more_ips n as = (if n = 0 then comma_list (map ip_text as) else concat (map (\<lambda>a. 44 # ip_text a) as))"

lemma comma_list_Cons: "comma_list (t # ts) = t @ concat (map (\<lambda>u. 44 # u) ts)"
  by (induction ts arbitrary: t) auto

lemma more_ips_simps [simp]:
  "more_ips n [] = []"
  "more_ips n (a # as) = (if n = 0 then ip_text a else 44 # ip_text a) @ more_ips (n + 1) as"
  by (simp_all add: more_ips_def comma_list_Cons o_def)

lemma overwrite_same: "c_str buf = Some d \<Longrightarrow> overwrite buf (d @ [0]) = buf"
  by (auto simp: overwrite_def elim: c_str_SomeE)

lemma append_ip:
  assumes "c_str buf = Some d"
  shows "(if n = 0 then strncat buf (inet_ntoa a) INET_ADDRSTRLEN
      else do { b \<leftarrow> strncat buf (literal '','') 1; strncat b (inet_ntoa a) INET_ADDRSTRLEN }) =
    (let t = (if n = (0 :: nat) then ip_text a else 44 # ip_text a)
     in if length d + length t < length buf then Some (overwrite buf (d @ t @ [0])) else None)"
proof -
  have t: "0 \<notin> set (ip_text a)" "length (ip_text a) < INET_ADDRSTRLEN"
    using dotted_no_NUL inet_ntoa_fits [of a] by (auto simp: ip_text_def INET_ADDRSTRLEN_def)
  have ip: "strncat b (inet_ntoa a) INET_ADDRSTRLEN =
      (if length e + length (ip_text a) < length b then Some (overwrite b (e @ ip_text a @ [0])) else None)"
    if "c_str b = Some e" for b e
    using strncat_text [OF that t] by (simp add: inet_ntoa_def ip_text_def)
  have nz: "0 \<notin> set (d @ [44])" using c_str_no_NUL [OF assms] by simp
  have "c_str (overwrite buf (d @ [44, 0])) = Some (d @ [44])" using c_str_overwrite [OF nz, of buf] by simp
  note comma = ip [OF this]
  show ?thesis
    using assms comma by (cases "length d + 1 < length buf") (auto simp: ip strncat_comma Let_def overwrite_again)
qed

lemma cat_ips_spec:
  assumes "has_addrs l" and "c_str buf = Some d"
  shows "cat_ips l n buf = (if length d + length (more_ips n (inet_addrs l)) < length buf
     then Some (overwrite buf (d @ more_ips n (inet_addrs l) @ [0])) else None)"
  using assms
proof (induction l arbitrary: n buf d)
  case Nil
  then show ?case using c_str_length [of buf d] by (simp add: overwrite_same)
next
  case (Cons i l)
  obtain fam a where fa: "ifa_addr i = Some (fam, a)" using Cons.prems by auto
  show ?case
  proof (cases "fam = NET_AF_INET")
    case True
    let ?t = "if n = 0 then ip_text a else 44 # ip_text a"
    have nz: "0 \<notin> set (d @ ?t)" using c_str_no_NUL [OF Cons.prems(2)] dotted_no_NUL by (auto simp: ip_text_def)
    have step: "cat_ips (i # l) n buf =
        (if length d + length ?t < length buf then cat_ips l (n + 1) (overwrite buf ((d @ ?t) @ [0])) else None)"
      using append_ip [OF Cons.prems(2), of n a] by (simp add: fa True Let_def)
    have rest: "cat_ips l (n + 1) (overwrite buf ((d @ ?t) @ [0])) =
        (if length d + length ?t + length (more_ips (n + 1) (inet_addrs l)) < length buf
         then Some (overwrite buf ((d @ ?t) @ more_ips (n + 1) (inet_addrs l) @ [0])) else None)"
      if "length d + length ?t < length buf"
      using Cons.IH [of "overwrite buf ((d @ ?t) @ [0])" "d @ ?t" "n + 1"] Cons.prems(1) c_str_overwrite [OF nz] that
      by (simp add: overwrite_again del: append_assoc)
    show ?thesis unfolding step using rest fa True by (auto split: if_splits)
  next
    case False
    with Cons fa show ?thesis by simp
  qed
qed

lemma cat_ips_no_addr: "\<not> has_addrs l \<Longrightarrow> cat_ips l n buf = None"
proof (induction l arbitrary: n buf)
  case (Cons i l)
  then show ?case by (cases "ifa_addr i") (auto simp: Option.bind_eq_None_conv)
qed simp

text \<open>Where every interface has an address, the two functions agree with the list of the IPv4 addresses of
  the host: the count leaves out the loopback address and the text does not, the text is the
  old string followed by all the addresses separated by commas, and the second function is free
  of undefined behaviour exactly if that text fits the caller's array. Both are undefined
  if an interface has no address.\<close>

lemma local_addresses:
  assumes "c_str ips = Some d"
  shows "(has_addrs l \<longrightarrow>
      get_ip_num (Some l) = Some (int (length (filter (\<lambda>a. a \<noteq> 0x0100007F) (inet_addrs l)))) \<and>
      get_local_ip (Some l) ips =
        (let t = d @ comma_list (map ip_text (inet_addrs l))
         in if length t < length ips then Some (0, overwrite ips (t @ [0])) else None)) \<and>
    (\<not> has_addrs l \<longrightarrow> get_ip_num (Some l) = None \<and> get_local_ip (Some l) ips = None)"
  using cat_ips_spec [OF _ assms, of l 0] cat_ips_no_addr [of l 0 ips]
  by (auto simp: get_ip_num_def count_ips_spec get_local_ip_def more_ips_def [of 0] Let_def)

lemma local_addresses_example:
  "get_local_ip (Some [\<lparr>ifa_addr = Some (2, 0x0100007F)\<rparr>, \<lparr>ifa_addr = Some (10, 0)\<rparr>, \<lparr>ifa_addr = Some (2, 0x0A00A8C0)\<rparr>]) (replicate 40 0) =
     Some (0, overwrite (replicate 40 0) (bytes ''127.0.0.1,192.168.0.10'' @ [0])) \<and>
   get_ip_num (Some [\<lparr>ifa_addr = Some (2, 0x0100007F)\<rparr>, \<lparr>ifa_addr = Some (10, 0)\<rparr>, \<lparr>ifa_addr = Some (2, 0x0A00A8C0)\<rparr>]) = Some 1"
proof -
  let ?l = "[\<lparr>ifa_addr = Some (2, 0x0100007F)\<rparr>, \<lparr>ifa_addr = Some (10, 0)\<rparr>, \<lparr>ifa_addr = Some (2, 0x0A00A8C0)\<rparr>]"
  have a: "inet_addrs ?l = [0x0100007F, 0x0A00A8C0]" by (simp add: NET_AF_INET_def)
  have t: "comma_list (map ip_text [0x0100007F, 0x0A00A8C0]) = bytes ''127.0.0.1,192.168.0.10''" by code_simp
  have c: "c_str (replicate 40 (0 :: byte)) = Some []" by (simp add: numeral_eq_Suc)
  from local_addresses [OF c, of ?l, unfolded a t] show ?thesis by (simp add: Let_def)
qed

end
