(* ===== verification/Use_Func.thy ===== *)
theory Use_Func
  imports C_Library
begin

unbundle bit_operations_syntax

text \<open>
  The helper functions collected in \<^verbatim>\<open>P2P_Server_src/use_func.cpp\<close>: a random port, the build date, and
  reading and setting the configuration of a network interface.

  The file is a collection of fragments that the Makefile does not build. Its functions are modelled
  as written. What they use and the sources do not have is an argument: the random generator, the
  kernel's answers to \<^verbatim>\<open>ioctl\<close>, \<^verbatim>\<open>get_gateway_addr\<close>, \<^verbatim>\<open>inet_pton4\<close>, and the option table of
  \<^verbatim>\<open>ifconfig_up_down\<close>. Functions that open a descriptor say in their result whether it is left open.
\<close>

section \<open>A random port\<close>

text \<open>The generator is seeded once, with the low half of the random number read from the device.\<close>

definition stunRand :: "(u32 \<Rightarrow> 'g) \<Rightarrow> ('g \<Rightarrow> u32 \<times> 'g) \<Rightarrow> 64 word \<Rightarrow> bool \<times> 'g \<Rightarrow> u32 \<times> bool \<times> 'g" where
  "stunRand srandom rand tick st =
     (let (init, g) = st;
          g = (if \<not> init then srandom (ucast tick) else g);
          (r, g) = rand g
      in (r, True, g))"

definition stunRandomPort :: "(u32 \<Rightarrow> 'g) \<Rightarrow> ('g \<Rightarrow> u32 \<times> 'g) \<Rightarrow> 64 word \<Rightarrow> bool \<times> 'g \<Rightarrow> u32 \<times> bool \<times> 'g" where
  "stunRandomPort srandom rand tick st =
     (let (ret, st) = stunRand srandom rand tick st;
          ret = ret OR 0x4000;
          ret = ret AND 0x7FFF
      in (ret, st))"

section \<open>The build date\<close>

text \<open>\<^verbatim>\<open>memcpy(&dst[off], src, n)\<close>.\<close>

definition memcpy_at :: "byte list \<Rightarrow> nat \<Rightarrow> byte list \<Rightarrow> nat \<Rightarrow> byte list option" where
  "memcpy_at dst off src n =
     (if off + n \<le> length dst \<and> n \<le> length src then Some (take off dst @ take n src @ drop (off + n) dst) else None)"

definition month_table :: "(string \<times> string) list" where
  "month_table = [(''Jan'', ''01''), (''Feb'', ''02''), (''Mar'', ''03''), (''Apr'', ''04''), (''May'', ''05''),
     (''Jun'', ''06''), (''Jul'', ''07''), (''Aug'', ''08''), (''Sep'', ''09''), (''Oct'', ''10''),
     (''Nov'', ''11''), (''Dec'', ''12'')]"

fun put_month :: "(string \<times> string) list \<Rightarrow> byte list \<Rightarrow> byte list \<Rightarrow> byte list option" where
  "put_month [] temp_mon comp_date = Some comp_date"
| "put_month ((m, d) # ms) temp_mon comp_date = do {
     r \<leftarrow> strcmp temp_mon (literal m);
     comp_date \<leftarrow> (if r = 0 then memcpy_at comp_date 4 (literal d) 2 else Some comp_date);
     put_month ms temp_mon comp_date }"

text \<open>\<open>date\<close> is \<^verbatim>\<open>__DATE__\<close> with its NUL; the result is the date computed, the version text and the version
  number.\<close>

definition get_app_compile_date :: "byte list \<Rightarrow> byte list \<Rightarrow> (byte list \<times> byte list \<times> u32) option" where
  "get_app_compile_date date app_version0 = do {
     temp_mon \<leftarrow> memcpy_at (replicate 4 0) 0 date 3;
     comp_date \<leftarrow> put_month month_table temp_mon (replicate 16 0);
     comp_date \<leftarrow> memcpy_at comp_date 0 (drop 7 date) 4;
     comp_date \<leftarrow> memcpy_at comp_date 6 (drop 4 date) 2;
     let comp_date = (if comp_date ! 6 = 32 then comp_date[6 := 48] else comp_date);
     app_version \<leftarrow> strcpy app_version0 (literal ''20160429'');
     s \<leftarrow> c_str app_version;
     Some (comp_date, app_version, of_int (fst (strtoul_base0 s))) }"

section \<open>Reading an interface\<close>

datatype if_req = SIOCGIFADDR | SIOCGIFNETMASK | SIOCGIFBRDADDR

text \<open>\<open>ne_indet_name\<close> and \<open>ne_indet_addr\<close> are the uninitialised contents of \<^verbatim>\<open>ifr\<close>.\<close>

record if_kernel =
  ne_socket :: int
  ne_addr :: "if_req \<Rightarrow> byte list \<Rightarrow> u32 option"
  ne_flags :: "byte list \<Rightarrow> u16 option"
  ne_setflags :: "byte list \<Rightarrow> u16 \<Rightarrow> int"
  ne_hwaddr :: "byte list \<Rightarrow> byte list option"
  ne_indet_name :: "byte list"
  ne_indet_addr :: u32

definition IFF_RUNNING :: u16 where "IFF_RUNNING = 0x40"

definition CheckHaveNetCable :: "if_kernel \<Rightarrow> byte list \<Rightarrow> (int \<times> bool) option" where
  "CheckHaveNetCable k pNetAdapter =
     (if ne_socket k < 0 then Some (- 1, False)
      else do {
        ifr_name \<leftarrow> strcpy (ne_indet_name k) pNetAdapter;
        case ne_flags k ifr_name of
          None \<Rightarrow> Some (- 1, False)
        | Some flags \<Rightarrow> Some (if flags AND IFF_RUNNING \<noteq> 0 then 1 else - 1, False) })"

text \<open>The three readers differ in the request alone; a failed request leaves the address as it was.\<close>

definition get_if_addr :: "if_req \<Rightarrow> if_kernel \<Rightarrow> byte list \<Rightarrow> byte list \<Rightarrow> (int \<times> byte list \<times> bool) option" where
  "get_if_addr req k ifname out = do {
     ifr_name \<leftarrow> strcpy (ne_indet_name k) ifname;
     let ret = (if ne_socket k < 0 then - 1 else 0);
     let a = ne_addr k req ifr_name;
     let ret = (if a = None then - 1 else ret);
     out \<leftarrow> strcpy out (inet_ntoa (case a of Some a \<Rightarrow> a | None \<Rightarrow> ne_indet_addr k));
     Some (ret, out, False) }"

definition get_ip_addr :: "if_kernel \<Rightarrow> byte list \<Rightarrow> byte list \<Rightarrow> (int \<times> byte list \<times> bool) option" where
  "get_ip_addr = get_if_addr SIOCGIFADDR"

definition get_mask_addr :: "if_kernel \<Rightarrow> byte list \<Rightarrow> byte list \<Rightarrow> (int \<times> byte list \<times> bool) option" where
  "get_mask_addr = get_if_addr SIOCGIFNETMASK"

definition get_brdcast_addr :: "if_kernel \<Rightarrow> byte list \<Rightarrow> byte list \<Rightarrow> (int \<times> byte list \<times> bool) option" where
  "get_brdcast_addr = get_if_addr SIOCGIFBRDADDR"

definition hex_digit :: "nat \<Rightarrow> byte" where
  "hex_digit n = of_nat (if n < 10 then 48 + n else 55 + n)"

definition hex_byte :: "byte \<Rightarrow> byte list" where
  "hex_byte b = [hex_digit (unat b div 16), hex_digit (unat b mod 16)]"

fun mac_text :: "byte list \<Rightarrow> byte list" where
  "mac_text [] = []"
| "mac_text [b] = hex_byte b"
| "mac_text (b # bs) = hex_byte b @ 58 # mac_text bs"

text \<open>\<^verbatim>\<open>snprintf\<close> is given the size of a local array of 24 bytes, which the text of 17 characters fits, and
  not that of the caller's array. The descriptor is not closed.\<close>

definition get_net_phyaddr :: "if_kernel \<Rightarrow> byte list \<Rightarrow> byte list \<Rightarrow> (int \<times> byte list \<times> bool) option" where
  "get_net_phyaddr k ifname addr =
     (if ne_socket k < 0 then Some (- 1, addr, False)
      else do {
        ifr_name \<leftarrow> strcpy (ne_indet_name k) ifname;
        if ne_flags k ifr_name = None then Some (- 1, addr, True)
        else do {
          ifr_name \<leftarrow> strcpy ifr_name ifname;
          case ne_hwaddr k ifr_name of
            None \<Rightarrow> Some (- 1, addr, True)
          | Some sa_data \<Rightarrow> do {
              buff \<leftarrow> memcpy (replicate 24 0) sa_data 8;
              addr \<leftarrow> strcpy addr (mac_text (take 6 buff) @ [0]);
              Some (0, addr, True) } } })"

section \<open>Setting an interface\<close>

text \<open>The kernel's tables are a state of type \<open>'n\<close>. \<open>nk_gateway\<close> is \<^verbatim>\<open>get_gateway_addr\<close>, which fills the array
  it is given.\<close>

record 'n net_kernel =
  nk_socket :: int
  nk_setaddr :: "byte list \<Rightarrow> u32 \<Rightarrow> 'n \<Rightarrow> int \<times> 'n"
  nk_setmask :: "byte list \<Rightarrow> u32 \<Rightarrow> 'n \<Rightarrow> int \<times> 'n"
  nk_addrt :: "u32 \<Rightarrow> 'n \<Rightarrow> int \<times> 'n"
  nk_delrt :: "u32 \<Rightarrow> 'n \<Rightarrow> int \<times> 'n"
  nk_gateway :: "'n \<Rightarrow> byte list \<Rightarrow> byte list"

definition del_gateway_addr :: "'n net_kernel \<Rightarrow> byte list \<Rightarrow> 'n \<Rightarrow> (int \<times> 'n) option" where
  "del_gateway_addr k gateway_addr n = do {
     let ret = (if nk_socket k < 0 then - 1 else 0);
     gw \<leftarrow> inet_addr gateway_addr;
     let (r, n) = nk_delrt k gw n;
     Some (if r < 0 then - 1 else ret, n) }"

definition set_gateway_addr :: "'n net_kernel \<Rightarrow> byte list \<Rightarrow> byte list \<Rightarrow> 'n \<Rightarrow> (int \<times> 'n) option" where
  "set_gateway_addr k old0 gateway_addr n = do {
     let old_gateway_addr = nk_gateway k n old0;
     (_, n) \<leftarrow> del_gateway_addr k old_gateway_addr n;
     let ret = (if nk_socket k < 0 then - 1 else 0);
     gw \<leftarrow> inet_addr gateway_addr;
     let (r, n) = nk_addrt k gw n;
     Some (if r < 0 then - 1 else ret, n) }"

definition set_ip_addr ::
  "'n net_kernel \<Rightarrow> byte list \<Rightarrow> byte list \<Rightarrow> byte list \<Rightarrow> byte list \<Rightarrow> byte list \<Rightarrow> 'n \<Rightarrow> (int \<times> 'n) option" where
  "set_ip_addr k ifr_name0 gw0 old0 ifname net_ip n = do {
     a \<leftarrow> inet_addr net_ip;
     ifr_name \<leftarrow> strcpy ifr_name0 ifname;
     let ret = (if nk_socket k < 0 then - 1 else 0);
     let gateway_addr = nk_gateway k n gw0;
     let (r, n) = nk_setaddr k ifr_name a n;
     let ret = (if r \<noteq> 0 then - 1 else ret);
     (_, n) \<leftarrow> set_gateway_addr k old0 gateway_addr n;
     Some (ret, n) }"

definition set_mask_addr ::
  "'n net_kernel \<Rightarrow> byte list \<Rightarrow> byte list \<Rightarrow> byte list \<Rightarrow> byte list \<Rightarrow> byte list \<Rightarrow> 'n \<Rightarrow> (int \<times> 'n) option" where
  "set_mask_addr k ifr_name0 gw0 old0 ifname mask_ip n = do {
     a \<leftarrow> inet_addr mask_ip;
     ifr_name \<leftarrow> strcpy ifr_name0 ifname;
     let ret = (if nk_socket k < 0 then - 1 else 0);
     let gateway_addr = nk_gateway k n gw0;
     let (r, n) = nk_setmask k ifr_name a n;
     let ret = (if r \<noteq> 0 then - 1 else ret);
     (_, n) \<leftarrow> set_gateway_addr k old0 gateway_addr n;
     Some (ret, n) }"

section \<open>Switching an interface\<close>

record if_option =
  io_name :: "byte list"
  io_flags :: byte
  io_selector :: u32

text \<open>A name that matches narrows the mask even where the search goes on.\<close>

fun find_option :: "byte list \<Rightarrow> byte \<Rightarrow> if_option list \<Rightarrow> (byte \<times> if_option) option option" where
  "find_option action m [] = Some None"
| "find_option action m (p # ps) = do {
     r \<leftarrow> strcmp action (io_name p);
     if r = 0
     then (let m = m AND io_flags p in if m \<noteq> 0 then Some (Some (m, p)) else find_option action m ps)
     else find_option action m ps }"

text \<open>The result is the return value, the flags written, and whether the descriptor is left open.
  \<open>ifr_name\<close> is the name as \<^verbatim>\<open>safe_strncpy\<close> stores it.\<close>

definition ifconfig_up_down ::
  "if_kernel \<Rightarrow> byte \<Rightarrow> byte \<Rightarrow> if_option list \<Rightarrow> byte list \<Rightarrow> byte list \<Rightarrow> (int \<times> u16 option \<times> bool) option" where
  "ifconfig_up_down k n_mask set_mask opts ifr_name action =
     (if ne_socket k < 0 then Some (- 1, None, False)
      else do {
        found \<leftarrow> find_option action n_mask opts;
        case found of
          None \<Rightarrow> Some (- 4, None, True)
        | Some (m, p) \<Rightarrow>
          (case ne_flags k ifr_name of
             None \<Rightarrow> Some (- 2, None, True)
           | Some flags \<Rightarrow>
             let selector = io_selector p;
                 flags = (if m AND set_mask \<noteq> 0 then flags OR ucast selector else flags AND ucast (NOT selector))
             in if ne_setflags k ifr_name flags < 0 then Some (- 3, None, True) else Some (0, Some flags, True)) })"

section \<open>Name servers\<close>

text \<open>The family \<^verbatim>\<open>AF_INET\<close> has the number 2; the build without IPv6 refuses every other family.\<close>

definition inet_pton :: "(byte list \<Rightarrow> int) \<Rightarrow> int \<Rightarrow> byte list \<Rightarrow> int" where
  "inet_pton inet_pton4 af src = (if af = 2 then inet_pton4 src else - 1)"

definition check_ip :: "(byte list \<Rightarrow> int) \<Rightarrow> byte list option \<Rightarrow> int" where
  "check_ip inet_pton4 ip_str =
     (case ip_str of
        None \<Rightarrow> - 1
      | Some s \<Rightarrow> let result = inet_pton inet_pton4 2 s in if result = 0 then - 1 else 0)"

definition dns_line :: "byte list \<Rightarrow> byte list option" where
  "dns_line pstrDns = do {
     ipbuf \<leftarrow> memcpy (replicate 16 0) pstrDns 16;
     s \<leftarrow> c_str ipbuf;
     Some (bytes ''nameserver '' @ s @ [10]) }"

text \<open>The files are a map from paths without links to contents, and \<open>resolve\<close> is the way the system follows the links
  of a path. The setter writes to the temporary directory, the getter reads the configuration of the system, so
  what is written becomes the configuration only if the one path is a link to the other.\<close>

type_synonym files = "string \<rightharpoonup> byte list"

definition set_net_dns ::
  "(byte list \<Rightarrow> int) \<Rightarrow> (string \<Rightarrow> string) \<Rightarrow> bool \<Rightarrow> byte list option \<Rightarrow> byte list option \<Rightarrow> files \<Rightarrow> (int \<times> files) option" where
  "set_net_dns inet_pton4 resolve opened pstrDns1 pstrDns2 fs =
     (case (pstrDns1, pstrDns2) of
        (Some d1, Some d2) \<Rightarrow>
          if 0 > check_ip inet_pton4 pstrDns1 \<and> 0 > check_ip inet_pton4 pstrDns2 then Some (- 1, fs)
          else if \<not> opened then Some (- 1, fs)
          else do {
            l1 \<leftarrow> dns_line d1;
            l2 \<leftarrow> dns_line d2;
            Some (0, fs(resolve ''/tmp/resolv.conf'' \<mapsto> l1 @ l2)) }
      | _ \<Rightarrow> Some (- 1, fs))"

fun file_lines :: "byte list \<Rightarrow> byte list list" where
  "file_lines [] = []"
| "file_lines (c # cs) =
     (if c = 10 then [c] # file_lines cs
      else (case file_lines cs of [] \<Rightarrow> [[c]] | l # ls \<Rightarrow> (c # l) # ls))"

text \<open>\<^verbatim>\<open>sscanf\<close> with two words: \<open>Some\<close> of both words if it returns 2, provided that they fit the arrays of
  80 bytes.\<close>

definition word_of :: "byte list \<Rightarrow> byte list \<times> byte list" where
  "word_of s = (let s = dropWhile isspace s in (takeWhile (\<lambda>c. \<not> isspace c) s, dropWhile (\<lambda>c. \<not> isspace c) s))"

definition scan_two :: "byte list \<Rightarrow> (byte list \<times> byte list) option option" where
  "scan_two line =
     (let s = takeWhile (\<lambda>c. c \<noteq> 0) line; (w1, rest) = word_of s; (w2, _) = word_of rest
      in if 80 \<le> length w1 \<or> 80 \<le> length w2 then None
         else if w1 = [] \<or> w2 = [] then Some None else Some (Some (w1, w2)))"

definition lower :: "byte \<Rightarrow> byte" where
  "lower c = (if 65 \<le> c \<and> c \<le> 90 then c + 32 else c)"

definition is_nameserver :: "byte list \<Rightarrow> bool" where
  "is_nameserver w \<longleftrightarrow> map lower (take 10 w) = bytes ''nameserver''"

text \<open>One of the two loops: the name server found, if any, and the lines behind it.\<close>

fun next_dns :: "byte list list \<Rightarrow> (byte list option \<times> byte list list) option" where
  "next_dns [] = Some (None, [])"
| "next_dns (l # ls) = do {
     r \<leftarrow> scan_two l;
     case r of
       None \<Rightarrow> next_dns ls
     | Some (w1, w2) \<Rightarrow> if is_nameserver w1 then Some (Some w2, ls) else next_dns ls }"

definition store_dns :: "byte list \<Rightarrow> byte list option \<Rightarrow> byte list option" where
  "store_dns out w = (case w of None \<Rightarrow> Some out | Some w \<Rightarrow> strcpy out (w @ [0]))"

text \<open>A file that cannot be read is one that does not exist.\<close>

definition get_net_dns ::
  "(string \<Rightarrow> string) \<Rightarrow> files \<Rightarrow> byte list option \<Rightarrow> byte list option \<Rightarrow> (int \<times> byte list option \<times> byte list option) option" where
  "get_net_dns resolve fs pstrDns1 pstrDns2 =
     (case (pstrDns1, pstrDns2, fs (resolve ''/etc/resolv.conf'')) of
        (Some o1, Some o2, Some f) \<Rightarrow> do {
          (w1, ls) \<leftarrow> next_dns (file_lines f);
          o1 \<leftarrow> store_dns o1 w1;
          (w2, _) \<leftarrow> next_dns ls;
          o2 \<leftarrow> store_dns o2 w2;
          Some (if w1 \<noteq> None \<or> w2 \<noteq> None then 0 else - 1, Some o1, Some o2) }
      | _ \<Rightarrow> Some (- 1, pstrDns1, pstrDns2))"

definition IPCAM_setTskName :: "(byte list \<Rightarrow> int) \<Rightarrow> byte list \<Rightarrow> int" where
  "IPCAM_setTskName prctl_set_name nm = prctl_set_name nm"

text \<open>The result of \<^verbatim>\<open>pthread_create\<close> as TRUE or FALSE.\<close>

definition IPCAM_CREATE_THREADEX :: "int \<Rightarrow> bool" where
  "IPCAM_CREATE_THREADEX created = (0 = created)"

section \<open>The range of the port\<close>

lemma port_constants: "bit (0x4000 :: int) n \<longleftrightarrow> n = 14" "bit (0x7FFF :: int) n \<longleftrightarrow> n < 15"
proof -
  have k: "(0x4000 :: int) = 2 ^ 14" "(0x7FFF :: int) = mask 15" by (simp_all add: mask_eq_exp_minus_1)
  show "bit (0x4000 :: int) n \<longleftrightarrow> n = 14" "bit (0x7FFF :: int) n \<longleftrightarrow> n < 15"
    unfolding k bit_exp_iff bit_mask_iff by auto
qed

lemma port_bits: "(r OR 0x4000) AND 0x7FFF = 0x4000 OR take_bit 14 (r :: u32)"
  by (rule bit_word_eqI) (auto simp: bit_simps port_constants)

text \<open>The random port lies between 0x4000 and 0x7FFF and is 0x4000 plus the low 14 bits of the number drawn,
  so every port of the range is as likely as the generator makes it; the seed of the device is
  used on the first call alone.\<close>

lemma stunRandomPort_range:
  "\<exists>p r g'. stunRandomPort srandom rand tick (init, g) = (p, True, g') \<and>
    (r, g') = rand (if init then g else srandom (ucast tick)) \<and>
    uint p = 0x4000 + uint r mod 0x4000 \<and> 0x4000 \<le> p \<and> p \<le> 0x7FFF"
proof -
  obtain r g' where r: "rand (if init then g else srandom (ucast tick)) = (r, g')" by fastforce
  let ?p = "(r OR 0x4000) AND 0x7FFF"
  have "?p = 0x4000 + take_bit 14 r"
    unfolding port_bits
    by (rule disjunctive_add [symmetric]) (auto simp: bit_simps port_constants)
  moreover have "uint (take_bit 14 r) = uint r mod 0x4000" by (simp only: unsigned_take_bit_eq) (simp add: take_bit_eq_mod)
  moreover have "uint r mod 0x4000 < 0x4000" "0 \<le> uint r mod 0x4000" by simp_all
  ultimately have p: "uint ?p = 0x4000 + uint r mod 0x4000"
    by (simp add: uint_word_ariths(1))
  then have "0x4000 \<le> ?p" "?p \<le> 0x7FFF"
    by (simp_all add: word_le_def)
  then show ?thesis
    using r p by (intro exI [of _ ?p] exI [of _ r] exI [of _ g'])
      (simp add: stunRandomPort_def stunRand_def Let_def split: if_splits)
qed

section \<open>The version\<close>

text \<open>The date computed is the year, the number of the month and the day, the latter with its blank made a
  zero; but the version text and number do not depend on it.\<close>

lemma compile_date_computed:
  assumes "(m, d) \<in> set month_table" and "date = bytes m @ [32, d1, d2, 32, y1, y2, y3, y4, 0]" and "length app_version0 = 16"
  shows "\<exists>app_version. get_app_compile_date date app_version0 =
    Some ([y1, y2, y3, y4] @ bytes d @ [if d1 = 32 then 48 else d1, d2] @ replicate 8 0, app_version, 20160429) \<and>
    c_str app_version = Some (bytes ''20160429'')"
proof -
  have v: "strcpy app_version0 (literal ''20160429'') = Some (overwrite app_version0 (bytes ''20160429'' @ [0]))"
    "c_str (overwrite app_version0 (bytes ''20160429'' @ [0])) = Some (bytes ''20160429'')"
    using assms(3) by (simp_all add: strcpy_def literal_def bytes_def overwrite_def)
  have n: "fst (strtoul_base0 (bytes ''20160429'')) = 20160429" by code_simp
  have "put_month month_table (bytes m @ [0]) (replicate 16 0) = Some (replicate 4 0 @ bytes d @ replicate 10 0)"
    using assms(1) unfolding month_table_def by (elim set_ConsD [THEN disjE] emptyE; simp; code_simp)
  moreover have "length (bytes m) = 3" "length (bytes d) = 2"
    using assms(1) unfolding month_table_def by auto
  then obtain a b c e f where "bytes m = [a, b, c]" "bytes d = [e, f]"
    by (auto simp: length_Suc_conv numeral_eq_Suc bytes_def)
  ultimately show ?thesis
    using v n assms(2) by (simp add: get_app_compile_date_def memcpy_at_def numeral_eq_Suc)
qed

section \<open>Flags\<close>

text \<open>Switching an interface with an option of the table sets exactly the bits of the option's selector if the
  option is a setting one, clears exactly them otherwise, and keeps all other bits; and on every path
  behind the creation of its socket the function leaves the descriptor open.\<close>

lemma ifconfig_flags:
  assumes "ifconfig_up_down k n_mask set_mask opts ifr_name action = Some (r, w, left_open)"
  shows "(left_open \<longleftrightarrow> 0 \<le> ne_socket k) \<and> (r = 0 \<longleftrightarrow> w \<noteq> None) \<and>
    (\<forall>flags'. w = Some flags' \<longrightarrow> (\<exists>m p flags. find_option action n_mask opts = Some (Some (m, p)) \<and>
       ne_flags k ifr_name = Some flags \<and>
       (\<forall>i < 16. bit flags' i = (if bit (io_selector p) i then m AND set_mask \<noteq> 0 else bit flags i))))"
proof (cases "ne_socket k < 0")
  case True
  with assms show ?thesis by (auto simp: ifconfig_up_down_def)
next
  case False
  have bits: "bit (f OR ucast s) i = (if bit s i then True else bit f i)"
    "bit (f AND ucast (NOT s)) i = (if bit s i then False else bit f i)" if "i < 16" for f :: u16 and s :: u32 and i
    using that by (auto simp: bit_simps)
  obtain found where f: "find_option action n_mask opts = Some found"
    using False assms by (auto simp: ifconfig_up_down_def Option.bind_eq_Some_conv)
  show ?thesis
  proof (cases found)
    case None
    with False f assms show ?thesis by (auto simp: ifconfig_up_down_def)
  next
    case (Some mp)
    obtain m p where mp: "mp = (m, p)" by (cases mp)
    show ?thesis
    proof (cases "ne_flags k ifr_name")
      case None
      with False f Some mp assms show ?thesis by (auto simp: ifconfig_up_down_def)
    next
      case flags: (Some flags)
      with False f Some mp assms show ?thesis
        by (auto simp: ifconfig_up_down_def Let_def bits split: if_splits)
    qed
  qed
qed

lemma ifconfig_flags_example:
  "\<exists>w. ifconfig_up_down \<lparr>ne_socket = 3, ne_addr = (\<lambda>q n. None), ne_flags = (\<lambda>n. Some 0x1042), ne_setflags = (\<lambda>n f. 0),
        ne_hwaddr = (\<lambda>n. None), ne_indet_name = replicate 16 0, ne_indet_addr = 0\<rparr> 3 2
      [\<lparr>io_name = literal ''up'', io_flags = 3, io_selector = 1\<rparr>] (literal ''eth0'') (literal ''up'') = Some (0, Some w, True) \<and> bit w 0"
proof -
  let ?k = "\<lparr>ne_socket = 3, ne_addr = (\<lambda>q n. None), ne_flags = (\<lambda>n. Some 0x1042), ne_setflags = (\<lambda>n f. 0),
        ne_hwaddr = (\<lambda>n. None), ne_indet_name = replicate 16 0, ne_indet_addr = 0\<rparr> :: if_kernel"
  let ?opts = "[\<lparr>io_name = literal ''up'', io_flags = 3, io_selector = 1\<rparr>]"
  have f: "find_option (literal ''up'') 3 ?opts = Some (Some (3, \<lparr>io_name = literal ''up'', io_flags = 3, io_selector = 1\<rparr>))"
    by code_simp
  have "\<exists>w. ifconfig_up_down ?k 3 2 ?opts (literal ''eth0'') (literal ''up'') = Some (0, Some w, True)"
    by (simp add: ifconfig_up_down_def f Let_def del: find_option.simps)
  then obtain w where w: "ifconfig_up_down ?k 3 2 ?opts (literal ''eth0'') (literal ''up'') = Some (0, Some w, True)" by blast
  from ifconfig_flags [OF w] have "bit w 0" by (auto simp: f simp del: find_option.simps)
  with w show ?thesis by blast
qed

section \<open>The gateway\<close>

text \<open>What the address setters rely on: the array that \<^verbatim>\<open>get_gateway_addr\<close> fills holds a string, the text of the
  gateway if there is one, and a route that is added becomes the gateway.\<close>

definition gateway_laws :: "'n net_kernel \<Rightarrow> ('n \<Rightarrow> u32 option) \<Rightarrow> bool" where
  "gateway_laws k gw \<longleftrightarrow>
     (\<forall>n buf. length buf = 32 \<longrightarrow> 0 \<in> set (nk_gateway k n buf)) \<and>
     (\<forall>n buf g. length buf = 32 \<longrightarrow> gw n = Some g \<longrightarrow> c_str (nk_gateway k n buf) = Some (dotted (put_u32 g))) \<and>
     (\<forall>g n. gw (snd (nk_addrt k g n)) = Some g)"

lemma inet_addr_defined: "0 \<in> set a \<Longrightarrow> \<exists>w. inet_addr a = Some w"
  using c_str_None_iff [of a] by (cases "c_str a") (auto simp: inet_addr_def)

lemma set_gateway_addr_sets:
  assumes "gateway_laws k gw" and "c_str a = Some (dotted (put_u32 g))" and "length old0 = 32"
  shows "\<exists>r n'. set_gateway_addr k old0 a n = Some (r, n') \<and> gw n' = Some g"
proof -
  have a: "inet_addr a = Some g"
    using inet_addr_c_str [of a "inet_ntoa g"] assms(2) by (simp add: c_str_inet_ntoa inet_addr_inet_ntoa)
  obtain w where "inet_addr (nk_gateway k n old0) = Some w"
    using assms(1,3) inet_addr_defined unfolding gateway_laws_def by blast
  then obtain r n1 where "del_gateway_addr k (nk_gateway k n old0) n = Some (r, n1)"
    by (cases "nk_delrt k w n") (auto simp: del_gateway_addr_def Let_def)
  then have "\<exists>r n'. set_gateway_addr k old0 a n = Some (r, n') \<and> n' = snd (nk_addrt k g n1)"
    by (auto simp: set_gateway_addr_def a Let_def split: prod.splits)
  then show ?thesis using assms(1) by (auto simp: gateway_laws_def)
qed

text \<open>Setting the address or the mask of an interface, which drops its routes, keeps the gateway.\<close>

lemma setters_keep_gateway:
  assumes laws: "gateway_laws k gw" and g: "gw n = Some g" and arrs: "length gw0 = 32" "length old0 = 32"
    and ip: "inet_addr ip = Some a" and nm: "strcpy ifr_name0 ifname = Some nm"
  shows "\<exists>r n'. set_ip_addr k ifr_name0 gw0 old0 ifname ip n = Some (r, n') \<and> gw n' = Some g"
    and "\<exists>r n'. set_mask_addr k ifr_name0 gw0 old0 ifname ip n = Some (r, n') \<and> gw n' = Some g"
proof -
  have c: "c_str (nk_gateway k n gw0) = Some (dotted (put_u32 g))" using laws g arrs(1) by (simp add: gateway_laws_def)
  note s = set_gateway_addr_sets [OF laws c arrs(2)]
  show "\<exists>r n'. set_ip_addr k ifr_name0 gw0 old0 ifname ip n = Some (r, n') \<and> gw n' = Some g"
    using s [of "snd (nk_setaddr k nm a n)"] by (auto simp: set_ip_addr_def ip nm Let_def split: prod.splits)
  show "\<exists>r n'. set_mask_addr k ifr_name0 gw0 old0 ifname ip n = Some (r, n') \<and> gw n' = Some g"
    using s [of "snd (nk_setmask k nm a n)"] by (auto simp: set_mask_addr_def ip nm Let_def split: prod.splits)
qed

section \<open>Name servers\<close>

lemma file_lines_line: "10 \<notin> set l \<Longrightarrow> file_lines (l @ 10 # rest) = (l @ [10]) # file_lines rest"
  by (induction l) auto

text \<open>A name server text: not empty, without NUL and white space.\<close>

definition dns_text :: "byte list \<Rightarrow> bool" where
  "dns_text s \<longleftrightarrow> s \<noteq> [] \<and> length s < 16 \<and> (\<forall>c \<in> set s. c \<noteq> 0 \<and> \<not> isspace c)"

definition nameserver_line :: "byte list \<Rightarrow> byte list" where
  "nameserver_line s = bytes ''nameserver '' @ s @ [10]"

lemma dns_line_text:
  assumes "c_str d = Some s" and "length s < 16" and "16 \<le> length d"
  shows "dns_line d = Some (nameserver_line s)"
proof -
  obtain rest where d: "d = s @ 0 # rest" and nz: "0 \<notin> set s" using assms(1) by (rule c_str_SomeE)
  obtain k where k: "16 - length s = Suc k" using assms(2) by (cases "16 - length s") auto
  have "overwrite (replicate 16 0) (take 16 d) = take 16 d" using assms(3) by (simp add: overwrite_def)
  also have "\<dots> = s @ 0 # take k rest" using assms(2) by (simp add: d k)
  finally have "overwrite (replicate 16 0) (take 16 d) = s @ 0 # take k rest" .
  then have "c_str (overwrite (replicate 16 0) (take 16 d)) = Some s" using nz by simp
  then show ?thesis using assms(3) by (simp add: dns_line_def memcpy_def nameserver_line_def)
qed

lemma scan_nameserver:
  assumes "dns_text s"
  shows "scan_two (nameserver_line s) = Some (Some (bytes ''nameserver'', s))"
proof -
  have sp: "\<forall>c \<in> set (bytes ''nameserver''). c \<noteq> 0 \<and> \<not> isspace c" "isspace 32" "isspace 10" "length (bytes ''nameserver'') = 10"
    by code_simp+
  have s: "\<forall>c \<in> set s. c \<noteq> 0 \<and> \<not> isspace c" "s \<noteq> []" "length s < 16" using assms by (auto simp: dns_text_def)
  have line: "nameserver_line s = bytes ''nameserver'' @ 32 # s @ [10]" by (simp add: nameserver_line_def bytes_def)
  have nz: "takeWhile (\<lambda>c. c \<noteq> 0) (nameserver_line s) = nameserver_line s"
    unfolding line using sp(1) s(1) by (simp add: takeWhile_eq_all_conv)
  have w: "word_of (xs @ y # ys) = (xs, y # ys)" if "\<forall>c \<in> set xs. \<not> isspace c" "xs \<noteq> []" "isspace y" for xs y ys
  proof -
    have "dropWhile isspace (xs @ y # ys) = xs @ y # ys" using that by (cases xs) auto
    then show ?thesis using that by (simp add: word_of_def Let_def takeWhile_append2 dropWhile_append2)
  qed
  have "word_of (nameserver_line s) = (bytes ''nameserver'', 32 # s @ [10])"
    unfolding line using sp(1,2) by (intro w) (auto simp: bytes_def)
  moreover have "word_of (32 # s @ [10]) = (s, [10])"
  proof -
    have "word_of (32 # s @ [10]) = word_of (s @ [10])" using sp(2) by (simp add: word_of_def)
    also have "\<dots> = (s, [10])" using s sp(3) by (intro w) auto
    finally show ?thesis .
  qed
  ultimately show ?thesis using s sp(4) by (auto simp: scan_two_def nz Let_def bytes_def)
qed

lemma next_dns_line: "dns_text s \<Longrightarrow> next_dns (nameserver_line s # ls) = Some (Some s, ls)"
proof -
  assume s: "dns_text s"
  have "is_nameserver (bytes ''nameserver'')" by code_simp
  then show ?thesis by (simp add: scan_nameserver [OF s])
qed

lemma get_net_dns_lines:
  assumes "fs (resolve ''/etc/resolv.conf'') = Some (nameserver_line s1 @ nameserver_line s2)"
    and "dns_text s1" "dns_text s2" and "16 \<le> length o1" "16 \<le> length o2"
  shows "\<exists>p1 p2. get_net_dns resolve fs (Some o1) (Some o2) = Some (0, Some p1, Some p2) \<and> c_str p1 = Some s1 \<and> c_str p2 = Some s2"
proof -
  let ?file = "nameserver_line s1 @ nameserver_line s2"
  have no_nl: "10 \<notin> set (bytes ''nameserver '' @ s)" if "dns_text s" for s
    using that by (auto simp: dns_text_def bytes_def isspace_def)
  have "file_lines ?file = [nameserver_line s1, nameserver_line s2]"
    using file_lines_line [OF no_nl [OF assms(2)], of "nameserver_line s2"] file_lines_line [OF no_nl [OF assms(3)], of "[]"]
    by (simp add: nameserver_line_def)
  then have n: "next_dns (file_lines ?file) = Some (Some s1, [nameserver_line s2])" "next_dns [nameserver_line s2] = Some (Some s2, [])"
    by (simp_all only: next_dns_line [OF assms(2)] next_dns_line [OF assms(3)])
  have st: "\<exists>p. store_dns out (Some s) = Some p \<and> c_str p = Some s" if "dns_text s" "16 \<le> length out" for out s
  proof -
    have "0 \<notin> set s" using that(1) by (auto simp: dns_text_def)
    then show ?thesis using that by (auto simp: store_dns_def dns_text_def strcpy_fits)
  qed
  obtain p1 where p1: "store_dns o1 (Some s1) = Some p1" "c_str p1 = Some s1" using st [OF assms(2,4)] by blast
  obtain p2 where p2: "store_dns o2 (Some s2) = Some p2" "c_str p2 = Some s2" using st [OF assms(3,5)] by blast
  have "get_net_dns resolve fs (Some o1) (Some o2) = Some (0, Some p1, Some p2)"
    by (simp add: get_net_dns_def assms(1) n p1 p2 del: next_dns.simps)
  with p1 p2 show ?thesis by blast
qed



end
