(* ===== verification/UDT_SeqNo.thy ===== *)
theory UDT_SeqNo
  imports Main "HOL-Library.Monad_Syntax"
begin

text \<open>
  The circular counters of the UDT headers in \<^verbatim>\<open>P2P_Client_src/include/common.h\<close>: sequence numbers
  (\<^verbatim>\<open>CSeqNo\<close>), acknowledgement numbers (\<^verbatim>\<open>CAckNo\<close>) and message numbers (\<^verbatim>\<open>CMsgNo\<close>).

  The numbers are of type \<^verbatim>\<open>int32_t\<close>, where overflow is undefined: every operation of the expressions
  is checked, and \<open>None\<close> is an overflow. The bound and the threshold are constants that the headers
  declare and do not define, so they are arguments.
\<close>

section \<open>Signed 32 bit arithmetic\<close>

definition i32 :: "int \<Rightarrow> int option" where
  "i32 x = (if - (2 ^ 31) \<le> x \<and> x < 2 ^ 31 then Some x else None)"

lemma i32_in [simp]: "- 2147483648 \<le> x \<Longrightarrow> x < 2147483648 \<Longrightarrow> i32 x = Some x"
  by (simp add: i32_def)

section \<open>CSeqNo\<close>

definition seqcmp :: "int \<Rightarrow> int \<Rightarrow> int \<Rightarrow> int option" where
  "seqcmp m_iSeqNoTH seq1 seq2 = do {
     d \<leftarrow> i32 (seq1 - seq2);
     a \<leftarrow> i32 \<bar>d\<bar>;
     if a < m_iSeqNoTH then i32 (seq1 - seq2) else i32 (seq2 - seq1) }"

definition seqlen :: "int \<Rightarrow> int \<Rightarrow> int \<Rightarrow> int option" where
  "seqlen m_iMaxSeqNo seq1 seq2 =
     (if seq1 \<le> seq2 then do { d \<leftarrow> i32 (seq2 - seq1); i32 (d + 1) }
      else do { d \<leftarrow> i32 (seq2 - seq1); d \<leftarrow> i32 (d + m_iMaxSeqNo); i32 (d + 2) })"

definition seqoff :: "int \<Rightarrow> int \<Rightarrow> int \<Rightarrow> int \<Rightarrow> int option" where
  "seqoff m_iSeqNoTH m_iMaxSeqNo seq1 seq2 = do {
     d \<leftarrow> i32 (seq1 - seq2);
     a \<leftarrow> i32 \<bar>d\<bar>;
     if a < m_iSeqNoTH then i32 (seq2 - seq1)
     else if seq1 < seq2 then do { d \<leftarrow> i32 (seq2 - seq1); d \<leftarrow> i32 (d - m_iMaxSeqNo); i32 (d - 1) }
     else do { d \<leftarrow> i32 (seq2 - seq1); d \<leftarrow> i32 (d + m_iMaxSeqNo); i32 (d + 1) } }"

definition incseq :: "int \<Rightarrow> int \<Rightarrow> int option" where
  "incseq m_iMaxSeqNo seq = (if seq = m_iMaxSeqNo then Some 0 else i32 (seq + 1))"

definition decseq :: "int \<Rightarrow> int \<Rightarrow> int option" where
  "decseq m_iMaxSeqNo seq = (if seq = 0 then Some m_iMaxSeqNo else i32 (seq - 1))"

definition incseq_by :: "int \<Rightarrow> int \<Rightarrow> int \<Rightarrow> int option" where
  "incseq_by m_iMaxSeqNo seq inc = do {
     r \<leftarrow> i32 (m_iMaxSeqNo - seq);
     if r \<ge> inc then i32 (seq + inc)
     else do { d \<leftarrow> i32 (seq - m_iMaxSeqNo); d \<leftarrow> i32 (d + inc); i32 (d - 1) } }"

section \<open>CAckNo and CMsgNo\<close>

definition incack :: "int \<Rightarrow> int \<Rightarrow> int option" where
  "incack m_iMaxAckSeqNo ackno = (if ackno = m_iMaxAckSeqNo then Some 0 else i32 (ackno + 1))"

definition msgcmp :: "int \<Rightarrow> int \<Rightarrow> int \<Rightarrow> int option" where
  "msgcmp m_iMsgNoTH msgno1 msgno2 = do {
     d \<leftarrow> i32 (msgno1 - msgno2);
     a \<leftarrow> i32 \<bar>d\<bar>;
     if a < m_iMsgNoTH then i32 (msgno1 - msgno2) else i32 (msgno2 - msgno1) }"

definition msglen :: "int \<Rightarrow> int \<Rightarrow> int \<Rightarrow> int option" where
  "msglen m_iMaxMsgNo msgno1 msgno2 =
     (if msgno1 \<le> msgno2 then do { d \<leftarrow> i32 (msgno2 - msgno1); i32 (d + 1) }
      else do { d \<leftarrow> i32 (msgno2 - msgno1); d \<leftarrow> i32 (d + m_iMaxMsgNo); i32 (d + 2) })"

definition msgoff :: "int \<Rightarrow> int \<Rightarrow> int \<Rightarrow> int \<Rightarrow> int option" where
  "msgoff m_iMsgNoTH m_iMaxMsgNo msgno1 msgno2 = do {
     d \<leftarrow> i32 (msgno1 - msgno2);
     a \<leftarrow> i32 \<bar>d\<bar>;
     if a < m_iMsgNoTH then i32 (msgno2 - msgno1)
     else if msgno1 < msgno2 then do { d \<leftarrow> i32 (msgno2 - msgno1); d \<leftarrow> i32 (d - m_iMaxMsgNo); i32 (d - 1) }
     else do { d \<leftarrow> i32 (msgno2 - msgno1); d \<leftarrow> i32 (d + m_iMaxMsgNo); i32 (d + 1) } }"

definition incmsg :: "int \<Rightarrow> int \<Rightarrow> int option" where
  "incmsg m_iMaxMsgNo msgno = (if msgno = m_iMaxMsgNo then Some 0 else i32 (msgno + 1))"

section \<open>The contract of a circular counter\<close>

text \<open>A counter that runs from 0 to \<open>mx\<close>, with the operations the two classes give it.\<close>

locale circular_counter =
  fixes cmp :: "int \<Rightarrow> int \<Rightarrow> int \<Rightarrow> int option" and len :: "int \<Rightarrow> int \<Rightarrow> int \<Rightarrow> int option"
    and off :: "int \<Rightarrow> int \<Rightarrow> int \<Rightarrow> int \<Rightarrow> int option" and inc :: "int \<Rightarrow> int \<Rightarrow> int option"
  assumes cmp: "mx < 2147483648 \<Longrightarrow> 0 \<le> a \<Longrightarrow> a \<le> mx \<Longrightarrow> 0 \<le> b \<Longrightarrow> b \<le> mx \<Longrightarrow>
      cmp th a b = Some (if \<bar>a - b\<bar> < th then a - b else b - a)"
    and len: "mx < 2147483648 \<Longrightarrow> 0 \<le> a \<Longrightarrow> a \<le> mx \<Longrightarrow> 0 \<le> b \<Longrightarrow> b \<le> mx \<Longrightarrow>
      len mx a b = i32 (if a \<le> b then b - a + 1 else b - a + mx + 2)"
    and off: "0 < th \<Longrightarrow> mx < 2147483648 \<Longrightarrow> 0 \<le> a \<Longrightarrow> a \<le> mx \<Longrightarrow> 0 \<le> b \<Longrightarrow> b \<le> mx \<Longrightarrow>
      off th mx a b = Some (if \<bar>a - b\<bar> < th then b - a else if a < b then b - a - mx - 1 else b - a + mx + 1)"
    and inc: "mx < 2147483648 \<Longrightarrow> 0 \<le> a \<Longrightarrow> a \<le> mx \<Longrightarrow> inc mx a = Some (if a = mx then 0 else a + 1)"
begin

lemma inc_mod: "mx < 2147483648 \<Longrightarrow> 0 \<le> a \<Longrightarrow> a \<le> mx \<Longrightarrow> inc mx a = Some ((a + 1) mod (mx + 1))"
  by (simp add: inc)

lemma len_mod:
  assumes "mx < 2147483648" and "0 \<le> a" and "a \<le> mx" and "0 \<le> b" and "b \<le> mx"
  shows "len mx a b = (if (b - a) mod (mx + 1) = 2147483647 then None else Some ((b - a) mod (mx + 1) + 1))"
proof (cases "a \<le> b")
  case True
  then show ?thesis using assms by (auto simp: len i32_def)
next
  case False
  have "(b - a) mod (mx + 1) = (b - a + (mx + 1)) mod (mx + 1)" by simp
  also have "\<dots> = b - a + (mx + 1)" by (rule mod_pos_pos_trivial) (use assms False in auto)
  finally show ?thesis using assms False by (auto simp: len i32_def)
qed

text \<open>The offset leads from the first number to the second, and it is short: below the threshold, or no longer
  than what the threshold leaves of the circle.\<close>

lemma off_leads:
  assumes "0 < th" and "mx < 2147483648" and "0 \<le> a" and "a \<le> mx" and "0 \<le> b" and "b \<le> mx"
  shows "\<exists>z. off th mx a b = Some z \<and> (a + z) mod (mx + 1) = b \<and> (\<bar>z\<bar> < th \<or> \<bar>z\<bar> \<le> mx + 1 - th)"
proof -
  let ?z = "if \<bar>a - b\<bar> < th then b - a else if a < b then b - a - mx - 1 else b - a + mx + 1"
  have b: "b mod (mx + 1) = b" using assms by simp
  have "a + ?z = b \<or> a + ?z = b - (mx + 1) \<or> a + ?z = b + (mx + 1)" by simp
  then have "(a + ?z) mod (mx + 1) = b" by (elim disjE) (simp_all only: minus_mod_self2 mod_add_self2 b)
  moreover have "\<bar>?z\<bar> < th \<or> \<bar>?z\<bar> \<le> mx + 1 - th" using assms by auto
  ultimately show ?thesis using off [OF assms] by blast
qed

text \<open>The comparison has the sign of the way back.\<close>

lemma cmp_off:
  assumes "0 < th" and "mx < 2147483648" and "0 \<le> a" and "a \<le> mx" and "0 \<le> b" and "b \<le> mx"
  shows "\<exists>y z. cmp th a b = Some y \<and> off th mx a b = Some z \<and> sgn y = - sgn z \<and> (y = 0 \<longleftrightarrow> a = b)"
  using assms by (auto simp: cmp off sgn_if)

end

lemmas counter_defs = seqcmp_def seqlen_def seqoff_def incseq_def msgcmp_def msglen_def msgoff_def incmsg_def

interpretation CSeqNo: circular_counter seqcmp seqlen seqoff incseq
  by unfold_locales (auto simp: counter_defs)

interpretation CMsgNo: circular_counter msgcmp msglen msgoff incmsg
  by unfold_locales (auto simp: counter_defs)

section \<open>Counting modulo the bound\<close>

lemma incseq_by_mod:
  assumes "mx < 2147483648" and "0 \<le> s" and "s \<le> mx" and "0 \<le> k" and "k \<le> mx"
  shows "incseq_by mx s k = Some ((s + k) mod (mx + 1))"
proof (cases "k \<le> mx - s")
  case True
  then show ?thesis using assms by (simp add: incseq_by_def)
next
  case False
  have "(s + k) mod (mx + 1) = (s + k - (mx + 1)) mod (mx + 1)" by (rule minus_mod_self2 [symmetric])
  also have "\<dots> = s + k - (mx + 1)" by (rule mod_pos_pos_trivial) (use assms False in auto)
  finally show ?thesis using assms False by (simp add: incseq_by_def)
qed

lemma decseq_mod:
  assumes "mx < 2147483648" and "0 \<le> s" and "s \<le> mx"
  shows "decseq mx s = Some ((s - 1) mod (mx + 1))"
proof (cases "s = 0")
  case True
  have "(- 1) mod (mx + 1) = (- 1 + (mx + 1)) mod (mx + 1)" by (rule mod_add_self2 [symmetric])
  also have "\<dots> = mx" using assms by simp
  finally show ?thesis using True by (simp add: decseq_def)
next
  case False
  then show ?thesis using assms by (simp add: decseq_def)
qed

text \<open>C39. The counters of the UDT headers count modulo their bound, with the cheap comparisons of the code in
  place of a division: for numbers from 0 to the bound, a step forward, a step back, a step by a positive amount
  and the length of a range are the residues, without overflow, for sequence, acknowledgement and message
  numbers. The one exception is the length of a range that covers the whole circle of 2^31 numbers, which
  overflows.\<close>

theorem counters_residues:
  assumes "mx < 2147483648" and "0 \<le> a" and "a \<le> mx" and "0 \<le> b" and "b \<le> mx"
  shows "incseq mx a = Some ((a + 1) mod (mx + 1)) \<and> decseq mx a = Some ((a - 1) mod (mx + 1)) \<and>
    incseq_by mx a b = Some ((a + b) mod (mx + 1)) \<and> incack mx a = Some ((a + 1) mod (mx + 1)) \<and>
    incmsg mx a = Some ((a + 1) mod (mx + 1)) \<and> msglen mx a b = seqlen mx a b \<and>
    seqlen mx a b = (if (b - a) mod (mx + 1) = 2147483647 then None else Some ((b - a) mod (mx + 1) + 1))"
  using assms CSeqNo.inc_mod [OF assms(1-3)] CMsgNo.inc_mod [OF assms(1-3)] decseq_mod [OF assms(1-3)]
    incseq_by_mod [OF assms] CSeqNo.len_mod [OF assms] CMsgNo.len_mod [OF assms]
  by (simp add: incack_def incseq_def)

theorem counters_residues_witness:
  "incseq 2147483647 2147483647 = Some 0 \<and> seqlen 2147483647 2147483646 3 = Some 6 \<and> seqlen 2147483647 5 4 = None"
  using counters_residues [of 2147483647 2147483647 0] counters_residues [of 2147483647 2147483646 3]
    counters_residues [of 2147483647 5 4] by simp

text \<open>The order of the counters is consistent: the offset between two numbers leads from the first to the
  second, a non-negative one also through \<^verbatim>\<open>incseq\<close>, it is shorter than the threshold or than what the threshold leaves
  of the circle, and the comparison has the opposite sign and is 0 for equal numbers only.\<close>

lemma counters_order:
  assumes "0 < th" and "mx < 2147483648" and "0 \<le> a" and "a \<le> mx" and "0 \<le> b" and "b \<le> mx"
  shows "\<exists>y z. seqcmp th a b = Some y \<and> seqoff th mx a b = Some z \<and> msgcmp th a b = Some y \<and> msgoff th mx a b = Some z \<and>
    sgn y = - sgn z \<and> (y = 0 \<longleftrightarrow> a = b) \<and> (a + z) mod (mx + 1) = b \<and> (\<bar>z\<bar> < th \<or> \<bar>z\<bar> \<le> mx + 1 - th) \<and>
    (0 \<le> z \<longrightarrow> z \<le> mx \<longrightarrow> incseq_by mx a z = Some b)"
proof -
  have "msgcmp th a b = seqcmp th a b" "msgoff th mx a b = seqoff th mx a b" by (simp_all add: counter_defs)
  then show ?thesis
    using CSeqNo.off_leads [OF assms] CSeqNo.cmp_off [OF assms] incseq_by_mod [OF assms(2-4)] by fastforce
qed

lemma counters_order_example:
  "\<exists>y. seqcmp 1073741823 2147483646 3 = Some y \<and> seqoff 1073741823 2147483647 2147483646 3 = Some 5 \<and> y < 0 \<and>
     incseq_by 2147483647 2147483646 5 = Some 3"
proof -
  have "seqoff 1073741823 2147483647 2147483646 3 = Some 5" by (simp add: seqoff_def i32_def)
  with counters_order [of 1073741823 2147483647 2147483646 3] show ?thesis by (auto simp: sgn_if split: if_splits)
qed

end
