(* ===== verification/UDT_Cache.thy ===== *)
theory UDT_Cache
  imports UDT_SeqNo
begin

text \<open>
  The cache template \<^verbatim>\<open>CCache\<close> of \<^verbatim>\<open>P2P_Client_src/include/cache.h\<close>: a list of items in order of use, and a hash
  table of iterators into that list.

  A node of the list is a number that is never used again, and it holds the pointer to an item, \<open>None\<close> being a
  null pointer. An iterator is the number of its node: erasing the node makes it dangle, and reading through
  a dangling iterator, a null pointer or an index outside the table is undefined (\<open>None\<close>). The methods of the
  items are virtual and only declared, so they are a record of functions.
\<close>

section \<open>Items\<close>

record 'a item_ops =
  getKey :: "'a \<Rightarrow> int"
  item_eq :: "'a \<Rightarrow> 'a \<Rightarrow> bool"
  item_assign :: "'a \<Rightarrow> 'a \<Rightarrow> 'a"
  item_clone :: "'a \<Rightarrow> 'a option"

text \<open>What the header asks of them: comparison compares keys, assignment copies, and \<^verbatim>\<open>clone\<close> delivers a copy or
  NULL.\<close>

definition item_laws :: "'a item_ops \<Rightarrow> bool" where
  "item_laws ops \<longleftrightarrow> (\<forall>x. item_eq ops x x) \<and> (\<forall>x y. item_eq ops x y \<longrightarrow> item_eq ops y x) \<and>
     (\<forall>x y z. item_eq ops x y \<longrightarrow> item_eq ops y z \<longrightarrow> item_eq ops x z) \<and>
     (\<forall>x y. item_eq ops x y \<longrightarrow> getKey ops x = getKey ops y) \<and>
     (\<forall>x y. item_assign ops x y = y) \<and> (\<forall>x y. item_clone ops x = Some y \<longrightarrow> y = x)"

section \<open>State and operations\<close>

type_synonym node_id = nat
type_synonym 'a storage = "(node_id \<times> 'a option) list"

record 'a cache =
  m_StorageList :: "'a storage"
  m_vHashPtr :: "node_id list list"
  m_iMaxSize :: int
  m_iHashSize :: int
  m_iCurrSize :: int
  next_node :: node_id
  released :: "'a list"

text \<open>\<^verbatim>\<open>resize\<close> of a vector; a negative size, read as unsigned, raises an exception.\<close>

definition resize :: "int \<Rightarrow> node_id list list \<Rightarrow> node_id list list option" where
  "resize n v = (if n < 0 then None else Some (take (nat n) v @ replicate (nat n - length v) []))"

definition new_CCache :: "int \<Rightarrow> 'a cache option" where
  "new_CCache lim = do {
     h \<leftarrow> i32 (lim * 3);
     v \<leftarrow> resize h [];
     Some \<lparr>m_StorageList = [], m_vHashPtr = v, m_iMaxSize = lim, m_iHashSize = h, m_iCurrSize = 0,
       next_node = 0, released = []\<rparr> }"

definition deref :: "'a storage \<Rightarrow> node_id \<Rightarrow> 'a option" where
  "deref st i = Option.bind (map_of st i) id"

definition table_at :: "'a cache \<Rightarrow> int \<Rightarrow> node_id list option" where
  "table_at c key = (if 0 \<le> key \<and> nat key < length (m_vHashPtr c) then Some (m_vHashPtr c ! nat key) else None)"

definition hash_key :: "'a cache \<Rightarrow> int \<Rightarrow> int option" where
  "hash_key c key =
     (if key \<ge> m_iMaxSize c then (if m_iHashSize c = 0 then None else Some (key mod m_iHashSize c)) else Some key)"

text \<open>The loop over the iterators of one list: \<open>Some None\<close> if it reaches the end.\<close>

fun find_item :: "'a item_ops \<Rightarrow> 'a storage \<Rightarrow> 'a \<Rightarrow> node_id list \<Rightarrow> node_id option option" where
  "find_item ops st x [] = Some None"
| "find_item ops st x (i # is) = do {
     y \<leftarrow> deref st i;
     if item_eq ops x y then Some (Some i) else find_item ops st x is }"

definition lookup :: "'a item_ops \<Rightarrow> 'a cache \<Rightarrow> 'a \<Rightarrow> (int \<times> 'a) option" where
  "lookup ops c data =
     (if getKey ops data < 0 then Some (- 1, data)
      else do {
        key \<leftarrow> hash_key c (getKey ops data);
        item_list \<leftarrow> table_at c key;
        r \<leftarrow> find_item ops (m_StorageList c) data item_list;
        case r of
          None \<Rightarrow> Some (- 1, data)
        | Some i \<Rightarrow> do {
            y \<leftarrow> deref (m_StorageList c) i;
            Some (0, item_assign ops data y) } })"

definition erase :: "node_id \<Rightarrow> 'a storage \<Rightarrow> 'a storage" where
  "erase i st = filter (\<lambda>p. fst p \<noteq> i) st"

text \<open>The removal of the oldest entry. \<^verbatim>\<open>item_list\<close> is a reference to the list at \<open>key\<close>, so the assignment to it
  copies the list of the oldest entry over the list at \<open>key\<close>, and the loop erases from that copy.\<close>

definition evict :: "'a item_ops \<Rightarrow> int \<Rightarrow> 'a cache \<Rightarrow> 'a cache option" where
  "evict ops key c = do {
     (last_node, last_ptr) \<leftarrow> (if m_StorageList c = [] then None else Some (last (m_StorageList c)));
     last_data \<leftarrow> last_ptr;
     _ \<leftarrow> (if m_iHashSize c = 0 then None else Some ());
     let last_key = getKey ops last_data mod m_iHashSize c;
     item_list \<leftarrow> table_at c last_key;
     r \<leftarrow> find_item ops (m_StorageList c) last_data item_list;
     let item_list = (case r of None \<Rightarrow> item_list | Some i \<Rightarrow> remove1 i item_list);
     Some (c\<lparr>m_vHashPtr := (m_vHashPtr c)[nat key := item_list], released := released c @ [last_data],
             m_StorageList := butlast (m_StorageList c), m_iCurrSize := m_iCurrSize c - 1\<rparr>) }"

definition update_found :: "'a item_ops \<Rightarrow> 'a cache \<Rightarrow> int \<Rightarrow> node_id list \<Rightarrow> node_id \<Rightarrow> 'a \<Rightarrow> 'a cache option" where
  "update_found ops c key item_list i data = do {
     y \<leftarrow> deref (m_StorageList c) i;
     let curr = item_assign ops y data;
     Some (c\<lparr>m_StorageList := (next_node c, Some curr) # erase i (m_StorageList c),
             m_vHashPtr := (m_vHashPtr c)[nat key := next_node c # remove1 i item_list],
             next_node := next_node c + 1\<rparr>) }"

definition update_new :: "'a item_ops \<Rightarrow> 'a cache \<Rightarrow> int \<Rightarrow> node_id list \<Rightarrow> 'a \<Rightarrow> 'a cache option" where
  "update_new ops c key item_list data = do {
     let c = c\<lparr>m_StorageList := (next_node c, item_clone ops data) # m_StorageList c,
               m_vHashPtr := (m_vHashPtr c)[nat key := next_node c # item_list],
               next_node := next_node c + 1, m_iCurrSize := m_iCurrSize c + 1\<rparr>;
     if m_iCurrSize c \<ge> m_iMaxSize c then evict ops key c else Some c }"

definition update_item :: "'a item_ops \<Rightarrow> 'a cache \<Rightarrow> 'a \<Rightarrow> (int \<times> 'a cache) option" where
  "update_item ops c data =
     (if getKey ops data < 0 then Some (- 1, c)
      else do {
        key \<leftarrow> hash_key c (getKey ops data);
        item_list \<leftarrow> table_at c key;
        r \<leftarrow> find_item ops (m_StorageList c) data item_list;
        c \<leftarrow> (case r of Some i \<Rightarrow> update_found ops c key item_list i data
                     | None \<Rightarrow> update_new ops c key item_list data);
        Some (0, c) })"

definition setSizeLimit :: "int \<Rightarrow> 'a cache \<Rightarrow> 'a cache option" where
  "setSizeLimit lim c = do {
     h \<leftarrow> i32 (lim * 3);
     v \<leftarrow> resize h (m_vHashPtr c);
     Some (c\<lparr>m_iMaxSize := lim, m_iHashSize := h, m_vHashPtr := v\<rparr>) }"

definition clear :: "'a cache \<Rightarrow> 'a cache option" where
  "clear c =
     (if None \<in> snd ` set (m_StorageList c) then None
      else Some (c\<lparr>released := released c @ map (the \<circ> snd) (m_StorageList c), m_StorageList := [],
                   m_vHashPtr := map (\<lambda>_. []) (m_vHashPtr c), m_iCurrSize := 0\<rparr>))"

section \<open>The invariant\<close>

text \<open>The items of the cache, the last used first.\<close>

definition items :: "'a cache \<Rightarrow> 'a list" where
  "items c = map (the \<circ> snd) (m_StorageList c)"

definition home :: "'a item_ops \<Rightarrow> int \<Rightarrow> 'a \<Rightarrow> nat" where
  "home ops h x = nat (getKey ops x mod h)"

definition chain :: "'a item_ops \<Rightarrow> int \<Rightarrow> 'a storage \<Rightarrow> nat \<Rightarrow> node_id list" where
  "chain ops h st j = map fst (filter (\<lambda>p. home ops h (the (snd p)) = j) st)"

text \<open>The table matches the list; with room for one more item, as between two operations, \<open>cache_ok\<close>.\<close>

definition sized :: "'a cache \<Rightarrow> bool" where
  "sized c \<longleftrightarrow> 0 < m_iMaxSize c \<and> m_iHashSize c = 3 * m_iMaxSize c \<and> length (m_vHashPtr c) = nat (m_iHashSize c)"

definition cache_wf :: "'a item_ops \<Rightarrow> 'a cache \<Rightarrow> bool" where
  "cache_wf ops c \<longleftrightarrow> sized c \<and>
     distinct (map fst (m_StorageList c)) \<and> (\<forall>i \<in> fst ` set (m_StorageList c). i < next_node c) \<and>
     (\<forall>p \<in> set (m_StorageList c). snd p \<noteq> None \<and> 0 \<le> getKey ops (the (snd p))) \<and>
     m_iCurrSize c = int (length (m_StorageList c)) \<and>
     sorted_wrt (\<lambda>x y. \<not> item_eq ops x y) (items c) \<and>
     (\<forall>j < length (m_vHashPtr c). m_vHashPtr c ! j = chain ops (m_iHashSize c) (m_StorageList c) j)"

definition cache_ok :: "'a item_ops \<Rightarrow> 'a cache \<Rightarrow> bool" where
  "cache_ok ops c \<longleftrightarrow> cache_wf ops c \<and> length (items c) < nat (m_iMaxSize c)"

lemma new_CCache_ok:
  assumes "0 < lim" and "lim \<le> 715827882"
  shows "\<exists>c. new_CCache lim = Some c \<and> cache_ok ops c \<and> items c = [] \<and> m_iMaxSize c = lim"
  using assms by (auto simp: new_CCache_def resize_def cache_ok_def cache_wf_def sized_def items_def chain_def)

section \<open>Walking a list of iterators\<close>

lemma find_item_chain:
  "\<forall>p \<in> set ps. deref st (fst p) = snd p \<and> snd p \<noteq> None \<Longrightarrow>
   find_item ops st x (map fst ps) = Some (map_option fst (find (\<lambda>p. item_eq ops x (the (snd p))) ps))"
  by (induction ps) auto

lemma find_filter: "(\<And>p. p \<in> set xs \<Longrightarrow> P p \<Longrightarrow> Q p) \<Longrightarrow> find P (filter Q xs) = find P xs"
  by (induction xs) auto

lemma remove1_map_fst:
  "distinct (map fst ps) \<Longrightarrow> remove1 i (map fst ps) = map fst (filter (\<lambda>p. fst p \<noteq> i) ps)"
proof (induction ps)
  case (Cons p ps)
  have "filter (\<lambda>p. fst p \<noteq> i) ps = ps" if "i \<notin> fst ` set ps" using that by (auto simp: filter_id_conv)
  with Cons show ?case by auto
qed simp

lemma deref_member: "distinct (map fst st) \<Longrightarrow> p \<in> set st \<Longrightarrow> deref st (fst p) = snd p"
  by (cases p) (simp add: deref_def)

lemma sorted_wrt_unique:
  assumes "sorted_wrt (\<lambda>x y. \<not> R x y) (map f ps)" and "p \<in> set ps" and "q \<in> set ps" and "R (f p) (f q)" and "R (f q) (f p)"
  shows "p = q"
  using assms by (induction ps) auto

lemma hash_key_sized:
  assumes "sized c" and "0 \<le> getKey ops x"
  shows "hash_key c (getKey ops x) = Some (getKey ops x mod m_iHashSize c)"
    and "table_at c (getKey ops x mod m_iHashSize c) = Some (m_vHashPtr c ! home ops (m_iHashSize c) x)"
    and "home ops (m_iHashSize c) x < length (m_vHashPtr c)" and "nat (getKey ops x mod m_iHashSize c) = home ops (m_iHashSize c) x"
proof -
  have h: "0 < m_iHashSize c" "m_iMaxSize c < m_iHashSize c" using assms(1) by (auto simp: sized_def)
  then show "hash_key c (getKey ops x) = Some (getKey ops x mod m_iHashSize c)"
    using assms(2) by (simp add: hash_key_def)
  have "0 \<le> getKey ops x mod m_iHashSize c" "getKey ops x mod m_iHashSize c < m_iHashSize c" using h by simp_all
  then show lt: "home ops (m_iHashSize c) x < length (m_vHashPtr c)" using assms(1) by (simp add: home_def sized_def nat_less_eq_zless)
  show "nat (getKey ops x mod m_iHashSize c) = home ops (m_iHashSize c) x" by (simp add: home_def)
  show "table_at c (getKey ops x mod m_iHashSize c) = Some (m_vHashPtr c ! home ops (m_iHashSize c) x)"
    using lt h by (simp add: table_at_def home_def)
qed

lemma hash_key_home:
  assumes "cache_wf ops c" and "0 \<le> getKey ops x"
  shows "hash_key c (getKey ops x) = Some (getKey ops x mod m_iHashSize c)"
    and "table_at c (getKey ops x mod m_iHashSize c) = Some (chain ops (m_iHashSize c) (m_StorageList c) (home ops (m_iHashSize c) x))"
    and "home ops (m_iHashSize c) x < length (m_vHashPtr c)" and "nat (getKey ops x mod m_iHashSize c) = home ops (m_iHashSize c) x"
proof -
  have "sized c" using assms(1) by (simp add: cache_wf_def)
  note s = hash_key_sized [OF this assms(2)]
  then show "table_at c (getKey ops x mod m_iHashSize c) = Some (chain ops (m_iHashSize c) (m_StorageList c) (home ops (m_iHashSize c) x))"
    using assms(1) by (simp add: cache_wf_def)
qed (use assms hash_key_sized [of c ops x] in \<open>simp_all add: cache_wf_def\<close>)

lemma item_lawsD:
  assumes "item_laws ops"
  shows "item_eq ops x x" and "item_eq ops x y \<Longrightarrow> item_eq ops y x"
    and "item_eq ops x y \<Longrightarrow> item_eq ops y z \<Longrightarrow> item_eq ops x z"
    and "item_eq ops x y \<Longrightarrow> getKey ops x = getKey ops y" and "item_assign ops x y = y" and "item_clone ops x \<noteq> None \<Longrightarrow> item_clone ops x = Some x"
  using assms unfolding item_laws_def by blast+

lemma eq_home: "item_laws ops \<Longrightarrow> item_eq ops x y \<Longrightarrow> home ops h x = home ops h y"
  by (simp add: home_def item_lawsD(4))

text \<open>The search in the list of an item's own key finds what a search through all items finds.\<close>

lemma find_item_ok:
  assumes laws: "item_laws ops" and ok: "cache_wf ops c"
  shows "find_item ops (m_StorageList c) x (chain ops (m_iHashSize c) (m_StorageList c) (home ops (m_iHashSize c) x)) =
    Some (map_option fst (find (\<lambda>p. item_eq ops x (the (snd p))) (m_StorageList c)))"
proof -
  let ?st = "m_StorageList c"
  have "find_item ops ?st x (chain ops (m_iHashSize c) ?st (home ops (m_iHashSize c) x)) =
    Some (map_option fst (find (\<lambda>p. item_eq ops x (the (snd p))) (filter (\<lambda>p. home ops (m_iHashSize c) (the (snd p)) = home ops (m_iHashSize c) x) ?st)))"
    unfolding chain_def by (rule find_item_chain) (use ok in \<open>auto simp: cache_wf_def deref_member\<close>)
  moreover have "find (\<lambda>p. item_eq ops x (the (snd p))) (filter (\<lambda>p. home ops (m_iHashSize c) (the (snd p)) = home ops (m_iHashSize c) x) ?st) =
      find (\<lambda>p. item_eq ops x (the (snd p))) ?st"
    by (rule find_filter) (simp add: eq_home [OF laws])
  ultimately show ?thesis by simp
qed

lemma find_items: "find P (items c) = map_option (the \<circ> snd) (find (P \<circ> the \<circ> snd) (m_StorageList c))"
proof -
  have "find P (map f xs) = map_option f (find (P \<circ> f) xs)" for f :: "_ \<Rightarrow> 'a" and xs :: "'a storage"
    by (induction xs) auto
  then show ?thesis by (simp add: items_def comp_assoc)
qed

lemma lookup_ok:
  assumes laws: "item_laws ops" and ok: "cache_wf ops c" and key: "0 \<le> getKey ops x"
  shows "lookup ops c x = Some (case find (item_eq ops x) (items c) of None \<Rightarrow> (- 1, x) | Some y \<Rightarrow> (0, y))"
proof (cases "find (\<lambda>p. item_eq ops x (the (snd p))) (m_StorageList c)")
  case None
  then show ?thesis
    using key hash_key_home [OF ok key] find_item_ok [OF laws ok, of x] by (simp add: lookup_def find_items comp_def)
next
  case (Some p)
  then have "p \<in> set (m_StorageList c)" by (auto simp: find_Some_iff)
  then have "deref (m_StorageList c) (fst p) = Some (the (snd p))"
    using ok by (auto simp: cache_wf_def deref_member)
  then show ?thesis
    using Some key laws hash_key_home [OF ok key] find_item_ok [OF laws ok, of x]
    by (simp add: lookup_def find_items comp_def item_lawsD(5))
qed

section \<open>Updates\<close>

text \<open>A new node in front of the list and in front of its chain.\<close>

lemma cache_wf_push:
  assumes ok: "cache_wf ops c" and x: "0 \<le> getKey ops x"
    and st: "st = filter P (m_StorageList c)" and differ: "\<forall>p \<in> set st. \<not> item_eq ops x (the (snd p))"
    and v: "v = (m_vHashPtr c)[home ops (m_iHashSize c) x := next_node c # chain ops (m_iHashSize c) st (home ops (m_iHashSize c) x)]"
    and other: "\<forall>j. j \<noteq> home ops (m_iHashSize c) x \<longrightarrow> chain ops (m_iHashSize c) st j = chain ops (m_iHashSize c) (m_StorageList c) j"
    and c': "c' = c\<lparr>m_StorageList := (next_node c, Some x) # st, m_vHashPtr := v, next_node := next_node c + 1,
        m_iCurrSize := int (length st) + 1\<rparr>"
  shows "cache_wf ops c'"
proof -
  have ids: "\<forall>i \<in> fst ` set st. i < next_node c" "distinct (map fst st)"
    "\<forall>p \<in> set st. snd p \<noteq> None \<and> 0 \<le> getKey ops (the (snd p))"
    using ok by (auto simp: cache_wf_def st distinct_map_filter)
  have "sorted_wrt (\<lambda>x y. \<not> item_eq ops x y) (map (the \<circ> snd) st)"
    using ok unfolding st by (auto simp: cache_wf_def items_def sorted_wrt_map intro: sorted_wrt_filter)
  moreover have ch: "chain ops (m_iHashSize c') ((next_node c, Some x) # st) j =
      (if j = home ops (m_iHashSize c) x then next_node c # chain ops (m_iHashSize c) st j else chain ops (m_iHashSize c) st j)" for j
    by (simp add: chain_def home_def c')
  then have "m_vHashPtr c' ! j = chain ops (m_iHashSize c') (m_StorageList c') j" if "j < length (m_vHashPtr c)" for j
    using that ok other by (simp add: c' v nth_list_update cache_wf_def)
  ultimately show ?thesis
    using ok ids x differ by (fastforce simp: cache_wf_def sized_def items_def c' v)
qed

lemma erase_one:
  assumes "distinct (map fst st)" and "p \<in> set st"
  shows "length (filter (\<lambda>q. fst q \<noteq> fst p) st) + 1 = length st" and "q \<in> set st \<Longrightarrow> fst q = fst p \<Longrightarrow> q = p"
proof -
  have "length (map fst (filter (\<lambda>q. fst q \<noteq> fst p) st)) = length st - 1"
    unfolding remove1_map_fst [OF assms(1), symmetric] using assms(2) by (simp add: length_remove1)
  then show "length (filter (\<lambda>q. fst q \<noteq> fst p) st) + 1 = length st" using assms(2) by (cases st) auto
  show "q \<in> set st \<Longrightarrow> fst q = fst p \<Longrightarrow> q = p" using assms by (auto simp: distinct_map dest: inj_onD)
qed

lemma found_unique:
  assumes laws: "item_laws ops" and ok: "cache_wf ops c"
    and p: "p \<in> set (m_StorageList c)" "item_eq ops x (the (snd p))" and q: "q \<in> set (m_StorageList c)"
  shows "fst q = fst p \<longleftrightarrow> item_eq ops x (the (snd q))"
proof
  assume "fst q = fst p"
  then have "q = p" using erase_one(2) [OF _ p(1) q] ok by (simp add: cache_wf_def)
  then show "item_eq ops x (the (snd q))" using p(2) by simp
next
  assume "item_eq ops x (the (snd q))"
  then have "item_eq ops (the (snd p)) (the (snd q))" "item_eq ops (the (snd q)) (the (snd p))"
    using p(2) item_lawsD(2,3) [OF laws] by blast+
  then have "q = p" using ok p(1) q sorted_wrt_unique [of "item_eq ops" "the \<circ> snd" "m_StorageList c" p q]
    by (simp add: cache_wf_def items_def)
  then show "fst q = fst p" by simp
qed

lemma chain_erase:
  assumes "distinct (map fst st)"
  shows "chain ops h (filter (\<lambda>q. fst q \<noteq> i) st) j = remove1 i (chain ops h st j)"
proof -
  have "distinct (map fst (filter (\<lambda>p. home ops h (the (snd p)) = j) st))" using assms by (rule distinct_map_filter)
  from remove1_map_fst [OF this, of i] show ?thesis by (simp add: chain_def conj_commute)
qed

lemma chain_other: "p \<in> set st \<Longrightarrow> distinct (map fst st) \<Longrightarrow> home ops h (the (snd p)) \<noteq> j \<Longrightarrow> fst p \<notin> set (chain ops h st j)"
  using erase_one(2) [of st p] by (force simp: chain_def)

lemma update_found_ok:
  assumes laws: "item_laws ops" and ok: "cache_wf ops c" and key: "0 \<le> getKey ops x"
    and found: "find (\<lambda>p. item_eq ops x (the (snd p))) (m_StorageList c) = Some p"
  shows "\<exists>c'. update_item ops c x = Some (0, c') \<and> cache_wf ops c' \<and> m_iMaxSize c' = m_iMaxSize c \<and>
    items c' = x # filter (\<lambda>y. \<not> item_eq ops x y) (items c) \<and> length (items c') = length (items c)"
proof -
  let ?st = "m_StorageList c" and ?h = "home ops (m_iHashSize c) x"
  let ?rest = "filter (\<lambda>q. fst q \<noteq> fst p) ?st"
  have p: "p \<in> set ?st" "item_eq ops x (the (snd p))" using found by (auto simp: find_Some_iff)
  have dist: "distinct (map fst ?st)" and size: "m_iCurrSize c = int (length ?st)"
    using ok by (simp_all add: cache_wf_def)
  note unique = found_unique [OF laws ok p] and len = erase_one(1) [OF dist p(1)]
  let ?c = "c\<lparr>m_StorageList := (next_node c, Some x) # ?rest,
      m_vHashPtr := (m_vHashPtr c)[?h := next_node c # chain ops (m_iHashSize c) ?rest ?h], next_node := next_node c + 1,
      m_iCurrSize := int (length ?rest) + 1\<rparr>"
  have "deref ?st (fst p) = Some (the (snd p))" using ok p(1) deref_member [OF dist p(1)] by (auto simp: cache_wf_def)
  then have "update_item ops c x = Some (0, c\<lparr>m_StorageList := (next_node c, Some x) # ?rest,
      m_vHashPtr := (m_vHashPtr c)[?h := next_node c # chain ops (m_iHashSize c) ?rest ?h], next_node := next_node c + 1\<rparr>)"
    using key hash_key_home [OF ok key] find_item_ok [OF laws ok, of x] found
    by (simp add: update_item_def update_found_def erase_def item_lawsD(5) [OF laws] chain_erase [OF dist])
  also have "\<dots> = Some (0, ?c)" using len size by (cases c) simp
  finally have run: "update_item ops c x = Some (0, ?c)" .
  have "home ops (m_iHashSize c) (the (snd p)) = ?h" using eq_home [OF laws p(2)] by simp
  then have "chain ops (m_iHashSize c) ?rest j = chain ops (m_iHashSize c) ?st j" if "j \<noteq> ?h" for j
    using that chain_other [OF p(1) dist] by (simp add: chain_erase [OF dist] remove1_idem)
  then have wf: "cache_wf ops ?c"
    using unique by (intro cache_wf_push [OF ok key refl _ refl _ refl]) auto
  have rest: "map (the \<circ> snd) ?rest = filter (\<lambda>y. \<not> item_eq ops x y) (items c)"
    using unique by (auto simp: items_def filter_map comp_def intro!: arg_cong [where f = "map _"] filter_cong)
  have "items ?c = x # filter (\<lambda>y. \<not> item_eq ops x y) (items c)" using rest by (simp add: items_def)
  moreover have "length (items ?c) = length (items c)" "m_iMaxSize ?c = m_iMaxSize c" using len by (simp_all add: items_def)
  ultimately show ?thesis using run wf by blast
qed

definition pushed :: "'a item_ops \<Rightarrow> 'a cache \<Rightarrow> 'a \<Rightarrow> 'a cache" where
  "pushed ops c x = c\<lparr>m_StorageList := (next_node c, Some x) # m_StorageList c,
     m_vHashPtr := (m_vHashPtr c)[home ops (m_iHashSize c) x := next_node c # chain ops (m_iHashSize c) (m_StorageList c) (home ops (m_iHashSize c) x)],
     next_node := next_node c + 1, m_iCurrSize := m_iCurrSize c + 1\<rparr>"

lemma pushed_wf:
  assumes ok: "cache_wf ops c" and key: "0 \<le> getKey ops x" and new: "\<forall>p \<in> set (m_StorageList c). \<not> item_eq ops x (the (snd p))"
  shows "cache_wf ops (pushed ops c x)"
proof (rule cache_wf_push [OF ok key, where P = "\<lambda>_. True"])
  show "pushed ops c x = c\<lparr>m_StorageList := (next_node c, Some x) # m_StorageList c,
     m_vHashPtr := (m_vHashPtr c)[home ops (m_iHashSize c) x := next_node c # chain ops (m_iHashSize c) (m_StorageList c) (home ops (m_iHashSize c) x)],
     next_node := next_node c + 1, m_iCurrSize := int (length (m_StorageList c)) + 1\<rparr>"
    using ok by (simp add: pushed_def cache_wf_def)
qed (use new in simp_all)

lemma update_item_new:
  assumes laws: "item_laws ops" and ok: "cache_wf ops c" and key: "0 \<le> getKey ops x"
    and new: "\<forall>p \<in> set (m_StorageList c). \<not> item_eq ops x (the (snd p))" and clone: "item_clone ops x \<noteq> None"
  shows "update_item ops c x = map_option (Pair 0)
    (if m_iCurrSize c + 1 \<ge> m_iMaxSize c then evict ops (getKey ops x mod m_iHashSize c) (pushed ops c x) else Some (pushed ops c x))"
proof -
  have "find (\<lambda>p. item_eq ops x (the (snd p))) (m_StorageList c) = None" using new by (auto simp: find_None_iff)
  then show ?thesis
    using key hash_key_home [OF ok key] find_item_ok [OF laws ok, of x]
    by (simp add: update_item_def update_new_def item_lawsD(6) [OF laws clone] pushed_def)
      (auto simp: map_option_case split: option.splits)
qed

section \<open>Removing the oldest entry\<close>

lemma evict_eq:
  assumes laws: "item_laws ops" and ok: "cache_wf ops c" and last: "m_StorageList c = ps @ [(i, Some z)]"
  shows "evict ops key c = Some (c\<lparr>m_vHashPtr := (m_vHashPtr c)[nat key := remove1 i (chain ops (m_iHashSize c) (m_StorageList c) (home ops (m_iHashSize c) z))],
     released := released c @ [z], m_StorageList := ps, m_iCurrSize := m_iCurrSize c - 1\<rparr>)"
proof -
  have z: "(i, Some z) \<in> set (m_StorageList c)" "0 \<le> getKey ops z" using ok last by (auto simp: cache_wf_def)
  have "find (\<lambda>p. item_eq ops z (the (snd p))) (m_StorageList c) \<noteq> None"
    using z(1) item_lawsD(1) [OF laws, of z] unfolding find_None_iff by force
  then obtain q where q: "find (\<lambda>p. item_eq ops z (the (snd p))) (m_StorageList c) = Some q" by auto
  then have "q \<in> set (m_StorageList c)" "item_eq ops z (the (snd q))" by (auto simp: find_Some_iff)
  then have "fst q = i" using found_unique [OF laws ok z(1), of z q] item_lawsD(1) [OF laws, of z] by simp
  moreover have "m_iHashSize c \<noteq> 0" using ok by (auto simp: cache_wf_def sized_def)
  ultimately show ?thesis
    using q hash_key_home [OF ok z(2)] find_item_ok [OF laws ok, of z] last by (simp add: evict_def)
qed

lemma erase_last: "distinct (map fst (ps @ [p])) \<Longrightarrow> filter (\<lambda>q. fst q \<noteq> fst p) (ps @ [p]) = ps"
  by (simp add: filter_id_conv) (metis imageI)

lemma chain_init:
  assumes "distinct (map fst st)" and "st = ps @ [(i, v)]"
  shows "chain ops h ps j = remove1 i (chain ops h st j)"
proof -
  have "ps = filter (\<lambda>q. fst q \<noteq> i) st" using erase_last [of ps "(i, v)"] assms by simp
  then show ?thesis using chain_erase [OF assms(1)] by metis
qed

lemma evict_same_home:
  assumes laws: "item_laws ops" and ok: "cache_wf ops c" and last: "m_StorageList c = ps @ [(i, Some z)]"
    and home: "nat key = home ops (m_iHashSize c) z"
  shows "\<exists>c'. evict ops key c = Some c' \<and> cache_wf ops c' \<and> items c' = butlast (items c) \<and> m_iMaxSize c' = m_iMaxSize c"
proof -
  let ?st = "m_StorageList c"
  let ?c = "c\<lparr>m_vHashPtr := (m_vHashPtr c)[nat key := remove1 i (chain ops (m_iHashSize c) ?st (home ops (m_iHashSize c) z))],
     released := released c @ [z], m_StorageList := ps, m_iCurrSize := m_iCurrSize c - 1\<rparr>"
  have dist: "distinct (map fst ?st)" and z: "(i, Some z) \<in> set ?st" using ok last by (simp_all add: cache_wf_def)
  note ch = chain_init [OF dist last]
  have "m_vHashPtr ?c ! j = chain ops (m_iHashSize c) ps j" if "j < length (m_vHashPtr c)" for j
    using that ok home chain_other [OF z dist, of ops "m_iHashSize c" j] by (cases "j = nat key") (auto simp: ch cache_wf_def remove1_idem)
  moreover have "sorted_wrt (\<lambda>x y. \<not> item_eq ops x y) (map (the \<circ> snd) ps)"
    using ok last by (simp add: cache_wf_def items_def sorted_wrt_append)
  ultimately have "cache_wf ops ?c" using ok last by (auto simp: cache_wf_def sized_def items_def)
  moreover have "items ?c = butlast (items c)" by (simp add: items_def last)
  ultimately show ?thesis using evict_eq [OF laws ok last, of key] by auto
qed

text \<open>With the oldest entry in another list, that list keeps its iterator and the list at \<open>key\<close> is overwritten.\<close>

lemma find_item_append:
  "find_item ops st x xs = Some None \<Longrightarrow> find_item ops st x (xs @ ys) = find_item ops st x ys"
  by (induction xs) (auto split: if_splits option.splits simp: Option.bind_eq_Some_conv)

lemma evict_other_home:
  assumes laws: "item_laws ops" and ok: "cache_wf ops c" and st: "m_StorageList c = ps @ [(i, Some z)]"
    and x: "0 \<le> getKey ops x" "home ops (m_iHashSize c) x \<noteq> home ops (m_iHashSize c) z"
  shows "\<exists>c'. evict ops (getKey ops x mod m_iHashSize c) c = Some c' \<and> lookup ops c' x = Some (- 1, x) \<and> lookup ops c' z = None"
proof -
  let ?h = "m_iHashSize c"
  let ?c = "c\<lparr>m_vHashPtr := (m_vHashPtr c)[home ops ?h x := chain ops ?h ps (home ops ?h z)],
     released := released c @ [z], m_StorageList := ps, m_iCurrSize := m_iCurrSize c - 1\<rparr>"
  have dist: "distinct (map fst (m_StorageList c))" and z: "0 \<le> getKey ops z" using ok st by (simp_all add: cache_wf_def)
  have some: "\<forall>p \<in> set ps. deref ps (fst p) = snd p \<and> snd p \<noteq> None"
    using ok dist st by (auto simp: cache_wf_def deref_member)
  have run: "evict ops (getKey ops x mod ?h) c = Some ?c"
    using evict_eq [OF laws ok st] hash_key_home(4) [OF ok x(1)] chain_init [OF dist st] by simp
  have sized: "sized ?c" and lt: "home ops ?h x < length (m_vHashPtr c)" using ok hash_key_home(3) [OF ok x(1)] by (simp_all add: cache_wf_def sized_def)
  have none: "find_item ops ps y (chain ops ?h ps (home ops ?h z)) = Some None"
    if "\<forall>p \<in> set ps. home ops ?h (the (snd p)) = home ops ?h z \<longrightarrow> \<not> item_eq ops y (the (snd p))" for y
    unfolding chain_def by (subst find_item_chain) (use some that in \<open>auto simp: find_None_iff\<close>)
  have "find_item ops ps x (chain ops ?h ps (home ops ?h z)) = Some None"
    using eq_home [OF laws, of x _ ?h] x(2) by (intro none) fastforce
  then have "lookup ops ?c x = Some (- 1, x)"
    using x(1) hash_key_sized [OF sized x(1)] lt by (simp add: lookup_def)
  moreover have "lookup ops ?c z = None"
  proof -
    have "\<not> item_eq ops z (the (snd p))" if "p \<in> set ps" for p
      using that ok st item_lawsD(2) [OF laws] by (auto simp: cache_wf_def items_def sorted_wrt_append)
    then have "find_item ops ps z (chain ops ?h ps (home ops ?h z)) = Some None" by (intro none) blast
    moreover have "m_vHashPtr c ! home ops ?h z = chain ops ?h ps (home ops ?h z) @ [i]"
      using ok st hash_key_home(3) [OF ok z] by (simp add: cache_wf_def chain_def)
    moreover have "deref ps i = None" using dist st map_of_eq_None_iff [of ps i] by (simp add: deref_def)
    ultimately have "find_item ops ps z (m_vHashPtr c ! home ops ?h z) = None" by (simp add: find_item_append)
    then show ?thesis using z hash_key_sized [OF sized z] x(2) by (simp add: lookup_def)
  qed
  ultimately show ?thesis using run by blast
qed

section \<open>The cache as a list in order of use\<close>

text \<open>What the header promises: an update puts the item in front, in place of an entry with its key, and the oldest
  entry may go.\<close>

definition lru_update :: "'a item_ops \<Rightarrow> nat \<Rightarrow> 'a \<Rightarrow> 'a list \<Rightarrow> 'a list" where
  "lru_update ops n x xs = take n (x # filter (\<lambda>y. \<not> item_eq ops x y) xs)"

definition lru_find :: "'a item_ops \<Rightarrow> 'a \<Rightarrow> 'a list \<Rightarrow> int \<times> 'a" where
  "lru_find ops x xs = (case find (item_eq ops x) xs of None \<Rightarrow> (- 1, x) | Some y \<Rightarrow> (0, y))"

text \<open>The updates that replace an entry, and those for which \<^verbatim>\<open>clone\<close> succeeds and the removal of the oldest entry is
  not needed or hits the list of the new one.\<close>

definition safe_update :: "'a item_ops \<Rightarrow> 'a cache \<Rightarrow> 'a \<Rightarrow> bool" where
  "safe_update ops c x \<longleftrightarrow> (\<exists>y \<in> set (items c). item_eq ops x y) \<or>
     item_clone ops x \<noteq> None \<and> (length (items c) + 1 < nat (m_iMaxSize c) \<or>
       home ops (m_iHashSize c) (last (x # items c)) = home ops (m_iHashSize c) x)"

lemma no_equal_item:
  "\<forall>y \<in> set (items c). \<not> item_eq ops x y \<Longrightarrow> \<forall>p \<in> set (m_StorageList c). \<not> item_eq ops x (the (snd p))"
  by (auto simp: items_def)

lemma pushed_simps [simp]:
  "items (pushed ops c x) = x # items c" "m_iHashSize (pushed ops c x) = m_iHashSize c" "m_iMaxSize (pushed ops c x) = m_iMaxSize c"
  by (simp_all add: pushed_def items_def)

lemma last_node:
  assumes "cache_wf ops c" and "items c \<noteq> []"
  obtains ps i where "m_StorageList c = ps @ [(i, Some (last (items c)))]"
proof -
  obtain ps i v where st: "m_StorageList c = ps @ [(i, v)]"
    using assms(2) by (cases "m_StorageList c" rule: rev_cases) (auto simp: items_def)
  moreover have "v = Some (last (items c))" using assms(1) st by (auto simp: cache_wf_def items_def)
  ultimately show ?thesis using that by blast
qed

lemma update_refines:
  assumes laws: "item_laws ops" and ok: "cache_ok ops c" and key: "0 \<le> getKey ops x" and safe: "safe_update ops c x"
  shows "\<exists>c'. update_item ops c x = Some (0, c') \<and> cache_ok ops c' \<and> m_iMaxSize c' = m_iMaxSize c \<and>
    items c' = lru_update ops (nat (m_iMaxSize c) - 1) x (items c)"
proof (cases "\<exists>y \<in> set (items c). item_eq ops x y")
  case True
  then have "find (\<lambda>p. item_eq ops x (the (snd p))) (m_StorageList c) \<noteq> None" unfolding find_None_iff items_def by force
  then obtain p where "find (\<lambda>p. item_eq ops x (the (snd p))) (m_StorageList c) = Some p" by auto
  with update_found_ok [OF laws _ key] ok obtain c' where c': "update_item ops c x = Some (0, c')" "cache_wf ops c'"
    "m_iMaxSize c' = m_iMaxSize c" "items c' = x # filter (\<lambda>y. \<not> item_eq ops x y) (items c)" "length (items c') = length (items c)"
    unfolding cache_ok_def by blast
  moreover have "length (items c') \<le> nat (m_iMaxSize c) - 1" using ok c'(5) by (auto simp: cache_ok_def)
  ultimately show ?thesis using ok by (auto simp: lru_update_def cache_ok_def)
next
  case False
  have wf: "cache_wf ops c" and len: "length (items c) < nat (m_iMaxSize c)" using ok by (simp_all add: cache_ok_def)
  have curr: "m_iCurrSize c = int (length (items c))" using wf by (simp add: cache_wf_def items_def)
  have filt: "filter (\<lambda>y. \<not> item_eq ops x y) (items c) = items c" using False by (auto simp: filter_id_conv)
  have new: "\<forall>p \<in> set (m_StorageList c). \<not> item_eq ops x (the (snd p))" by (rule no_equal_item) (use False in blast)
  have clone: "item_clone ops x \<noteq> None" using safe False by (auto simp: safe_update_def)
  note run = update_item_new [OF laws wf key new clone] and pwf = pushed_wf [OF wf key new]
  show ?thesis
  proof (cases "length (items c) + 1 < nat (m_iMaxSize c)")
    case True
    then show ?thesis using run pwf curr filt by (auto simp: lru_update_def cache_ok_def)
  next
    case full: False
    then have max: "nat (m_iMaxSize c) = length (items c) + 1" using len by simp
    obtain ps i where st: "m_StorageList (pushed ops c x) = ps @ [(i, Some (last (x # items c)))]"
      using last_node [OF pwf] by auto
    have "nat (getKey ops x mod m_iHashSize c) = home ops (m_iHashSize (pushed ops c x)) (last (x # items c))"
      using safe full False hash_key_home(4) [OF wf key] by (auto simp: safe_update_def)
    from evict_same_home [OF laws pwf st this] obtain c' where "evict ops (getKey ops x mod m_iHashSize c) (pushed ops c x) = Some c'"
      "cache_wf ops c'" "items c' = butlast (x # items c)" "m_iMaxSize c' = m_iMaxSize c" by auto
    then show ?thesis using run curr max filt by (auto simp: lru_update_def cache_ok_def butlast_conv_take)
  qed
qed

text \<open>C36. As long as \<^verbatim>\<open>clone\<close> does not fail and no update has to remove an entry from a list other than its own, the
  cache is the list of its items in order of use: \<^verbatim>\<open>lookup\<close> finds exactly what a search through that list finds, \<^verbatim>\<open>update\<close> puts its item in
  front in place of an entry with the same key and keeps the invariant of list and table. At most one item less
  than the size limit is kept.\<close>

theorem cache_refines_lru:
  assumes "item_laws ops" and "cache_ok ops c" and "0 \<le> getKey ops x"
  shows "lookup ops c x = Some (lru_find ops x (items c)) \<and>
    (safe_update ops c x \<longrightarrow> (\<exists>c'. update_item ops c x = Some (0, c') \<and> cache_ok ops c' \<and> m_iMaxSize c' = m_iMaxSize c \<and>
       items c' = lru_update ops (nat (m_iMaxSize c) - 1) x (items c)))"
  using update_refines [OF assms] lookup_ok [OF assms(1) _ assms(3)] assms(2) by (simp add: lru_find_def cache_ok_def)

text \<open>C37. An update that fills the cache and has to remove an entry from another list corrupts it, because the code
  assigns through the reference to the list of the new item: the call reports success, but the item just stored is
  not found, and looking for the removed item reads through an iterator to an erased node.\<close>

theorem cache_overflow_corrupts:
  assumes "item_laws ops" and "cache_ok ops c" and "0 \<le> getKey ops x" and "\<forall>y \<in> set (items c). \<not> item_eq ops x y"
    and "length (items c) + 1 = nat (m_iMaxSize c)" and "item_clone ops x \<noteq> None"
    and "home ops (m_iHashSize c) (last (x # items c)) \<noteq> home ops (m_iHashSize c) x"
  shows "\<exists>c'. update_item ops c x = Some (0, c') \<and> lookup ops c' x = Some (- 1, x) \<and> lookup ops c' (last (x # items c)) = None"
proof -
  have wf: "cache_wf ops c" using assms(2) by (simp add: cache_ok_def)
  have curr: "m_iCurrSize c = int (length (items c))" using wf by (simp add: cache_wf_def items_def)
  note new = no_equal_item [OF assms(4)]
  note pwf = pushed_wf [OF wf assms(3) new]
  obtain ps i where st: "m_StorageList (pushed ops c x) = ps @ [(i, Some (last (x # items c)))]"
    using last_node [OF pwf] by auto
  from evict_other_home [OF assms(1) pwf st assms(3)] assms(7) show ?thesis
    using update_item_new [OF assms(1) wf assms(3) new assms(6)] curr assms(5) by auto
qed

text \<open>C38. The result of \<^verbatim>\<open>clone\<close> is not checked, although the header allows NULL: while there is room for a new item,
  an update whose \<^verbatim>\<open>clone\<close> fails reports success and stores the null pointer, and the next lookup of the item, or of
  any other one of its hash list, reads through it.\<close>

theorem cache_clone_failure:
  assumes "item_laws ops" and "cache_ok ops c" and "0 \<le> getKey ops x" and "\<forall>y \<in> set (items c). \<not> item_eq ops x y"
    and "length (items c) + 1 < nat (m_iMaxSize c)" and "item_clone ops x = None"
    and "0 \<le> getKey ops y" and "home ops (m_iHashSize c) y = home ops (m_iHashSize c) x"
  shows "\<exists>c'. update_item ops c x = Some (0, c') \<and> lookup ops c' y = None"
proof -
  let ?h = "m_iHashSize c"
  let ?c = "c\<lparr>m_StorageList := (next_node c, None) # m_StorageList c,
     m_vHashPtr := (m_vHashPtr c)[home ops ?h x := next_node c # chain ops ?h (m_StorageList c) (home ops ?h x)],
     next_node := next_node c + 1, m_iCurrSize := m_iCurrSize c + 1\<rparr>"
  have wf: "cache_wf ops c" using assms(2) by (simp add: cache_ok_def)
  have curr: "m_iCurrSize c = int (length (items c))" using wf by (simp add: cache_wf_def items_def)
  have "find (\<lambda>p. item_eq ops x (the (snd p))) (m_StorageList c) = None"
    using no_equal_item [OF assms(4)] by (auto simp: find_None_iff)
  moreover have "\<not> m_iMaxSize c \<le> m_iCurrSize c + 1" using assms(5) curr by linarith
  ultimately have "update_item ops c x = Some (0, ?c)"
    using assms(3,6) hash_key_home [OF wf assms(3)] find_item_ok [OF assms(1) wf, of x]
    by (simp add: update_item_def update_new_def Let_def)
  moreover have "sized ?c" using wf by (simp add: cache_wf_def sized_def)
  then have "lookup ops ?c y = None"
    using assms(7,8) hash_key_sized [of ?c ops y] hash_key_home(3) [OF wf assms(3)] by (simp add: lookup_def deref_def)
  ultimately show ?thesis by blast
qed

lemma clear_ok: "cache_ok ops c \<Longrightarrow> \<exists>c'. clear c = Some c' \<and> cache_ok ops c' \<and> items c' = [] \<and> released c' = released c @ items c"
  by (force simp: clear_def cache_ok_def cache_wf_def sized_def items_def chain_def)

text \<open>Changing the size does not move the iterators: an item whose new list lies behind the old table is lost, though
  it stays in the list of items.\<close>

lemma setSizeLimit_loses:
  assumes ok: "cache_ok ops c" and x: "x \<in> set (items c)" "0 \<le> getKey ops x" and lim: "0 < lim" "lim \<le> 715827882"
    and far: "nat (m_iHashSize c) \<le> home ops (3 * lim) x"
  shows "\<exists>c'. setSizeLimit lim c = Some c' \<and> x \<in> set (items c') \<and> lookup ops c' x = Some (- 1, x)"
proof -
  let ?v = "take (nat (3 * lim)) (m_vHashPtr c) @ replicate (nat (3 * lim) - length (m_vHashPtr c)) []"
  let ?c = "c\<lparr>m_iMaxSize := lim, m_iHashSize := 3 * lim, m_vHashPtr := ?v\<rparr>"
  have run: "setSizeLimit lim c = Some ?c" using lim by (simp add: setSizeLimit_def resize_def mult.commute)
  have sized: "sized ?c" using lim by (simp add: sized_def)
  note key = hash_key_sized [OF sized x(2)]
  have "length (m_vHashPtr c) = nat (m_iHashSize c)" using ok by (simp add: cache_ok_def cache_wf_def sized_def)
  with far key(3) have "?v ! home ops (3 * lim) x = []" by (auto simp: nth_append min_def split: if_splits)
  then have "lookup ops ?c x = Some (- 1, x)" using x(2) key by (simp add: lookup_def)
  moreover have "x \<in> set (items ?c)" using x(1) by (simp add: items_def)
  ultimately show ?thesis using run by blast
qed

section \<open>Examples\<close>

definition pair_ops :: "(int \<times> int) item_ops" where
  "pair_ops = \<lparr>getKey = fst, item_eq = (\<lambda>x y. fst x = fst y), item_assign = (\<lambda>_ y. y), item_clone = Some\<rparr>"

lemma pair_laws: "item_laws pair_ops"
  by (simp add: item_laws_def pair_ops_def)

lemma example_cache:
  obtains c where "cache_ok pair_ops c" and "items c = [(2, 20), (1, 10)]" and "m_iMaxSize c = 3" and "m_iHashSize c = 9"
proof -
  obtain c0 :: "(int \<times> int) cache" where c0: "cache_ok pair_ops c0" "items c0 = []" "m_iMaxSize c0 = 3"
    using new_CCache_ok [of 3] by auto
  then obtain c1 where c1: "cache_ok pair_ops c1" "items c1 = [(1, 10)]" "m_iMaxSize c1 = 3"
    using update_refines [OF pair_laws, of c0 "(1, 10)"] by (auto simp: safe_update_def lru_update_def pair_ops_def)
  then obtain c2 where c2: "cache_ok pair_ops c2" "items c2 = [(2, 20), (1, 10)]" "m_iMaxSize c2 = 3"
    using update_refines [OF pair_laws, of c1 "(2, 20)"] by (auto simp: safe_update_def lru_update_def pair_ops_def)
  then have "m_iHashSize c2 = 9" by (simp add: cache_ok_def cache_wf_def sized_def)
  with c2 that show ?thesis by blast
qed

theorem cache_refines_lru_witness:
  "\<exists>c c'. items c = [(2, 20), (1, 10)] \<and> lookup pair_ops c (1, 0) = Some (0, (1, 10)) \<and>
     update_item pair_ops c (10, 5) = Some (0, c') \<and> items c' = [(10, 5), (2, 20)]"
proof -
  obtain c where c: "cache_ok pair_ops c" "items c = [(2, 20), (1, 10)]" "m_iMaxSize c = 3" "m_iHashSize c = 9" by (rule example_cache)
  have "lookup pair_ops c (1, 0) = Some (0, (1, 10))"
    using cache_refines_lru [OF pair_laws c(1), of "(1, 0)"] c by (simp add: lru_find_def pair_ops_def)
  moreover have "safe_update pair_ops c (10, 5)" using c by (simp add: safe_update_def home_def pair_ops_def)
  ultimately show ?thesis
    using cache_refines_lru [OF pair_laws c(1), of "(10, 5)"] c by (auto simp: lru_update_def pair_ops_def)
qed

theorem cache_overflow_corrupts_witness:
  "\<exists>c c'. items c = [(2, 20), (1, 10)] \<and> update_item pair_ops c (3, 30) = Some (0, c') \<and>
     lookup pair_ops c' (3, 30) = Some (- 1, (3, 30)) \<and> lookup pair_ops c' (1, 10) = None"
proof -
  obtain c where c: "cache_ok pair_ops c" "items c = [(2, 20), (1, 10)]" "m_iMaxSize c = 3" "m_iHashSize c = 9" by (rule example_cache)
  with cache_overflow_corrupts [OF pair_laws c(1), of "(3, 30)"] show ?thesis by (auto simp: home_def pair_ops_def)
qed

theorem cache_clone_failure_witness:
  "\<exists>c c'. items c = [] \<and> update_item (pair_ops\<lparr>item_clone := \<lambda>x. None\<rparr>) c (3, 30) = Some (0, c') \<and>
     lookup (pair_ops\<lparr>item_clone := \<lambda>x. None\<rparr>) c' (12, 0) = None"
proof -
  let ?ops = "pair_ops\<lparr>item_clone := \<lambda>x. None\<rparr>"
  have laws: "item_laws ?ops" by (simp add: item_laws_def pair_ops_def)
  obtain c :: "(int \<times> int) cache" where c: "cache_ok ?ops c" "items c = []" "m_iMaxSize c = 3"
    using new_CCache_ok [of 3 ?ops] by auto
  then have h: "m_iHashSize c = 9" by (simp add: cache_ok_def cache_wf_def sized_def)
  have "home ?ops (m_iHashSize c) (12, 0) = home ?ops (m_iHashSize c) (3, 30)" unfolding h home_def pair_ops_def by simp
  from cache_clone_failure [OF laws c(1) _ _ _ _ _ this] c show ?thesis by (auto simp: pair_ops_def)
qed

end
