(* ===== verification/Spec2Isabelle.thy ===== *)
theory Spec2Isabelle
  imports P2P_Network Win_Client FTC_Time FTC_Mutex FTC_Task Net_Tool Use_Func UDT_Cache
begin

text \<open>
  A verification of the peer-to-peer rendezvous system under \<^verbatim>\<open>src/\<close>: a server that knows the public
  addresses of its users, a Linux client and a Windows client that ask it to introduce them to each
  other, and the portable layer the first two are built on.

  \<^bold>\<open>The programs.\<close> The server \<^verbatim>\<open>P2P_Server_src/server.cpp\<close> runs one thread that receives a datagram,
  dispatches on its message id and answers; it keeps its users in an SQLite table through
  \<^verbatim>\<open>db_sqlite.cpp\<close>. The Linux client \<^verbatim>\<open>P2P_Server_src/client.cpp\<close> sends requests on commands from its
  terminal, a heart beat from one thread, and handles answers and punch messages in another. The
  Windows client \<^verbatim>\<open>P2P_Client_src/client/clientDlg.cpp\<close> does the same behind a dialog, with a message format
  of its own (\<^verbatim>\<open>p2ptype.h\<close>), and chats with its peers directly or, when the punch fails, over a relay. Sockets,
  peer lists, tasks, mutexes and time are wrapped by \<^verbatim>\<open>FTCSock.c\<close>, \<^verbatim>\<open>FTCPeer.cpp\<close>, \<^verbatim>\<open>FTCTask.c\<close>, \<^verbatim>\<open>FTCMutex.c\<close>
  and \<^verbatim>\<open>FTC_Time.c\<close>.

  \<^bold>\<open>The theories.\<close>
  \<^item> \<open>P2P_Prelude\<close>: words and bytes, regions of buffers, and the interface \<open>struct_layout\<close> of a C struct
    with its byte image. \<open>C_Library\<close>: strings in char arrays, byte order, dotted addresses, with the round
    trip of \<^verbatim>\<open>inet_ntoa\<close> and \<^verbatim>\<open>inet_addr\<close>.
  \<^item> \<open>FTC_Message\<close>: the codes and structs of \<^verbatim>\<open>FTCTypedef.h\<close>, \<^verbatim>\<open>FTCMessage.h\<close> and \<^verbatim>\<open>FTCPeer.h\<close>, each struct an
    interpretation of \<open>struct_layout\<close>. \<open>Comm_Message\<close>: \<^verbatim>\<open>stCommMsg\<close> and its parts for both values of
    \<^verbatim>\<open>MAX_NAME_SIZE\<close>.
  \<^item> \<open>FTC_Sock\<close>: creation, waiting, and transfers with retry, where the interface \<open>retry_loop\<close> carries the
    receive and the send loop and \<open>byte_order\<close> the conversions. \<open>FTC_Peer\<close>: the list of pointers and the store of
    records, with the interface \<open>peer_directory\<close> that the server's handlers use. \<open>FTC_Time\<close>, \<open>FTC_Mutex\<close>, \<open>FTC_Task\<close>:
    time, the mutexes over a pthread library that is a parameter, and the interleaving of a task with its deletion.
  \<^item> \<open>Db_Sqlite\<close>: every function of the database layer over the SQLite interface, which is a record of
    functions (\<open>sqlite\<close>); the three observer tables are interpretations of \<open>observer_table\<close>.
  \<^item> \<open>P2P_Server\<close>: the record \<open>server\<close> is the globals and the locals of \<^verbatim>\<open>P2PSrvProc\<close>; one definition per message
    id (\<open>on_login\<close>, \<open>on_logout\<close>, \<open>on_get_peers\<close>, \<open>on_heart_beat\<close>, \<open>on_hole\<close>, \<open>on_have_send_p2p\<close>, \<open>on_relay\<close>),
    \<open>srv_dispatch\<close> and \<open>srv_round\<close> for the loop, \<open>main_server\<close> for the start. \<open>Login_Directory\<close>: the abstract
    directory of users and the proof that the server implements it.
  \<^item> \<open>P2P_Client\<close>: the record \<open>client\<close> is \<^verbatim>\<open>stPeerLocal\<close> and the locals of \<^verbatim>\<open>P2PClientProc\<close>; one definition per
    request, command and message id. \<open>Win_Client\<close>: the record \<open>dlg\<close> is the dialog object; one definition per
    button, timer, thread round and message id, and \<open>win_reach\<close> for their interleaving, in which the receiving thread may
    run between the test of \<^verbatim>\<open>OnTimer\<close> and its switch to the relay.
  \<^item> \<open>P2P_Network\<close>: the server and any number of Linux clients on a network that may lose, repeat and reorder
    datagrams; \<open>net_step\<close> has one rule per entry point of the two programs, \<open>net_inv\<close> is the invariant of all runs.
  \<^item> \<open>UDT_SeqNo\<close> and \<open>UDT_Cache\<close>: the code in the UDT headers that has a body, the circular counters of \<^verbatim>\<open>common.h\<close>
    as two interpretations of \<open>circular_counter\<close>, and the template \<^verbatim>\<open>CCache\<close> of \<^verbatim>\<open>cache.h\<close>.
  \<^item> \<open>Net_Tool\<close> and \<open>Use_Func\<close>: the helpers of \<^verbatim>\<open>nettool.cpp\<close> and \<^verbatim>\<open>use_func.cpp\<close>.
  \<^item> This theory: the properties that span the programs.

  \<^bold>\<open>Conventions.\<close> Undefined behaviour of C is the value \<open>None\<close>. What the kernel, SQLite, MFC and Winsock return,
  and the contents of uninitialised objects, are arguments. A datagram that an operation sends is part of its
  result. The retry loops of the socket layer run on the list of results the kernel delivers, and \<open>None\<close> is a loop that
  still runs. Widths are those of x86 Linux and of the 32 bit Windows build.
  Three functions end without the value they declare: \<open>GetPeerByName\<close> and \<open>GetLocalUser\<close>, whose callers use the value, and the
  command reader \<open>DoInput\<close>, which falls off its end on every path. For the first two the result is \<open>None\<close>. For \<open>DoInput\<close>
  it says so (\<open>Falls_Off\<close>) beside the datagrams its statements sent before, because the caller drops the value; a run of
  the network that goes on behind a command is a run of a build in which the process survives that end. The clearing
  of an object by more than its size is parameterised by the room its frame leaves (\<open>memset_slack\<close>); no room is
  standard C, where it is undefined.

  \<^bold>\<open>What is proved.\<close> The login service refines a finite map from names to entries (\<open>login_service_refines_directory\<close>,
  and end to end with the client \<open>login_session\<close>), under the hypothesis \<open>peer_db\<close> that SQLite executes the four
  statements of the server as its documentation says; the in-memory engine \<open>mem_sqlite\<close> satisfies it. On the
  network as a whole, with clients of different plain names, a client that takes itself for logged in is registered under
  its address (\<open>net_registration\<close>), no datagram under way leads to undefined behaviour (\<open>net_defined\<close>), and no client ever
  reaches another one (\<open>net_no_peers\<close>). Two Windows clients complete their handshake and exchange a message
  (\<open>win_punch_handshake\<close>, \<open>win_message_delivery\<close>). Invariants over all
  runs are stated for the server (\<open>server_only_answers\<close>), the Windows client (\<open>win_run_modes\<close>, with the race it
  leaves open in \<open>win_timer_race\<close>) and tasks;
  every datagram of the Linux client is a whole message of the type and id its kind prescribes (\<open>client_datagrams\<close>).
  For the handlers of packets from the network the exact conditions for freedom from undefined behaviour
  are given (the theorems named \<open>defined_iff\<close>, and \<open>win_heart_beat_list\<close>, \<open>local_addresses\<close>). Several
  theorems show that the code does not do what it means to: the server's peer list is never filled, so that hole
  requests are refused and two handlers are undefined in every reachable state; a request for the peers ends the
  server; the Windows client's requests are all taken for logins. The cache of the UDT headers is a list in order
  of use (\<open>cache_refines_lru\<close>) until a full cache removes an entry from another hash list, which corrupts it
  (\<open>cache_overflow_corrupts\<close>), or a copy of an item cannot be made (\<open>cache_clone_failure\<close>). The name servers that are set
  reach the getter only where a link makes its file the one written (\<open>dns_round_trip\<close>).

  \<^bold>\<open>Bounds.\<close> No fuel is used: loops are structural over counts and lists, \<open>decimal\<close> and \<open>inet_aton\<close> have measures. A
  message holds 24 peer records (1424 bytes of parameters) and the Windows buffer 20 nodes (1024 bytes); the theorems
  derive these numbers from the layouts.

  \<^bold>\<open>Not modelled.\<close> Code under \<^verbatim>\<open>#if 0\<close>; printing; the painting, menu and about box of the Windows dialog and the generated
  MFC shell; the fragments of \<^verbatim>\<open>use_func.cpp\<close> outside any function and its Windows branches; the headers of SQLite, which
  declare a third-party library, and those of UDT where they only declare, the library not being called by any source;
  failures of \<^verbatim>\<open>new\<close>. The threads of the clients are
  interleaved at the granularity of whole handlers, but for the timer of the Windows client, which is cut behind its test;
  those of \<open>FTC_Task\<close> statement by statement.
\<close>

section \<open>Client and server\<close>

text \<open>C5. A login of a Linux client with a plain name (\<open>plain_name\<close>: not empty, no quote and not the name of a column) against the server, on the bytes of the datagrams. The request the client
  sends, seen by the server from the address \<open>a\<close>, is answered to \<open>a\<close>; the answer, received by the
  client, makes it logged in exactly if the directory did not hold the name as logged in; and then
  the directory holds, under the client's name, the address \<open>a\<close> as text and port, the client's own
  address and port, and the status logged in.\<close>

theorem login_session:
  assumes c: "cl_ok c" "0 \<le> sockCli c" "sockCli c < FD_SETSIZE" "c_str (sMyName c) = Some n" "plain_name n"
    and lan: "length lan = 16" "c_str lan = Some l"
    and db: "peer_db api live rows" and s: "srv_ok s" "0 \<le> sockSrv s" "sockSrv s < FD_SETSIZE" "db_ready live s"
      "distinct (map row_username (table rows s))"
  shows "\<exists>q s' resp c'. LoginToServer c (Some (sMyName c)) (Some lan) (Some (my_ID c)) port = Some [(serverAddr c, q)] \<and>
    srv_round api readable ind (s\<lparr>rx := [Recv_Dgram q a]\<rparr>) = Some (Next, s', [(a, resp)]) \<and>
    cl_round readable [Recv_Dgram resp (serverAddr c)] slack indet c = Some (c', []) \<and>
    (bIsLogin c' \<longleftrightarrow> (\<forall>y. dir_of (table rows s) n = Some y \<longrightarrow> e_loginstatus y \<noteq> 1)) \<and>
    (bIsLogin c' \<longrightarrow> dir_of (table rows s') = (dir_of (table rows s))(n \<mapsto>
       entry_of_params (dotted (put_u32 (sin_addr a))) (uint (htons (sin_port a))) l (uint port) (uint (my_bCorD c)))) \<and>
    (\<not> bIsLogin c' \<longrightarrow> dir_of (table rows s') = dir_of (table rows s))"
proof -
  have lan0: "0 \<in> set lan" using lan(2) c_str_None_iff [of lan] by auto
  obtain req where req: "LoginToServer c (Some (sMyName c)) (Some lan) (Some (my_ID c)) port = Some (cl_send c (login_msg req) (serverAddr c))"
    "LoginReq_ok req" "c_str (lr_name req) = Some n" "c_str (lr_MyLanIP req) = Some l" "lr_MyLanPort req = port"
    "0 \<in> set (lr_ID req)" "0 \<in> set (lr_MyLanIP req)" "lr_bCorD req = my_bCorD c"
    by (rule LoginToServer_request [OF c(1) lan(1) lan0, of port]) (auto simp: login_msg_def c(4) lan(2))
  have "put_Msg (login_msg req) \<noteq> []" using Msg_layout.put_length [OF login_msg_fields(1) [OF req(2)]] by auto
  then have q: "LoginToServer c (Some (sMyName c)) (Some lan) (Some (my_ID c)) port = Some [(serverAddr c, put_Msg (login_msg req))]"
    using req(1) c(2) by (simp add: cl_send_def sent_def)
  have rok: "login_req_ok req n" using req c(5) by (simp add: login_req_ok_def)
  obtain v d' where dir: "dir_login n (login_entry a req) (dir_of (table rows s)) = (v, d')" by fastforce
  obtain s' where s': "srv_round api readable ind (s\<lparr>rx := [Recv_Dgram (put_Msg (login_msg req)) a]\<rparr>) =
      Some (Next, s', [(a, put_Msg (result_msg MSG_R_LOGIN (of_int v)))])" "dir_of (table rows s') = d'"
    using login_round [OF db s(1-4) rok s(5) dir] by blast
  let ?c = "c\<lparr>cl_stMsg := put_Msg (result_msg MSG_R_LOGIN (of_int v)), cl_fromAddr := serverAddr c\<rparr>"
  have m: "get_Msg (cl_stMsg ?c) = result_msg MSG_R_LOGIN (of_int v)"
    using Msg_layout.get_put [OF result_msg_fields(1), of _ _ "[]"] by simp
  have "length (cl_stMsg c) = 1440" using c(1) by (simp add: cl_ok_def)
  then have "cl_round readable [Recv_Dgram (put_Msg (result_msg MSG_R_LOGIN (of_int v))) (serverAddr c)] slack indet c = on_r_login ?c"
    using cl_round_message [OF _ c(2,3) result_msg_fields(1)] m result_msg_fields(2)
    by (simp add: cl_dispatch_def Let_def del: msg_code.simps)
  moreover have "rr_result (get_ResultResp (cl_param ?c)) = of_int v"
    by (simp only: cl_param_def m result_msg_fields(3))
  ultimately have r: "cl_round readable [Recv_Dgram (put_Msg (result_msg MSG_R_LOGIN (of_int v))) (serverAddr c)] slack indet c =
      Some (?c\<lparr>bIsLogin := (of_int v = (0 :: byte))\<rparr>, [])"
    by (simp add: on_r_login_def)
  have "(of_int v = (0 :: byte)) \<longleftrightarrow> (\<forall>y. dir_of (table rows s) n = Some y \<longrightarrow> e_loginstatus y \<noteq> 1)"
    "of_int v = (0 :: byte) \<Longrightarrow> d' = (dir_of (table rows s))(n \<mapsto> login_entry a req)"
    "of_int v \<noteq> (0 :: byte) \<Longrightarrow> d' = dir_of (table rows s)"
    using dir by (auto simp: dir_login_def split: option.splits if_splits)
  moreover have "login_entry a req = entry_of_params (dotted (put_u32 (sin_addr a))) (uint (htons (sin_port a))) l (uint port) (uint (my_bCorD c))"
    by (simp add: login_entry_def req)
  ultimately show ?thesis using q s' r by fastforce
qed

lemma bob_plain: "c_str (sMyName example_client) = Some (bytes ''bob'')" "plain_name (bytes ''bob'')"
proof -
  show "c_str (sMyName example_client) = Some (bytes ''bob'')" unfolding example_client_def by code_simp
  show "plain_name (bytes ''bob'')" by (simp add: plain_name_def peer_columns_def tolower_def bytes_def)
qed

theorem login_session_witness:
  "\<exists>q s' resp c'. LoginToServer example_client (Some (sMyName example_client)) (Some (bytes ''10.0.0.2'' @ zeros 8))
      (Some (my_ID example_client)) 8889 = Some [(serverAddr example_client, q)] \<and>
    srv_round mem_sqlite readable no_junk ((fresh_server ([] :: peer_row list))\<lparr>rx := [Recv_Dgram q example_addr]\<rparr>) =
      Some (Next, s', [(example_addr, resp)]) \<and>
    cl_round readable [Recv_Dgram resp (serverAddr example_client)] 0 [] example_client = Some (c', []) \<and> bIsLogin c'"
proof -
  have l: "length (bytes ''10.0.0.2'' @ zeros 8) = 16" "c_str (bytes ''10.0.0.2'' @ zeros 8) = Some (bytes ''10.0.0.2'')"
    by (simp, code_simp)
  have c: "0 \<le> sockCli example_client" "sockCli example_client < FD_SETSIZE" by (simp_all add: example_client_def FD_SETSIZE_def)
  have d: "dir_of (table (\<lambda>rs. rs) (fresh_server ([] :: peer_row list))) = Map.empty"
    by (simp add: fresh_server_ready dir_of_def)
  have s: "srv_ok (fresh_server ([] :: peer_row list))" "0 \<le> sockSrv (fresh_server ([] :: peer_row list))"
    "sockSrv (fresh_server ([] :: peer_row list)) < FD_SETSIZE"
    "distinct (map row_username (table (\<lambda>rs. rs) (fresh_server ([] :: peer_row list))))"
    by (simp_all add: fresh_server_ready FD_SETSIZE_def)
  from login_session [OF example_client_ok c bob_plain l mem_sqlite_contract s(1-3) fresh_server_ready(1) s(4),
      where port = 8889 and a = example_addr and ind = no_junk and slack = 0 and indet = "[]"]
  show ?thesis unfolding d by fastforce
qed

section \<open>The Windows client and this server\<close>

text \<open>C13. The server does not understand the Windows client. Whatever request the Windows client makes, its
  message type is read as the type of the message and its result field, which the client leaves 0, as the
  message id, so that the server handles every one of them as a login; and as the name it takes the bytes
  8 to 19 of the client's name, which are empty for a name below 8 characters.\<close>

theorem windows_request_is_login:
  assumes m: "CommMsg_ok WIN_NAME_SIZE m" "cm_result m = 0"
    and s: "srv_ok s" "0 \<le> sockSrv s" "sockSrv s < FD_SETSIZE"
  shows "srv_round api readable ind (s\<lparr>rx := [Recv_Dgram (put_CommMsg m) a]\<rparr>) = on_login api (arrival (put_CommMsg m) a s) \<and>
    lr_name (get_LoginReq (param_of (arrival (put_CommMsg m) a s))) = region 8 12 (cMyName m)"
proof -
  have len: "length (put_CommMsg m) = 188" by (rule win_msg_len [OF m(1)])
  have my: "length (cMyName m) = 32" using m(1) by (simp add: CommMsg_ok_def WIN_NAME_SIZE_def)
  have buf: "stMsg (arrival (put_CommMsg m) a s) = put_CommMsg m @ drop 188 (stMsg s)"
    using len by (simp add: arrival_def overwrite_def)
  have "uiMsgId (tMsgHead (msg_of (arrival (put_CommMsg m) a s))) = 0"
  proof -
    have "region 4 4 (put_CommMsg m @ drop 188 (stMsg s)) = [0, 0, 0, 0]" by (simp add: put_CommMsg_def m(2) region_def)
    then show ?thesis by (simp add: msg_of_def buf get_Msg_def get_head_def)
  qed
  moreover have "param_of (arrival (put_CommMsg m) a s) = region 16 1424 (put_CommMsg m @ drop 188 (stMsg s))"
    by (simp add: param_of_def msg_of_def buf get_Msg_def)
  then have "lr_name (get_LoginReq (param_of (arrival (put_CommMsg m) a s))) = region 16 12 (put_CommMsg m)"
    using len by (simp add: get_LoginReq_def region_def take_drop min_def)
  moreover have "region 16 12 (put_CommMsg m) = region 8 12 (cMyName m)"
    using my by (simp add: put_CommMsg_def region_append_skip region_append_inside)
  ultimately show ?thesis
    using srv_round_arrival [OF s, of api ind "put_CommMsg m" a] by (simp add: srv_dispatch_def)
qed

theorem windows_request_is_login_witness:
  "srv_round mem_sqlite readable no_junk ((fresh_server ([] :: peer_row list))\<lparr>rx := [Recv_Dgram (put_CommMsg (plain_win P2PCANSTART)) example_addr]\<rparr>) =
     on_login mem_sqlite (arrival (put_CommMsg (plain_win P2PCANSTART)) example_addr (fresh_server []))"
proof -
  have s: "srv_ok (fresh_server ([] :: peer_row list))" "0 \<le> sockSrv (fresh_server ([] :: peer_row list))"
    "sockSrv (fresh_server ([] :: peer_row list)) < FD_SETSIZE" by (simp_all add: FD_SETSIZE_def)
  have "cm_result (plain_win P2PCANSTART) = 0" by (simp add: plain_win_def new_stCommMsg_def)
  from windows_request_is_login [OF plain_win_facts(1) this s] show ?thesis by blast
qed

end
